(* ===== verification/Prelude.thy ===== *)
theory Prelude
  imports
    Complex_Main
    "HOL-Library.AList"
    "HOL-Library.Char_ord"
    "HOL-Library.List_Lexorder"
    "HOL-Library.Product_Lexorder"
    "HOL-Library.Sublist"
    "HOL-Library.Multiset"
begin

text \<open>
  Shared vocabulary of the development: the rendering of Python's dictionaries, stable
  sorting, exceptions and \<open>any\<close>/\<open>all\<close> loops in HOL, with the lemmas the components use.

  \<^item> A dictionary is an association list in insertion order. \<open>AList.update\<close> is exactly
    \<open>d[k] = v\<close>: it replaces in place or appends at the end.
  \<^item> \<open>sorted(xs, key=k)\<close> is \<open>sort_key k xs\<close>, which is stable like Python's sort; text
    compares by code point (\<open>List_Lexorder\<close> over \<open>Char_ord\<close>), tuples lexicographically.
  \<^item> A raising expression is a value of \<open>'e + 'a\<close> with the exception on the left.
  \<^item> A clock reading or a JSON float is a rational number (see \<open>Py_Json\<close>).
\<close>

section \<open>Collections of automation\<close>

named_theorems entry_rules \<open>facts about one registry row that the lifecycle proofs share\<close>
named_theorems codec_simps \<open>attribute reads of an encoded registry row\<close>

section \<open>Names for the model's base types\<close>

type_synonym time = rat
type_synonym ('k, 'v) dict = "('k \<times> 'v) list"

abbreviation keys :: "('k, 'v) dict \<Rightarrow> 'k list" where
  "keys d \<equiv> map fst d"

abbreviation "values" :: "('k, 'v) dict \<Rightarrow> 'v list" where
  "values d \<equiv> map snd d"

abbreviation wf_dict :: "('k, 'v) dict \<Rightarrow> bool" where
  "wf_dict d \<equiv> distinct (keys d)"

section \<open>Exceptions\<close>

definition bind_ok :: "'e + 'a \<Rightarrow> ('a \<Rightarrow> 'e + 'b) \<Rightarrow> 'e + 'b" where
  "bind_ok r f = (case r of Inl e \<Rightarrow> Inl e | Inr x \<Rightarrow> f x)"

lemma bind_ok_simps [simp]:
  "bind_ok (Inl e) f = Inl e"
  "bind_ok (Inr x) f = f x"
  by (simp_all add: bind_ok_def)

lemma bind_ok_Inr: "bind_ok r f = Inr y \<longleftrightarrow> (\<exists>x. r = Inr x \<and> f x = Inr y)"
  by (cases r) auto

text \<open>\<open>if c: raise m\<close> before the rest of a validator.\<close>

lemma guard_ok: "(if c then Inl m else r) = Inr x \<longleftrightarrow> \<not> c \<and> r = Inr x"
  by simp

definition map_error :: "('e \<Rightarrow> 'f) \<Rightarrow> 'e + 'a \<Rightarrow> 'f + 'a" where
  "map_error h r = (case r of Inl e \<Rightarrow> Inl (h e) | Inr x \<Rightarrow> Inr x)"

lemma map_error_simps [simp]:
  "map_error h (Inl e) = Inl (h e)"
  "map_error h (Inr x) = Inr x"
  by (simp_all add: map_error_def)

lemma map_error_Inr [simp]: "map_error h r = Inr x \<longleftrightarrow> r = Inr x"
  by (cases r) auto

text \<open>
  A validator is a sequence of \<open>if ...: raise ValueError(msg)\<close> statements. A check is the
  raised message, if any; \<open>first_of\<close> runs checks in order and stops at the first that
  raises. The condition itself may raise (\<open>Inl m\<close>), which \<open>raise_if\<close> propagates.
\<close>

type_synonym check = "string option"

definition raise_if :: "string + bool \<Rightarrow> string \<Rightarrow> check" where
  "raise_if c msg = (case c of Inl m \<Rightarrow> Some m | Inr b \<Rightarrow> (if b then Some msg else None))"

fun first_of :: "check list \<Rightarrow> check" where
  "first_of [] = None"
| "first_of (c # cs) = (case c of Some m \<Rightarrow> Some m | None \<Rightarrow> first_of cs)"

lemma raise_if_None [simp]: "raise_if c msg = None \<longleftrightarrow> c = Inr False"
  by (auto simp: raise_if_def split: sum.splits)

lemma first_of_None [simp]: "first_of cs = None \<longleftrightarrow> (\<forall>c \<in> set cs. c = None)"
  by (induction cs) (auto simp: first_of.simps split: option.splits)

declare first_of.simps [simp del]

text \<open>\<open>any(p(x) for x in xs)\<close> with a predicate that may raise: left to right, lazily.\<close>

fun any_of :: "('a \<Rightarrow> 'e + bool) \<Rightarrow> 'a list \<Rightarrow> 'e + bool" where
  "any_of p [] = Inr False"
| "any_of p (x # xs) =
     (case p x of Inl e \<Rightarrow> Inl e | Inr True \<Rightarrow> Inr True | Inr False \<Rightarrow> any_of p xs)"

lemma any_of_False [simp]: "any_of p xs = Inr False \<longleftrightarrow> (\<forall>x \<in> set xs. p x = Inr False)"
  by (induction xs) (auto simp: any_of.simps split: sum.splits bool.splits)

declare any_of.simps [simp del]

text \<open>\<open>a or b\<close> where \<open>b\<close> may raise and is evaluated only when \<open>a\<close> is false.\<close>

definition or_else :: "bool \<Rightarrow> 'e + bool \<Rightarrow> 'e + bool" where
  "or_else a b = (if a then Inr True else b)"

lemma or_else_False [simp]: "or_else a b = Inr False \<longleftrightarrow> \<not> a \<and> b = Inr False"
  by (auto simp: or_else_def)

section \<open>Dictionaries\<close>

definition dict_get :: "('k, 'v) dict \<Rightarrow> 'k \<Rightarrow> 'v \<Rightarrow> 'v" where
  "dict_get d k dflt = (case map_of d k of None \<Rightarrow> dflt | Some v \<Rightarrow> v)"

definition setdefault :: "'k \<Rightarrow> 'v \<Rightarrow> ('k, 'v) dict \<Rightarrow> ('k, 'v) dict" where
  "setdefault k v d = (case map_of d k of None \<Rightarrow> d @ [(k, v)] | Some _ \<Rightarrow> d)"

text \<open>\<open>{k: v for ...}\<close>: later pairs overwrite earlier ones but keep their place.\<close>

definition dict_of :: "('k \<times> 'v) list \<Rightarrow> ('k, 'v) dict" where
  "dict_of ps = fold (\<lambda>(k, v). AList.update k v) ps []"

lemma dict_get_update:
  "dict_get (AList.update k v d) k' x = (if k' = k then v else dict_get d k' x)"
  by (simp add: dict_get_def update_conv')

lemma map_of_setdefault:
  "map_of (setdefault k v d) = (map_of d)(k := Some (dict_get d k v))"
  by (auto simp: setdefault_def dict_get_def fun_eq_iff map_add_def split: option.splits)

lemma fold_update_map_of:
  "map_of (fold (\<lambda>(k, v). AList.update k v) ps d) = map_of d ++ map_of (rev ps)"
  by (induction ps arbitrary: d)
     (auto simp: fun_eq_iff update_conv' map_add_def split: option.splits)

lemma map_of_dict_of: "map_of (dict_of ps) = map_of (rev ps)"
  by (simp add: dict_of_def fold_update_map_of)

lemma wf_dict_of: "wf_dict (dict_of ps)"
proof -
  have "distinct (keys d) \<Longrightarrow> distinct (keys (fold (\<lambda>(k, v). AList.update k v) ps d))"
    for d :: "('a, 'b) dict"
    by (induction ps arbitrary: d) (auto simp: distinct_update)
  then show ?thesis by (simp add: dict_of_def)
qed

lemma map_of_dict_of_distinct:
  assumes "distinct (map fst ps)"
  shows "map_of (dict_of ps) = map_of ps"
proof -
  have "map_of (rev ps) = map_of ps"
    using assms by (subst map_of_inject_set) (simp_all add: rev_map [symmetric])
  then show ?thesis by (simp add: map_of_dict_of)
qed

section \<open>Lists\<close>

definition enumerate_from :: "nat \<Rightarrow> 'a list \<Rightarrow> (nat \<times> 'a) list" where
  "enumerate_from n xs = zip [n ..< n + length xs] xs"

lemma length_enumerate_from [simp]: "length (enumerate_from n xs) = length xs"
  by (simp add: enumerate_from_def)

lemma enumerate_from_Cons: "enumerate_from n (x # xs) = (n, x) # enumerate_from (Suc n) xs"
  by (simp add: enumerate_from_def upt_rec [of n] del: upt_Suc)

lemma nth_enumerate_from [simp]:
  "i < length xs \<Longrightarrow> enumerate_from n xs ! i = (n + i, xs ! i)"
  by (simp add: enumerate_from_def)

lemma map_snd_enumerate_from [simp]: "map snd (enumerate_from n xs) = xs"
  by (simp add: enumerate_from_def)

text \<open>\<open>sum(p(x) for x in xs)\<close> over booleans.\<close>

definition count_if :: "('a \<Rightarrow> bool) \<Rightarrow> 'a list \<Rightarrow> nat" where
  "count_if p xs = length (filter p xs)"

lemma count_if_simps [simp]:
  "count_if p [] = 0"
  "count_if p (x # xs) = (if p x then Suc (count_if p xs) else count_if p xs)"
  "count_if p (xs @ ys) = count_if p xs + count_if p ys"
  by (simp_all add: count_if_def)

lemma count_if_le_length: "count_if p xs \<le> length xs"
  by (simp add: count_if_def)

lemma count_if_zero: "count_if p xs = 0 \<longleftrightarrow> (\<forall>x \<in> set xs. \<not> p x)"
  by (simp add: count_if_def filter_empty_conv)

text \<open>\<open>next((i for i, x in enumerate(xs) if p(x)), None)\<close>.\<close>

fun index_where :: "('a \<Rightarrow> bool) \<Rightarrow> 'a list \<Rightarrow> nat option" where
  "index_where p [] = None"
| "index_where p (x # xs) = (if p x then Some 0 else map_option Suc (index_where p xs))"

lemma index_where_None: "index_where p xs = None \<longleftrightarrow> (\<forall>x \<in> set xs. \<not> p x)"
  by (induction xs) auto

lemma index_where_Some:
  "index_where p xs = Some i \<Longrightarrow> i < length xs \<and> p (xs ! i)"
  by (induction xs arbitrary: i) (auto split: if_splits)

lemma last_two:
  assumes "2 \<le> length xs"
  shows "\<exists>ys. xs = ys @ [xs ! (length xs - 2), last xs]"
proof -
  obtain zs z where z: "xs = zs @ [z]" using assms by (cases xs rule: rev_cases) auto
  obtain ys y where "zs = ys @ [y]" using assms z by (cases zs rule: rev_cases) auto
  with z show ?thesis by (auto simp: nth_append)
qed

text \<open>\<open>xs.pop(i)\<close>.\<close>

definition pop_at :: "nat \<Rightarrow> 'a list \<Rightarrow> 'a list" where
  "pop_at i xs = take i xs @ drop (Suc i) xs"

lemma length_pop_at: "i < length xs \<Longrightarrow> length (pop_at i xs) = length xs - 1"
  by (simp add: pop_at_def)

lemma mset_pop_at: "i < length xs \<Longrightarrow> mset xs = add_mset (xs ! i) (mset (pop_at i xs))"
proof -
  assume i: "i < length xs"
  have "mset xs = mset (take i xs @ xs ! i # drop (Suc i) xs)"
    using i by (simp add: id_take_nth_drop [symmetric])
  then show ?thesis by (simp add: pop_at_def)
qed

lemma count_if_mset: "mset xs = mset ys \<Longrightarrow> count_if p xs = count_if p ys"
  by (metis count_if_def mset_filter size_mset)

lemma count_if_pop_at:
  assumes "i < length xs"
  shows "count_if p xs = count_if p (pop_at i xs) + (if p (xs ! i) then 1 else 0)"
proof -
  have "count_if p xs = count_if p (xs ! i # pop_at i xs)"
    using mset_pop_at [OF assms] by (intro count_if_mset) simp
  then show ?thesis by simp
qed

end
