(* ===== verification/Py_Text.thy ===== *)
theory Py_Text
  imports Prelude
begin

text \<open>
  The part of Python's \<open>str\<close> that the sources use. Text is a list of code points below
  256 (\<open>string\<close>, the type of Isabelle's own literals): \<open>length\<close> is \<open>len\<close>, \<open>utf8_len\<close> is
  \<open>len(s.encode("utf-8"))\<close> and, on the configured hosts, \<open>len(os.fsencode(s))\<close>.
\<close>

section \<open>Code points\<close>

definition code :: "char \<Rightarrow> nat" where
  "code c = of_char c"

definition is_ascii_digit :: "char \<Rightarrow> bool" where
  "is_ascii_digit c \<longleftrightarrow> 48 \<le> code c \<and> code c \<le> 57"

definition is_ascii_upper :: "char \<Rightarrow> bool" where
  "is_ascii_upper c \<longleftrightarrow> 65 \<le> code c \<and> code c \<le> 90"

definition is_ascii_lower :: "char \<Rightarrow> bool" where
  "is_ascii_lower c \<longleftrightarrow> 97 \<le> code c \<and> code c \<le> 122"

definition is_ascii_alpha :: "char \<Rightarrow> bool" where
  "is_ascii_alpha c \<longleftrightarrow> is_ascii_upper c \<or> is_ascii_lower c"

text \<open>\<open>[A-Za-z0-9]\<close> and \<open>[0-9a-f]\<close>.\<close>

definition is_ascii_alnum :: "char \<Rightarrow> bool" where
  "is_ascii_alnum c \<longleftrightarrow> is_ascii_alpha c \<or> is_ascii_digit c"

definition is_hex_lower :: "char \<Rightarrow> bool" where
  "is_hex_lower c \<longleftrightarrow> is_ascii_digit c \<or> (97 \<le> code c \<and> code c \<le> 102)"

text \<open>\<open>str.isspace\<close> on code points below 256.\<close>

definition is_space :: "char \<Rightarrow> bool" where
  "is_space c \<longleftrightarrow> (9 \<le> code c \<and> code c \<le> 13) \<or> (28 \<le> code c \<and> code c \<le> 32)
     \<or> code c = 133 \<or> code c = 160"

text \<open>The line boundaries of \<open>str.splitlines\<close> on code points below 256.\<close>

definition is_linebreak :: "char \<Rightarrow> bool" where
  "is_linebreak c \<longleftrightarrow> (10 \<le> code c \<and> code c \<le> 13) \<or> (28 \<le> code c \<and> code c \<le> 30)
     \<or> code c = 133"

definition utf8_len :: "string \<Rightarrow> nat" where
  "utf8_len s = sum_list (map (\<lambda>c. if code c < 128 then 1 else 2) s)"

lemma utf8_len_ge: "length s \<le> utf8_len s"
  by (induction s) (auto simp: utf8_len_def)

lemma is_linebreak_space: "is_linebreak c \<Longrightarrow> is_space c"
  by (auto simp: is_linebreak_def is_space_def)

text \<open>The line feed, carriage return and NUL characters.\<close>

abbreviation nl :: char where "nl \<equiv> CHR 0x0A"
abbreviation cr :: char where "cr \<equiv> CHR 0x0D"
abbreviation nul :: char where "nul \<equiv> CHR 0x00"

section \<open>Prefixes, suffixes, substrings\<close>

definition startswith :: "string \<Rightarrow> string \<Rightarrow> bool" where
  "startswith s p \<longleftrightarrow> take (length p) s = p"

definition endswith :: "string \<Rightarrow> string \<Rightarrow> bool" where
  "endswith s p \<longleftrightarrow> startswith (rev s) (rev p)"

fun contains :: "string \<Rightarrow> string \<Rightarrow> bool" where
  "contains p [] \<longleftrightarrow> p = []"
| "contains p (c # s) \<longleftrightarrow> startswith (c # s) p \<or> contains p s"

lemma startswith_prefix: "startswith s p \<longleftrightarrow> prefix p s"
  by (metis append_eq_conv_conj prefix_def startswith_def append_take_drop_id)

lemma endswith_suffix: "endswith s p \<longleftrightarrow> suffix p s"
  by (simp add: endswith_def startswith_prefix suffix_to_prefix)

lemma startswith_append [simp]: "startswith (p @ s) p"
  by (simp add: startswith_def)

lemma startswith_refl [simp]: "startswith s s"
  by (simp add: startswith_def)

lemma startswith_Nil [simp]: "startswith s []"
  by (simp add: startswith_def)

section \<open>Stripping, splitting, joining\<close>

definition lstrip_while :: "(char \<Rightarrow> bool) \<Rightarrow> string \<Rightarrow> string" where
  "lstrip_while p s = dropWhile p s"

definition rstrip_while :: "(char \<Rightarrow> bool) \<Rightarrow> string \<Rightarrow> string" where
  "rstrip_while p s = rev (dropWhile p (rev s))"

definition strip :: "string \<Rightarrow> string" where
  "strip s = rstrip_while is_space (lstrip_while is_space s)"

text \<open>\<open>s.split(c)\<close> for one separator character.\<close>

fun split_on :: "char \<Rightarrow> string \<Rightarrow> string list" where
  "split_on c [] = [[]]"
| "split_on c (x # s) =
     (if x = c then [] # split_on c s
      else (case split_on c s of [] \<Rightarrow> [[x]] | w # ws \<Rightarrow> (x # w) # ws))"

text \<open>\<open>s.split()\<close>: maximal runs of non-whitespace.\<close>

fun words :: "string \<Rightarrow> string list" where
  "words [] = []"
| "words (c # s) =
     (if is_space c then words s
      else (case s of
              [] \<Rightarrow> [[c]]
            | d # _ \<Rightarrow> (if is_space d then [c] # words s
                       else (case words s of [] \<Rightarrow> [[c]] | w # ws \<Rightarrow> (c # w) # ws))))"

text \<open>\<open>s.splitlines()\<close>; a CR LF pair is one boundary and no empty last line is added.\<close>

fun splitlines :: "string \<Rightarrow> string list" where
  "splitlines [] = []"
| "splitlines [c] = (if is_linebreak c then [[]] else [[c]])"
| "splitlines (c # d # s) =
     (if c = cr \<and> d = nl then [] # splitlines s
      else if is_linebreak c then [] # splitlines (d # s)
      else (case splitlines (d # s) of [] \<Rightarrow> [[c]] | w # ws \<Rightarrow> (c # w) # ws))"

fun join :: "string \<Rightarrow> string list \<Rightarrow> string" where
  "join sep [] = []"
| "join sep [w] = w"
| "join sep (w # ws) = w @ sep @ join sep ws"

text \<open>\<open>s.replace(old, new)\<close> for a non-empty \<open>old\<close>.\<close>

function replace_text :: "string \<Rightarrow> string \<Rightarrow> string \<Rightarrow> string" where
  "replace_text old new [] = []"
| "replace_text old new (c # s) =
     (if old \<noteq> [] \<and> startswith (c # s) old then new @ replace_text old new (drop (length old) (c # s))
      else c # replace_text old new s)"
  by pat_completeness auto
termination
  by (relation "measure (\<lambda>(old, new, s). length s)") (auto simp: less_Suc_eq_le neq_Nil_conv)

lemma split_on_not_Nil [simp]: "split_on c s \<noteq> []"
  by (induction s) (auto split: list.splits)

lemma join_split_on: "join [c] (split_on c s) = s"
proof (induction s)
  case Nil
  then show ?case by simp
next
  case (Cons x s)
  obtain w ws where e: "split_on c s = w # ws"
    by (cases "split_on c s") auto
  with Cons.IH show ?case by (cases ws) auto
qed

lemma split_on_no_sep: "w \<in> set (split_on c s) \<Longrightarrow> c \<notin> set w"
  by (induction s arbitrary: w) (auto split: list.splits if_splits)

lemma split_on_append: "split_on c (xs @ c # ys) = split_on c xs @ split_on c ys"
  by (induction xs) (auto split: list.splits)

lemma split_on_id: "c \<notin> set w \<Longrightarrow> split_on c w = [w]"
  by (induction w) auto

lemma split_on_join:
  "ws \<noteq> [] \<Longrightarrow> \<forall>w \<in> set ws. c \<notin> set w \<Longrightarrow> split_on c (join [c] ws) = ws"
  by (induction "[c]" ws rule: join.induct) (auto simp: split_on_id split_on_append)

lemma words_nonspace: "w \<in> set (words s) \<Longrightarrow> w \<noteq> [] \<and> (\<forall>c \<in> set w. \<not> is_space c)"
proof (induction s arbitrary: w)
  case Nil
  then show ?case by simp
next
  case (Cons c s)
  show ?case
  proof (cases "is_space c")
    case True
    with Cons show ?thesis by simp
  next
    case False
    from Cons.prems have "w = [c] \<or> w \<in> set (words s) \<or> (\<exists>v \<in> set (words s). w = c # v)"
      by (cases s; cases "words s") (auto simp: False simp del: words.simps(2) simp add: words.simps(2) [of c] split: if_splits)
    with Cons.IH False show ?thesis by fastforce
  qed
qed

lemma set_join: "set (join sep ws) \<subseteq> set sep \<union> \<Union> (set ` set ws)"
  by (induction sep ws rule: join.induct) auto

text \<open>Whitespace normalisation \<open>" ".join(s.split())\<close> shortens and is idempotent.\<close>

lemma words_Cons_space [simp]: "is_space c \<Longrightarrow> words (c # s) = words s"
  by simp

declare words.simps(2) [simp del]

lemma words_Cons_word:
  assumes "\<not> is_space c"
  shows "words (c # s) = [c] # words s
    \<or> (\<exists>d r w ws. s = d # r \<and> \<not> is_space d \<and> words s = w # ws \<and> words (c # s) = (c # w) # ws)"
  using assms by (cases s; cases "words s")
    (auto simp add: words.simps(2) [of c])

lemma words_head_nonspace: "\<not> is_space c \<Longrightarrow> words (c # s) \<noteq> []"
  using words_Cons_word [of c s] by auto

lemma join_Cons: "ws \<noteq> [] \<Longrightarrow> join sep (w # ws) = w @ sep @ join sep ws"
  by (cases ws) auto

lemma length_join_words_aux:
  "length (join '' '' (words s)) \<le> length s
   \<and> (\<forall>d r. s = d # r \<longrightarrow> is_space d \<longrightarrow> length (join '' '' (words s)) \<le> length r)"
proof (induction s)
  case Nil
  then show ?case by simp
next
  case (Cons c s)
  show ?case
  proof (cases "is_space c")
    case True
    with Cons show ?thesis by simp
  next
    case False
    from words_Cons_word [OF False, of s]
    consider (new) "words (c # s) = [c] # words s"
      | (ext) w ws where "words s = w # ws" "words (c # s) = (c # w) # ws" by blast
    then have "length (join '' '' (words (c # s))) \<le> length (c # s)"
    proof cases
      case new
      show ?thesis
      proof (cases s)
        case Nil
        with new show ?thesis by simp
      next
        case (Cons d r)
        show ?thesis
        proof (cases "is_space d")
          case True
          with Cons.IH Cons have "length (join '' '' (words s)) \<le> length r" by blast
          with new Cons show ?thesis
            by (cases "words s = []") (simp_all add: join_Cons)
        next
          case False
          have "words (c # s) = (c # hd (words s)) # tl (words s)"
            using \<open>\<not> is_space c\<close> False Cons words_head_nonspace [OF False, of r]
            by (cases "words s") (simp_all add: words.simps(2) [of c])
          with new have e: "hd (words s) = []" by simp
          have "hd (words s) \<in> set (words s)"
            using words_head_nonspace [OF False, of r] Cons by (intro hd_in_set) simp
          then have "hd (words s) \<noteq> []" using words_nonspace by blast
          with e show ?thesis by blast
        qed
      qed
    next
      case ext
      with Cons.IH show ?thesis by (cases ws) (simp_all)
    qed
    with False show ?thesis by simp
  qed
qed

lemma length_join_words: "length (join '' '' (words s)) \<le> length s"
  using length_join_words_aux by blast

lemma words_single: "w \<noteq> [] \<Longrightarrow> \<forall>c \<in> set w. \<not> is_space c \<Longrightarrow> words w = [w]"
proof (induction w)
  case (Cons c w)
  then show ?case by (cases w) (simp_all add: words.simps(2) [of c])
qed simp

lemma words_word_space:
  "w \<noteq> [] \<Longrightarrow> \<forall>c \<in> set w. \<not> is_space c \<Longrightarrow> is_space d \<Longrightarrow> words (w @ d # s) = w # words s"
proof (induction w)
  case (Cons c w)
  then show ?case by (cases w) (simp_all add: words.simps(2) [of c])
qed simp

lemma is_space_blank [simp]: "is_space CHR '' ''"
  by (simp add: is_space_def code_def)

lemma words_join:
  "\<forall>w \<in> set ws. w \<noteq> [] \<and> (\<forall>c \<in> set w. \<not> is_space c) \<Longrightarrow> words (join '' '' ws) = ws"
proof (induction ws)
  case (Cons w ws)
  then show ?case
    by (cases "ws = []") (simp_all add: join_Cons words_single words_word_space)
qed simp

lemma words_join_words: "words (join '' '' (words s)) = words s"
  by (rule words_join) (use words_nonspace in blast)

section \<open>Decimal text\<close>

definition digit_char :: "nat \<Rightarrow> char" where
  "digit_char d = char_of (48 + d)"

fun show_nat :: "nat \<Rightarrow> string" where
  "show_nat n = (if n < 10 then [digit_char n] else show_nat (n div 10) @ [digit_char (n mod 10)])"

declare show_nat.simps [simp del]

definition show_int :: "int \<Rightarrow> string" where
  "show_int i = (if i < 0 then CHR ''-'' # show_nat (nat (- i)) else show_nat (nat i))"

definition digit_val :: "char \<Rightarrow> nat" where
  "digit_val c = code c - 48"

definition nat_of_digits :: "string \<Rightarrow> nat" where
  "nat_of_digits s = foldl (\<lambda>n c. 10 * n + digit_val c) 0 s"

text \<open>
  The digit groups of \<open>int\<close> and \<open>float\<close> literals: ASCII digits with single underscores
  between digits. The result is the digits alone.
\<close>

fun digit_group :: "string \<Rightarrow> string option" where
  "digit_group [] = None"
| "digit_group [c] = (if is_ascii_digit c then Some [c] else None)"
| "digit_group (c # d # s) =
     (if \<not> is_ascii_digit c then None
      else if d = CHR ''_'' then map_option (Cons c) (digit_group s)
      else map_option (Cons c) (digit_group (d # s)))"

definition split_sign :: "string \<Rightarrow> int \<times> string" where
  "split_sign s = (case s of [] \<Rightarrow> (1, s)
     | c # r \<Rightarrow> if c = CHR ''-'' then (-1, r) else if c = CHR ''+'' then (1, r) else (1, s))"

text \<open>\<open>int(s)\<close>: \<open>None\<close> is the \<open>ValueError\<close>.\<close>

definition py_int :: "string \<Rightarrow> int option" where
  "py_int s = (let (sg, r) = split_sign (strip s)
               in map_option (\<lambda>ds. sg * int (nat_of_digits ds)) (digit_group r))"

lemma digit_group_digits: "digit_group s = Some ds \<Longrightarrow> ds \<noteq> [] \<and> (\<forall>c \<in> set ds. is_ascii_digit c)"
proof (induction s arbitrary: ds rule: digit_group.induct)
  case (3 c d s)
  show ?case
  proof (cases "d = CHR ''_''")
    case True
    with 3 show ?thesis by (clarsimp split: if_splits)
  next
    case False
    with 3 show ?thesis by (clarsimp simp del: digit_group.simps simp add: digit_group.simps(3) [of c] split: if_splits)
  qed
qed (auto split: if_splits)

lemma code_digit_char: "d < 10 \<Longrightarrow> code (digit_char d) = 48 + d"
  by (simp add: code_def digit_char_def)

lemma is_ascii_digit_digit_char [simp]: "d < 10 \<Longrightarrow> is_ascii_digit (digit_char d)"
  by (simp add: is_ascii_digit_def code_digit_char)

lemma digit_val_digit_char: "d < 10 \<Longrightarrow> digit_val (digit_char d) = d"
  by (simp add: digit_val_def code_digit_char)

lemma show_nat_digits: "show_nat n \<noteq> [] \<and> (\<forall>c \<in> set (show_nat n). is_ascii_digit c)"
proof (induction n rule: show_nat.induct)
  case (1 n)
  then show ?case
    by (cases "n < 10") (simp_all add: show_nat.simps [of n])
qed

lemma nat_of_digits_snoc: "nat_of_digits (s @ [c]) = 10 * nat_of_digits s + digit_val c"
  by (simp add: nat_of_digits_def)

lemma nat_of_digits_show_nat: "nat_of_digits (show_nat n) = n"
proof (induction n rule: show_nat.induct)
  case (1 n)
  show ?case
  proof (cases "n < 10")
    case True
    then show ?thesis
      by (simp add: show_nat.simps [of n] nat_of_digits_def digit_val_digit_char)
  next
    case False
    with "1.IH" show ?thesis
      by (simp add: show_nat.simps [of n] nat_of_digits_snoc digit_val_digit_char)
  qed
qed

lemma digit_group_all_digits:
  "ds \<noteq> [] \<Longrightarrow> \<forall>c \<in> set ds. is_ascii_digit c \<Longrightarrow> digit_group ds = Some ds"
proof (induction ds rule: digit_group.induct)
  case (3 c d s)
  have "d \<noteq> CHR ''_''"
    using "3.prems" by (auto simp: is_ascii_digit_def code_def)
  with 3 show ?case by simp
qed auto

lemma is_ascii_digit_not_space: "is_ascii_digit c \<Longrightarrow> \<not> is_space c"
  by (auto simp: is_ascii_digit_def is_space_def)

lemma strip_no_space:
  assumes "\<forall>c \<in> set s. \<not> is_space c"
  shows "strip s = s"
proof -
  have d: "dropWhile is_space xs = xs" if "\<forall>c \<in> set xs. \<not> is_space c" for xs
    using that by (cases xs) auto
  show ?thesis
    using assms by (simp add: strip_def lstrip_while_def rstrip_while_def d)
qed

text \<open>Printing a natural number and reading it back with \<open>int()\<close>.\<close>

lemma py_int_show_nat: "py_int (show_nat n) = Some (int n)"
proof -
  have dg: "\<forall>c \<in> set (show_nat n). is_ascii_digit c" and ne: "show_nat n \<noteq> []"
    using show_nat_digits by auto
  have st: "strip (show_nat n) = show_nat n"
    by (rule strip_no_space) (use dg is_ascii_digit_not_space in blast)
  obtain c r where cr: "show_nat n = c # r"
    using ne by (cases "show_nat n") auto
  have "is_ascii_digit c" using dg cr by simp
  then have sg: "split_sign (show_nat n) = (1, show_nat n)"
    by (auto simp: split_sign_def cr is_ascii_digit_def code_def)
  show ?thesis
    by (simp add: py_int_def st sg digit_group_all_digits [OF ne dg] nat_of_digits_show_nat)
qed

section \<open>\<open>repr\<close> of text\<close>

definition hex_digit :: "nat \<Rightarrow> char" where
  "hex_digit d = (if d < 10 then digit_char d else char_of (87 + d))"

text \<open>
  Printable code points below 256 stand for themselves; the others are escaped. The
  quote is a double quote only when the text has a single quote and no double quote.
\<close>

definition repr_char :: "char \<Rightarrow> char \<Rightarrow> string" where
  "repr_char q c =
     (if c = q \<or> c = CHR 0x5C then [CHR 0x5C, c]
      else if c = nl then [CHR 0x5C, CHR ''n'']
      else if c = cr then [CHR 0x5C, CHR ''r'']
      else if c = CHR 0x09 then [CHR 0x5C, CHR ''t'']
      else if code c < 32 \<or> (127 \<le> code c \<and> code c \<le> 160) \<or> code c = 173
      then [CHR 0x5C, CHR ''x'', hex_digit (code c div 16), hex_digit (code c mod 16)]
      else [c])"

definition py_repr :: "string \<Rightarrow> string" where
  "py_repr s =
     (let q = (if CHR 0x27 \<in> set s \<and> CHR 0x22 \<notin> set s then CHR 0x22 else CHR 0x27)
      in [q] @ concat (map (repr_char q) s) @ [q])"

end
