(* ===== verification/Py_Json.thy ===== *)
theory Py_Json
  imports Py_Text
begin

text \<open>
  Untyped values at the program's data boundaries: what \<open>decode_strict_json\<close> returns, what a
  node probe reports, what \<open>json.dumps\<close> renders. A finite float is the rational it denotes;
  rounding to a double is not modelled, its range is (\<open>to_float\<close> overflows to infinity where
  a double does, and converting an integer that large raises \<open>OverflowError\<close>). Also here:
  \<open>jsonvalue.py\<close>, the shared narrowing rules for such values.
\<close>

section \<open>Values\<close>

datatype pyfloat = Fin rat | PosInf | NegInf | NaN

datatype json =
    JNull
  | JBool bool
  | JInt int
  | JFloat pyfloat
  | JStr string
  | JList "json list"
  | JObj "(string, json) dict"

fun is_JStr :: "json \<Rightarrow> bool" where
  "is_JStr (JStr _) = True" | "is_JStr _ = False"

fun is_JBool :: "json \<Rightarrow> bool" where
  "is_JBool (JBool _) = True" | "is_JBool _ = False"

text \<open>\<open>isinstance(v, int) and not isinstance(v, bool)\<close>.\<close>

fun is_JInt :: "json \<Rightarrow> bool" where
  "is_JInt (JInt _) = True" | "is_JInt _ = False"

text \<open>\<open>isinstance(v, (int, float)) and not isinstance(v, bool)\<close>.\<close>

fun is_number :: "json \<Rightarrow> bool" where
  "is_number (JInt _) = True" | "is_number (JFloat _) = True" | "is_number _ = False"

fun is_JList :: "json \<Rightarrow> bool" where
  "is_JList (JList _) = True" | "is_JList _ = False"

fun is_JObj :: "json \<Rightarrow> bool" where
  "is_JObj (JObj _) = True" | "is_JObj _ = False"

text \<open>Truth value of an object, as in \<open>if v:\<close> and \<open>v or w\<close>.\<close>

fun truthy :: "json \<Rightarrow> bool" where
  "truthy JNull = False"
| "truthy (JBool b) = b"
| "truthy (JInt i) = (i \<noteq> 0)"
| "truthy (JFloat f) = (f \<noteq> Fin 0)"
| "truthy (JStr s) = (s \<noteq> [])"
| "truthy (JList xs) = (xs \<noteq> [])"
| "truthy (JObj d) = (d \<noteq> [])"

definition json_get :: "(string, json) dict \<Rightarrow> string \<Rightarrow> json" where
  "json_get d k = (case map_of d k of None \<Rightarrow> JNull | Some v \<Rightarrow> v)"

fun list_items :: "json \<Rightarrow> json list" where
  "list_items (JList xs) = xs" | "list_items _ = []"

fun obj_items :: "json \<Rightarrow> (string, json) dict" where
  "obj_items (JObj d) = d" | "obj_items _ = []"

fun str_of :: "json \<Rightarrow> string" where
  "str_of (JStr s) = s" | "str_of _ = []"

fun int_of :: "json \<Rightarrow> int" where
  "int_of (JInt i) = i" | "int_of _ = 0"

fun bool_of :: "json \<Rightarrow> bool" where
  "bool_of (JBool b) = b" | "bool_of _ = False"

text \<open>The number a finite numeric value denotes.\<close>

fun num_of :: "json \<Rightarrow> rat" where
  "num_of (JInt i) = of_int i" | "num_of (JFloat (Fin r)) = r" | "num_of _ = 0"

definition opt_of :: "(json \<Rightarrow> 'a) \<Rightarrow> json \<Rightarrow> 'a option" where
  "opt_of f v = (if v = JNull then None else Some (f v))"

definition json_opt :: "('a \<Rightarrow> json) \<Rightarrow> 'a option \<Rightarrow> json" where
  "json_opt f x = (case x of None \<Rightarrow> JNull | Some y \<Rightarrow> f y)"

lemma opt_of_simps [simp]: "opt_of f JNull = None" "v \<noteq> JNull \<Longrightarrow> opt_of f v = Some (f v)"
  by (simp_all add: opt_of_def)

lemma json_opt_simps [simp]: "json_opt f None = JNull" "json_opt f (Some x) = f x"
  by (simp_all add: json_opt_def)

section \<open>Floats\<close>

text \<open>Magnitudes at or above this bound round to an infinite double.\<close>

definition float_limit :: int where
  "float_limit = 2 ^ 1024 - 2 ^ 970"

definition to_float :: "rat \<Rightarrow> pyfloat" where
  "to_float r = (if of_int float_limit \<le> r then PosInf
                 else if r \<le> - of_int float_limit then NegInf else Fin r)"

definition overflow_msg :: string where
  "overflow_msg = ''int too large to convert to float''"

text \<open>\<open>math.isfinite(float(v))\<close> for a number \<open>v\<close>; \<open>Inl\<close> is the \<open>OverflowError\<close>.\<close>

fun finite_float :: "json \<Rightarrow> string + bool" where
  "finite_float (JInt i) = (if \<bar>i\<bar> < float_limit then Inr True else Inl overflow_msg)"
| "finite_float (JFloat (Fin r)) = Inr True"
| "finite_float _ = Inr False"

text \<open>\<open>float(text)\<close>; \<open>None\<close> is the \<open>ValueError\<close>.\<close>

definition lower :: "char \<Rightarrow> char" where
  "lower c = (if is_ascii_upper c then char_of (code c + 32) else c)"

definition frac_of_digits :: "string \<Rightarrow> rat" where
  "frac_of_digits ds = of_nat (nat_of_digits ds) / 10 ^ length ds"

definition mantissa :: "string \<Rightarrow> rat option" where
  "mantissa m =
     (let a = takeWhile (\<lambda>c. c \<noteq> CHR ''.'') m; b = dropWhile (\<lambda>c. c \<noteq> CHR ''.'') m in
      if b = [] then map_option (of_nat \<circ> nat_of_digits) (digit_group a)
      else if tl b = [] then map_option (of_nat \<circ> nat_of_digits) (digit_group a)
      else (case digit_group (tl b) of
              None \<Rightarrow> None
            | Some fs \<Rightarrow>
                (if a = [] then Some (frac_of_digits fs)
                 else map_option (\<lambda>ds. of_nat (nat_of_digits ds) + frac_of_digits fs) (digit_group a))))"

definition exponent :: "string \<Rightarrow> int option" where
  "exponent s = (if s = [] then Some 0
                 else let (sg, r) = split_sign (tl s)
                      in map_option (\<lambda>ds. sg * int (nat_of_digits ds)) (digit_group r))"

definition scale10 :: "rat \<Rightarrow> int \<Rightarrow> rat" where
  "scale10 q k = (if 0 \<le> k then q * 10 ^ nat k else q / 10 ^ nat (- k))"

definition py_float :: "string \<Rightarrow> pyfloat option" where
  "py_float s =
     (let (sg, r) = split_sign (strip s); l = map lower r in
      if l = ''inf'' \<or> l = ''infinity'' then Some (if sg < 0 then NegInf else PosInf)
      else if l = ''nan'' then Some NaN
      else (let p = (\<lambda>c. lower c \<noteq> CHR ''e'') in
            case mantissa (takeWhile p r) of
              None \<Rightarrow> None
            | Some q \<Rightarrow>
                map_option (\<lambda>k. to_float (of_int sg * scale10 q k)) (exponent (dropWhile p r))))"

section \<open>jsonvalue.py\<close>

definition as_int :: "json \<Rightarrow> int option" where
  "as_int v = (if \<not> is_JInt v then None else Some (int_of v))"

definition as_number :: "json \<Rightarrow> rat option" where
  "as_number v =
     (if \<not> is_number v then None
      else (case finite_float v of
              Inl _ \<Rightarrow> None
            | Inr fin \<Rightarrow> (if fin then Some (num_of v) else None)))"

lemma as_number_None: "as_number (JBool b) = None" "as_number (JStr s) = None"
  by (simp_all add: as_number_def)

section \<open>\<open>json.dumps\<close>\<close>

text \<open>
  The rendering with \<open>ensure_ascii\<close>; \<open>fr\<close> stands for \<open>float.__repr__\<close> on finite values.
\<close>

definition esc_char :: "char \<Rightarrow> string" where
  "esc_char c =
     (if c = CHR 0x22 then [CHR 0x5C, CHR 0x22]
      else if c = CHR 0x5C then [CHR 0x5C, CHR 0x5C]
      else if c = nl then [CHR 0x5C, CHR ''n'']
      else if c = cr then [CHR 0x5C, CHR ''r'']
      else if c = CHR 0x09 then [CHR 0x5C, CHR ''t'']
      else if c = CHR 0x0C then [CHR 0x5C, CHR ''f'']
      else if c = CHR 0x08 then [CHR 0x5C, CHR ''b'']
      else if code c < 32 \<or> 126 < code c
      then [CHR 0x5C, CHR ''u'', CHR ''0'', CHR ''0'', hex_digit (code c div 16), hex_digit (code c mod 16)]
      else [c])"

definition dumps_str :: "string \<Rightarrow> string" where
  "dumps_str s = [CHR 0x22] @ concat (map esc_char s) @ [CHR 0x22]"

fun dumps_float :: "(rat \<Rightarrow> string) \<Rightarrow> pyfloat \<Rightarrow> string" where
  "dumps_float fr (Fin r) = fr r"
| "dumps_float fr PosInf = ''Infinity''"
| "dumps_float fr NegInf = ''-Infinity''"
| "dumps_float fr NaN = ''NaN''"

text \<open>\<open>json.dumps(v, indent=1)\<close> at nesting depth \<open>n\<close>.\<close>

fun dumps_indent :: "(rat \<Rightarrow> string) \<Rightarrow> nat \<Rightarrow> json \<Rightarrow> string" where
  "dumps_indent fr n JNull = ''null''"
| "dumps_indent fr n (JBool b) = (if b then ''true'' else ''false'')"
| "dumps_indent fr n (JInt i) = show_int i"
| "dumps_indent fr n (JFloat f) = dumps_float fr f"
| "dumps_indent fr n (JStr s) = dumps_str s"
| "dumps_indent fr n (JList xs) =
     (if xs = [] then ''[]''
      else ''['' @ [nl] @ replicate (Suc n) CHR '' ''
           @ join ('','' @ [nl] @ replicate (Suc n) CHR '' '') (map (dumps_indent fr (Suc n)) xs)
           @ [nl] @ replicate n CHR '' '' @ '']'')"
| "dumps_indent fr n (JObj d) =
     (if d = [] then ''{}''
      else ''{'' @ [nl] @ replicate (Suc n) CHR '' ''
           @ join ('','' @ [nl] @ replicate (Suc n) CHR '' '')
               (map (\<lambda>kv. dumps_str (fst kv) @ '': '' @ dumps_indent fr (Suc n) (snd kv)) d)
           @ [nl] @ replicate n CHR '' '' @ ''}'')"

text \<open>\<open>json.dumps(v, separators=(",", ":"))\<close>.\<close>

fun dumps_compact :: "(rat \<Rightarrow> string) \<Rightarrow> json \<Rightarrow> string" where
  "dumps_compact fr JNull = ''null''"
| "dumps_compact fr (JBool b) = (if b then ''true'' else ''false'')"
| "dumps_compact fr (JInt i) = show_int i"
| "dumps_compact fr (JFloat f) = dumps_float fr f"
| "dumps_compact fr (JStr s) = dumps_str s"
| "dumps_compact fr (JList xs) = ''['' @ join '','' (map (dumps_compact fr) xs) @ '']''"
| "dumps_compact fr (JObj d) =
     ''{'' @ join '','' (map (\<lambda>kv. dumps_str (fst kv) @ '':'' @ dumps_compact fr (snd kv)) d) @ ''}''"

section \<open>sshio.diagnostic_excerpt\<close>

definition MAX_DIAGNOSTIC_CHARS :: nat where
  "MAX_DIAGNOSTIC_CHARS = 4096"

text \<open>
  \<open>raw[-(k):]\<close> with \<open>k = 0\<close> is the whole text in Python; here \<open>k = remaining - head\<close> is
  positive because the limit is at least 32.
\<close>

definition omit_middle :: "nat \<Rightarrow> string \<Rightarrow> string" where
  "omit_middle limit raw =
     (if limit < length raw then
        (let marker = '' ...[omitted]... ''; remaining = limit - length marker; hd_len = remaining div 2
         in take hd_len raw @ marker @ drop (length raw - (remaining - hd_len)) raw)
      else raw)"

definition excerpt :: "nat \<Rightarrow> string \<Rightarrow> string" where
  "excerpt limit raw = take limit (join '' '' (words (omit_middle limit raw)))"

definition diagnostic_excerpt ::
  "string option list \<Rightarrow> string \<Rightarrow> nat \<Rightarrow> string + string" where
  "diagnostic_excerpt vals fallback limit =
     (if limit < 32 then Inl ''diagnostic limit must be at least 32 characters''
      else (let raw = (case find (\<lambda>v. v \<noteq> None \<and> v \<noteq> Some []) vals of
                         Some (Some s) \<Rightarrow> s | _ \<Rightarrow> fallback)
            in Inr (excerpt limit raw)))"

lemma length_omit_middle: "32 \<le> limit \<Longrightarrow> length (omit_middle limit raw) \<le> limit"
  by (auto simp: omit_middle_def Let_def)

lemma excerpt_eq:
  assumes "32 \<le> limit"
  shows "excerpt limit raw = join '' '' (words (omit_middle limit raw))"
  using length_join_words [of "omit_middle limit raw"] length_omit_middle [OF assms, of raw]
  by (simp add: excerpt_def)

lemma excerpt_idem:
  assumes "32 \<le> limit"
  shows "excerpt limit (excerpt limit raw) = excerpt limit raw"
proof -
  let ?t = "join '' '' (words (omit_middle limit raw))"
  have "length ?t \<le> limit"
    using length_join_words length_omit_middle [OF assms] le_trans by blast
  then have "omit_middle limit ?t = ?t" by (simp add: omit_middle_def)
  then show ?thesis by (simp add: excerpt_eq [OF assms] words_join_words)
qed

lemma length_excerpt: "length (excerpt limit raw) \<le> limit"
  by (simp add: excerpt_def)

lemma set_words_join: "c \<in> set (join '' '' (words s)) \<Longrightarrow> is_space c \<Longrightarrow> c = CHR '' ''"
  using set_join [of "'' ''" "words s"] words_nonspace by fastforce

lemma excerpt_one_line:
  assumes "c \<in> set (excerpt limit raw)" and "is_space c"
  shows "c = CHR '' ''"
proof -
  from assms(1) have "c \<in> set (join '' '' (words (omit_middle limit raw)))"
    unfolding excerpt_def by (rule in_set_takeD)
  with assms(2) show ?thesis by (intro set_words_join)
qed

end
