(* ===== verification/Layout.thy ===== *)
theory Layout
  imports Py_Json
begin

text \<open>
  \<open>src/dt/layout.py\<close> (node-side path contracts) and the pure part of \<open>src/dt/lifecycle.py\<close>
  (capsule validation, runtime identity, the verdict of a termination probe). A raised
  \<open>ValueError\<close> is its message on the left of the result.

  The lemmas show that an accepted root or capsule path cannot leave its directory, and that
  a path rendered for a shell is read back by the shell as that path (\<open>sh_word\<close> is the
  specification of word evaluation used for this).
\<close>

section \<open>Constants\<close>

definition LEGACY_LAYOUT :: string where "LEGACY_LAYOUT = ''legacy-v0''"
definition ROLE_LAYOUT :: string where "ROLE_LAYOUT = ''role-v1''"
definition MAX_NODE_PATH_BYTES :: nat where "MAX_NODE_PATH_BYTES = 4096"
definition MAX_NODE_PATH_COMPONENT_BYTES :: nat where "MAX_NODE_PATH_COMPONENT_BYTES = 255"

lemma layouts_differ [simp]: "LEGACY_LAYOUT \<noteq> ROLE_LAYOUT" "ROLE_LAYOUT \<noteq> LEGACY_LAYOUT"
  by (simp_all add: LEGACY_LAYOUT_def ROLE_LAYOUT_def)

text \<open>
  \<open>PurePosixPath(s).parts\<close>: empty and \<open>.\<close> components vanish, \<open>..\<close> stays, the root is a part
  of its own (\<open>//\<close> exactly doubled is a distinct root).
\<close>

definition is_absolute :: "string \<Rightarrow> bool" where
  "is_absolute s = startswith s ''/''"

definition posix_parts :: "string \<Rightarrow> string list" where
  "posix_parts s =
     (if startswith s ''//'' \<and> \<not> startswith s ''///'' then [''//'']
      else if startswith s ''/'' then [''/''] else [])
     @ filter (\<lambda>p. p \<noteq> [] \<and> p \<noteq> ''.'') (split_on CHR ''/'' s)"

section \<open>Roots and paths\<close>

definition has_control :: "string \<Rightarrow> bool" where
  "has_control s \<longleftrightarrow> nul \<in> set s \<or> nl \<in> set s \<or> cr \<in> set s"

definition dot_component :: "string \<Rightarrow> bool" where
  "dot_component p \<longleftrightarrow> p = [] \<or> p = ''.'' \<or> p = ''..''"

definition validate_path_size :: "string \<Rightarrow> string list \<Rightarrow> string + unit" where
  "validate_path_size path parts =
     (if MAX_NODE_PATH_BYTES < utf8_len path
      then Inl (''root exceeds '' @ show_nat MAX_NODE_PATH_BYTES @ '' bytes'')
      else if \<exists>part \<in> set parts. MAX_NODE_PATH_COMPONENT_BYTES < utf8_len part
      then Inl (''root component exceeds '' @ show_nat MAX_NODE_PATH_COMPONENT_BYTES @ '' bytes'')
      else Inr ())"

definition normalize_node_root :: "string \<Rightarrow> string + string" where
  "normalize_node_root val =
     (if has_control val then Inl ''root contains a control character''
      else
        let root = rstrip_while (\<lambda>c. c = CHR ''/'') (strip val) in
        if root = [] \<or> root = ''/'' \<or> root = ''~'' then Inl ''root must name a dedicated directory''
        else
          bind_ok
            (if startswith root ''~/'' then
               (let remainder = drop 2 root in
                if startswith remainder ''/''
                then Inl ''root must not contain empty or absolute components''
                else Inr (posix_parts remainder))
             else if startswith root ''/'' then Inr (drop 1 (posix_parts root))
             else Inl ''root must be absolute or start with ~/'')
            (\<lambda>parts.
               if parts = [] \<or> (\<exists>part \<in> set parts. dot_component part)
               then Inl ''root must not contain . or .. components''
               else bind_ok (validate_path_size root parts) (\<lambda>_. Inr root)))"

fun clean_parts :: "string list \<Rightarrow> string + string list" where
  "clean_parts [] = Inr []"
| "clean_parts (raw # rest) =
     (let parts = posix_parts raw in
      if is_absolute raw \<or> parts = [] \<or> (\<exists>part \<in> set parts. dot_component part)
      then Inl (''invalid node path component: '' @ py_repr raw)
      else bind_ok (clean_parts rest) (\<lambda>more. Inr (parts @ more)))"

definition node_path :: "string \<Rightarrow> string list \<Rightarrow> string + string" where
  "node_path rt parts =
     bind_ok (normalize_node_root rt) (\<lambda>base.
     bind_ok (clean_parts parts) (\<lambda>clean.
       let joined = (if clean = [] then base else base @ ''/'' @ join ''/'' clean)
       in bind_ok (validate_path_size joined (posix_parts joined)) (\<lambda>_. Inr joined)))"

section \<open>Rendering for a shell\<close>

text \<open>\<open>shlex.quote\<close>: the unquoted alphabet is \<open>[A-Za-z0-9_@%+=:,./-]\<close>.\<close>

definition shell_safe_char :: "char \<Rightarrow> bool" where
  "shell_safe_char c \<longleftrightarrow> is_ascii_alnum c \<or> c \<in> set ''_@%+=:,./-''"

definition quote_char :: "char \<Rightarrow> string" where
  "quote_char c = (if c = CHR 0x27 then [CHR 0x27, CHR 0x22, CHR 0x27, CHR 0x22, CHR 0x27] else [c])"

definition shlex_quote :: "string \<Rightarrow> string" where
  "shlex_quote s =
     (if s = [] then [CHR 0x27, CHR 0x27]
      else if \<forall>c \<in> set s. shell_safe_char c then s
      else [CHR 0x27] @ concat (map quote_char s) @ [CHR 0x27])"

definition home_ref :: string where
  "home_ref = [CHR 0x22] @ ''$HOME'' @ [CHR 0x22]"

definition node_path_expression :: "string \<Rightarrow> string + string" where
  "node_path_expression path =
     (if has_control path then Inl ''node path contains a control character''
      else if path = ''~'' then Inr home_ref
      else if startswith path ''~/'' then Inr (home_ref @ ''/'' @ shlex_quote (drop 2 path))
      else if startswith path ''/'' then Inr (shlex_quote path)
      else Inr (shlex_quote path))"

definition display_node_path :: "string \<Rightarrow> string" where
  "display_node_path path =
     (if startswith path ''/'' \<or> startswith path ''~/'' then path else ''~/'' @ path)"

section \<open>Directories of a job capsule\<close>

definition job_control_dir :: "string \<Rightarrow> string option \<Rightarrow> string" where
  "job_control_dir jobdir lay = (if lay = Some ROLE_LAYOUT then jobdir @ ''/.dt'' else jobdir)"

definition job_payload_dir :: "string \<Rightarrow> string option \<Rightarrow> string" where
  "job_payload_dir jobdir lay =
     (let control = job_control_dir jobdir lay
      in if lay = Some ROLE_LAYOUT then control @ ''/payload'' else control)"

definition job_state_dir :: "string \<Rightarrow> string option \<Rightarrow> string" where
  "job_state_dir jobdir lay =
     (let control = job_control_dir jobdir lay
      in if lay = Some ROLE_LAYOUT then control @ ''/state'' else control)"

definition job_meta_path :: "string \<Rightarrow> string option \<Rightarrow> string" where
  "job_meta_path jobdir lay = job_control_dir jobdir lay @ ''/meta.json''"

definition job_command_path :: "string \<Rightarrow> string option \<Rightarrow> string" where
  "job_command_path jobdir lay =
     job_control_dir jobdir lay @ ''/'' @ (if lay = Some ROLE_LAYOUT then ''command.sh'' else ''cmd.sh'')"

definition job_cancel_path :: "string \<Rightarrow> string option \<Rightarrow> string" where
  "job_cancel_path jobdir lay =
     (if lay = Some ROLE_LAYOUT then job_state_dir jobdir lay @ ''/cancel'' else jobdir @ ''/.dt-cancel'')"

section \<open>lifecycle.py: capsules, runtime identity, termination verdicts\<close>

definition capsule_relative :: "string \<Rightarrow> string + string" where
  "capsule_relative path =
     (if startswith path ''~/'' then Inr (drop 2 path)
      else if startswith path ''/'' then Inr (drop 1 path)
      else if startswith path ''~'' then Inl ''job capsule path has an unsupported home expression''
      else Inr path)"

definition validate_job_capsule :: "string \<Rightarrow> string option \<Rightarrow> string + string" where
  "validate_job_capsule path jid =
     (if has_control path then Inl ''job capsule path contains a control character''
      else
        bind_ok (capsule_relative path)
          (\<lambda>relative.
             let parts = split_on CHR ''/'' relative in
             if length parts < 2 \<or> parts ! (length parts - 2) \<noteq> ''jobs''
                \<or> (\<exists>part \<in> set parts. dot_component part)
             then Inl ''job capsule path must name a dedicated nested directory''
             else if jid \<noteq> None \<and> Some (last parts) \<noteq> jid
             then Inl ''job capsule path does not match the task identity''
             else if MAX_NODE_PATH_BYTES < utf8_len path
                  \<or> (\<exists>part \<in> set parts. MAX_NODE_PATH_COMPONENT_BYTES < utf8_len part)
             then Inl ''job capsule path exceeds filesystem limits''
             else Inr path))"

text \<open>\<open>sha\<close> stands for \<open>hashlib.sha256(...).hexdigest()\<close>.\<close>

definition runtime_identity :: "(string \<Rightarrow> string) \<Rightarrow> string \<Rightarrow> string + string \<times> string" where
  "runtime_identity sha sess =
     (if sess = [] \<or> has_control sess then Inl ''tmux session identity is unsafe''
      else if 256 < utf8_len sess then Inl ''tmux session identity is unsafe''
      else let identity = take 20 (sha sess)
           in Inr (''dt-job-'' @ identity, ''dt-runtime-'' @ identity @ ''.scope''))"

datatype verdict = DEAD | ALIVE | EXITED "string option" | UNVERIFIED string

definition partition_blank :: "string \<Rightarrow> string \<times> string" where
  "partition_blank s = (takeWhile (\<lambda>c. c \<noteq> CHR '' '') s, drop 1 (dropWhile (\<lambda>c. c \<noteq> CHR '' '') s))"

definition termination_verdict ::
  "int \<Rightarrow> string option \<Rightarrow> string option \<Rightarrow> string + verdict" where
  "termination_verdict returncode stdout stderr =
     (if returncode \<noteq> 0 then
        bind_ok (diagnostic_excerpt [stderr, stdout] (''exit '' @ show_int returncode) MAX_DIAGNOSTIC_CHARS)
          (\<lambda>detail. Inr (UNVERIFIED detail))
      else
        let lines = splitlines (strip (case stdout of None \<Rightarrow> [] | Some s \<Rightarrow> s));
            v = (if lines = [] then ''UNKNOWN'' else last lines) in
        if v = ''DEAD'' then Inr DEAD
        else if v = ''ALIVE'' then Inr ALIVE
        else
          let (exited, recorded) = partition_blank v in
          if exited = ''EXITED'' then
            (let c = strip recorded in
             if c \<noteq> [] \<and> length c \<le> 3 \<and> (\<forall>x \<in> set c. is_ascii_digit x) \<and> nat_of_digits c \<le> 255
             then Inr (EXITED (Some c)) else Inr (EXITED None))
          else
            bind_ok (diagnostic_excerpt [Some (''unexpected response '' @ py_repr v)] [] MAX_DIAGNOSTIC_CHARS)
              (\<lambda>detail. Inr (UNVERIFIED detail)))"

section \<open>Containment\<close>

text \<open>The components of a logical node path below its anchor (\<open>/\<close>, \<open>~/\<close> or the login directory).\<close>

definition components :: "string \<Rightarrow> string list" where
  "components path = filter (\<lambda>p. p \<noteq> [] \<and> p \<noteq> ''.'') (split_on CHR ''/'' path)"

lemma posix_parts_components: "p \<in> set (components s) \<Longrightarrow> p \<in> set (posix_parts s)"
  by (auto simp: components_def posix_parts_def)

lemma posix_parts_abs: "startswith s ''/'' \<Longrightarrow> drop (Suc 0) (posix_parts s) = components s"
  by (simp add: posix_parts_def components_def)

lemma posix_parts_rel: "\<not> startswith s ''/'' \<Longrightarrow> posix_parts s = components s"
proof -
  assume a: "\<not> startswith s ''/''"
  then have "\<not> startswith s ''//''"
    by (cases s) (auto simp: startswith_def)
  with a show ?thesis by (simp add: posix_parts_def components_def)
qed

lemma components_home: "components (''~/'' @ s) = ''~'' # components s"
  by (simp add: components_def)

lemma startswith_home: "startswith rt ''~/'' \<Longrightarrow> rt = ''~/'' @ drop 2 rt"
  by (metis append_take_drop_id length_Cons list.size(3) numeral_2_eq_2 startswith_def)

lemma validate_path_size_ok:
  "validate_path_size path parts = Inr u \<Longrightarrow>
     utf8_len path \<le> MAX_NODE_PATH_BYTES
     \<and> (\<forall>part \<in> set parts. utf8_len part \<le> MAX_NODE_PATH_COMPONENT_BYTES)"
  by (auto simp: validate_path_size_def not_less split: if_splits)

lemma normalize_node_root_parts:
  assumes "normalize_node_root val = Inr rt"
  obtains parts where "parts \<noteq> []" "\<forall>part \<in> set parts. \<not> dot_component part"
    "utf8_len rt \<le> MAX_NODE_PATH_BYTES"
    "\<forall>part \<in> set parts. utf8_len part \<le> MAX_NODE_PATH_COMPONENT_BYTES"
    "(startswith rt ''/'' \<and> components rt = parts)
       \<or> (startswith rt ''~/'' \<and> components rt = ''~'' # parts)"
proof -
  let ?r = "rstrip_while (\<lambda>c. c = CHR ''/'') (strip val)"
  from assms obtain parts where rt: "rt = ?r"
    and src: "(if startswith ?r ''~/'' then
                 if startswith (drop 2 ?r) ''/'' then Inl ''root must not contain empty or absolute components''
                 else Inr (posix_parts (drop 2 ?r))
               else if startswith ?r ''/'' then Inr (drop 1 (posix_parts ?r))
               else Inl ''root must be absolute or start with ~/'') = Inr parts"
    and ok: "parts \<noteq> []" "\<forall>part \<in> set parts. \<not> dot_component part"
    and size: "validate_path_size ?r parts = Inr ()"
    unfolding normalize_node_root_def Let_def by (auto simp: bind_ok_Inr split: if_splits)
  have "(startswith rt ''/'' \<and> components rt = parts)
       \<or> (startswith rt ''~/'' \<and> components rt = ''~'' # parts)"
  proof (cases "startswith ?r ''~/''")
    case True
    with src have "parts = components (drop 2 ?r)"
      by (auto simp: posix_parts_rel split: if_splits)
    with True show ?thesis
      by (metis components_home rt startswith_home)
  next
    case False
    with src rt show ?thesis by (auto simp: posix_parts_abs split: if_splits)
  qed
  with ok size rt that show ?thesis by (metis validate_path_size_ok)
qed

lemma normalize_node_root_safe:
  assumes "normalize_node_root val = Inr rt"
  shows "(startswith rt ''/'' \<or> startswith rt ''~/'')
    \<and> ''..'' \<notin> set (components rt)
    \<and> utf8_len rt \<le> MAX_NODE_PATH_BYTES"
proof -
  obtain parts where dots: "\<forall>part \<in> set parts. \<not> dot_component part"
    and size: "utf8_len rt \<le> MAX_NODE_PATH_BYTES"
    and shape: "(startswith rt ''/'' \<and> components rt = parts)
       \<or> (startswith rt ''~/'' \<and> components rt = ''~'' # parts)"
    using normalize_node_root_parts [OF assms] .
  from dots have "''..'' \<notin> set parts" by (auto simp: dot_component_def)
  with shape size show ?thesis by auto
qed

lemma validate_job_capsule_Inr:
  "validate_job_capsule path jid = Inr p \<longleftrightarrow>
     p = path \<and> \<not> has_control path \<and>
     (\<exists>relative. capsule_relative path = Inr relative \<and>
        (let parts = split_on CHR ''/'' relative in
         2 \<le> length parts \<and> parts ! (length parts - 2) = ''jobs''
         \<and> (\<forall>part \<in> set parts. \<not> dot_component part)
         \<and> (jid = None \<or> jid = Some (last parts))
         \<and> utf8_len path \<le> MAX_NODE_PATH_BYTES
         \<and> (\<forall>part \<in> set parts. utf8_len part \<le> MAX_NODE_PATH_COMPONENT_BYTES)))"
  unfolding validate_job_capsule_def
  by (cases "capsule_relative path") (auto simp: Let_def not_le not_less)

lemma validate_job_capsule_id: "validate_job_capsule path jid = Inr p \<Longrightarrow> p = path"
  unfolding validate_job_capsule_Inr by blast

section \<open>Shell words\<close>

text \<open>
  The reference semantics of the shell for one word: unquoted characters of the safe
  alphabet stand for themselves, single quotes protect everything up to the next single
  quote, double quotes protect text without \<open>$\<close>, backquote and backslash, and a
  double-quoted \<open>$HOME\<close> expands. Anything else is outside the fragment (\<open>None\<close>).
\<close>

datatype sh_mode = Plain | InSingle | InDouble

fun sh_eval :: "sh_mode \<Rightarrow> string \<Rightarrow> string option" where
  "sh_eval Plain [] = Some []"
| "sh_eval InSingle [] = None"
| "sh_eval InDouble [] = None"
| "sh_eval Plain (c # s) =
     (if c = CHR 0x27 then sh_eval InSingle s
      else if c = CHR 0x22 then sh_eval InDouble s
      else if shell_safe_char c then map_option (Cons c) (sh_eval Plain s) else None)"
| "sh_eval InSingle (c # s) =
     (if c = CHR 0x27 then sh_eval Plain s else map_option (Cons c) (sh_eval InSingle s))"
| "sh_eval InDouble (c # s) =
     (if c = CHR 0x22 then sh_eval Plain s
      else if c \<in> {CHR ''$'', CHR 0x60, CHR 0x5C} then None
      else map_option (Cons c) (sh_eval InDouble s))"

definition sh_word :: "string \<Rightarrow> string \<Rightarrow> string option" where
  "sh_word home s =
     (if startswith s home_ref then map_option ((@) home) (sh_eval Plain (drop (length home_ref) s))
      else sh_eval Plain s)"

lemma sh_eval_safe: "\<forall>c \<in> set s. shell_safe_char c \<Longrightarrow> sh_eval Plain s = Some s"
  by (induction s) (auto simp: shell_safe_char_def is_ascii_alnum_def is_ascii_alpha_def
      is_ascii_upper_def is_ascii_lower_def is_ascii_digit_def code_def)

lemma sh_eval_single:
  "sh_eval InSingle (concat (map quote_char s) @ [CHR 0x27]) = Some s"
  by (induction s) (auto simp: quote_char_def)

lemma sh_eval_shlex_quote: "sh_eval Plain (shlex_quote s) = Some s"
  using sh_eval_safe [of s] sh_eval_single [of s] by (simp add: shlex_quote_def)

lemma shlex_quote_not_home: "\<not> startswith (shlex_quote s) home_ref"
proof -
  have "hd (shlex_quote s) \<noteq> CHR 0x22"
    by (cases s) (auto simp: shlex_quote_def shell_safe_char_def is_ascii_alnum_def is_ascii_alpha_def
        is_ascii_upper_def is_ascii_lower_def is_ascii_digit_def code_def)
  then show ?thesis
    by (cases "shlex_quote s") (auto simp: startswith_def home_ref_def)
qed

section \<open>Properties\<close>

lemma components_append: "components (xs @ CHR ''/'' # ys) = components xs @ components ys"
  by (simp add: components_def split_on_append)

lemma components_join:
  assumes "\<forall>part \<in> set parts. part \<noteq> [] \<and> part \<noteq> ''.'' \<and> CHR ''/'' \<notin> set part"
  shows "components (join ''/'' parts) = parts"
proof (cases "parts = []")
  case True
  then show ?thesis by (simp add: components_def)
next
  case False
  then have "split_on CHR ''/'' (join ''/'' parts) = parts"
    using assms by (simp add: split_on_join)
  then show ?thesis using assms by (simp add: components_def)
qed

lemma components_parts: "part \<in> set (components s) \<Longrightarrow> part \<noteq> [] \<and> part \<noteq> ''.'' \<and> CHR ''/'' \<notin> set part"
  using split_on_no_sep by (auto simp: components_def)

text \<open>The relative components \<open>node_path\<close> adds below its root.\<close>

definition below_root :: "string list \<Rightarrow> string list" where
  "below_root parts = concat (map components parts)"

lemma clean_parts_below:
  "clean_parts parts = Inr clean \<Longrightarrow>
     clean = below_root parts \<and> (\<forall>part \<in> set clean. \<not> dot_component part \<and> CHR ''/'' \<notin> set part)"
proof (induction parts arbitrary: clean)
  case (Cons raw rest)
  then obtain more where rel: "\<not> is_absolute raw" and rec: "clean_parts rest = Inr more"
    and dots: "\<forall>part \<in> set (posix_parts raw). \<not> dot_component part"
    and clean: "clean = posix_parts raw @ more"
    by (auto simp: Let_def bind_ok_Inr split: if_splits)
  then have "posix_parts raw = components raw" by (simp add: posix_parts_rel is_absolute_def)
  with Cons.IH [OF rec] dots clean components_parts [of _ raw] show ?case
    by (auto simp: below_root_def)
qed (simp add: below_root_def)

text \<open>
  C4. Containment: a path built by \<open>node_path\<close> stays below the validated node root. Its
  components are the root's components followed by the requested ones, none of them is
  \<open>..\<close>, and the path respects the filesystem's length limit.
\<close>

theorem node_path_contained:
  assumes "node_path rt parts = Inr path"
  shows "\<exists>base. normalize_node_root rt = Inr base
    \<and> components path = components base @ below_root parts
    \<and> ''..'' \<notin> set (components path)
    \<and> utf8_len path \<le> MAX_NODE_PATH_BYTES"
proof -
  from assms obtain base clean where base: "normalize_node_root rt = Inr base"
    and clean: "clean_parts parts = Inr clean"
    and path: "path = (if clean = [] then base else base @ ''/'' @ join ''/'' clean)"
    and size: "validate_path_size path (posix_parts path) = Inr ()"
    by (auto simp: node_path_def bind_ok_Inr Let_def)
  note below = clean_parts_below [OF clean]
  then have "components (join ''/'' clean) = clean"
    by (intro components_join) (auto simp: dot_component_def)
  then have comps: "components path = components base @ clean"
    by (simp add: path components_append)
  have "''..'' \<notin> set clean" using below by (auto simp: dot_component_def)
  then show ?thesis
    using base comps below normalize_node_root_safe [OF base] validate_path_size_ok [OF size] by auto
qed

theorem node_path_contained_witness:
  "node_path ''/srv/dt/'' [''jobs'', ''a/b''] = Inr ''/srv/dt/jobs/a/b''
   \<and> (\<exists>base. normalize_node_root ''/srv/dt/'' = Inr base
        \<and> components ''/srv/dt/jobs/a/b'' = components base @ below_root [''jobs'', ''a/b''])"
proof -
  have "node_path ''/srv/dt/'' [''jobs'', ''a/b''] = Inr ''/srv/dt/jobs/a/b''"
    by code_simp
  with node_path_contained [OF this] show ?thesis by blast
qed

text \<open>
  Quoting is exact: when \<open>node_path_expression\<close> accepts a path, a POSIX shell expands the
  rendered expression to exactly one word, the path itself with a leading \<open>~/\<close> replaced by
  the home directory, whatever quotes, blanks or metacharacters the path contains.
\<close>

theorem node_path_expression_denotes:
  assumes "node_path_expression path = Inr expr"
  shows "sh_word home expr =
    Some (if path = ''~'' then home
          else if startswith path ''~/'' then home @ ''/'' @ drop 2 path else path)"
proof -
  have slash: "shell_safe_char CHR ''/''" by (simp add: shell_safe_char_def)
  have drop: "drop (length home_ref) (home_ref @ s) = s" for s by simp
  show ?thesis
    using assms shlex_quote_not_home sh_eval_shlex_quote slash startswith_append [of home_ref]
      startswith_refl [of home_ref]
    by (auto simp: node_path_expression_def sh_word_def drop simp del: drop_append split: if_splits)
qed

theorem node_path_expression_denotes_witness:
  "node_path_expression ''~/a b'' = Inr (home_ref @ ''/'' @ shlex_quote ''a b'')
   \<and> sh_word ''/home/u'' (home_ref @ ''/'' @ shlex_quote ''a b'') = Some ''/home/u/a b''"
proof -
  have ok: "node_path_expression ''~/a b'' = Inr (home_ref @ ''/'' @ shlex_quote ''a b'')"
    by code_simp
  show ?thesis
    using node_path_expression_denotes [OF ok, of "''/home/u''"] ok by (simp add: startswith_def)
qed

text \<open>
  A capsule path accepted by \<open>validate_job_capsule\<close> is returned unchanged, its last two
  components are \<open>jobs\<close> and the expected job id, and no component is empty, \<open>.\<close> or \<open>..\<close>, so
  deleting or probing the capsule cannot reach outside the jobs directory.
\<close>

theorem validate_job_capsule_contained:
  assumes "validate_job_capsule path (Some jid) = Inr p"
  shows "p = path \<and> ''..'' \<notin> set (components path)
    \<and> (\<exists>anchor. components path = anchor @ [''jobs'', jid])"
proof -
  from assms obtain relative where rel: "capsule_relative path = Inr relative" and p: "p = path"
    and parts: "2 \<le> length (split_on CHR ''/'' relative)"
      "split_on CHR ''/'' relative ! (length (split_on CHR ''/'' relative) - 2) = ''jobs''"
      "\<forall>part \<in> set (split_on CHR ''/'' relative). \<not> dot_component part"
      "jid = last (split_on CHR ''/'' relative)"
    unfolding validate_job_capsule_Inr Let_def by auto
  let ?ps = "split_on CHR ''/'' relative"
  have c: "components relative = ?ps"
    using parts(3) by (auto simp: components_def dot_component_def filter_id_conv)
  obtain anchor where anchor: "?ps = anchor @ [''jobs'', jid]"
    using last_two [OF parts(1)] parts(2,4) by auto
  have "components path = ''~'' # components relative \<or> components path = components relative"
  proof (cases "startswith path ''~/''")
    case True
    with rel have "path = ''~/'' @ relative" using startswith_home [of path] by (simp add: capsule_relative_def)
    then show ?thesis using components_home by blast
  next
    case False
    show ?thesis
    proof (cases "startswith path ''/''")
      case True
      with rel False have "path = CHR ''/'' # relative"
        by (cases path) (auto simp: capsule_relative_def startswith_def)
      then show ?thesis using components_append [of "[]" relative] by (simp add: components_def)
    next
      case False
      with rel \<open>\<not> startswith path ''~/''\<close> show ?thesis
        by (auto simp: capsule_relative_def split: if_splits)
    qed
  qed
  moreover have "''..'' \<notin> set ?ps" using parts(3) by (auto simp: dot_component_def)
  ultimately have "components path = (''~'' # anchor) @ [''jobs'', jid] \<or> components path = anchor @ [''jobs'', jid]"
    and "''..'' \<notin> set (components path)"
    using c anchor by auto
  with p show ?thesis by blast
qed

theorem validate_job_capsule_contained_witness:
  "validate_job_capsule ''~/dt/jobs/j1'' (Some ''j1'') = Inr ''~/dt/jobs/j1''
   \<and> ''..'' \<notin> set (components ''~/dt/jobs/j1'')"
proof -
  have "validate_job_capsule ''~/dt/jobs/j1'' (Some ''j1'') = Inr ''~/dt/jobs/j1''" by code_simp
  with validate_job_capsule_contained [OF this] show ?thesis by blast
qed

end
