(* ===== verification/Job_Entry.thy ===== *)
theory Job_Entry
  imports Layout
begin

text \<open>
  The registry row of \<open>src/dt/jobs/__init__.py\<close> (class \<open>JobEntry\<close>) with every field of the
  dataclass, the part of \<open>HeadConfig\<close> that scheduling reads, and the pure rules of the
  lifecycle model: typed results, settled dependencies, quota occupancy, the lost-job
  recovery window, automatic retry, terminal transitions and job names. The clock is the
  explicit argument \<open>now\<close>.

  The field \<open>setup\<close> is called \<open>setup_cmd\<close> because the former is an outer keyword.
\<close>

section \<open>Constants\<close>

definition MAX_SAFE_NAME_LENGTH :: nat where "MAX_SAFE_NAME_LENGTH = 64"
definition SAFE_NAME_DIGEST_LENGTH :: nat where "SAFE_NAME_DIGEST_LENGTH = 12"
definition LOST_RECHECK_S :: time where "LOST_RECHECK_S = 5 * 60"

definition CANCEL_UNVERIFIED_PREFIX :: string where
  "CANCEL_UNVERIFIED_PREFIX = ''dequeue raced with dispatch; cancellation unverified: ''"

definition UNCERTAIN_LAUNCH_PREFIX :: string where
  "UNCERTAIN_LAUNCH_PREFIX = ''launch outcome uncertain: ''"

definition RESULT_STATES :: "string list" where
  "RESULT_STATES = [''success'', ''scientific_reject'', ''execution_failure'', ''infra_failure'',
     ''cancelled'', ''guard_terminated'', ''dependency_skipped'']"

definition JOB_STATUSES :: "string list" where
  "JOB_STATUSES = [''queued'', ''running'', ''finished'', ''killed'', ''lost'', ''failed'', ''skipped'']"

definition RETRY_ON_MODES :: "string list" where "RETRY_ON_MODES = [''infra'', ''always'']"
definition MAX_RETRY_LIMIT :: int where "MAX_RETRY_LIMIT = 10"
definition MAX_JOB_ID_LENGTH :: nat where "MAX_JOB_ID_LENGTH = 240"
definition MAX_JOB_RECORD_BYTES :: nat where "MAX_JOB_RECORD_BYTES = 8 * 1024 * 1024"
definition MAX_JOB_COLLECTION_ITEMS :: nat where "MAX_JOB_COLLECTION_ITEMS = 1024"
definition MAX_JOB_DIAGNOSTIC_CHARS :: nat where "MAX_JOB_DIAGNOSTIC_CHARS = 4096"

section \<open>The registry row\<close>

record JobEntry =
  job_id :: string
  name :: string
  center :: string
  project :: string
  node :: string
  node_local :: bool
  job_dir :: string
  session :: string
  cmd :: string
  gpus :: "int list"
  gpu_isolation :: string
  pgid :: "int option"
  status :: string
  exit_code :: "int option"
  git_sha :: "string option"
  git_dirty :: bool
  submodule_commits :: "(string, string) dict option"
  snapshot_sha256 :: "string option"
  payload_sha256 :: "string option"
  artifact_manifest :: "string option"
  artifact_targets :: "(string, string) dict option"
  max_hours :: "time option"
  min_vram_mib :: "int option"
  max_vram_mib :: "int option"
  max_job_memory_mib :: "int option"
  created_at :: time
  finished_at :: "time option"
  updated_at :: "time option"
  gpus_requested :: int
  require_path :: "string option"
  require_disk_gib :: "int option"
  pin_node :: "string option"
  exclude_nodes :: "string list option"
  reason :: "string option"
  dispatch_node :: "string option"
  dispatch_token :: "string option"
  dispatch_owner :: "string option"
  dispatch_claimed_at :: "time option"
  placement_failures :: "(string, string) dict"
  placement_attempts :: int
  placement_pattern :: "string option"
  placement_first_failed_at :: "time option"
  placement_last_failed_at :: "time option"
  env_hash :: "string option"
  snapshot_duration_s :: "time option"
  launch_duration_s :: "time option"
  launch_phases_s :: "(string, time) dict"
  env_preexisting :: "bool option"
  setup_ran :: "bool option"
  env_mode :: "string option"
  env_source_job :: "string option"
  custom_env :: "(string, string) dict"
  custom_env_keys :: "string list"
  custom_env_loaded :: bool
  boot_id :: "string option"
  started_at :: "time option"
  setup_cmd :: "string option"
  setup_inputs :: "string list option"
  extras :: "string list"
  forked_from :: "string option"
  after_success :: "string option"
  after_complete :: "string option"
  after_result :: "string option"
  after_result_states :: "string list"
  request_id :: "string option"
  result_state :: "string option"
  rerun_of :: "string option"
  retry_limit :: int
  retry_on :: "string option"
  retry_count :: int
  retry_of :: "string option"
  retried_by :: "string option"
  rerun_source_snapshot_sha256 :: "string option"
  rerun_snapshot_changed :: "bool option"
  cache_source_job :: "string option"
  cache_source_job_dir :: "string option"
  cache_source_path :: "string option"
  cache_env :: "string option"
  cache_source_env_hash :: "string option"
  cache_mode :: "string option"
  storage_layout :: "string option"
  worker_root :: "string option"
  worker_roots :: "(string, string) dict"
  job_relpath :: "string option"
  recovered_at :: "time option"
  code_pruned_at :: "time option"
  terminal_finalized_at :: "time option"
  legacy_cleanup_pending :: bool

text \<open>\<open>JobEntry(job_id=..., ..., cmd=...)\<close>: a row with every defaulted field at its default.\<close>

definition make_entry ::
  "time \<Rightarrow> string \<Rightarrow> string \<Rightarrow> string \<Rightarrow> string \<Rightarrow> string \<Rightarrow> bool \<Rightarrow> string \<Rightarrow> string \<Rightarrow> string
   \<Rightarrow> JobEntry" where
  "make_entry now jid nm cen proj nd is_local dir sess command = \<lparr>
     job_id = jid, name = nm, center = cen, project = proj, node = nd, node_local = is_local,
     job_dir = dir, session = sess, cmd = command, gpus = [], gpu_isolation = ''advisory'',
     pgid = None, status = ''running'', exit_code = None, git_sha = None, git_dirty = False,
     submodule_commits = None, snapshot_sha256 = None, payload_sha256 = None,
     artifact_manifest = None, artifact_targets = None, max_hours = None, min_vram_mib = None,
     max_vram_mib = None, max_job_memory_mib = None, created_at = now, finished_at = None,
     updated_at = None, gpus_requested = 1, require_path = None, require_disk_gib = None,
     pin_node = None, exclude_nodes = None, reason = None, dispatch_node = None,
     dispatch_token = None, dispatch_owner = None, dispatch_claimed_at = None,
     placement_failures = [], placement_attempts = 0, placement_pattern = None,
     placement_first_failed_at = None, placement_last_failed_at = None, env_hash = None,
     snapshot_duration_s = None, launch_duration_s = None, launch_phases_s = [],
     env_preexisting = None, setup_ran = None, env_mode = None, env_source_job = None,
     custom_env = [], custom_env_keys = [], custom_env_loaded = True, boot_id = None,
     started_at = None, setup_cmd = None, setup_inputs = None, extras = [], forked_from = None,
     after_success = None, after_complete = None, after_result = None, after_result_states = [],
     request_id = None, result_state = None, rerun_of = None, retry_limit = 0, retry_on = None,
     retry_count = 0, retry_of = None, retried_by = None, rerun_source_snapshot_sha256 = None,
     rerun_snapshot_changed = None, cache_source_job = None, cache_source_job_dir = None,
     cache_source_path = None, cache_env = None, cache_source_env_hash = None, cache_mode = None,
     storage_layout = None, worker_root = None, worker_roots = [], job_relpath = None,
     recovered_at = None, code_pruned_at = None, terminal_finalized_at = None,
     legacy_cleanup_pending = False\<rparr>"

section \<open>The configuration a head scheduler reads\<close>

record Node =
  nd_name :: string
  nd_local :: bool
  nd_site :: "string option"
  nd_artifact_seed :: bool
  nd_drained :: bool

record HeadConfig =
  cf_center :: string
  cf_nodes :: "Node list"
  cf_max_my_jobs :: "int option"
  cf_reserve_free_per_node :: int
  cf_disk_min_gib :: int
  cf_layout :: string
  cf_legacy_registry :: string
  cf_role_registry :: string

section \<open>Names and identities\<close>

text \<open>\<open>[A-Za-z0-9_-]\<close>, the alphabet of job identities.\<close>

definition name_char :: "char \<Rightarrow> bool" where
  "name_char c \<longleftrightarrow> is_ascii_alnum c \<or> c = CHR ''_'' \<or> c = CHR ''-''"

definition valid_job_id :: "string \<Rightarrow> bool" where
  "valid_job_id s \<longleftrightarrow> 1 \<le> length s \<and> length s \<le> MAX_JOB_ID_LENGTH \<and> (\<forall>c \<in> set s. name_char c)"

text \<open>\<open>NAME_RE.sub("-", name)\<close>: every maximal run of other characters becomes one dash.\<close>

fun sub_runs :: "bool \<Rightarrow> string \<Rightarrow> string" where
  "sub_runs inside [] = []"
| "sub_runs inside (c # s) =
     (if name_char c then c # sub_runs False s
      else if inside then sub_runs True s else CHR ''-'' # sub_runs True s)"

definition dash_or_underscore :: "char \<Rightarrow> bool" where
  "dash_or_underscore c \<longleftrightarrow> c = CHR ''-'' \<or> c = CHR ''_''"

text \<open>\<open>sha\<close> stands for \<open>hashlib.sha256(...).hexdigest()\<close>.\<close>

definition sanitize_name :: "(string \<Rightarrow> string) \<Rightarrow> string \<Rightarrow> string" where
  "sanitize_name sha nm =
     (let clean = rstrip_while dash_or_underscore (lstrip_while dash_or_underscore (sub_runs False nm)) in
      if clean = [] then ''job''
      else if length clean \<le> MAX_SAFE_NAME_LENGTH then clean
      else
        let digest = take SAFE_NAME_DIGEST_LENGTH (sha nm);
            prefix_length = MAX_SAFE_NAME_LENGTH - SAFE_NAME_DIGEST_LENGTH - 1;
            stem = rstrip_while dash_or_underscore (take prefix_length clean);
            pre = (if stem = [] then ''job'' else stem)
        in pre @ ''-'' @ digest)"

text \<open>\<open>stamp\<close> is \<open>strftime("%Y%m%d-%H%M")\<close> and \<open>suffix\<close> the token of \<open>secrets.token_hex(8)\<close>.\<close>

definition new_job_id :: "(string \<Rightarrow> string) \<Rightarrow> string \<Rightarrow> string \<Rightarrow> string \<Rightarrow> string" where
  "new_job_id sha stamp token nm = stamp @ ''_'' @ sanitize_name sha nm @ ''_'' @ token"

section \<open>Typed results and terminal states\<close>

text \<open>\<open>x or y\<close> on optional timestamps: an absent or zero reading is false.\<close>

definition time_or :: "time option \<Rightarrow> time \<Rightarrow> time" where
  "time_or x y = (case x of None \<Rightarrow> y | Some t \<Rightarrow> if t = 0 then y else t)"

definition reason_text :: "JobEntry \<Rightarrow> string" where
  "reason_text e = (case reason e of None \<Rightarrow> [] | Some r \<Rightarrow> r)"

definition effective_result_state :: "JobEntry \<Rightarrow> string option" where
  "effective_result_state e =
     (if \<exists>r \<in> set RESULT_STATES. result_state e = Some r then result_state e
      else if status e = ''finished'' then
        (if exit_code e = Some 0 then Some ''success''
         else if exit_code e \<noteq> None then Some ''execution_failure'' else Some ''infra_failure'')
      else if status e = ''killed'' then Some ''cancelled''
      else if status e \<in> {''lost'', ''failed''} then Some ''infra_failure''
      else if status e = ''skipped'' then Some ''dependency_skipped''
      else None)"

definition is_uncertain_launch :: "JobEntry \<Rightarrow> bool" where
  "is_uncertain_launch e \<longleftrightarrow> status e = ''failed'' \<and> startswith (reason_text e) UNCERTAIN_LAUNCH_PREFIX"

definition dependency_settled :: "JobEntry \<Rightarrow> bool" where
  "dependency_settled e =
     (if status e \<notin> {''finished'', ''killed'', ''lost'', ''failed'', ''skipped''} then False
      else if is_uncertain_launch e then False
      else if status e \<noteq> ''lost'' then True
      else terminal_finalized_at e \<noteq> None)"

definition observed_at :: "JobEntry \<Rightarrow> time" where
  "observed_at e = time_or (finished_at e) (time_or (updated_at e) (created_at e))"

text \<open>
  \<open>_finalize_dependency_terminal_entry\<close> on a loaded row: the row and whether it has to be
  saved. The \<open>ValueError\<close> guards against a negative clock.
\<close>

definition finalize_dependency_terminal_entry :: "time \<Rightarrow> JobEntry \<Rightarrow> string + JobEntry \<times> bool" where
  "finalize_dependency_terminal_entry now e =
     (if now < 0 then Inl ''dependency finalization time must be finite and non-negative''
      else if status e \<noteq> ''lost'' then Inr (e, False)
      else if terminal_finalized_at e \<noteq> None then Inr (e, False)
      else if now - observed_at e \<le> LOST_RECHECK_S then Inr (e, False)
      else Inr (e\<lparr>terminal_finalized_at := Some now\<rparr>, True))"

definition transition_terminal ::
  "time \<Rightarrow> string \<Rightarrow> string \<Rightarrow> string option \<Rightarrow> time option \<Rightarrow> JobEntry \<Rightarrow> string + JobEntry" where
  "transition_terminal now st rs rsn fin e =
     (if st \<notin> {''finished'', ''killed'', ''lost'', ''failed'', ''skipped''}
      then Inl (py_repr st @ '' is not a terminal job status'')
      else if rs \<notin> set RESULT_STATES
      then Inl (py_repr rs @ '' is not a typed result state'')
      else Inr (e\<lparr>status := st, result_state := Some rs, reason := rsn,
                 finished_at := Some (case fin of None \<Rightarrow> now | Some t \<Rightarrow> t),
                 terminal_finalized_at := None\<rparr>))"

section \<open>Quota, recovery window, automatic retry\<close>

definition lost_reconciling :: "time \<Rightarrow> JobEntry \<Rightarrow> bool" where
  "lost_reconciling now e =
     (if status e \<noteq> ''lost'' \<or> terminal_finalized_at e \<noteq> None then False
      else now - observed_at e \<le> LOST_RECHECK_S)"

definition occupies_quota :: "time \<Rightarrow> JobEntry \<Rightarrow> bool" where
  "occupies_quota now e =
     (if status e = ''running'' \<or> is_uncertain_launch e then True
      else if status e = ''queued'' \<and> (dispatch_node e \<noteq> None \<or> dispatch_token e \<noteq> None) then True
      else lost_reconciling now e)"

definition repr_opt :: "string option \<Rightarrow> string" where
  "repr_opt x = (case x of None \<Rightarrow> ''None'' | Some s \<Rightarrow> py_repr s)"

definition retry_blocked_reason :: "JobEntry \<Rightarrow> string option" where
  "retry_blocked_reason e =
     (if retry_limit e \<le> 0 then Some ''no retry budget''
      else case retried_by e of
        Some j \<Rightarrow> Some (''already retried by '' @ j)
      | None \<Rightarrow>
          if retry_limit e \<le> retry_count e
          then Some (''retry budget exhausted ('' @ show_int (retry_count e) @ ''/''
                     @ show_int (retry_limit e) @ '')'')
          else if status e \<notin> {''failed'', ''lost'', ''finished''}
          then Some ''not a retryable terminal state''
          else if is_uncertain_launch e
          then Some ''launch outcome is uncertain; a retry could double-run''
          else if status e = ''lost'' \<and> terminal_finalized_at e = None
          then Some ''lost verdict is not yet fenced for irreversible consumers''
          else
            let result = effective_result_state e in
            if result = Some ''infra_failure'' then None
            else if result = Some ''execution_failure'' then
              (let mode = (case retry_on e of None \<Rightarrow> ''infra'' | Some m \<Rightarrow> if m = [] then ''infra'' else m)
               in if mode = ''always'' then None
                  else Some ''application exit is excluded by retry_on=infra'')
            else Some (''result '' @ repr_opt result @ '' is not retryable''))"

definition retry_pending_fence :: "JobEntry \<Rightarrow> bool" where
  "retry_pending_fence e \<longleftrightarrow>
     status e = ''lost'' \<and> terminal_finalized_at e = None \<and> 0 < retry_limit e
     \<and> retried_by e = None \<and> retry_count e < retry_limit e"

text \<open>\<open>jobs/active_index.py\<close>: the rows the resident scheduler has to see.\<close>

definition active_index_member :: "time \<Rightarrow> JobEntry \<Rightarrow> bool" where
  "active_index_member now e =
     (if status e = ''queued'' \<or> occupies_quota now e then True
      else if retry_blocked_reason e = None then True
      else retry_pending_fence e)"

section \<open>Facts about single rows\<close>

lemma dependency_settled_iff:
  "dependency_settled e \<longleftrightarrow>
     status e \<in> {''finished'', ''killed'', ''lost'', ''failed'', ''skipped''}
     \<and> \<not> is_uncertain_launch e \<and> (status e = ''lost'' \<longrightarrow> terminal_finalized_at e \<noteq> None)"
  by (simp add: dependency_settled_def)

lemma settled_not_occupying [entry_rules]: "dependency_settled e \<Longrightarrow> \<not> occupies_quota now e"
  by (auto simp: dependency_settled_iff occupies_quota_def lost_reconciling_def)

lemma retryable_iff:
  "retry_blocked_reason e = None \<longleftrightarrow>
     0 < retry_limit e \<and> retried_by e = None \<and> retry_count e < retry_limit e
     \<and> status e \<in> {''failed'', ''lost'', ''finished''} \<and> \<not> is_uncertain_launch e
     \<and> (status e = ''lost'' \<longrightarrow> terminal_finalized_at e \<noteq> None)
     \<and> (effective_result_state e = Some ''infra_failure''
        \<or> effective_result_state e = Some ''execution_failure'' \<and> retry_on e = Some ''always'')"
  unfolding retry_blocked_reason_def Let_def
  by (cases "retried_by e"; cases "retry_on e") (simp_all add: not_le)

lemma retryable_settled [entry_rules]: "retry_blocked_reason e = None \<Longrightarrow> dependency_settled e"
  by (auto simp: retryable_iff dependency_settled_iff)

lemma lost_reconciling_antitone:
  "now \<le> later \<Longrightarrow> lost_reconciling later e \<Longrightarrow> lost_reconciling now e"
  by (auto simp: lost_reconciling_def split: if_splits)

lemma occupies_quota_antitone:
  "now \<le> later \<Longrightarrow> occupies_quota later e \<Longrightarrow> occupies_quota now e"
  using lost_reconciling_antitone by (auto simp: occupies_quota_def split: if_splits)

lemma active_index_member_antitone:
  "now \<le> later \<Longrightarrow> active_index_member later e \<Longrightarrow> active_index_member now e"
  using occupies_quota_antitone by (auto simp: active_index_member_def split: if_splits)

lemma finalize_cases:
  assumes "finalize_dependency_terminal_entry now e = Inr (e', dirty)"
  shows "(dirty = False \<and> e' = e)
    \<or> (dirty = True \<and> status e = ''lost'' \<and> terminal_finalized_at e = None
       \<and> LOST_RECHECK_S < now - observed_at e \<and> e' = e\<lparr>terminal_finalized_at := Some now\<rparr>)"
  using assms by (auto simp: finalize_dependency_terminal_entry_def not_le split: if_splits)

section \<open>Names\<close>

lemma dropWhile_hd: "dropWhile p xs \<noteq> [] \<Longrightarrow> \<not> p (hd (dropWhile p xs))"
  by (rule hd_dropWhile)

lemma set_sub_runs: "c \<in> set (sub_runs b s) \<Longrightarrow> name_char c"
  by (induction b s rule: sub_runs.induct) (auto simp: name_char_def split: if_splits)

lemma set_rstrip: "set (rstrip_while p s) \<subseteq> set s"
  by (auto simp: rstrip_while_def dest: set_dropWhileD)

lemma set_lstrip: "set (lstrip_while p s) \<subseteq> set s"
  by (auto simp: lstrip_while_def dest: set_dropWhileD)

lemma length_rstrip: "length (rstrip_while p s) \<le> length s"
  by (simp add: rstrip_while_def length_dropWhile_le [of p "rev s", simplified])

lemma hex_name_char: "is_hex_lower c \<Longrightarrow> name_char c"
  by (auto simp: is_hex_lower_def name_char_def is_ascii_alnum_def is_ascii_alpha_def is_ascii_lower_def)

lemma name_char_literals [simp]: "name_char CHR ''-''" "name_char CHR ''_''"
  by (simp_all add: name_char_def)

lemma job_literal_name: "\<forall>c \<in> set ''job''. name_char c"
  by (simp add: name_char_def is_ascii_alnum_def is_ascii_alpha_def is_ascii_lower_def code_def)

lemma sanitize_name_ok:
  assumes "\<forall>c \<in> set (sha nm). is_hex_lower c"
  shows "sanitize_name sha nm \<noteq> []"
    and "length (sanitize_name sha nm) \<le> MAX_SAFE_NAME_LENGTH"
    and "\<forall>c \<in> set (sanitize_name sha nm). name_char c"
proof -
  let ?clean = "rstrip_while dash_or_underscore (lstrip_while dash_or_underscore (sub_runs False nm))"
  let ?stem = "rstrip_while dash_or_underscore (take 51 ?clean)"
  have clean: "\<forall>c \<in> set ?clean. name_char c"
    using set_rstrip set_lstrip set_sub_runs by blast
  have stem: "\<forall>c \<in> set ?stem. name_char c"
    using clean set_rstrip [of dash_or_underscore "take 51 ?clean"] by (auto dest: in_set_takeD)
  have len: "length ?stem \<le> 51"
    using length_rstrip [of dash_or_underscore "take 51 ?clean"] by simp
  have dig: "\<forall>c \<in> set (take 12 (sha nm)). name_char c"
    using assms by (auto dest: in_set_takeD hex_name_char)
  show "sanitize_name sha nm \<noteq> []"
    by (simp add: sanitize_name_def Let_def)
  show "length (sanitize_name sha nm) \<le> MAX_SAFE_NAME_LENGTH"
    using len by (auto simp: sanitize_name_def Let_def min_def MAX_SAFE_NAME_LENGTH_def SAFE_NAME_DIGEST_LENGTH_def)
  show "\<forall>c \<in> set (sanitize_name sha nm). name_char c"
    using clean stem dig job_literal_name
    by (auto simp: sanitize_name_def Let_def MAX_SAFE_NAME_LENGTH_def SAFE_NAME_DIGEST_LENGTH_def)
qed

lemma new_job_id_valid_aux:
  assumes "\<forall>c \<in> set (sha nm). is_hex_lower c"
    and "length stamp = 13" "\<forall>c \<in> set stamp. name_char c"
    and "length token = 16" "\<forall>c \<in> set token. is_hex_lower c"
  shows "valid_job_id (new_job_id sha stamp token nm)"
  using assms sanitize_name_ok [of sha nm, OF assms(1)] hex_name_char
  by (auto simp: valid_job_id_def new_job_id_def MAX_JOB_ID_LENGTH_def MAX_SAFE_NAME_LENGTH_def)

end
