(* ===== verification/Custom_Env.thy ===== *)
theory Custom_Env
  imports Py_Json
begin

text \<open>
  \<open>src/dt/custom_env.py\<close>: the bounded custom environment of a job. \<open>validate\<close> accepts an
  untyped mapping and returns a name-sorted copy; \<open>parse\<close> imports names from the process
  environment. A raised \<open>CustomEnvironmentError\<close> is its message on the left.
\<close>

definition MAX_CUSTOM_ENV_VARS :: nat where "MAX_CUSTOM_ENV_VARS = 64"
definition MAX_CUSTOM_ENV_VALUE_BYTES :: nat where "MAX_CUSTOM_ENV_VALUE_BYTES = 16 * 1024"
definition MAX_CUSTOM_ENV_TOTAL_BYTES :: nat where "MAX_CUSTOM_ENV_TOTAL_BYTES = 64 * 1024"

definition RESERVED :: "string list" where
  "RESERVED = [''HOME'', ''PATH'', ''USER'', ''LOGNAME'', ''SHELL'', ''TMPDIR'', ''BASH_ENV'', ''ENV'',
     ''BASHOPTS'', ''SHELLOPTS'', ''CDPATH'', ''GLOBIGNORE'', ''IFS'', ''LD_PRELOAD'', ''LD_AUDIT'',
     ''LD_LIBRARY_PATH'', ''TMUX'', ''TMUX_TMPDIR'', ''PWD'', ''OLDPWD'', ''SHLVL'', ''UID'', ''EUID'',
     ''PPID'', ''RANDOM'', ''SRANDOM'', ''SECONDS'', ''LINENO'', ''OPTARG'', ''OPTIND'', ''FUNCNAME'',
     ''GROUPS'', ''DIRSTACK'', ''PIPESTATUS'', ''HOSTNAME'', ''HOSTTYPE'', ''MACHTYPE'', ''OSTYPE'',
     ''PROMPT_COMMAND'', ''PS0'', ''PS1'', ''PS2'', ''PS3'', ''PS4'', ''CUDA_VISIBLE_DEVICES'',
     ''NVIDIA_VISIBLE_DEVICES'', ''ROCR_VISIBLE_DEVICES'', ''VIRTUAL_ENV'', ''UV_PROJECT_ENVIRONMENT'']"

text \<open>\<open>[A-Za-z_][A-Za-z0-9_]{0,127}\<close>.\<close>

definition env_name_shape :: "string \<Rightarrow> bool" where
  "env_name_shape s \<longleftrightarrow>
     (case s of [] \<Rightarrow> False | c # r \<Rightarrow> (is_ascii_alpha c \<or> c = CHR ''_'') \<and> length r \<le> 127
        \<and> (\<forall>x \<in> set r. is_ascii_alnum x \<or> x = CHR ''_''))"

definition validate_name :: "string \<Rightarrow> nat option \<Rightarrow> string + string" where
  "validate_name nm position =
     (let label = (case position of None \<Rightarrow> ''custom env name'' | Some i \<Rightarrow> ''--env entry '' @ show_nat i) in
      if \<not> env_name_shape nm then Inl (label @ '' has an invalid variable name'')
      else if startswith nm ''DT_'' \<or> startswith nm ''BASH'' \<or> nm \<in> set RESERVED
      then Inl (''custom environment variable '' @ py_repr nm @ '' is reserved'')
      else Inr nm)"

text \<open>The loop of \<open>validate\<close>: \<open>tot\<close> is the running size, the result the accepted pairs.\<close>

fun validate_items :: "nat \<Rightarrow> (string, json) dict \<Rightarrow> string + (string, string) dict" where
  "validate_items tot [] = Inr []"
| "validate_items tot ((raw_name, raw_value) # rest) =
     bind_ok (validate_name raw_name None) (\<lambda>nm.
       case raw_value of
         JStr v \<Rightarrow>
           (let var = ''custom environment variable '' @ py_repr nm;
                value_bytes = utf8_len v;
                tot' = tot + (length nm + value_bytes + 2) in
            if nul \<in> set v then Inl (var @ '' contains a NUL byte'')
            else if MAX_CUSTOM_ENV_VALUE_BYTES < value_bytes then Inl (var @ '' exceeds the value size limit'')
            else if MAX_CUSTOM_ENV_TOTAL_BYTES < tot' then Inl ''custom environment exceeds the total size limit''
            else bind_ok (validate_items tot' rest) (\<lambda>more. Inr ((nm, v) # more)))
       | _ \<Rightarrow> Inl (''custom environment variable '' @ py_repr nm @ '' must have a string value''))"

definition validate_env :: "json \<Rightarrow> string + (string, string) dict" where
  "validate_env vals =
     (case vals of
        JObj d \<Rightarrow>
          (if MAX_CUSTOM_ENV_VARS < length d
           then Inl (''custom environment exceeds '' @ show_nat MAX_CUSTOM_ENV_VARS @ '' variables'')
           else bind_ok (validate_items 0 d) (\<lambda>result. Inr (sort_key fst result)))
      | _ \<Rightarrow> Inl ''custom environment must be a mapping'')"

fun parse_names :: "(string, string) dict \<Rightarrow> nat \<Rightarrow> (string, string) dict \<Rightarrow> string list
    \<Rightarrow> string + (string, string) dict" where
  "parse_names env i acc [] = Inr acc"
| "parse_names env i acc (raw # rest) =
     (if CHR ''='' \<in> set raw
      then Inl (''--env entry '' @ show_nat i @ '' must be a variable name, not KEY=VALUE'')
      else bind_ok (validate_name raw (Some i)) (\<lambda>nm.
        if nm \<in> set (keys acc) then Inl (''duplicate custom environment variable '' @ py_repr nm)
        else (case map_of env nm of
                None \<Rightarrow> Inl (''custom environment variable '' @ py_repr nm @ '' is not set'')
              | Some v \<Rightarrow> parse_names env (Suc i) (acc @ [(nm, v)]) rest)))"

definition json_of_env :: "(string, string) dict \<Rightarrow> json" where
  "json_of_env d = JObj (map (\<lambda>(k, v). (k, JStr v)) d)"

definition parse_env :: "(string, string) dict \<Rightarrow> string list \<Rightarrow> string + (string, string) dict" where
  "parse_env env names =
     (if MAX_CUSTOM_ENV_VARS < length names
      then Inl (''--env exceeds '' @ show_nat MAX_CUSTOM_ENV_VARS @ '' variables'')
      else bind_ok (parse_names env 1 [] names) (\<lambda>d. validate_env (json_of_env d)))"

section \<open>Facts\<close>

definition env_size :: "(string, string) dict \<Rightarrow> nat" where
  "env_size d = (\<Sum>(k, v) \<leftarrow> d. length k + utf8_len v + 2)"

text \<open>What an accepted environment guarantees.\<close>

definition safe_pair :: "string \<times> string \<Rightarrow> bool" where
  "safe_pair p \<longleftrightarrow> env_name_shape (fst p) \<and> \<not> startswith (fst p) ''DT_'' \<and> \<not> startswith (fst p) ''BASH''
     \<and> fst p \<notin> set RESERVED \<and> nul \<notin> set (snd p) \<and> utf8_len (snd p) \<le> MAX_CUSTOM_ENV_VALUE_BYTES"

lemma validate_name_Inr: "validate_name nm pos = Inr x \<longleftrightarrow>
    x = nm \<and> env_name_shape nm \<and> \<not> startswith nm ''DT_'' \<and> \<not> startswith nm ''BASH'' \<and> nm \<notin> set RESERVED"
  by (auto simp: validate_name_def Let_def)

lemma validate_items_ok:
  "validate_items tot d = Inr r \<Longrightarrow>
     d = map (\<lambda>(k, v). (k, JStr v)) r \<and> (\<forall>p \<in> set r. safe_pair p)
     \<and> (r \<noteq> [] \<longrightarrow> tot + env_size r \<le> MAX_CUSTOM_ENV_TOTAL_BYTES)"
proof (induction d arbitrary: tot r)
  case Nil
  then show ?case by simp
next
  case (Cons p rest)
  obtain nm val where p: "p = (nm, val)" by (cases p)
  with Cons.prems obtain v more where val: "val = JStr v" and r: "r = (nm, v) # more"
    and name: "validate_name nm None = Inr nm"
    and rec: "validate_items (tot + (length nm + utf8_len v + 2)) rest = Inr more"
    and lim: "nul \<notin> set v" "utf8_len v \<le> MAX_CUSTOM_ENV_VALUE_BYTES"
      "tot + (length nm + utf8_len v + 2) \<le> MAX_CUSTOM_ENV_TOTAL_BYTES"
    by (auto simp: bind_ok_Inr Let_def not_less validate_name_Inr split: json.splits if_splits)
  from name have "safe_pair (nm, v)"
    using lim by (auto simp: safe_pair_def validate_name_Inr)
  with Cons.IH [OF rec] p val r lim show ?case by (cases more) (auto simp: env_size_def)
qed

lemma env_size_sort: "env_size (sort_key fst d) = env_size d"
proof -
  have "mset (map (\<lambda>(k, v). length k + utf8_len v + 2) (sort_key fst d))
      = mset (map (\<lambda>(k, v). length k + utf8_len v + 2) d)"
    by (simp add: mset_map)
  then show ?thesis
    unfolding env_size_def by (metis sum_mset_sum_list)
qed

lemma validate_env_ok:
  assumes "validate_env j = Inr r"
  shows "\<exists>d. j = JObj d \<and> length r = length d \<and> length r \<le> MAX_CUSTOM_ENV_VARS
    \<and> sorted (keys r) \<and> mset (keys r) = mset (keys d)
    \<and> (\<forall>p \<in> set r. safe_pair p \<and> (fst p, JStr (snd p)) \<in> set d)
    \<and> (r \<noteq> [] \<longrightarrow> env_size r \<le> MAX_CUSTOM_ENV_TOTAL_BYTES)"
proof -
  from assms obtain d s where j: "j = JObj d" and v: "validate_items 0 d = Inr s"
    and r: "r = sort_key fst s" and n: "length d \<le> MAX_CUSTOM_ENV_VARS"
    by (auto simp: validate_env_def bind_ok_Inr not_less split: json.splits if_splits)
  note ok = validate_items_ok [OF v]
  then have d: "d = map (\<lambda>(k, v). (k, JStr v)) s" by blast
  then have kd: "keys d = keys s" by (auto simp: comp_def split_beta)
  have "mset (keys r) = mset (keys d)" by (simp add: kd r mset_map)
  moreover have "sorted (keys r)" by (simp add: r)
  moreover have "\<forall>p \<in> set r. safe_pair p \<and> (fst p, JStr (snd p)) \<in> set d"
    using ok by (auto simp: r d)
  moreover have "r \<noteq> [] \<longrightarrow> env_size r \<le> MAX_CUSTOM_ENV_TOTAL_BYTES"
    using ok by (auto simp: r env_size_sort)
  moreover have "length r = length d" by (simp add: r d)
  ultimately show ?thesis using j n by metis
qed

lemma validate_items_of_env:
  "\<forall>p \<in> set r. safe_pair p \<Longrightarrow> tot + env_size r \<le> MAX_CUSTOM_ENV_TOTAL_BYTES \<Longrightarrow>
   validate_items tot (map (\<lambda>(k, v). (k, JStr v)) r) = Inr r"
proof (induction r arbitrary: tot)
  case (Cons p r)
  obtain k v where p: "p = (k, v)" by (cases p)
  have k: "validate_name k None = Inr k"
    using Cons.prems p by (simp add: validate_name_Inr safe_pair_def)
  have "validate_items (tot + (length k + utf8_len v + 2)) (map (\<lambda>(k, v). (k, JStr v)) r) = Inr r"
    using Cons p by (simp add: env_size_def)
  with Cons.prems p k show ?case
    by (simp add: Let_def safe_pair_def env_size_def not_less)
qed simp

text \<open>An accepted environment is a fixed point: replaying it yields it unchanged.\<close>

lemma validate_env_fixpoint:
  assumes "validate_env j = Inr r"
  shows "validate_env (json_of_env r) = Inr r"
proof -
  from validate_env_ok [OF assms] have "length r \<le> MAX_CUSTOM_ENV_VARS" and s: "sorted (keys r)"
    and safe: "\<forall>p \<in> set r. safe_pair p"
    and size: "r \<noteq> [] \<longrightarrow> env_size r \<le> MAX_CUSTOM_ENV_TOTAL_BYTES" by auto
  have "validate_items 0 (map (\<lambda>(k, v). (k, JStr v)) r) = Inr r"
    using validate_items_of_env [OF safe, of 0] size by (cases r) auto
  moreover have "sort_key fst r = r"
    using s by (simp add: sort_key_id_if_sorted sorted_map)
  ultimately show ?thesis
    using \<open>length r \<le> MAX_CUSTOM_ENV_VARS\<close> by (simp add: validate_env_def json_of_env_def)
qed

end
