(* ===== verification/Codec_Facts.thy ===== *)
theory Codec_Facts
  imports Job_Codec
begin

text \<open>
  Facts about the registry codec. \<open>wf_entry\<close> is what the rest of the program relies on when it
  reads a row; it is stated on the typed row, clause by clause after the validators'
  messages, and \<open>decode_entry_wf\<close> shows that no document that violates it is ever accepted.
  The round trip computes what decoding returns on a document the encoder produced.
\<close>

section \<open>Reading fields off an accepted object\<close>

lemma entry_of_select [simp]:
  "job_id (entry_of a ks ld) = str_of (a ''job_id'')"
  "name (entry_of a ks ld) = str_of (a ''name'')"
  "center (entry_of a ks ld) = str_of (a ''center'')"
  "project (entry_of a ks ld) = str_of (a ''project'')"
  "node (entry_of a ks ld) = str_of (a ''node'')"
  "node_local (entry_of a ks ld) = bool_of (a ''node_local'')"
  "job_dir (entry_of a ks ld) = str_of (a ''job_dir'')"
  "session (entry_of a ks ld) = str_of (a ''session'')"
  "cmd (entry_of a ks ld) = str_of (a ''cmd'')"
  "gpus (entry_of a ks ld) = ints_of (a ''gpus'')"
  "gpu_isolation (entry_of a ks ld) = str_of (a ''gpu_isolation'')"
  "pgid (entry_of a ks ld) = opt_of int_of (a ''pgid'')"
  "status (entry_of a ks ld) = str_of (a ''status'')"
  "exit_code (entry_of a ks ld) = opt_of int_of (a ''exit_code'')"
  "git_sha (entry_of a ks ld) = opt_of str_of (a ''git_sha'')"
  "git_dirty (entry_of a ks ld) = bool_of (a ''git_dirty'')"
  "submodule_commits (entry_of a ks ld) = opt_of strdict_of (a ''submodule_commits'')"
  "snapshot_sha256 (entry_of a ks ld) = opt_of str_of (a ''snapshot_sha256'')"
  "payload_sha256 (entry_of a ks ld) = opt_of str_of (a ''payload_sha256'')"
  "artifact_manifest (entry_of a ks ld) = opt_of str_of (a ''artifact_manifest'')"
  "artifact_targets (entry_of a ks ld) = opt_of strdict_of (a ''artifact_targets'')"
  "max_hours (entry_of a ks ld) = opt_of num_of (a ''max_hours'')"
  "min_vram_mib (entry_of a ks ld) = opt_of int_of (a ''min_vram_mib'')"
  "max_vram_mib (entry_of a ks ld) = opt_of int_of (a ''max_vram_mib'')"
  "max_job_memory_mib (entry_of a ks ld) = opt_of int_of (a ''max_job_memory_mib'')"
  "created_at (entry_of a ks ld) = num_of (a ''created_at'')"
  "finished_at (entry_of a ks ld) = opt_of num_of (a ''finished_at'')"
  "updated_at (entry_of a ks ld) = opt_of num_of (a ''updated_at'')"
  "gpus_requested (entry_of a ks ld) = int_of (a ''gpus_requested'')"
  "require_path (entry_of a ks ld) = opt_of str_of (a ''require_path'')"
  "require_disk_gib (entry_of a ks ld) = opt_of int_of (a ''require_disk_gib'')"
  "pin_node (entry_of a ks ld) = opt_of str_of (a ''pin_node'')"
  "exclude_nodes (entry_of a ks ld) = opt_of strs_of (a ''exclude_nodes'')"
  "reason (entry_of a ks ld) = opt_of str_of (a ''reason'')"
  "dispatch_node (entry_of a ks ld) = opt_of str_of (a ''dispatch_node'')"
  "dispatch_token (entry_of a ks ld) = opt_of str_of (a ''dispatch_token'')"
  "dispatch_owner (entry_of a ks ld) = opt_of str_of (a ''dispatch_owner'')"
  "dispatch_claimed_at (entry_of a ks ld) = opt_of num_of (a ''dispatch_claimed_at'')"
  "placement_failures (entry_of a ks ld) = strdict_of (a ''placement_failures'')"
  "placement_attempts (entry_of a ks ld) = int_of (a ''placement_attempts'')"
  "placement_pattern (entry_of a ks ld) = opt_of str_of (a ''placement_pattern'')"
  "placement_first_failed_at (entry_of a ks ld) = opt_of num_of (a ''placement_first_failed_at'')"
  "placement_last_failed_at (entry_of a ks ld) = opt_of num_of (a ''placement_last_failed_at'')"
  "env_hash (entry_of a ks ld) = opt_of str_of (a ''env_hash'')"
  "snapshot_duration_s (entry_of a ks ld) = opt_of num_of (a ''snapshot_duration_s'')"
  "launch_duration_s (entry_of a ks ld) = opt_of num_of (a ''launch_duration_s'')"
  "launch_phases_s (entry_of a ks ld) = numdict_of (a ''launch_phases_s'')"
  "env_preexisting (entry_of a ks ld) = opt_of bool_of (a ''env_preexisting'')"
  "setup_ran (entry_of a ks ld) = opt_of bool_of (a ''setup_ran'')"
  "env_mode (entry_of a ks ld) = opt_of str_of (a ''env_mode'')"
  "env_source_job (entry_of a ks ld) = opt_of str_of (a ''env_source_job'')"
  "custom_env (entry_of a ks ld) = strdict_of (a ''custom_env'')"
  "boot_id (entry_of a ks ld) = opt_of str_of (a ''boot_id'')"
  "started_at (entry_of a ks ld) = opt_of num_of (a ''started_at'')"
  "setup_cmd (entry_of a ks ld) = opt_of str_of (a ''setup'')"
  "setup_inputs (entry_of a ks ld) = opt_of strs_of (a ''setup_inputs'')"
  "extras (entry_of a ks ld) = strs_of (a ''extras'')"
  "forked_from (entry_of a ks ld) = opt_of str_of (a ''forked_from'')"
  "after_success (entry_of a ks ld) = opt_of str_of (a ''after_success'')"
  "after_complete (entry_of a ks ld) = opt_of str_of (a ''after_complete'')"
  "after_result (entry_of a ks ld) = opt_of str_of (a ''after_result'')"
  "after_result_states (entry_of a ks ld) = strs_of (a ''after_result_states'')"
  "request_id (entry_of a ks ld) = opt_of str_of (a ''request_id'')"
  "result_state (entry_of a ks ld) = opt_of str_of (a ''result_state'')"
  "rerun_of (entry_of a ks ld) = opt_of str_of (a ''rerun_of'')"
  "retry_limit (entry_of a ks ld) = int_of (a ''retry_limit'')"
  "retry_on (entry_of a ks ld) = opt_of str_of (a ''retry_on'')"
  "retry_count (entry_of a ks ld) = int_of (a ''retry_count'')"
  "retry_of (entry_of a ks ld) = opt_of str_of (a ''retry_of'')"
  "retried_by (entry_of a ks ld) = opt_of str_of (a ''retried_by'')"
  "rerun_source_snapshot_sha256 (entry_of a ks ld) = opt_of str_of (a ''rerun_source_snapshot_sha256'')"
  "rerun_snapshot_changed (entry_of a ks ld) = opt_of bool_of (a ''rerun_snapshot_changed'')"
  "cache_source_job (entry_of a ks ld) = opt_of str_of (a ''cache_source_job'')"
  "cache_source_job_dir (entry_of a ks ld) = opt_of str_of (a ''cache_source_job_dir'')"
  "cache_source_path (entry_of a ks ld) = opt_of str_of (a ''cache_source_path'')"
  "cache_env (entry_of a ks ld) = opt_of str_of (a ''cache_env'')"
  "cache_source_env_hash (entry_of a ks ld) = opt_of str_of (a ''cache_source_env_hash'')"
  "cache_mode (entry_of a ks ld) = opt_of str_of (a ''cache_mode'')"
  "storage_layout (entry_of a ks ld) = opt_of str_of (a ''storage_layout'')"
  "worker_root (entry_of a ks ld) = opt_of str_of (a ''worker_root'')"
  "worker_roots (entry_of a ks ld) = strdict_of (a ''worker_roots'')"
  "job_relpath (entry_of a ks ld) = opt_of str_of (a ''job_relpath'')"
  "recovered_at (entry_of a ks ld) = opt_of num_of (a ''recovered_at'')"
  "code_pruned_at (entry_of a ks ld) = opt_of num_of (a ''code_pruned_at'')"
  "terminal_finalized_at (entry_of a ks ld) = opt_of num_of (a ''terminal_finalized_at'')"
  "legacy_cleanup_pending (entry_of a ks ld) = bool_of (a ''legacy_cleanup_pending'')"
  "custom_env_keys (entry_of a ks ld) = ks"
  "custom_env_loaded (entry_of a ks ld) = ld"
  by (simp_all add: entry_of_def)

lemma normalize_owner_other:
  "f \<noteq> ''dispatch_owner'' \<Longrightarrow> f \<noteq> ''dispatch_claimed_at'' \<Longrightarrow> normalize_owner a f = a f"
  by (simp add: normalize_owner_def)

lemma empty_text_to_null_other: "f \<noteq> g \<Longrightarrow> empty_text_to_null g a f = a f"
  by (simp add: empty_text_to_null_def)

lemma bound_entry_diagnostics_other:
  "f \<noteq> ''reason'' \<Longrightarrow> f \<noteq> ''placement_failures'' \<Longrightarrow> bound_entry_diagnostics a f = a f"
  by (simp add: bound_entry_diagnostics_def)

lemmas attr_other = normalize_owner_other empty_text_to_null_other bound_entry_diagnostics_other

lemma opt_nonneg: "bad_nonneg v = Inr False \<Longrightarrow> pred_option (\<lambda>t. 0 \<le> t) (opt_of num_of v)"
  by (cases "v = JNull") (auto simp: bad_nonneg_def bind_ok_Inr)

lemma num_nonneg: "bad_nonneg v = Inr False \<Longrightarrow> 0 \<le> num_of v"
  by (cases "v = JNull") (auto simp: bad_nonneg_def bind_ok_Inr)

lemma opt_positive: "bad_positive v = Inr False \<Longrightarrow> pred_option (\<lambda>t. 0 < t) (opt_of num_of v)"
  by (cases "v = JNull") (auto simp: bad_positive_def bind_ok_Inr)

lemma opt_int:
  "\<not> bad_int p v \<Longrightarrow> (\<And>i. \<not> p i \<Longrightarrow> q i) \<Longrightarrow> pred_option q (opt_of int_of v)"
  by (cases "v = JNull") (auto simp: bad_int_def)

section \<open>What an accepted row satisfies\<close>

definition wf_lifecycle :: "JobEntry \<Rightarrow> bool" where
  "wf_lifecycle e \<longleftrightarrow>
     status e \<in> set JOB_STATUSES
     \<and> length (gpus e) \<le> MAX_JOB_COLLECTION_ITEMS \<and> distinct (gpus e) \<and> (\<forall>g \<in> set (gpus e). 0 \<le> g)
     \<and> pred_option (\<lambda>i. 0 < i) (pgid e)
     \<and> pred_option (\<lambda>i. 0 \<le> i \<and> i \<le> 255) (exit_code e)
     \<and> 0 \<le> gpus_requested e
     \<and> pred_option (\<lambda>r. r \<in> set RESULT_STATES) (result_state e)
     \<and> 0 \<le> created_at e
     \<and> pred_option (\<lambda>t. 0 \<le> t) (started_at e) \<and> pred_option (\<lambda>t. 0 \<le> t) (finished_at e)
     \<and> pred_option (\<lambda>t. 0 \<le> t) (terminal_finalized_at e)"

text \<open>
  The dispatch fence: a token of 32 hexadecimal digits exactly when a node is recorded, only
  on a queued row; an owner or a claim time only beside a token. Finality only on a lost row.
  A bounded retry policy.
\<close>

definition wf_provenance :: "JobEntry \<Rightarrow> bool" where
  "wf_provenance e \<longleftrightarrow>
     (dispatch_node e = None \<longleftrightarrow> dispatch_token e = None)
     \<and> pred_option (is_hex 32) (dispatch_token e)
     \<and> (dispatch_node e \<noteq> None \<longrightarrow> status e = ''queued'')
     \<and> (dispatch_token e = None \<longrightarrow> dispatch_owner e = None \<and> dispatch_claimed_at e = None)
     \<and> pred_option is_owner_identity (dispatch_owner e)
     \<and> (terminal_finalized_at e \<noteq> None \<longrightarrow> status e = ''lost'')
     \<and> 0 \<le> retry_limit e \<and> retry_limit e \<le> MAX_RETRY_LIMIT
     \<and> 0 \<le> retry_count e \<and> retry_count e \<le> MAX_RETRY_LIMIT
     \<and> pred_option (\<lambda>r. r \<in> set RETRY_ON_MODES) (retry_on e)
     \<and> (legacy_cleanup_pending e \<longrightarrow>
          storage_layout e = Some ROLE_LAYOUT \<and> status e \<in> {''finished'', ''killed''} \<and> node e \<noteq> ''-''
          \<and> worker_root e \<noteq> None \<and> job_relpath e = Some (''jobs/'' @ job_id e))"

definition wf_limits :: "JobEntry \<Rightarrow> bool" where
  "wf_limits e \<longleftrightarrow>
     pred_option (is_hex 64) (snapshot_sha256 e) \<and> pred_option (is_hex 64) (payload_sha256 e)
     \<and> pred_option (is_hex 12) (env_hash e)
     \<and> pred_option (\<lambda>t. 0 < t) (max_hours e)
     \<and> pred_option (\<lambda>i. 0 < i) (min_vram_mib e)
     \<and> (min_vram_mib e \<noteq> None \<longrightarrow> gpus_requested e \<noteq> 0)
     \<and> pred_option (\<lambda>i. 0 \<le> i) (require_disk_gib e)
     \<and> 0 \<le> placement_attempts e"

definition wf_contracts :: "JobEntry \<Rightarrow> bool" where
  "wf_contracts e \<longleftrightarrow>
     set (after_result_states e) \<subseteq> set RESULT_STATES \<and> distinct (after_result_states e)
     \<and> pred_option (\<lambda>rt. \<not> bad_root rt) (worker_root e)
     \<and> (\<forall>kv \<in> set (worker_roots e). \<not> bad_root (snd kv))
     \<and> pred_option (\<lambda>p. \<not> is_absolute p \<and> posix_parts p \<noteq> [] \<and> ''..'' \<notin> set (posix_parts p)) (job_relpath e)
     \<and> gpu_isolation e = ''advisory''"

definition wf_entry :: "JobEntry \<Rightarrow> bool" where
  "wf_entry e \<longleftrightarrow> valid_job_id (job_id e)
     \<and> wf_lifecycle e \<and> wf_provenance e \<and> wf_limits e \<and> wf_contracts e
     \<and> storage_layout e \<in> {Some LEGACY_LAYOUT, Some ROLE_LAYOUT} \<and> updated_at e \<noteq> None
     \<and> pred_option (\<lambda>r. length r \<le> MAX_JOB_DIAGNOSTIC_CHARS) (reason e)"

section \<open>Soundness of the validators\<close>

lemma JInt_int_of: "is_JInt v \<Longrightarrow> JInt (int_of v) = v"
  by (cases v) auto

lemma JStr_str_of: "is_JStr v \<Longrightarrow> JStr (str_of v) = v"
  by (cases v) auto

lemma distinct_ints_of:
  assumes "\<forall>g \<in> set xs. is_JInt g" and "distinct xs"
  shows "distinct (map int_of xs)"
proof -
  have "inj_on int_of (set xs)"
    using assms(1) by (intro inj_on_inverseI [of _ JInt]) (auto simp: JInt_int_of)
  with assms(2) show ?thesis by (simp add: distinct_map)
qed

lemma distinct_strs_of:
  assumes "\<forall>g \<in> set xs. is_JStr g" and "distinct xs"
  shows "distinct (map str_of xs)"
proof -
  have "inj_on str_of (set xs)"
    using assms(1) by (intro inj_on_inverseI [of _ JStr]) (auto simp: JStr_str_of)
  with assms(2) show ?thesis by (simp add: distinct_map)
qed

lemma opt_str_in:
  "(v = JNull \<or> is_JStr v \<and> P (str_of v)) \<Longrightarrow> pred_option P (opt_of str_of v)"
  by (cases "v = JNull") auto

lemma lifecycle_sound:
  assumes "validate_entry_lifecycle a = None"
  shows "wf_lifecycle (entry_of (normalize_owner a) ks ld)"
proof -
  note ok = assms [unfolded validate_entry_lifecycle_def first_of_None, simplified]
  have gpus: "distinct (ints_of (a ''gpus''))" "\<forall>g \<in> set (ints_of (a ''gpus'')). 0 \<le> g"
    "length (ints_of (a ''gpus'')) \<le> MAX_JOB_COLLECTION_ITEMS"
    using ok distinct_ints_of [of "list_items (a ''gpus'')"] by (auto simp: ints_of_def not_less)
  have ints: "pred_option (\<lambda>i. 0 < i) (opt_of int_of (a ''pgid''))"
    "pred_option (\<lambda>i. 0 \<le> i \<and> i \<le> 255) (opt_of int_of (a ''exit_code''))"
    using ok by - (elim conjE, rule opt_int, assumption, simp)+
  have res: "pred_option (\<lambda>r. r \<in> set RESULT_STATES) (opt_of str_of (a ''result_state''))"
    using ok by (intro opt_str_in) blast
  have times: "0 \<le> num_of (a ''created_at'')"
    "pred_option (\<lambda>t. 0 \<le> t) (opt_of num_of (a ''started_at''))"
    "pred_option (\<lambda>t. 0 \<le> t) (opt_of num_of (a ''finished_at''))"
    "pred_option (\<lambda>t. 0 \<le> t) (opt_of num_of (a ''terminal_finalized_at''))"
    using ok by (simp_all add: num_nonneg opt_nonneg)
  show ?thesis
    using ok gpus ints res times by (simp add: wf_lifecycle_def attr_other not_less)
qed

lemma collections_text:
  assumes "validate_entry_provenance a = None" and "f \<in> set OPTIONAL_TEXT"
  shows "a f = JNull \<or> is_JStr (a f)"
proof -
  from assms(1) have "\<forall>f \<in> set OPTIONAL_TEXT. is_text_or_null (a f)"
    unfolding validate_entry_provenance_def first_of_None by simp
  with assms(2) show ?thesis by (auto simp: is_text_or_null_def)
qed

lemma opt_None_iff: "opt_of f v = None \<longleftrightarrow> v = JNull"
  by (simp add: opt_of_def)

lemma opt_str_eq: "v = JNull \<or> is_JStr v \<Longrightarrow> opt_of str_of v = Some s \<longleftrightarrow> v = JStr s"
  by (cases v) (auto simp: opt_of_def)

lemma in_text_set_True: "in_text_set v xs = Inr True \<Longrightarrow> is_JStr v \<and> str_of v \<in> set xs"
  by (cases v) auto

lemma provenance_sound:
  assumes p: "validate_entry_provenance a = None" and l: "validate_entry_lifecycle a = None"
  shows "wf_provenance (entry_of (normalize_owner a) ks ld)"
proof -
  note ok = p [unfolded validate_entry_provenance_def first_of_None, simplified]
  have opt_text: "a ''dispatch_token'' = JNull \<or> is_JStr (a ''dispatch_token'')"
    "a ''job_relpath'' = JNull \<or> is_JStr (a ''job_relpath'')"
    "a ''storage_layout'' = JNull \<or> is_JStr (a ''storage_layout'')"
    using collections_text [OF p] by (simp_all add: OPTIONAL_TEXT_def)
  have req: "is_JStr (a ''status'')" "is_JStr (a ''node'')"
    using l [unfolded validate_entry_lifecycle_def first_of_None, simplified] by simp_all
  have st: "str_of (a ''status'') = s \<longleftrightarrow> a ''status'' = JStr s" "str_of (a ''node'') = s \<longleftrightarrow> a ''node'' = JStr s" for s
    using req by (auto elim: is_JStr.elims)
  have hex: "a ''dispatch_token'' = JNull \<or> is_hex 32 (str_of (a ''dispatch_token''))"
    and owner: "a ''dispatch_owner'' = JNull
      \<or> is_JStr (a ''dispatch_owner'') \<and> is_owner_identity (str_of (a ''dispatch_owner''))"
    and trigger: "(if a ''retry_on'' = JNull then Inr False
      else bind_ok (in_text_set (a ''retry_on'') RETRY_ON_MODES) (\<lambda>b. Inr (\<not> b))) = Inr False"
    using ok by argo+
  have tok: "pred_option (is_hex 32) (opt_of str_of (a ''dispatch_token''))"
    using hex opt_text by (intro opt_str_in) blast
  have own: "pred_option is_owner_identity (opt_of str_of (normalize_owner a ''dispatch_owner''))"
    using owner by (intro opt_str_in) (auto simp: normalize_owner_def)
  have retry: "pred_option (\<lambda>r. r \<in> set RETRY_ON_MODES) (opt_of str_of (a ''retry_on''))"
    using trigger in_text_set_True [of "a ''retry_on''" RETRY_ON_MODES]
    by (intro opt_str_in) (auto simp: bind_ok_Inr split: if_splits)
  have gone: "a ''dispatch_token'' = JNull \<Longrightarrow> normalize_owner a ''dispatch_owner'' = JNull"
    "a ''dispatch_token'' = JNull \<Longrightarrow> normalize_owner a ''dispatch_claimed_at'' = JNull"
    by (simp_all add: normalize_owner_def)
  have fence: "(a ''dispatch_node'' = JNull) = (a ''dispatch_token'' = JNull)"
    "a ''dispatch_node'' \<noteq> JNull \<Longrightarrow> a ''status'' = JStr ''queued''"
    "a ''terminal_finalized_at'' \<noteq> JNull \<Longrightarrow> a ''status'' = JStr ''lost''"
    using ok by argo+
  have limits: "0 \<le> int_of (a ''retry_limit'')" "int_of (a ''retry_limit'') \<le> MAX_RETRY_LIMIT"
    "0 \<le> int_of (a ''retry_count'')" "int_of (a ''retry_count'') \<le> MAX_RETRY_LIMIT"
    using ok by argo+
  have cleanup: "bool_of (a ''legacy_cleanup_pending'') \<Longrightarrow>
      a ''storage_layout'' = JStr ROLE_LAYOUT
      \<and> (a ''status'' = JStr ''finished'' \<or> a ''status'' = JStr ''killed'') \<and> a ''node'' \<noteq> JStr ''-''
      \<and> a ''worker_root'' \<noteq> JNull \<and> a ''job_relpath'' = JStr (''jobs/'' @ str_of (a ''job_id''))"
    using ok by simp
  show ?thesis
    unfolding wf_provenance_def entry_of_select
    using tok own retry fence limits cleanup gone opt_text
    by (simp add: attr_other opt_None_iff opt_str_eq st)
qed

lemma limits_sound:
  assumes "validate_entry_limits a = None" and int: "is_JInt (a ''gpus_requested'')"
  shows "wf_limits (entry_of a ks ld)"
proof -
  note ok = assms(1) [unfolded validate_entry_limits_def first_of_None, simplified]
  have hashes: "pred_option (is_hex 64) (opt_of str_of (a ''snapshot_sha256''))"
    "pred_option (is_hex 64) (opt_of str_of (a ''payload_sha256''))"
    "pred_option (is_hex 12) (opt_of str_of (a ''env_hash''))"
    using ok by - (rule opt_str_in, argo)+
  have ints: "pred_option (\<lambda>i. 0 < i) (opt_of int_of (a ''min_vram_mib''))"
    "pred_option (\<lambda>i. 0 \<le> i) (opt_of int_of (a ''require_disk_gib''))"
    using ok by - (elim conjE, rule opt_int, assumption, simp)+
  have hours: "pred_option (\<lambda>t. 0 < t) (opt_of num_of (a ''max_hours''))"
    using ok by (simp add: opt_positive)
  have vram: "a ''min_vram_mib'' = JNull \<or> a ''gpus_requested'' \<noteq> JInt 0"
    and att: "\<not> int_of (a ''placement_attempts'') < 0"
    using ok by argo+
  have "a ''min_vram_mib'' = JNull \<or> int_of (a ''gpus_requested'') \<noteq> 0"
    using vram JInt_int_of [OF int] by metis
  then show ?thesis
    unfolding wf_limits_def entry_of_select
    using hashes ints hours att by (auto simp: opt_None_iff not_less)
qed

lemma contracts_sound:
  assumes "validate_entry_contracts a = None"
    and rel: "a ''job_relpath'' = JNull \<or> is_JStr (a ''job_relpath'')"
    and wr: "a ''worker_root'' = JNull \<or> is_JStr (a ''worker_root'')"
  shows "wf_contracts (entry_of a ks ld)"
    and "a ''storage_layout'' \<in> {JNull, JStr LEGACY_LAYOUT, JStr ROLE_LAYOUT}"
proof -
  note ok = assms(1) [unfolded validate_entry_contracts_def first_of_None, simplified]
  let ?xs = "list_items (a ''after_result_states'')"
  have states: "\<forall>x \<in> set ?xs. is_JStr x" "distinct ?xs" "\<forall>x \<in> set ?xs. str_of x \<in> set RESULT_STATES"
    and root: "a ''worker_root'' = JNull \<or> \<not> bad_root (str_of (a ''worker_root''))"
    and roots: "\<forall>kv \<in> set (obj_items (a ''worker_roots'')). \<not> bad_root (str_of (snd kv))"
    and path: "a ''job_relpath'' = JNull \<or> \<not> is_absolute (str_of (a ''job_relpath''))
      \<and> posix_parts (str_of (a ''job_relpath'')) \<noteq> [] \<and> ''..'' \<notin> set (posix_parts (str_of (a ''job_relpath'')))"
    and iso: "a ''gpu_isolation'' = JStr ''advisory''"
    and lay: "a ''storage_layout'' = JNull \<or> a ''storage_layout'' = JStr LEGACY_LAYOUT \<or> a ''storage_layout'' = JStr ROLE_LAYOUT"
    using ok by argo+
  have states': "set (strs_of (a ''after_result_states'')) \<subseteq> set RESULT_STATES" "distinct (strs_of (a ''after_result_states''))"
    using states distinct_strs_of by (auto simp: strs_of_def)
  have opts: "pred_option (\<lambda>rt. \<not> bad_root rt) (opt_of str_of (a ''worker_root''))"
    "pred_option (\<lambda>p. \<not> is_absolute p \<and> posix_parts p \<noteq> [] \<and> ''..'' \<notin> set (posix_parts p))
       (opt_of str_of (a ''job_relpath''))"
    using root path rel wr by - (rule opt_str_in, blast)+
  have "\<forall>kv \<in> set (strdict_of (a ''worker_roots'')). \<not> bad_root (snd kv)"
    using roots by (auto simp: strdict_of_def)
  then show "wf_contracts (entry_of a ks ld)"
    unfolding wf_contracts_def entry_of_select using states' opts iso by simp
  show "a ''storage_layout'' \<in> {JNull, JStr LEGACY_LAYOUT, JStr ROLE_LAYOUT}"
    using lay by simp
qed

section \<open>Soundness of decoding\<close>

lemma fill_defaults_select [simp]:
  "job_id (fill_defaults mt e) = job_id e"
  "name (fill_defaults mt e) = name e"
  "center (fill_defaults mt e) = center e"
  "project (fill_defaults mt e) = project e"
  "node (fill_defaults mt e) = node e"
  "node_local (fill_defaults mt e) = node_local e"
  "job_dir (fill_defaults mt e) = job_dir e"
  "session (fill_defaults mt e) = session e"
  "cmd (fill_defaults mt e) = cmd e"
  "gpus (fill_defaults mt e) = gpus e"
  "gpu_isolation (fill_defaults mt e) = gpu_isolation e"
  "pgid (fill_defaults mt e) = pgid e"
  "status (fill_defaults mt e) = status e"
  "exit_code (fill_defaults mt e) = exit_code e"
  "git_sha (fill_defaults mt e) = git_sha e"
  "git_dirty (fill_defaults mt e) = git_dirty e"
  "submodule_commits (fill_defaults mt e) = submodule_commits e"
  "snapshot_sha256 (fill_defaults mt e) = snapshot_sha256 e"
  "payload_sha256 (fill_defaults mt e) = payload_sha256 e"
  "artifact_manifest (fill_defaults mt e) = artifact_manifest e"
  "artifact_targets (fill_defaults mt e) = artifact_targets e"
  "max_hours (fill_defaults mt e) = max_hours e"
  "min_vram_mib (fill_defaults mt e) = min_vram_mib e"
  "max_vram_mib (fill_defaults mt e) = max_vram_mib e"
  "max_job_memory_mib (fill_defaults mt e) = max_job_memory_mib e"
  "created_at (fill_defaults mt e) = created_at e"
  "finished_at (fill_defaults mt e) = finished_at e"
  "gpus_requested (fill_defaults mt e) = gpus_requested e"
  "require_path (fill_defaults mt e) = require_path e"
  "require_disk_gib (fill_defaults mt e) = require_disk_gib e"
  "pin_node (fill_defaults mt e) = pin_node e"
  "exclude_nodes (fill_defaults mt e) = exclude_nodes e"
  "reason (fill_defaults mt e) = reason e"
  "dispatch_node (fill_defaults mt e) = dispatch_node e"
  "dispatch_token (fill_defaults mt e) = dispatch_token e"
  "dispatch_owner (fill_defaults mt e) = dispatch_owner e"
  "dispatch_claimed_at (fill_defaults mt e) = dispatch_claimed_at e"
  "placement_failures (fill_defaults mt e) = placement_failures e"
  "placement_attempts (fill_defaults mt e) = placement_attempts e"
  "placement_pattern (fill_defaults mt e) = placement_pattern e"
  "placement_first_failed_at (fill_defaults mt e) = placement_first_failed_at e"
  "placement_last_failed_at (fill_defaults mt e) = placement_last_failed_at e"
  "env_hash (fill_defaults mt e) = env_hash e"
  "snapshot_duration_s (fill_defaults mt e) = snapshot_duration_s e"
  "launch_duration_s (fill_defaults mt e) = launch_duration_s e"
  "launch_phases_s (fill_defaults mt e) = launch_phases_s e"
  "env_preexisting (fill_defaults mt e) = env_preexisting e"
  "setup_ran (fill_defaults mt e) = setup_ran e"
  "env_mode (fill_defaults mt e) = env_mode e"
  "env_source_job (fill_defaults mt e) = env_source_job e"
  "custom_env (fill_defaults mt e) = custom_env e"
  "custom_env_keys (fill_defaults mt e) = custom_env_keys e"
  "custom_env_loaded (fill_defaults mt e) = custom_env_loaded e"
  "boot_id (fill_defaults mt e) = boot_id e"
  "started_at (fill_defaults mt e) = started_at e"
  "setup_cmd (fill_defaults mt e) = setup_cmd e"
  "setup_inputs (fill_defaults mt e) = setup_inputs e"
  "extras (fill_defaults mt e) = extras e"
  "forked_from (fill_defaults mt e) = forked_from e"
  "after_success (fill_defaults mt e) = after_success e"
  "after_complete (fill_defaults mt e) = after_complete e"
  "after_result (fill_defaults mt e) = after_result e"
  "after_result_states (fill_defaults mt e) = after_result_states e"
  "request_id (fill_defaults mt e) = request_id e"
  "result_state (fill_defaults mt e) = result_state e"
  "rerun_of (fill_defaults mt e) = rerun_of e"
  "retry_limit (fill_defaults mt e) = retry_limit e"
  "retry_on (fill_defaults mt e) = retry_on e"
  "retry_count (fill_defaults mt e) = retry_count e"
  "retry_of (fill_defaults mt e) = retry_of e"
  "retried_by (fill_defaults mt e) = retried_by e"
  "rerun_source_snapshot_sha256 (fill_defaults mt e) = rerun_source_snapshot_sha256 e"
  "rerun_snapshot_changed (fill_defaults mt e) = rerun_snapshot_changed e"
  "cache_source_job (fill_defaults mt e) = cache_source_job e"
  "cache_source_job_dir (fill_defaults mt e) = cache_source_job_dir e"
  "cache_source_path (fill_defaults mt e) = cache_source_path e"
  "cache_env (fill_defaults mt e) = cache_env e"
  "cache_source_env_hash (fill_defaults mt e) = cache_source_env_hash e"
  "cache_mode (fill_defaults mt e) = cache_mode e"
  "worker_root (fill_defaults mt e) = worker_root e"
  "worker_roots (fill_defaults mt e) = worker_roots e"
  "job_relpath (fill_defaults mt e) = job_relpath e"
  "recovered_at (fill_defaults mt e) = recovered_at e"
  "code_pruned_at (fill_defaults mt e) = code_pruned_at e"
  "terminal_finalized_at (fill_defaults mt e) = terminal_finalized_at e"
  "legacy_cleanup_pending (fill_defaults mt e) = legacy_cleanup_pending e"
  by (simp_all add: fill_defaults_def Let_def)

lemma fill_defaults_layout: "storage_layout (fill_defaults mt e) =
    Some (case storage_layout e of None \<Rightarrow> LEGACY_LAYOUT | Some x \<Rightarrow> x)"
  by (auto simp: fill_defaults_def Let_def split: option.splits)

lemma fill_defaults_updated: "updated_at (fill_defaults mt e) \<noteq> None"
  by (simp add: fill_defaults_def Let_def)

lemma wf_fill_defaults:
  "wf_lifecycle e \<Longrightarrow> wf_lifecycle (fill_defaults mt e)"
  "wf_provenance e \<Longrightarrow> wf_provenance (fill_defaults mt e)"
  "wf_limits e \<Longrightarrow> wf_limits (fill_defaults mt e)"
  "wf_contracts e \<Longrightarrow> wf_contracts (fill_defaults mt e)"
     apply (simp add: wf_lifecycle_def)
    apply (unfold wf_provenance_def fill_defaults_select fill_defaults_layout)
    apply (elim conjE, intro conjI; simp)
   apply (simp_all add: wf_limits_def wf_contracts_def)
  done

text \<open>The stages of a successful decode.\<close>

lemma decode_entryE:
  assumes "decode_entry now mt expected private raw = Inr e"
  obtains d payload env a0 a where "raw = JObj d"
    "is_JStr (json_get d ''job_id'')" "valid_job_id (str_of (json_get d ''job_id''))"
    "expected = None \<or> expected = Some (str_of (json_get d ''job_id''))"
    "payload = filter (\<lambda>kv. fst kv \<in> set ENTRY_FIELDS) d"
    "validate_env (case map_of payload ''custom_env'' of None \<Rightarrow> JObj [] | Some v \<Rightarrow> v) = Inr env"
    "job_entry_init now (AList.update ''custom_env'' (json_of_env (if private then env else [])) payload) = Inr a0"
    "a = empty_text_to_null ''cache_source_env_hash'' (empty_text_to_null ''env_hash'' (bound_entry_diagnostics a0))"
    "validate_entry a = None"
    "e = fill_defaults mt (entry_of (normalize_owner a) (sort (keys env)) private)"
proof -
  obtain d where raw: "raw = JObj d"
    using assms by (cases raw) (simp_all add: decode_entry_def)
  let ?rid = "json_get d ''job_id''"
  have safe: "is_JStr ?rid \<and> valid_job_id (str_of ?rid)"
    using assms by (rule contrapos_pp) (auto simp: decode_entry_def raw Let_def)
  have match: "expected = None \<or> expected = Some (str_of ?rid)"
    using assms by (rule contrapos_pp) (auto simp: decode_entry_def raw Let_def)
  obtain payload where pay: "payload = filter (\<lambda>kv. fst kv \<in> set ENTRY_FIELDS) d" by blast
  have "bind_ok (validate_env (case map_of payload ''custom_env'' of None \<Rightarrow> JObj [] | Some v \<Rightarrow> v)) (\<lambda>env.
          bind_ok (job_entry_init now
                     (AList.update ''custom_env'' (json_of_env (if private then env else [])) payload)) (\<lambda>a0.
            let a = empty_text_to_null ''cache_source_env_hash''
                      (empty_text_to_null ''env_hash'' (bound_entry_diagnostics a0)) in
            case validate_entry a of
              Some m \<Rightarrow> Inl m
            | None \<Rightarrow> Inr (fill_defaults mt (entry_of (normalize_owner a) (sort (keys env)) private)))) = Inr e"
    using assms safe match by (auto simp only: decode_entry_def raw json.case Let_def pay if_False simp_thms)
  then obtain env a0 where env: "validate_env (case map_of payload ''custom_env'' of None \<Rightarrow> JObj [] | Some v \<Rightarrow> v) = Inr env"
    and init: "job_entry_init now (AList.update ''custom_env'' (json_of_env (if private then env else [])) payload) = Inr a0"
    and rest: "(let a = empty_text_to_null ''cache_source_env_hash''
                      (empty_text_to_null ''env_hash'' (bound_entry_diagnostics a0)) in
            case validate_entry a of
              Some m \<Rightarrow> Inl m
            | None \<Rightarrow> Inr (fill_defaults mt (entry_of (normalize_owner a) (sort (keys env)) private))) = Inr e"
    unfolding bind_ok_Inr by blast
  obtain a where a: "a = empty_text_to_null ''cache_source_env_hash''
      (empty_text_to_null ''env_hash'' (bound_entry_diagnostics a0))" by blast
  from rest have "validate_entry a = None
      \<and> e = fill_defaults mt (entry_of (normalize_owner a) (sort (keys env)) private)"
    by (auto simp only: Let_def a [symmetric] sum.inject split: option.splits)
  with raw safe match pay env init a that show thesis by blast
qed

lemma map_of_filter_keys: "map_of (filter (\<lambda>kv. fst kv \<in> S) d) k = (if k \<in> S then map_of d k else None)"
  by (induction d) auto

lemma job_entry_init_get:
  "job_entry_init now payload = Inr a \<Longrightarrow> map_of payload f = Some v \<Longrightarrow> a f = v"
  by (auto simp: job_entry_init_def Let_def split: if_splits)

lemma decode_entry_job_id:
  assumes "decode_entry now mt expected private (JObj d) = Inr e"
  shows "json_get d ''job_id'' = JStr (job_id e)"
  using assms
proof (rule decode_entryE)
  fix d' payload env a0 a
  assume d: "JObj d = JObj d'" and str: "is_JStr (json_get d' ''job_id'')"
    and pay: "payload = filter (\<lambda>kv. fst kv \<in> set ENTRY_FIELDS) d'"
    and init: "job_entry_init now (AList.update ''custom_env'' (json_of_env (if private then env else [])) payload) = Inr a0"
    and a: "a = empty_text_to_null ''cache_source_env_hash'' (empty_text_to_null ''env_hash'' (bound_entry_diagnostics a0))"
    and e: "e = fill_defaults mt (entry_of (normalize_owner a) (sort (keys env)) private)"
  have field: "''job_id'' \<in> set ENTRY_FIELDS" by (simp add: ENTRY_FIELDS_def)
  have some: "map_of d' ''job_id'' = Some (json_get d' ''job_id'')"
    using str by (auto simp: json_get_def split: option.splits)
  then have "a0 ''job_id'' = json_get d' ''job_id''"
    using job_entry_init_get [OF init] field by (simp add: pay update_conv' map_of_filter_keys)
  then have "job_id e = str_of (json_get d' ''job_id'')"
    by (simp add: e a attr_other)
  with str d show ?thesis by (simp add: JStr_str_of)
qed

lemma bound_reason:
  "length (str_of (bound_entry_diagnostics a ''reason'')) \<le> MAX_JOB_DIAGNOSTIC_CHARS"
  by (cases "a ''reason''") (simp_all add: bound_entry_diagnostics_def bound_text_def length_excerpt)

lemma decode_entry_wf:
  assumes "decode_entry now mt expected private raw = Inr e"
  shows "wf_entry e"
  using assms
proof (rule decode_entryE)
  fix d payload env a0 a
  assume raw: "raw = JObj d" and id: "valid_job_id (str_of (json_get d ''job_id''))"
    and a: "a = empty_text_to_null ''cache_source_env_hash'' (empty_text_to_null ''env_hash'' (bound_entry_diagnostics a0))"
    and val: "validate_entry a = None"
    and e: "e = fill_defaults mt (entry_of (normalize_owner a) (sort (keys env)) private)"
  from val have l: "validate_entry_lifecycle a = None" and p: "validate_entry_provenance a = None"
    and m: "validate_entry_limits (normalize_owner a) = None" and c: "validate_entry_contracts (normalize_owner a) = None"
    unfolding validate_entry_def first_of_None by simp_all
  have "is_JInt (a ''gpus_requested'')"
    using l unfolding validate_entry_lifecycle_def first_of_None by simp
  then have int: "is_JInt (normalize_owner a ''gpus_requested'')" by (simp add: attr_other)
  have opt: "normalize_owner a ''job_relpath'' = JNull \<or> is_JStr (normalize_owner a ''job_relpath'')"
    "normalize_owner a ''worker_root'' = JNull \<or> is_JStr (normalize_owner a ''worker_root'')"
    using collections_text [OF p] by (simp_all add: OPTIONAL_TEXT_def attr_other)
  have lay: "storage_layout e \<in> {Some LEGACY_LAYOUT, Some ROLE_LAYOUT}"
    using contracts_sound(2) [OF c opt] by (auto simp: e fill_defaults_layout)
  have reason: "pred_option (\<lambda>r. length r \<le> MAX_JOB_DIAGNOSTIC_CHARS) (reason e)"
    using bound_reason [of a0] by (simp add: e a attr_other opt_of_def)
  have "valid_job_id (job_id e)"
    using decode_entry_job_id [OF assms [unfolded raw]] id by simp
  with lay reason show ?thesis
    using wf_fill_defaults(1) [OF lifecycle_sound [OF l]] wf_fill_defaults(2) [OF provenance_sound [OF p l]]
      wf_fill_defaults(3) [OF limits_sound [OF m int]] wf_fill_defaults(4) [OF contracts_sound(1) [OF c opt]]
      fill_defaults_updated
    by (simp add: wf_entry_def e)
qed

lemma decode_registry_documentE:
  assumes "decode_registry_document sr now mt expected private raw = Inr e"
  obtains doc where "decode_entry now mt expected private doc = Inr e"
    and "raw = doc \<or> (\<exists>d. raw = JObj d \<and> json_get d ''schema_version'' = JStr REGISTRY_SCHEMA_VERSION
            \<and> set (keys d) = {''schema_version'', ''job''} \<and> json_get d ''job'' = doc)"
  using assms unfolding decode_registry_document_def Let_def
  by (cases raw) (auto simp: json_get_def split: option.splits if_splits json.splits)

end
