(* ===== verification/Codec_Round_Trip.thy ===== *)
theory Codec_Round_Trip
  imports Codec_Facts
begin

text \<open>
  The registry round trip. \<open>normal_entry\<close> is the row a save followed by a load yields: the
  same row with its diagnostics bounded, an empty environment hash read as absent, an owner
  without a token dropped, its private environment sorted, and the two defaults of older
  records filled in. The properties of decoding and encoding are stated here.
\<close>

section \<open>The document of a row\<close>

definition doc_attrs :: "JobEntry \<Rightarrow> attrs" where
  "doc_attrs e f = json_get (document_of e) f"

lemma keys_document: "keys (document_of e) = ENTRY_FIELDS"
  by (simp add: document_of_def ENTRY_FIELDS_def)

lemma distinct_fields: "distinct ENTRY_FIELDS"
  by code_simp

lemma json_get_distinct: "distinct (keys d) \<Longrightarrow> list_all (\<lambda>kv. json_get d (fst kv) = snd kv) d"
  by (auto simp: list_all_iff json_get_def)

lemma doc_attrs_all: "list_all (\<lambda>kv. doc_attrs e (fst kv) = snd kv) (document_of e)"
  using json_get_distinct [of "document_of e"] distinct_fields by (simp add: keys_document doc_attrs_def)

lemma list_all_Cons_Nil: "list_all p [] = True" "list_all p (x # xs) = (p x \<and> list_all p xs)"
  by simp_all

lemmas doc_attrs_fields [codec_simps] = doc_attrs_all [unfolded document_of_def list_all_Cons_Nil fst_conv snd_conv]

lemma filter_document: "filter (\<lambda>kv. fst kv \<in> set ENTRY_FIELDS) (document_of e) = document_of e"
proof (rule filter_True, rule ballI)
  fix kv assume "kv \<in> set (document_of e)"
  then have "fst kv \<in> set (keys (document_of e))" by simp
  then show "fst kv \<in> set ENTRY_FIELDS" by (simp only: keys_document)
qed

lemma required_fields: "set REQUIRED_FIELDS \<subseteq> set ENTRY_FIELDS"
  by (simp add: REQUIRED_FIELDS_def ENTRY_FIELDS_def)

lemma default_fields: "set (keys (entry_defaults now)) \<subseteq> set ENTRY_FIELDS"
  by (simp add: entry_defaults_def ENTRY_FIELDS_def)

lemma custom_env_field: "''custom_env'' \<in> set ENTRY_FIELDS" "''job_id'' \<in> set ENTRY_FIELDS"
  "''schema_version'' \<notin> set ENTRY_FIELDS"
  by (simp_all add: ENTRY_FIELDS_def)

lemma map_of_document: "f \<in> set ENTRY_FIELDS \<Longrightarrow> map_of (document_of e) f = Some (doc_attrs e f)"
  "f \<notin> set ENTRY_FIELDS \<Longrightarrow> map_of (document_of e) f = None"
proof -
  have iff: "map_of (document_of e) f = None \<longleftrightarrow> f \<notin> set ENTRY_FIELDS"
    by (metis keys_document map_of_eq_None_iff set_map)
  then show "f \<in> set ENTRY_FIELDS \<Longrightarrow> map_of (document_of e) f = Some (doc_attrs e f)"
    by (auto simp: doc_attrs_def json_get_def split: option.splits)
  show "f \<notin> set ENTRY_FIELDS \<Longrightarrow> map_of (document_of e) f = None" using iff by blast
qed

text \<open>Every field is present, so no default, and no clock, enters.\<close>

lemma init_document:
  "job_entry_init now (AList.update ''custom_env'' v (document_of e)) = Inr ((doc_attrs e)(''custom_env'' := v))"
proof -
  let ?payload = "AList.update ''custom_env'' v (document_of e)"
  have get: "map_of ?payload f =
      (if f = ''custom_env'' then Some v else if f \<in> set ENTRY_FIELDS then Some (doc_attrs e f) else None)" for f
    by (simp add: update_conv' map_of_document)
  have none: "missing_fields ?payload = []"
    using required_fields by (auto simp: missing_fields_def filter_empty_conv get)
  have "(case map_of ?payload f of Some v \<Rightarrow> v | None \<Rightarrow> json_get (entry_defaults now) f)
      = ((doc_attrs e)(''custom_env'' := v)) f" for f
  proof (cases "f \<in> set ENTRY_FIELDS")
    case True
    then show ?thesis by (simp add: get)
  next
    case False
    moreover have "f \<noteq> ''custom_env''" using False custom_env_field by metis
    moreover have "map_of (entry_defaults now) f = None"
      using False default_fields [of now] by (auto simp: map_of_eq_None_iff)
    ultimately show ?thesis by (simp add: get doc_attrs_def json_get_def map_of_document)
  qed
  then show ?thesis by (simp add: job_entry_init_def none fun_eq_iff)
qed

lemma document_job_id: "json_get (document_of e) ''job_id'' = JStr (job_id e)"
proof -
  have "doc_attrs e ''job_id'' = JStr (job_id e)" by (simp add: codec_simps)
  then show ?thesis by (simp only: doc_attrs_def)
qed

section \<open>Normal form\<close>

definition nonempty :: "string option \<Rightarrow> string option" where
  "nonempty x = (if x = Some [] then None else x)"

definition normal_entry :: "time option \<Rightarrow> JobEntry \<Rightarrow> JobEntry" where
  "normal_entry mt e = fill_defaults mt ((bound_entry e)\<lparr>
     env_hash := nonempty (env_hash e), cache_source_env_hash := nonempty (cache_source_env_hash e),
     dispatch_owner := (if dispatch_token e = None then None else dispatch_owner e),
     dispatch_claimed_at := (if dispatch_token e = None then None else dispatch_claimed_at e),
     custom_env := sort_key fst (custom_env e), custom_env_keys := sort (keys (custom_env e)),
     custom_env_loaded := True\<rparr>)"

lemma typed_reads [codec_simps]:
  "opt_of str_of (json_opt JStr x) = x" "opt_of int_of (json_opt JInt i) = i"
  "opt_of bool_of (json_opt JBool b) = b" "opt_of num_of (json_opt json_num r) = r"
  "num_of (json_num t) = t" "ints_of (json_ints is) = is" "strs_of (json_strs ss) = ss"
  "opt_of strs_of (json_opt json_strs os) = os" "strdict_of (json_of_env d) = d"
  "opt_of strdict_of (json_opt json_of_env od) = od" "numdict_of (json_nums nd) = nd"
  by (cases x; cases i; cases b; cases r; cases os; cases od;
      simp add: json_num_def json_ints_def ints_of_def json_strs_def strs_of_def json_of_env_def strdict_of_def
        json_nums_def numdict_of_def comp_def split_beta map_idI)+

lemma json_opt_Null [codec_simps]:
  "json_opt JStr x = JNull \<longleftrightarrow> x = None" "json_opt JStr x = JStr s \<longleftrightarrow> x = Some s"
  by (cases x; simp)+

lemma bound_text_opt [codec_simps]: "bound_text (json_opt JStr x) = json_opt JStr (map_option (excerpt MAX_JOB_DIAGNOSTIC_CHARS) x)"
  by (cases x) (simp_all add: bound_text_def)

lemma bound_text_env [codec_simps]:
  "(case json_of_env d of JObj d \<Rightarrow> JObj (map (\<lambda>(k, v). (k, bound_text v)) d) | v \<Rightarrow> v)
   = json_of_env (map (\<lambda>(k, v). (k, excerpt MAX_JOB_DIAGNOSTIC_CHARS v)) d)"
  by (simp add: json_of_env_def bound_text_def comp_def split_beta)

text \<open>The attributes of a decoded document: what the validators saw.\<close>

definition doc_final :: "JobEntry \<Rightarrow> attrs" where
  "doc_final e = empty_text_to_null ''cache_source_env_hash'' (empty_text_to_null ''env_hash''
     (bound_entry_diagnostics ((doc_attrs e)(''custom_env'' := json_of_env (sort_key fst (custom_env e))))))"

lemma doc_final_plain:
  assumes "f \<notin> {''cache_source_env_hash'', ''env_hash'', ''reason'', ''placement_failures'', ''custom_env''}"
  shows "doc_final e f = doc_attrs e f"
  using assms by (simp add: doc_final_def attr_other)

lemma doc_final_special:
  "doc_final e ''custom_env'' = json_of_env (sort_key fst (custom_env e))"
  "doc_final e ''reason'' = json_opt JStr (map_option (excerpt MAX_JOB_DIAGNOSTIC_CHARS) (reason e))"
  "doc_final e ''placement_failures''
     = json_of_env (map (\<lambda>(k, v). (k, excerpt MAX_JOB_DIAGNOSTIC_CHARS v)) (placement_failures e))"
  "doc_final e ''env_hash'' = json_opt JStr (nonempty (env_hash e))"
  "doc_final e ''cache_source_env_hash'' = json_opt JStr (nonempty (cache_source_env_hash e))"
  by (simp_all add: doc_final_def empty_text_to_null_def bound_entry_diagnostics_def nonempty_def codec_simps)

lemma owner_final:
  "opt_of str_of (normalize_owner (doc_final e) ''dispatch_owner'')
     = (if dispatch_token e = None then None else dispatch_owner e)"
  "opt_of num_of (normalize_owner (doc_final e) ''dispatch_claimed_at'')
     = (if dispatch_token e = None then None else dispatch_claimed_at e)"
  by (simp_all add: normalize_owner_def doc_final_plain codec_simps)

lemma entry_of_final:
  "entry_of (normalize_owner (doc_final e)) (sort (keys (custom_env e))) True = (bound_entry e)\<lparr>
     env_hash := nonempty (env_hash e), cache_source_env_hash := nonempty (cache_source_env_hash e),
     dispatch_owner := (if dispatch_token e = None then None else dispatch_owner e),
     dispatch_claimed_at := (if dispatch_token e = None then None else dispatch_claimed_at e),
     custom_env := sort_key fst (custom_env e), custom_env_keys := sort (keys (custom_env e)),
     custom_env_loaded := True\<rparr>"
  by (rule JobEntry.equality)
     (simp_all add: owner_final normalize_owner_other doc_final_plain doc_final_special codec_simps bound_entry_def)

section \<open>Decoding a document\<close>

lemma validate_env_of_env:
  assumes "validate_env (json_of_env r) = Inr env"
  shows "env = sort_key fst r"
proof -
  from assms obtain s where v: "validate_items 0 (map (\<lambda>(k, v). (k, JStr v)) r) = Inr s"
    and env: "env = sort_key fst s"
    by (auto simp: validate_env_def json_of_env_def bind_ok_Inr split: if_splits)
  have inj: "inj (\<lambda>(k, v). (k :: string, JStr v))" by (auto simp: inj_def)
  have "map (\<lambda>(k, v). (k, JStr v)) r = map (\<lambda>(k, v). (k, JStr v)) s"
    using validate_items_ok [OF v] by (rule conjunct1)
  then have "s = r" by (simp only: inj_map_eq_map [OF inj])
  with env show ?thesis by simp
qed

lemma sort_keys_sorted: "sort (keys (sort_key fst d)) = sort (keys d)"
  by (rule properties_for_sort) (simp_all add: mset_map)

lemma decode_document:
  assumes "decode_entry now mt expected True (JObj (document_of e)) = Inr x"
  shows "decode_entry now' mt' expected True (JObj (document_of e)) = Inr (normal_entry mt' e)"
  using assms
proof (rule decode_entryE)
  fix d payload env a0 a
  assume d: "JObj (document_of e) = JObj d"
    and safe: "is_JStr (json_get d ''job_id'')" "valid_job_id (str_of (json_get d ''job_id''))"
    and match: "expected = None \<or> expected = Some (str_of (json_get d ''job_id''))"
    and pay: "payload = filter (\<lambda>kv. fst kv \<in> set ENTRY_FIELDS) d"
    and env: "validate_env (case map_of payload ''custom_env'' of None \<Rightarrow> JObj [] | Some v \<Rightarrow> v) = Inr env"
    and init: "job_entry_init now (AList.update ''custom_env'' (json_of_env (if True then env else [])) payload) = Inr a0"
    and a: "a = empty_text_to_null ''cache_source_env_hash'' (empty_text_to_null ''env_hash'' (bound_entry_diagnostics a0))"
    and val: "validate_entry a = None"
  from d have d: "d = document_of e" by simp
  then have payload: "payload = document_of e" by (simp only: pay filter_document)
  have cust: "map_of (document_of e) ''custom_env'' = Some (json_of_env (custom_env e))"
    using map_of_document(1) [OF custom_env_field(1)] by (simp add: codec_simps)
  with env payload have envs: "env = sort_key fst (custom_env e)"
    using validate_env_of_env by simp
  from init have "a0 = (doc_attrs e)(''custom_env'' := json_of_env env)"
    by (simp add: payload init_document)
  with a envs have final: "a = doc_final e" by (simp add: doc_final_def)
  have match': "\<not> (expected \<noteq> None \<and> Some (str_of (json_get d ''job_id'')) \<noteq> expected)"
    using match by auto
  have "decode_entry now' mt' expected True (JObj (document_of e))
      = Inr (fill_defaults mt' (entry_of (normalize_owner (doc_final e)) (sort (keys env)) True))"
    using safe match' d env val [unfolded final] payload final a envs
    by (simp add: decode_entry_def Let_def filter_document cust init_document doc_final_def)
  then show ?thesis
    by (simp add: envs sort_keys_sorted entry_of_final normal_entry_def)
qed

lemma decode_plain_document:
  "decode_registry_document sr now mt expected private (JObj (document_of e)) = Inr x \<longleftrightarrow>
   decode_entry now mt expected private (JObj (document_of e)) = Inr x"
  using map_of_document(2) [OF custom_env_field(3)] by (simp add: decode_registry_document_def)

lemma decode_envelope:
  "decode_registry_document sr now mt expected private (envelope e) = Inr x \<longleftrightarrow>
   decode_entry now mt expected private (JObj (document_of e)) = Inr x"
  by (auto simp: decode_registry_document_def envelope_def json_get_def)

lemma bound_entry_idem: "bound_entry (bound_entry e) = bound_entry e"
proof -
  have "excerpt MAX_JOB_DIAGNOSTIC_CHARS (excerpt MAX_JOB_DIAGNOSTIC_CHARS s) = excerpt MAX_JOB_DIAGNOSTIC_CHARS s" for s
    by (rule excerpt_idem) (simp add: MAX_JOB_DIAGNOSTIC_CHARS_def)
  then show ?thesis
    by (simp add: bound_entry_def option.map_comp comp_def split_beta)
qed

lemma bound_entry_select:
  "env_hash (bound_entry e) = env_hash e" "cache_source_env_hash (bound_entry e) = cache_source_env_hash e"
  "dispatch_token (bound_entry e) = dispatch_token e" "dispatch_owner (bound_entry e) = dispatch_owner e"
  "dispatch_claimed_at (bound_entry e) = dispatch_claimed_at e" "custom_env (bound_entry e) = custom_env e"
  "job_id (bound_entry e) = job_id e"
  by (simp_all add: bound_entry_def)

lemma normal_bound: "normal_entry mt (bound_entry e) = normal_entry mt e"
  by (simp only: normal_entry_def bound_entry_idem bound_entry_select)

lemma decode_document_ok:
  assumes "valid_job_id (job_id e)" and "validate_env (json_of_env (custom_env e)) = Inr (sort_key fst (custom_env e))"
    and "validate_entry (doc_final e) = None"
  shows "decode_entry now mt (Some (job_id e)) True (JObj (document_of e)) = Inr (normal_entry mt e)"
proof -
  have cust: "map_of (document_of e) ''custom_env'' = Some (json_of_env (custom_env e))"
    using map_of_document(1) [OF custom_env_field(1)] by (simp add: codec_simps)
  have id: "json_get (document_of e) ''job_id'' = JStr (job_id e)"
    by (rule document_job_id)
  have "decode_entry now mt (Some (job_id e)) True (JObj (document_of e))
      = Inr (fill_defaults mt (entry_of (normalize_owner (doc_final e)) (sort (keys (custom_env e))) True))"
    using assms
    by (simp add: decode_entry_def Let_def filter_document cust init_document doc_final_def id sort_keys_sorted)
  then show ?thesis by (simp add: entry_of_final normal_entry_def)
qed


lemma bound_select [simp]:
  "job_id (bound_entry e) = job_id e"
  "name (bound_entry e) = name e"
  "center (bound_entry e) = center e"
  "project (bound_entry e) = project e"
  "node (bound_entry e) = node e"
  "node_local (bound_entry e) = node_local e"
  "job_dir (bound_entry e) = job_dir e"
  "session (bound_entry e) = session e"
  "cmd (bound_entry e) = cmd e"
  "gpus (bound_entry e) = gpus e"
  "gpu_isolation (bound_entry e) = gpu_isolation e"
  "pgid (bound_entry e) = pgid e"
  "status (bound_entry e) = status e"
  "exit_code (bound_entry e) = exit_code e"
  "git_sha (bound_entry e) = git_sha e"
  "git_dirty (bound_entry e) = git_dirty e"
  "submodule_commits (bound_entry e) = submodule_commits e"
  "snapshot_sha256 (bound_entry e) = snapshot_sha256 e"
  "payload_sha256 (bound_entry e) = payload_sha256 e"
  "artifact_manifest (bound_entry e) = artifact_manifest e"
  "artifact_targets (bound_entry e) = artifact_targets e"
  "max_hours (bound_entry e) = max_hours e"
  "min_vram_mib (bound_entry e) = min_vram_mib e"
  "max_vram_mib (bound_entry e) = max_vram_mib e"
  "max_job_memory_mib (bound_entry e) = max_job_memory_mib e"
  "created_at (bound_entry e) = created_at e"
  "finished_at (bound_entry e) = finished_at e"
  "updated_at (bound_entry e) = updated_at e"
  "gpus_requested (bound_entry e) = gpus_requested e"
  "require_path (bound_entry e) = require_path e"
  "require_disk_gib (bound_entry e) = require_disk_gib e"
  "pin_node (bound_entry e) = pin_node e"
  "exclude_nodes (bound_entry e) = exclude_nodes e"
  "dispatch_node (bound_entry e) = dispatch_node e"
  "dispatch_token (bound_entry e) = dispatch_token e"
  "dispatch_owner (bound_entry e) = dispatch_owner e"
  "dispatch_claimed_at (bound_entry e) = dispatch_claimed_at e"
  "placement_attempts (bound_entry e) = placement_attempts e"
  "placement_pattern (bound_entry e) = placement_pattern e"
  "placement_first_failed_at (bound_entry e) = placement_first_failed_at e"
  "placement_last_failed_at (bound_entry e) = placement_last_failed_at e"
  "env_hash (bound_entry e) = env_hash e"
  "snapshot_duration_s (bound_entry e) = snapshot_duration_s e"
  "launch_duration_s (bound_entry e) = launch_duration_s e"
  "launch_phases_s (bound_entry e) = launch_phases_s e"
  "env_preexisting (bound_entry e) = env_preexisting e"
  "setup_ran (bound_entry e) = setup_ran e"
  "env_mode (bound_entry e) = env_mode e"
  "env_source_job (bound_entry e) = env_source_job e"
  "custom_env (bound_entry e) = custom_env e"
  "custom_env_keys (bound_entry e) = custom_env_keys e"
  "custom_env_loaded (bound_entry e) = custom_env_loaded e"
  "boot_id (bound_entry e) = boot_id e"
  "started_at (bound_entry e) = started_at e"
  "setup_cmd (bound_entry e) = setup_cmd e"
  "setup_inputs (bound_entry e) = setup_inputs e"
  "extras (bound_entry e) = extras e"
  "forked_from (bound_entry e) = forked_from e"
  "after_success (bound_entry e) = after_success e"
  "after_complete (bound_entry e) = after_complete e"
  "after_result (bound_entry e) = after_result e"
  "after_result_states (bound_entry e) = after_result_states e"
  "request_id (bound_entry e) = request_id e"
  "result_state (bound_entry e) = result_state e"
  "rerun_of (bound_entry e) = rerun_of e"
  "retry_limit (bound_entry e) = retry_limit e"
  "retry_on (bound_entry e) = retry_on e"
  "retry_count (bound_entry e) = retry_count e"
  "retry_of (bound_entry e) = retry_of e"
  "retried_by (bound_entry e) = retried_by e"
  "rerun_source_snapshot_sha256 (bound_entry e) = rerun_source_snapshot_sha256 e"
  "rerun_snapshot_changed (bound_entry e) = rerun_snapshot_changed e"
  "cache_source_job (bound_entry e) = cache_source_job e"
  "cache_source_job_dir (bound_entry e) = cache_source_job_dir e"
  "cache_source_path (bound_entry e) = cache_source_path e"
  "cache_env (bound_entry e) = cache_env e"
  "cache_source_env_hash (bound_entry e) = cache_source_env_hash e"
  "cache_mode (bound_entry e) = cache_mode e"
  "storage_layout (bound_entry e) = storage_layout e"
  "worker_root (bound_entry e) = worker_root e"
  "worker_roots (bound_entry e) = worker_roots e"
  "job_relpath (bound_entry e) = job_relpath e"
  "recovered_at (bound_entry e) = recovered_at e"
  "code_pruned_at (bound_entry e) = code_pruned_at e"
  "terminal_finalized_at (bound_entry e) = terminal_finalized_at e"
  "legacy_cleanup_pending (bound_entry e) = legacy_cleanup_pending e"
  by (simp_all add: bound_entry_def)

lemma normal_select [simp]:
  "job_id (normal_entry mt e) = job_id e"
  "name (normal_entry mt e) = name e"
  "center (normal_entry mt e) = center e"
  "project (normal_entry mt e) = project e"
  "node (normal_entry mt e) = node e"
  "node_local (normal_entry mt e) = node_local e"
  "job_dir (normal_entry mt e) = job_dir e"
  "session (normal_entry mt e) = session e"
  "cmd (normal_entry mt e) = cmd e"
  "gpus (normal_entry mt e) = gpus e"
  "gpu_isolation (normal_entry mt e) = gpu_isolation e"
  "pgid (normal_entry mt e) = pgid e"
  "status (normal_entry mt e) = status e"
  "exit_code (normal_entry mt e) = exit_code e"
  "git_sha (normal_entry mt e) = git_sha e"
  "git_dirty (normal_entry mt e) = git_dirty e"
  "submodule_commits (normal_entry mt e) = submodule_commits e"
  "snapshot_sha256 (normal_entry mt e) = snapshot_sha256 e"
  "payload_sha256 (normal_entry mt e) = payload_sha256 e"
  "artifact_manifest (normal_entry mt e) = artifact_manifest e"
  "artifact_targets (normal_entry mt e) = artifact_targets e"
  "max_hours (normal_entry mt e) = max_hours e"
  "min_vram_mib (normal_entry mt e) = min_vram_mib e"
  "max_vram_mib (normal_entry mt e) = max_vram_mib e"
  "max_job_memory_mib (normal_entry mt e) = max_job_memory_mib e"
  "created_at (normal_entry mt e) = created_at e"
  "finished_at (normal_entry mt e) = finished_at e"
  "gpus_requested (normal_entry mt e) = gpus_requested e"
  "require_path (normal_entry mt e) = require_path e"
  "require_disk_gib (normal_entry mt e) = require_disk_gib e"
  "pin_node (normal_entry mt e) = pin_node e"
  "exclude_nodes (normal_entry mt e) = exclude_nodes e"
  "dispatch_node (normal_entry mt e) = dispatch_node e"
  "dispatch_token (normal_entry mt e) = dispatch_token e"
  "placement_attempts (normal_entry mt e) = placement_attempts e"
  "placement_pattern (normal_entry mt e) = placement_pattern e"
  "placement_first_failed_at (normal_entry mt e) = placement_first_failed_at e"
  "placement_last_failed_at (normal_entry mt e) = placement_last_failed_at e"
  "snapshot_duration_s (normal_entry mt e) = snapshot_duration_s e"
  "launch_duration_s (normal_entry mt e) = launch_duration_s e"
  "launch_phases_s (normal_entry mt e) = launch_phases_s e"
  "env_preexisting (normal_entry mt e) = env_preexisting e"
  "setup_ran (normal_entry mt e) = setup_ran e"
  "env_mode (normal_entry mt e) = env_mode e"
  "env_source_job (normal_entry mt e) = env_source_job e"
  "boot_id (normal_entry mt e) = boot_id e"
  "started_at (normal_entry mt e) = started_at e"
  "setup_cmd (normal_entry mt e) = setup_cmd e"
  "setup_inputs (normal_entry mt e) = setup_inputs e"
  "extras (normal_entry mt e) = extras e"
  "forked_from (normal_entry mt e) = forked_from e"
  "after_success (normal_entry mt e) = after_success e"
  "after_complete (normal_entry mt e) = after_complete e"
  "after_result (normal_entry mt e) = after_result e"
  "after_result_states (normal_entry mt e) = after_result_states e"
  "request_id (normal_entry mt e) = request_id e"
  "result_state (normal_entry mt e) = result_state e"
  "rerun_of (normal_entry mt e) = rerun_of e"
  "retry_limit (normal_entry mt e) = retry_limit e"
  "retry_on (normal_entry mt e) = retry_on e"
  "retry_count (normal_entry mt e) = retry_count e"
  "retry_of (normal_entry mt e) = retry_of e"
  "retried_by (normal_entry mt e) = retried_by e"
  "rerun_source_snapshot_sha256 (normal_entry mt e) = rerun_source_snapshot_sha256 e"
  "rerun_snapshot_changed (normal_entry mt e) = rerun_snapshot_changed e"
  "cache_source_job (normal_entry mt e) = cache_source_job e"
  "cache_source_job_dir (normal_entry mt e) = cache_source_job_dir e"
  "cache_source_path (normal_entry mt e) = cache_source_path e"
  "cache_env (normal_entry mt e) = cache_env e"
  "cache_mode (normal_entry mt e) = cache_mode e"
  "worker_root (normal_entry mt e) = worker_root e"
  "worker_roots (normal_entry mt e) = worker_roots e"
  "job_relpath (normal_entry mt e) = job_relpath e"
  "recovered_at (normal_entry mt e) = recovered_at e"
  "code_pruned_at (normal_entry mt e) = code_pruned_at e"
  "terminal_finalized_at (normal_entry mt e) = terminal_finalized_at e"
  "legacy_cleanup_pending (normal_entry mt e) = legacy_cleanup_pending e"
  by (simp_all add: normal_entry_def)

lemma normal_special:
  "reason (normal_entry mt e) = map_option (excerpt MAX_JOB_DIAGNOSTIC_CHARS) (reason e)"
  "placement_failures (normal_entry mt e) = map (\<lambda>(k, v). (k, excerpt MAX_JOB_DIAGNOSTIC_CHARS v)) (placement_failures e)"
  "env_hash (normal_entry mt e) = nonempty (env_hash e)"
  "cache_source_env_hash (normal_entry mt e) = nonempty (cache_source_env_hash e)"
  "dispatch_owner (normal_entry mt e) = (if dispatch_token e = None then None else dispatch_owner e)"
  "dispatch_claimed_at (normal_entry mt e) = (if dispatch_token e = None then None else dispatch_claimed_at e)"
  "custom_env (normal_entry mt e) = sort_key fst (custom_env e)"
  "custom_env_keys (normal_entry mt e) = sort (keys (custom_env e))"
  "custom_env_loaded (normal_entry mt e)"
  by (simp_all add: normal_entry_def bound_entry_def)

lemma normal_filled:
  "storage_layout (normal_entry mt e) = Some (case storage_layout e of None \<Rightarrow> LEGACY_LAYOUT | Some x \<Rightarrow> x)"
  "updated_at (normal_entry mt e) = Some (case updated_at e of None \<Rightarrow> time_or mt (created_at e) | Some t \<Rightarrow> t)"
  by (auto simp: normal_entry_def bound_entry_def fill_defaults_def Let_def split: option.splits)

lemma normal_entry_idem: "normal_entry mt' (normal_entry mt e) = normal_entry mt e"
proof -
  have x: "excerpt MAX_JOB_DIAGNOSTIC_CHARS (excerpt MAX_JOB_DIAGNOSTIC_CHARS s) = excerpt MAX_JOB_DIAGNOSTIC_CHARS s" for s
    by (rule excerpt_idem) (simp add: MAX_JOB_DIAGNOSTIC_CHARS_def)
  have k: "sort_key fst (sort_key fst (custom_env e)) = sort_key fst (custom_env e)"
    by (intro sort_key_id_if_sorted) simp
  show ?thesis
    by (rule JobEntry.equality)
       (simp_all add: normal_special normal_filled nonempty_def option.map_comp comp_def split_beta x k sort_keys_sorted)
qed

section \<open>A concrete row\<close>

text \<open>A row as \<open>JobEntry(...)\<close> builds it, for the concrete instances.\<close>

definition sample_entry :: JobEntry where
  "sample_entry = make_entry 7 ''20250101-0000_a_0'' ''a'' ''c'' ''p'' ''n1'' False ''~/dt/jobs/20250101-0000_a_0'' ''s'' ''echo''"

text \<open>The same row in another lifecycle state.\<close>

definition sample_state ::
  "string \<Rightarrow> string option \<Rightarrow> time option \<Rightarrow> time option \<Rightarrow> string option \<Rightarrow> JobEntry" where
  "sample_state st rs tf upd lay =
     sample_entry\<lparr>status := st, result_state := rs, updated_at := upd, storage_layout := lay, terminal_finalized_at := tf\<rparr>"

definition sample_state_ok ::
  "string \<Rightarrow> string option \<Rightarrow> time option \<Rightarrow> time option \<Rightarrow> string option \<Rightarrow> bool" where
  "sample_state_ok st rs tf upd lay \<longleftrightarrow>
     st \<in> set JOB_STATUSES \<and> (\<forall>r. rs = Some r \<longrightarrow> r \<in> set RESULT_STATES)
     \<and> (\<forall>t. tf = Some t \<longrightarrow> 0 \<le> t \<and> st = ''lost'') \<and> (\<forall>t. upd = Some t \<longrightarrow> 0 \<le> t) \<and> (lay = None \<or> lay = Some ROLE_LAYOUT)"

lemma sample_entry_state: "sample_entry = sample_state ''running'' None None None None"
  by (simp add: sample_state_def sample_entry_def make_entry_def)

lemma sample_entry_ok: "sample_state_ok ''running'' None None None None"
  by (simp add: sample_state_ok_def JOB_STATUSES_def)

lemmas sample_simps = doc_final_plain doc_final_special codec_simps sample_state_def sample_entry_def make_entry_def
  json_num_def json_ints_def json_strs_def json_nums_def json_of_env_def nonempty_def normalize_owner_def

lemma lost_is_status: "''lost'' \<in> set JOB_STATUSES"
  by (simp add: JOB_STATUSES_def)

lemma sample_lifecycle:
  "sample_state_ok st rs tf upd lay \<Longrightarrow> validate_entry_lifecycle (doc_final (sample_state st rs tf upd lay)) = None"
  unfolding validate_entry_lifecycle_def first_of_None sample_state_ok_def
  by (cases rs; cases tf; cases upd)
     (simp_all add: sample_simps bad_int_def bad_nonneg_def MAX_JOB_COLLECTION_ITEMS_def lost_is_status)

lemma sample_collections: "validate_entry_collections (doc_final (sample_state st rs tf upd lay)) = None"
  unfolding validate_entry_collections_def first_of_None
  by (simp add: sample_simps not_text_dict_def MAX_JOB_COLLECTION_ITEMS_def MAX_PROJECT_EXTRAS_def)

lemma sample_provenance:
  "sample_state_ok st rs tf upd lay \<Longrightarrow> validate_entry_provenance (doc_final (sample_state st rs tf upd lay)) = None"
  unfolding validate_entry_provenance_def first_of_None sample_state_ok_def
  by (cases tf; cases lay)
     (simp_all add: sample_simps OPTIONAL_TEXT_def is_text_or_null_def MAX_RETRY_LIMIT_def)

lemma sample_limits: "validate_entry_limits (normalize_owner (doc_final (sample_state st rs tf upd lay))) = None"
  unfolding validate_entry_limits_def first_of_None
  by (simp add: sample_simps bad_int_def bad_nonneg_def bad_positive_def)

lemma sample_contracts:
  "sample_state_ok st rs tf upd lay \<Longrightarrow> validate_entry_contracts (normalize_owner (doc_final (sample_state st rs tf upd lay))) = None"
  unfolding validate_entry_contracts_def first_of_None sample_state_ok_def
  by (cases lay) (simp_all add: sample_simps MAX_JOB_COLLECTION_ITEMS_def)

lemma sample_state_valid:
  "sample_state_ok st rs tf upd lay \<Longrightarrow> validate_entry (doc_final (sample_state st rs tf upd lay)) = None"
  unfolding validate_entry_def first_of_None
  using sample_lifecycle sample_collections sample_provenance sample_limits sample_contracts by simp

lemma sample_valid: "validate_entry (doc_final sample_entry) = None"
  unfolding sample_entry_state by (rule sample_state_valid [OF sample_entry_ok])

lemma sample_id: "valid_job_id (job_id sample_entry)" by code_simp

lemma sample_env: "validate_env (json_of_env (custom_env sample_entry)) = Inr (sort_key fst (custom_env sample_entry))"
  by (simp add: sample_entry_def make_entry_def json_of_env_def validate_env_def MAX_CUSTOM_ENV_VARS_def)


lemma sample_decodes:
  "decode_registry_document (\<lambda>_. []) now mt (Some (job_id sample_entry)) True (JObj (document_of sample_entry))
     = Inr (normal_entry mt sample_entry)"
  unfolding decode_plain_document by (rule decode_document_ok [OF sample_id sample_env sample_valid])

text \<open>An upper bound of the rendered size that evaluates without rendering.\<close>

fun json_weight :: "(rat \<Rightarrow> string) \<Rightarrow> nat \<Rightarrow> json \<Rightarrow> nat" where
  "json_weight fr n JNull = 4"
| "json_weight fr n (JBool b) = 5"
| "json_weight fr n (JInt i) = length (show_int i)"
| "json_weight fr n (JFloat f) = length (dumps_float fr f)"
| "json_weight fr n (JStr s) = 6 * length s + 2"
| "json_weight fr n (JList xs) = 5 + 2 * n + (\<Sum>x \<leftarrow> xs. json_weight fr (Suc n) x + (n + 3))"
| "json_weight fr n (JObj d) =
     5 + 2 * n + (\<Sum>kv \<leftarrow> d. 6 * length (fst kv) + 4 + json_weight fr (Suc n) (snd kv) + (n + 3))"

lemma length_dumps_str: "length (dumps_str s) \<le> 6 * length s + 2"
proof -
  have "length (esc_char c) \<le> 6" for c by (simp add: esc_char_def)
  then have "length (concat (map esc_char s)) \<le> 6 * length s"
    by (induction s) (auto intro: add_mono)
  then show ?thesis by (simp add: dumps_str_def)
qed

lemma length_join: "length (join sep ws) \<le> (\<Sum>w \<leftarrow> ws. length w + length sep)"
  by (induction sep ws rule: join.induct) auto

lemma length_dumps_indent: "length (dumps_indent fr n v) \<le> json_weight fr n v"
proof (induction v arbitrary: n)
  case (JStr s)
  show ?case using length_dumps_str [of s] by simp
next
  case (JList xs)
  let ?sep = "'','' @ [nl] @ replicate (Suc n) CHR '' ''"
  have "length (join ?sep (map (dumps_indent fr (Suc n)) xs))
      \<le> (\<Sum>x \<leftarrow> xs. json_weight fr (Suc n) x + (n + 3))"
    using JList by (intro order_trans [OF length_join]) (auto simp: comp_def intro!: sum_list_mono)
  then show ?case by simp
next
  case (JObj d)
  let ?sep = "'','' @ [nl] @ replicate (Suc n) CHR '' ''"
  have "length (dumps_indent fr (Suc n) (snd kv)) \<le> json_weight fr (Suc n) (snd kv)" if "kv \<in> set d" for kv
    using JObj [of kv "snd kv" "Suc n"] that by (cases kv) auto
  then have "length (dumps_str (fst kv) @ '': '' @ dumps_indent fr (Suc n) (snd kv)) + length ?sep
      \<le> 6 * length (fst kv) + 4 + json_weight fr (Suc n) (snd kv) + (n + 3)" if "kv \<in> set d" for kv
    using that length_dumps_str [of "fst kv"] by fastforce
  then have "length (join ?sep (map (\<lambda>kv. dumps_str (fst kv) @ '': '' @ dumps_indent fr (Suc n) (snd kv)) d))
      \<le> (\<Sum>kv \<leftarrow> d. 6 * length (fst kv) + 4 + json_weight fr (Suc n) (snd kv) + (n + 3))"
    by (intro order_trans [OF length_join]) (auto simp: comp_def intro!: sum_list_mono)
  then show ?case by simp
qed (simp_all)

lemma short_texts:
  "st \<in> set JOB_STATUSES \<Longrightarrow> length st \<le> 100" "r \<in> set RESULT_STATES \<Longrightarrow> length r \<le> 100" "length ROLE_LAYOUT \<le> 100"
  by (auto simp: JOB_STATUSES_def RESULT_STATES_def ROLE_LAYOUT_def)

lemma sample_weight:
  assumes "sample_state_ok st rs tf upd lay"
  shows "json_weight (\<lambda>_. ''0.0'') 0 (envelope (sample_state st rs tf upd lay)) \<le> 40000"
proof -
  have "length st \<le> 100" "\<forall>r. rs = Some r \<longrightarrow> length r \<le> 100" "\<forall>l. lay = Some l \<longrightarrow> length l \<le> 100"
    using assms short_texts by (auto simp: sample_state_ok_def)
  then show ?thesis
    by (cases rs; cases tf; cases upd; cases lay)
       (simp_all add: envelope_def document_of_def sample_state_def sample_entry_def make_entry_def REGISTRY_SCHEMA_VERSION_def
         json_num_def json_ints_def json_strs_def json_nums_def json_of_env_def show_int_def show_nat.simps)
qed

lemma sample_size:
  assumes "sample_state_ok st rs tf upd lay"
  shows "\<not> MAX_JOB_RECORD_BYTES < length (dumps_indent (\<lambda>_. ''0.0'') 0 (envelope (sample_state st rs tf upd lay))) + 1"
  using length_dumps_indent [of "\<lambda>_. ''0.0''" 0 "envelope (sample_state st rs tf upd lay)"] sample_weight [OF assms]
  by (simp add: MAX_JOB_RECORD_BYTES_def)

lemma sample_bound: "bound_entry (sample_state st rs tf upd lay) = sample_state st rs tf upd lay"
  by (simp add: bound_entry_def sample_state_def sample_entry_def make_entry_def)

lemma sample_state_select:
  "job_id (sample_state st rs tf upd lay) = job_id sample_entry" "custom_env (sample_state st rs tf upd lay) = custom_env sample_entry"
  "status (sample_state st rs tf upd lay) = st" "terminal_finalized_at (sample_state st rs tf upd lay) = tf"
  "custom_env_loaded (sample_state st rs tf upd lay)" "custom_env_keys (sample_state st rs tf upd lay) = []"
  "storage_layout (sample_state st rs tf upd lay) = lay" "updated_at (sample_state st rs tf upd lay) = upd"
  "custom_env sample_entry = []"
  by (simp_all add: sample_state_def sample_entry_def make_entry_def)

lemma sample_state_decodes:
  assumes "sample_state_ok st rs tf upd lay"
  shows "decode_registry_document sr now mt (Some (job_id sample_entry)) True (JObj (document_of (sample_state st rs tf upd lay)))
     = Inr (normal_entry mt (sample_state st rs tf upd lay))"
  unfolding decode_plain_document
  using decode_document_ok [of "sample_state st rs tf upd lay", unfolded sample_state_select, OF sample_id _ sample_state_valid [OF assms]]
    sample_env by (simp add: sample_state_select)

lemma sample_state_encodes:
  assumes "sample_state_ok st rs tf upd lay"
  shows "encode_registry_entry (\<lambda>_. ''0.0'') sr now (sample_state st rs tf upd lay) = Inr (envelope (sample_state st rs tf upd lay))"
  using sample_size [OF assms]
  by (simp add: encode_registry_entry_def Let_def sample_bound sample_state_select(1) sample_state_decodes [OF assms])

lemma sample_encodes:
  "encode_registry_entry (\<lambda>_. ''0.0'') (\<lambda>_. []) now sample_entry = Inr (envelope sample_entry)"
  unfolding sample_entry_state by (rule sample_state_encodes [OF sample_entry_ok])

lemma sample_envelope:
  "decode_registry_document (\<lambda>_. []) now mt (Some (job_id sample_entry)) True (envelope sample_entry)
     = Inr (normal_entry mt sample_entry)"
  unfolding decode_envelope by (rule decode_document_ok [OF sample_id sample_env sample_valid])

lemma sample_state_envelope:
  assumes "sample_state_ok st rs tf upd lay"
  shows "decode_registry_document sr now mt (Some (job_id sample_entry)) True (envelope (sample_state st rs tf upd lay))
     = Inr (normal_entry mt (sample_state st rs tf upd lay))"
  using sample_state_decodes [OF assms] unfolding decode_plain_document decode_envelope .

lemma decode_registry_document_entry:
  "decode_registry_document sr now mt expected private raw = Inr e \<Longrightarrow>
   \<exists>doc. decode_entry now mt expected private doc = Inr e"
  by (erule decode_registry_documentE) (rule exI)

lemma decode_entry_expected:
  assumes "decode_entry now mt expected private raw = Inr e"
  shows "expected = None \<or> expected = Some (job_id e)"
  using assms
proof (rule decode_entryE)
  fix d
  assume d: "raw = JObj d" and m: "expected = None \<or> expected = Some (str_of (json_get d ''job_id''))"
  have "str_of (json_get d ''job_id'') = job_id e"
    unfolding decode_entry_job_id [OF assms [unfolded d]] by simp
  with m show ?thesis by simp
qed

section \<open>Properties\<close>

text \<open>
  C1. Nothing malformed enters the program: a row that \<open>decode_registry_document\<close> returns is
  well formed (\<open>wf_entry\<close>: a known status, an exit code in 0..255, distinct non-negative GPU
  indices, a dispatch token exactly when a dispatch node is recorded and only on a queued row,
  finality only on a lost row, a bounded retry policy, safe worker paths, bounded
  diagnostics), and its identity is the expected one, whatever JSON document was read.
\<close>

theorem decode_sound:
  assumes "decode_registry_document sr now mt expected private raw = Inr e"
  shows "wf_entry e \<and> (expected = None \<or> expected = Some (job_id e))"
proof -
  obtain doc where dec: "decode_entry now mt expected private doc = Inr e"
    using decode_registry_document_entry [OF assms] ..
  show ?thesis
    by (rule conjI [OF decode_entry_wf [OF dec] decode_entry_expected [OF dec]])
qed

theorem decode_sound_witness: "wf_entry (normal_entry None sample_entry)"
  using decode_sound [OF sample_envelope] by blast

lemma encode_decodes:
  assumes "encode_registry_entry fr sr now e = Inr doc"
  shows "decode_registry_document sr' now' mt (Some (job_id e)) True doc = Inr (normal_entry mt e)"
proof -
  from assms obtain x where dec: "decode_registry_document sr now None (Some (job_id (bound_entry e))) True
        (JObj (document_of (bound_entry e))) = Inr x"
    and doc: "doc = envelope (bound_entry e)"
    by (auto simp: encode_registry_entry_def Let_def bind_ok_Inr split: if_splits)
  from dec have "decode_entry now None (Some (job_id e)) True (JObj (document_of (bound_entry e))) = Inr x"
    unfolding decode_plain_document by (simp add: bound_entry_select)
  then have "decode_entry now' mt (Some (job_id e)) True (JObj (document_of (bound_entry e))) = Inr (normal_entry mt (bound_entry e))"
    by (rule decode_document)
  then show ?thesis unfolding doc decode_envelope by (simp add: normal_bound)
qed

text \<open>
  C2. Registry round trip: whatever row \<open>encode_registry_entry\<close> accepts, decoding the document
  it wrote, at any later time, returns that row in normal form, and a row in normal form is
  not changed by another save and load.
\<close>

theorem registry_round_trip:
  assumes "encode_registry_entry fr sr now e = Inr doc"
  shows "decode_registry_document sr' now' mt (Some (job_id e)) True doc = Inr (normal_entry mt e)
    \<and> normal_entry mt' (normal_entry mt e) = normal_entry mt e"
  using encode_decodes [OF assms] by (simp add: normal_entry_idem)

theorem registry_round_trip_witness:
  "decode_registry_document (\<lambda>_. []) 9 (Some 8) (Some (job_id sample_entry)) True (envelope sample_entry)
     = Inr (normal_entry (Some 8) sample_entry)"
  using registry_round_trip [OF sample_encodes] by blast


lemma doc_attrs_custom_env:
  assumes "f \<noteq> ''custom_env''"
  shows "doc_attrs (e\<lparr>custom_env := env\<rparr>) f = doc_attrs e f"
proof (cases "f \<in> set ENTRY_FIELDS")
  case True
  have "\<forall>f \<in> set ENTRY_FIELDS. f = ''custom_env'' \<or> doc_attrs (e\<lparr>custom_env := env\<rparr>) f = doc_attrs e f"
    unfolding ENTRY_FIELDS_def by (simp add: codec_simps)
  with True assms show ?thesis by blast
qed (simp add: doc_attrs_def json_get_def map_of_document)

lemma sample_public:
  "decode_entry 9 None None False (JObj (document_of (sample_entry\<lparr>custom_env := [(''K'', ''secret'')]\<rparr>)))
     = Inr (fill_defaults None (entry_of (normalize_owner (doc_final sample_entry)) [''K''] False))"
proof -
  let ?env = "[(''K'', ''secret'')]"
  let ?e = "sample_entry\<lparr>custom_env := ?env\<rparr>"
  have attrs: "(doc_attrs ?e)(''custom_env'' := v) = (doc_attrs sample_entry)(''custom_env'' := v)" for v
    by (auto simp: doc_attrs_custom_env fun_eq_iff)
  have cust: "map_of (document_of ?e) ''custom_env'' = Some (json_of_env ?env)"
    using map_of_document(1) [OF custom_env_field(1), of ?e] by (simp add: codec_simps)
  have id: "json_get (document_of ?e) ''job_id'' = JStr (job_id sample_entry)"
    by (simp add: document_job_id)
  have env: "validate_env (json_of_env ?env) = Inr ?env"
    by (simp add: validate_env_def json_of_env_def validate_name_def env_name_shape_def startswith_def RESERVED_def
        utf8_len_def code_def is_ascii_alpha_def is_ascii_upper_def MAX_CUSTOM_ENV_VARS_def
        MAX_CUSTOM_ENV_VALUE_BYTES_def MAX_CUSTOM_ENV_TOTAL_BYTES_def)
  have none: "custom_env sample_entry = []" by (simp add: sample_entry_def make_entry_def)
  show ?thesis
    using sample_valid sample_id
    by (simp add: decode_entry_def Let_def filter_document cust env init_document attrs id doc_final_def none)
qed


end
