(* ===== verification/Registry_Store.thy ===== *)
theory Registry_Store
  imports Codec_Round_Trip
begin

text \<open>
  The read side of the job registry (\<open>src/dt/jobs/__init__.py\<close>): two directories of one JSON
  file per job, the legacy and the role-layout registry. A file is classified by what the
  bounded private reader makes of it; a directory carries the identity and timestamps that
  the derived index compares. Reading is a function of one snapshot of the disk: locks and
  the retries for files that change while they are read are not modelled.

  \<open>resolve_registry_record\<close> finds the one authority of a job and refuses a job that both
  directories hold; \<open>load\<close>, \<open>list_all\<close> and \<open>iter_all\<close> read rows; \<open>put_file\<close> and \<open>drop_file\<close> are
  what an atomic rename and an unlink do to a directory.
\<close>

section \<open>The disk\<close>

datatype rfile = Symlink | Special | Oversized | Malformed | Doc json time

record dir_stat =
  st_dev :: int
  st_ino :: int
  st_mtime_ns :: int
  st_ctime_ns :: int

datatype dir = Absent | BadDir | Dir dir_stat "(string, rfile) dict"

datatype place = LegacyPlace | RolePlace

text \<open>
  \<open>replicas\<close> is the derived artifact-replica cache, which no operation here reads.
\<close>

record 'r world =
  dirs :: "place \<Rightarrow> dir"
  index :: "rfile option"
  replicas :: 'r

definition registry_path :: "HeadConfig \<Rightarrow> place" where
  "registry_path cfg = (if cf_layout cfg = ROLE_LAYOUT then RolePlace else LegacyPlace)"

definition legacy_registry_dir :: "HeadConfig \<Rightarrow> place" where
  "legacy_registry_dir cfg = LegacyPlace"

definition dir_name :: "HeadConfig \<Rightarrow> place \<Rightarrow> string" where
  "dir_name cfg p = (case p of LegacyPlace \<Rightarrow> cf_legacy_registry cfg | RolePlace \<Rightarrow> cf_role_registry cfg)"

fun dir_files :: "dir \<Rightarrow> (string, rfile) dict" where
  "dir_files (Dir st fs) = fs" | "dir_files _ = []"

definition files_of :: "'r world \<Rightarrow> place \<Rightarrow> (string, rfile) dict" where
  "files_of w p = dir_files (dirs w p)"

definition record_name :: "string \<Rightarrow> string" where
  "record_name jid = jid @ ''.json''"

definition visible :: "string \<Rightarrow> bool" where
  "visible nm \<longleftrightarrow> endswith nm ''.json'' \<and> \<not> startswith nm ''.''"

definition stem :: "string \<Rightarrow> string" where
  "stem nm = take (length nm - 5) nm"

text \<open>Every change of a directory's entries advances its timestamps.\<close>

definition touch :: "dir_stat \<Rightarrow> dir_stat" where
  "touch st = st\<lparr>st_mtime_ns := st_mtime_ns st + 1, st_ctime_ns := st_ctime_ns st + 1\<rparr>"

fun put_file :: "string \<Rightarrow> rfile \<Rightarrow> dir \<Rightarrow> dir" where
  "put_file nm f (Dir st fs) = Dir (touch st) (AList.update nm f fs)"
| "put_file nm f d = d"

fun drop_file :: "string \<Rightarrow> dir \<Rightarrow> dir" where
  "drop_file nm (Dir st fs) = Dir (touch st) (AList.delete nm fs)"
| "drop_file nm d = d"

definition on_place :: "place \<Rightarrow> (dir \<Rightarrow> dir) \<Rightarrow> 'r world \<Rightarrow> 'r world" where
  "on_place p f w = w\<lparr>dirs := (dirs w)(p := f (dirs w p))\<rparr>"

definition fresh_stat :: dir_stat where
  "fresh_stat = \<lparr>st_dev = 0, st_ino = 1, st_mtime_ns = 0, st_ctime_ns = 0\<rparr>"

definition private_unsafe :: "string \<Rightarrow> string" where
  "private_unsafe path = replace_text ''private'' ''registry'' (''private directory is unsafe: '' @ path)"

definition require_private_directory :: "HeadConfig \<Rightarrow> bool \<Rightarrow> place \<Rightarrow> 'r world \<Rightarrow> string + bool \<times> 'r world" where
  "require_private_directory cfg create p w =
     (case dirs w p of
        Absent \<Rightarrow> if create then Inr (True, on_place p (\<lambda>_. Dir fresh_stat []) w) else Inr (False, w)
      | BadDir \<Rightarrow> Inl (private_unsafe (dir_name cfg p))
      | Dir _ _ \<Rightarrow> Inr (True, w))"

text \<open>What the bounded reader raises or returns for one file.\<close>

definition private_error :: "string \<Rightarrow> rfile \<Rightarrow> string option" where
  "private_error path f =
     (case f of
        Symlink \<Rightarrow> Some (''cannot safely open private file: '' @ path)
      | Special \<Rightarrow> Some (''private state is not a regular file: '' @ path)
      | Oversized \<Rightarrow> Some (''private state exceeds its size limit: '' @ path)
      | _ \<Rightarrow> None)"

section \<open>One record\<close>

text \<open>
  \<open>schema_repr\<close> (as in \<open>Job_Codec\<close>) and \<open>now\<close>, the clock that a row without \<open>created_at\<close>
  reads, are the two parameters of decoding.
\<close>

type_synonym decoding = "(json \<Rightarrow> string) \<times> time"

definition decode_entry_result ::
  "decoding \<Rightarrow> string \<Rightarrow> string \<Rightarrow> bool \<Rightarrow> rfile option \<Rightarrow> string + JobEntry" where
  "decode_entry_result dc nm jid private result =
     (case result of
        None \<Rightarrow> Inl (''registry record disappeared: '' @ nm)
      | Some (Doc raw mt) \<Rightarrow>
          map_error (\<lambda>m. ''registry record is invalid: '' @ nm @ '': '' @ excerpt MAX_JOB_DIAGNOSTIC_CHARS m)
            (decode_registry_document (fst dc) (snd dc) (Some mt) (Some jid) private raw)
      | Some _ \<Rightarrow> Inl (''registry record is malformed: '' @ nm))"

definition read_entry_path :: "decoding \<Rightarrow> 'r world \<Rightarrow> place \<Rightarrow> string \<Rightarrow> string + JobEntry" where
  "read_entry_path dc w p jid =
     (let nm = record_name jid; f = map_of (files_of w p) nm in
      if f \<in> {Some Symlink, Some Special, Some Oversized}
      then Inl (''cannot safely open registry record: '' @ nm)
      else decode_entry_result dc nm jid True f)"

record RegistryLocation =
  loc_place :: place
  loc_layout :: string
  loc_exists :: bool

text \<open>The candidate directories, the configured one first.\<close>

definition candidates :: "HeadConfig \<Rightarrow> (place \<times> string) list" where
  "candidates cfg =
     (if registry_path cfg = LegacyPlace then [(LegacyPlace, cf_layout cfg)]
      else [(registry_path cfg, cf_layout cfg), (LegacyPlace, LEGACY_LAYOUT)])"

fun locate :: "HeadConfig \<Rightarrow> 'r world \<Rightarrow> string \<Rightarrow> (place \<times> string) list \<Rightarrow> string + RegistryLocation list" where
  "locate cfg w jid [] = Inr []"
| "locate cfg w jid ((p, lay) # rest) =
     bind_ok (require_private_directory cfg False p w) (\<lambda>(ex, _).
       case (if ex then map_of (files_of w p) (record_name jid) else None) of
         None \<Rightarrow> locate cfg w jid rest
       | Some f \<Rightarrow>
           if f = Symlink \<or> f = Special
           then Inl (''cannot safely open registry record: '' @ record_name jid)
           else bind_ok (locate cfg w jid rest) (\<lambda>more.
                  Inr (\<lparr>loc_place = p, loc_layout = lay, loc_exists = True\<rparr> # more)))"

definition registry_locations :: "HeadConfig \<Rightarrow> string \<Rightarrow> 'r world \<Rightarrow> string + RegistryLocation list" where
  "registry_locations cfg jid w = locate cfg w jid (candidates cfg)"

definition split_brain_msg :: "HeadConfig \<Rightarrow> string \<Rightarrow> RegistryLocation list \<Rightarrow> string" where
  "split_brain_msg cfg jid locs =
     ''split-brain registry row for '' @ jid @ '': exists in ''
     @ join '', '' (map (\<lambda>l. dir_name cfg (loc_place l)) locs) @ ''; run dt migrate to reconcile''"

definition resolve_registry_record ::
  "HeadConfig \<Rightarrow> bool \<Rightarrow> string \<Rightarrow> 'r world \<Rightarrow> string + RegistryLocation option \<times> 'r world" where
  "resolve_registry_record cfg create jid w =
     (if \<not> valid_job_id jid then Inl ''job identity is unsafe''
      else bind_ok (registry_locations cfg jid w) (\<lambda>locs.
        if 1 < length locs then Inl (split_brain_msg cfg jid locs)
        else case locs of
          l # _ \<Rightarrow> Inr (Some l, w)
        | [] \<Rightarrow>
            if \<not> create then Inr (None, w)
            else bind_ok (require_private_directory cfg True (registry_path cfg) w) (\<lambda>(_, w').
                   Inr (Some \<lparr>loc_place = registry_path cfg, loc_layout = cf_layout cfg, loc_exists = False\<rparr>, w'))))"

definition load :: "decoding \<Rightarrow> HeadConfig \<Rightarrow> string \<Rightarrow> 'r world \<Rightarrow> string + JobEntry option" where
  "load dc cfg jid w =
     (if \<not> valid_job_id jid then Inr None
      else bind_ok (resolve_registry_record cfg False jid w) (\<lambda>(location, _).
        case location of
          None \<Rightarrow> Inr None
        | Some l \<Rightarrow> bind_ok (read_entry_path dc w (loc_place l) jid) (\<lambda>e. Inr (Some e))))"

section \<open>Scans\<close>

record RegistryDamage =
  dmg_path :: string
  dmg_detail :: string

definition damaged :: "string \<Rightarrow> string \<Rightarrow> RegistryDamage" where
  "damaged path msg = \<lparr>dmg_path = path, dmg_detail = excerpt MAX_JOB_DIAGNOSTIC_CHARS (join '' '' (words msg))\<rparr>"

text \<open>The directories a scan visits: the legacy one first, then the configured one if it differs.\<close>

definition scan_candidates :: "HeadConfig \<Rightarrow> place list" where
  "scan_candidates cfg =
     LegacyPlace # (if registry_path cfg \<noteq> LegacyPlace then [registry_path cfg] else [])"

fun is_Dir :: "dir \<Rightarrow> bool" where
  "is_Dir (Dir _ _) = True" | "is_Dir _ = False"

definition scans :: "HeadConfig \<Rightarrow> 'r world \<Rightarrow> place list" where
  "scans cfg w = filter (\<lambda>p. is_Dir (dirs w p)) (scan_candidates cfg)"

definition bad_directories :: "HeadConfig \<Rightarrow> 'r world \<Rightarrow> RegistryDamage list" where
  "bad_directories cfg w =
     map (\<lambda>p. \<lparr>dmg_path = dir_name cfg p, dmg_detail = private_unsafe (dir_name cfg p)\<rparr>)
       (filter (\<lambda>p. dirs w p = BadDir) (scan_candidates cfg))"

definition visible_names :: "'r world \<Rightarrow> place \<Rightarrow> string list" where
  "visible_names w p = filter visible (keys (files_of w p))"

text \<open>The scanned directories that hold a name, in scan order.\<close>

definition holders :: "HeadConfig \<Rightarrow> 'r world \<Rightarrow> string \<Rightarrow> place list" where
  "holders cfg w nm = filter (\<lambda>p. map_of (files_of w p) nm \<noteq> None) (scans cfg w)"

definition split_brain_detail :: "HeadConfig \<Rightarrow> place list \<Rightarrow> string" where
  "split_brain_detail cfg ps =
     excerpt MAX_JOB_DIAGNOSTIC_CHARS (''split-brain registry row: exists in ''
       @ join '', '' (map (dir_name cfg) ps) @ ''; run dt migrate to reconcile'')"

subsection \<open>list_all\<close>

text \<open>
  \<open>list_all\<close> without the decode cache of the resident process: directory damage, then the
  split-brain rows by name, then the rows that cannot be read; the readable rows by job id.
\<close>

definition list_row :: "decoding \<Rightarrow> 'r world \<Rightarrow> place \<Rightarrow> string \<Rightarrow> string + JobEntry" where
  "list_row dc w p nm =
     (case map_of (files_of w p) nm of
        Some f \<Rightarrow>
          (if private_error nm f \<noteq> None then Inl (''cannot safely open registry record: '' @ nm)
           else decode_entry_result dc nm (stem nm) False (Some f))
      | None \<Rightarrow> decode_entry_result dc nm (stem nm) False None)"

definition conflicted :: "HeadConfig \<Rightarrow> 'r world \<Rightarrow> string list" where
  "conflicted cfg w = 
     filter (\<lambda>nm. 1 < length (holders cfg w nm)) (remdups (concat (map (visible_names w) (scans cfg w))))"

definition list_pairs :: "HeadConfig \<Rightarrow> 'r world \<Rightarrow> (place \<times> string) list" where
  "list_pairs cfg w =
     concat (map (\<lambda>p. map (Pair p) (filter (\<lambda>nm. nm \<notin> set (conflicted cfg w)) (sort (visible_names w p)))) (scans cfg w))"

fun oks :: "('e + 'a) list \<Rightarrow> 'a list" where
  "oks [] = []" | "oks (Inr x # r) = x # oks r" | "oks (Inl _ # r) = oks r"

definition row_damage :: "string \<Rightarrow> string + JobEntry \<Rightarrow> RegistryDamage list" where
  "row_damage nm r = (case r of Inl m \<Rightarrow> [damaged nm m] | Inr _ \<Rightarrow> [])"

definition list_all_rows :: "decoding \<Rightarrow> HeadConfig \<Rightarrow> 'r world \<Rightarrow> JobEntry list \<times> RegistryDamage list" where
  "list_all_rows dc cfg w =
     (let rows = map (\<lambda>(p, nm). (nm, list_row dc w p nm)) (list_pairs cfg w);
          entries = dict_of (map (\<lambda>e. (job_id e, e)) (oks (map snd rows)))
      in (map (\<lambda>jid. the (map_of entries jid)) (sort (keys entries)),
          bad_directories cfg w
          @ map (\<lambda>nm. \<lparr>dmg_path = nm, dmg_detail = split_brain_detail cfg (holders cfg w nm)\<rparr>)
              (sort_key stem (conflicted cfg w))
          @ concat (map (\<lambda>(nm, r). row_damage nm r) rows)))"

subsection \<open>iter_all and the active scan\<close>

text \<open>One outcome per visible name: a row, a damage report, or nothing for the second holder.\<close>

definition scan_row ::
  "decoding \<Rightarrow> HeadConfig \<Rightarrow> 'r world \<Rightarrow> place \<Rightarrow> string \<Rightarrow> (RegistryDamage + JobEntry) list" where
  "scan_row dc cfg w p nm =
     (let hs = holders cfg w nm in
      if 1 < length hs
      then (if p = hd hs then [Inl \<lparr>dmg_path = nm, dmg_detail = split_brain_detail cfg hs\<rparr>] else [])
      else
        let path = dir_name cfg p @ ''/'' @ nm in
        case map_of (files_of w p) nm of
          None \<Rightarrow> []
        | Some f \<Rightarrow>
            (case private_error path f of
               Some m \<Rightarrow> [Inl (damaged nm m)]
             | None \<Rightarrow>
                 (case decode_entry_result dc nm (stem nm) False (Some f) of
                    Inl m \<Rightarrow> [Inl (damaged nm m)]
                  | Inr e \<Rightarrow> [Inr e])))"

definition scan_rows :: "decoding \<Rightarrow> HeadConfig \<Rightarrow> 'r world \<Rightarrow> (RegistryDamage + JobEntry) list" where
  "scan_rows dc cfg w =
     concat (map (\<lambda>p. concat (map (scan_row dc cfg w p) (visible_names w p))) (scans cfg w))"

fun errs :: "('e + 'a) list \<Rightarrow> 'e list" where
  "errs [] = []" | "errs (Inl x # r) = x # errs r" | "errs (Inr _ # r) = errs r"

definition iter_all :: "decoding \<Rightarrow> HeadConfig \<Rightarrow> 'r world \<Rightarrow> JobEntry list \<times> RegistryDamage list" where
  "iter_all dc cfg w =
     (let rows = scan_rows dc cfg w in (oks rows, bad_directories cfg w @ errs rows))"

section \<open>Locations\<close>

text \<open>File names are unique within a directory.\<close>

definition wf_world :: "'r world \<Rightarrow> bool" where
  "wf_world w \<longleftrightarrow> (\<forall>p. wf_dict (files_of w p))"

abbreviation row_at :: "'r world \<Rightarrow> place \<Rightarrow> string \<Rightarrow> rfile option" where
  "row_at w p jid \<equiv> map_of (files_of w p) (record_name jid)"

lemma record_name_inj [simp]: "record_name a = record_name b \<longleftrightarrow> a = b"
  by (simp add: record_name_def)

lemma stem_record_name [simp]: "stem (record_name jid) = jid"
  by (simp add: stem_def record_name_def)

lemma visible_stem: "visible nm \<Longrightarrow> record_name (stem nm) = nm"
  by (auto simp: visible_def record_name_def stem_def endswith_suffix suffix_def)

lemma files_put:
  "map_of (files_of (on_place p (put_file nm f) w) q) nm' =
     (if q = p \<and> is_Dir (dirs w p) \<and> nm' = nm then Some f else map_of (files_of w q) nm')"
  by (cases "dirs w p") (auto simp: files_of_def on_place_def update_conv')

lemma files_drop:
  "map_of (files_of (on_place p (drop_file nm) w) q) nm' =
     (if q = p \<and> nm' = nm then None else map_of (files_of w q) nm')"
  by (cases "dirs w p") (auto simp: files_of_def on_place_def delete_conv')

lemma wf_world_put: "wf_world w \<Longrightarrow> wf_world (on_place p (put_file nm f) w)"
  by (cases "dirs w p") (auto simp: wf_world_def files_of_def on_place_def dest!: spec [of _ p] intro!: distinct_update)

lemma wf_world_drop: "wf_world w \<Longrightarrow> wf_world (on_place p (drop_file nm) w)"
  by (cases "dirs w p") (auto simp: wf_world_def files_of_def on_place_def dest!: spec [of _ p] intro!: distinct_delete)

definition usable :: "'r world \<Rightarrow> string \<Rightarrow> place \<Rightarrow> bool" where
  "usable w jid p \<longleftrightarrow> dirs w p \<noteq> BadDir \<and> row_at w p jid \<noteq> Some Symlink \<and> row_at w p jid \<noteq> Some Special"

definition location :: "place \<times> string \<Rightarrow> RegistryLocation" where
  "location c = \<lparr>loc_place = fst c, loc_layout = snd c, loc_exists = True\<rparr>"

lemma files_of_not_Dir: "\<not> is_Dir (dirs w p) \<Longrightarrow> files_of w p = []"
  by (cases "dirs w p") (simp_all add: files_of_def)

lemma locate_Inr:
  "locate cfg w jid cs = Inr locs \<longleftrightarrow>
     (\<forall>c \<in> set cs. usable w jid (fst c)) \<and> locs = map location (filter (\<lambda>c. row_at w (fst c) jid \<noteq> None) cs)"
proof (induction cs arbitrary: locs)
  case (Cons c cs)
  obtain p lay where c: "c = (p, lay)" by (cases c)
  show ?case
  proof (cases "dirs w p")
    case Absent
    then show ?thesis using Cons.IH
      by (auto simp: c require_private_directory_def usable_def files_of_def)
  next
    case BadDir
    then show ?thesis by (auto simp: c require_private_directory_def usable_def)
  next
    case (Dir st fs)
    then show ?thesis using Cons.IH
      by (cases "row_at w p jid") (auto simp: c require_private_directory_def usable_def bind_ok_Inr location_def)
  qed
qed auto

lemma registry_locations_Inr:
  "registry_locations cfg jid w = Inr locs \<longleftrightarrow>
     (\<forall>c \<in> set (candidates cfg). usable w jid (fst c))
     \<and> locs = map location (filter (\<lambda>c. row_at w (fst c) jid \<noteq> None) (candidates cfg))"
  by (simp add: registry_locations_def locate_Inr)

text \<open>The candidates that hold a job.\<close>

abbreviation holding :: "HeadConfig \<Rightarrow> 'r world \<Rightarrow> string \<Rightarrow> (place \<times> string) list" where
  "holding cfg w jid \<equiv> filter (\<lambda>c. row_at w (fst c) jid \<noteq> None) (candidates cfg)"

lemma resolve_Inr:
  "resolve_registry_record cfg False jid w = Inr (l, w') \<longleftrightarrow>
     valid_job_id jid \<and> w' = w \<and> (\<forall>c \<in> set (candidates cfg). usable w jid (fst c))
     \<and> (l = None \<and> holding cfg w jid = [] \<or> (\<exists>c. holding cfg w jid = [c] \<and> l = Some (location c)))"
proof -
  have one: "\<not> Suc 0 < length xs \<longleftrightarrow> xs = [] \<or> (\<exists>x. xs = [x])" for xs :: "(place \<times> string) list"
    by (cases xs; cases "tl xs") auto
  show ?thesis
    by (auto simp: resolve_registry_record_def bind_ok_Inr registry_locations_Inr one split: if_splits list.splits)
qed

lemma load_Some:
  "load dc cfg jid w = Inr (Some e) \<longleftrightarrow>
     valid_job_id jid \<and> (\<forall>c \<in> set (candidates cfg). usable w jid (fst c))
     \<and> (\<exists>c. holding cfg w jid = [c] \<and> read_entry_path dc w (fst c) jid = Inr e)"
  by (auto simp: load_def bind_ok_Inr resolve_Inr location_def split: option.splits)

lemma load_None:
  "load dc cfg jid w = Inr None \<longleftrightarrow>
     \<not> valid_job_id jid \<or> (\<forall>c \<in> set (candidates cfg). usable w jid (fst c)) \<and> holding cfg w jid = []"
  by (auto simp: load_def bind_ok_Inr resolve_Inr split: option.splits)

text \<open>Reading a job depends only on its own files and on which directories are usable.\<close>

lemma load_cong:
  assumes "\<And>p. row_at w' p jid = row_at w p jid" and "\<And>p. dirs w' p = BadDir \<longleftrightarrow> dirs w p = BadDir"
  shows "load dc cfg jid w' = load dc cfg jid w"
proof -
  have loc: "locate cfg w' jid cs = locate cfg w jid cs" for cs
  proof (induction cs)
    case (Cons c cs)
    obtain p lay where c: "c = (p, lay)" by (cases c)
    have "dirs w p = Absent \<Longrightarrow> row_at w p jid = None" "dirs w' p = Absent \<Longrightarrow> row_at w' p jid = None"
      by (simp_all add: files_of_def)
    then show ?case
      using Cons assms(1) [of p] assms(2) [of p]
      by (cases "dirs w p"; cases "dirs w' p") (auto simp: c require_private_directory_def split: option.split)
  qed simp
  have "read_entry_path dc w' p jid = read_entry_path dc w p jid" for p
    using assms(1) by (simp add: read_entry_path_def)
  moreover have "bind_ok (resolve_registry_record cfg False jid w') (\<lambda>(l, _). f l)
      = bind_ok (resolve_registry_record cfg False jid w) (\<lambda>(l, _). f l)" for f :: "RegistryLocation option \<Rightarrow> string + JobEntry option"
    by (simp add: resolve_registry_record_def registry_locations_def loc bind_ok_def split: sum.splits list.splits)
  ultimately show ?thesis by (simp add: load_def cong: option.case_cong)
qed

lemma load_job_id: "load dc cfg jid w = Inr (Some e) \<Longrightarrow> job_id e = jid"
  using decode_entry_expected decode_registry_document_entry
  by (fastforce simp: load_Some read_entry_path_def decode_entry_result_def Let_def
      split: if_splits option.splits rfile.splits)

section \<open>The two scans agree\<close>

lemma oks_append [simp]: "oks (xs @ ys) = oks xs @ oks ys"
  by (induction xs rule: oks.induct) auto

lemma oks_concat: "oks (concat xss) = concat (map oks xss)"
  by (induction xss) auto

lemma private_error_None: "private_error a f = None \<longleftrightarrow> private_error b f = None"
  by (cases f) (simp_all add: private_error_def)

lemma oks_scan_row:
  assumes "p \<in> set (scans cfg w)" and "nm \<in> set (visible_names w p)"
  shows "oks (scan_row dc cfg w p nm) = (if nm \<in> set (conflicted cfg w) then [] else oks [list_row dc w p nm])"
proof -
  have c: "nm \<in> set (conflicted cfg w) \<longleftrightarrow> 1 < length (holders cfg w nm)"
    using assms by (auto simp: conflicted_def)
  show ?thesis
  proof (cases "1 < length (holders cfg w nm)")
    case True
    then show ?thesis by (simp add: c scan_row_def Let_def)
  next
    case False
    obtain f where f: "map_of (files_of w p) nm = Some f"
      using assms(2) by (auto simp: visible_names_def dest: weak_map_of_SomeI)
    have "private_error (dir_name cfg p @ ''/'' @ nm) f = None \<longleftrightarrow> private_error nm f = None"
      by (rule private_error_None)
    with False f show ?thesis
      by (cases "private_error nm f"; cases "decode_entry_result dc nm (stem nm) False (Some f)")
         (auto simp: c scan_row_def list_row_def Let_def)
  qed
qed

lemma decode_result_id: "decode_entry_result dc nm jid private r = Inr e \<Longrightarrow> job_id e = jid"
  using decode_entry_expected decode_registry_document_entry
  by (fastforce simp: decode_entry_result_def split: option.splits rfile.splits)

lemma list_row_id: "list_row dc w p nm = Inr e \<Longrightarrow> job_id e = stem nm"
  by (auto simp: list_row_def decode_result_id split: option.splits if_splits)

abbreviation list_rows :: "decoding \<Rightarrow> HeadConfig \<Rightarrow> 'r world \<Rightarrow> JobEntry list" where
  "list_rows dc cfg w \<equiv> oks (map (\<lambda>x. list_row dc w (fst x) (snd x)) (list_pairs cfg w))"

lemma mset_concat_map: "mset xs = mset ys \<Longrightarrow> mset (concat (map f xs)) = mset (concat (map f ys))"
proof -
  have "mset (concat (map f zs)) = (\<Sum>z \<in># mset zs. mset (f z))" for zs by (induction zs) auto
  then show "mset xs = mset ys \<Longrightarrow> ?thesis" by simp
qed

lemma concat_filter: "concat (map (\<lambda>x. if P x then [] else f x) xs) = concat (map f (filter (\<lambda>x. \<not> P x) xs))"
  by (induction xs) auto

lemma oks_Cons: "oks (x # xs) = oks [x] @ oks xs"
  by (cases x) auto

lemma oks_map: "oks (map f xs) = concat (map (\<lambda>x. oks [f x]) xs)"
proof (induction xs)
  case (Cons x xs)
  then show ?case using oks_Cons [of "f x" "map f xs"] by simp
qed simp

lemma scan_list_mset: "mset (oks (scan_rows dc cfg w)) = mset (list_rows dc cfg w)"
proof -
  let ?C = "set (conflicted cfg w)"
  have one: "mset (oks (concat (map (scan_row dc cfg w p) (visible_names w p))))
      = mset (oks (map (list_row dc w p) (filter (\<lambda>nm. nm \<notin> ?C) (sort (visible_names w p)))))"
    if "p \<in> set (scans cfg w)" for p
  proof -
    have "oks (concat (map (scan_row dc cfg w p) (visible_names w p)))
        = concat (map (\<lambda>nm. if nm \<in> ?C then [] else oks [list_row dc w p nm]) (visible_names w p))"
      using that by (simp add: oks_concat comp_def oks_scan_row cong: map_cong)
    also have "mset \<dots> = mset (concat (map (\<lambda>nm. oks [list_row dc w p nm])
        (filter (\<lambda>nm. nm \<notin> ?C) (sort (visible_names w p)))))"
      unfolding concat_filter by (rule mset_concat_map) (simp add: mset_filter)
    finally show ?thesis by (simp only: oks_map)
  qed
  have "mset (oks (scan_rows dc cfg w))
      = mset (concat (map (\<lambda>p. oks (map (list_row dc w p) (filter (\<lambda>nm. nm \<notin> ?C) (sort (visible_names w p))))) (scans cfg w)))"
    using one by (simp add: scan_rows_def oks_concat comp_def mset_concat cong: map_cong)
  then show ?thesis
    by (simp add: list_pairs_def map_concat oks_concat comp_def)
qed

lemma distinct_holder:
  assumes "p \<in> set (scans cfg w)" "q \<in> set (scans cfg w)"
    and "nm \<in> set (visible_names w p)" "nm \<in> set (visible_names w q)" and "nm \<notin> set (conflicted cfg w)"
  shows "p = q"
proof (rule ccontr)
  assume "p \<noteq> q"
  have "p \<in> set (holders cfg w nm)" "q \<in> set (holders cfg w nm)"
    using assms by (auto simp: holders_def visible_names_def dest: weak_map_of_SomeI)
  then have "1 < length (holders cfg w nm)"
    using \<open>p \<noteq> q\<close> by (cases "holders cfg w nm" rule: list.exhaust; cases "tl (holders cfg w nm)") auto
  then show False using assms by (auto simp: conflicted_def)
qed

lemma set_list_pairs:
  "(p, nm) \<in> set (list_pairs cfg w) \<longleftrightarrow>
     p \<in> set (scans cfg w) \<and> nm \<in> set (visible_names w p) \<and> nm \<notin> set (conflicted cfg w)"
  by (auto simp: list_pairs_def)

lemma distinct_scans: "distinct (scans cfg w)"
  by (simp add: scans_def scan_candidates_def)

lemma distinct_tagged:
  "distinct ps \<Longrightarrow> (\<And>p. distinct (g p)) \<Longrightarrow> distinct (concat (map (\<lambda>p. map (Pair p) (g p)) ps))"
  by (induction ps) (auto simp: distinct_map inj_on_def)

lemma distinct_list_pairs:
  assumes "wf_world w"
  shows "distinct (list_pairs cfg w)"
  using assms unfolding list_pairs_def
  by (intro distinct_tagged distinct_scans) (simp add: wf_world_def visible_names_def)

lemma visible_stem_eq: "visible a \<Longrightarrow> visible b \<Longrightarrow> stem a = stem b \<Longrightarrow> a = b"
  using visible_stem by metis

lemma oks_map_member: "e \<in> set (oks (map f xs)) \<Longrightarrow> \<exists>y \<in> set xs. f y = Inr e"
proof (induction xs)
  case (Cons y ys)
  then show ?case by (cases "f y") auto
qed simp

lemma oks_map_distinct:
  assumes "distinct xs"
    and "\<And>x y e e'. x \<in> set xs \<Longrightarrow> y \<in> set xs \<Longrightarrow> f x = Inr e \<Longrightarrow> f y = Inr e' \<Longrightarrow> k e = k e' \<Longrightarrow> x = y"
  shows "distinct (map k (oks (map f xs)))"
  using assms
proof (induction xs)
  case (Cons x xs)
  have IH: "distinct (map k (oks (map f xs)))" using Cons by simp
  show ?case
  proof (cases "f x")
    case (Inr e)
    have "k e \<noteq> k e'" if mem: "e' \<in> set (oks (map f xs))" for e'
    proof -
      obtain y where y: "y \<in> set xs" "f y = Inr e'" using oks_map_member [OF mem] by blast
      have "x \<noteq> y" using Cons.prems(1) y(1) by auto
      then show ?thesis using Cons.prems(2) [of x y e e'] y Inr by auto
    qed
    then show ?thesis using IH Inr by auto
  qed (simp add: IH)
qed simp

lemma distinct_list_ids:
  assumes "wf_world w"
  shows "distinct (map job_id (list_rows dc cfg w))"
proof (rule oks_map_distinct [OF distinct_list_pairs [OF assms]])
  fix x y e e'
  assume x: "x \<in> set (list_pairs cfg w)" and y: "y \<in> set (list_pairs cfg w)"
    and fx: "list_row dc w (fst x) (snd x) = Inr e"
    and fy: "list_row dc w (fst y) (snd y) = Inr e'" and eq: "job_id e = job_id e'"
  obtain p nm q nm' where xy: "x = (p, nm)" "y = (q, nm')" by (cases x; cases y)
  have same: "stem nm = stem nm'"
    using list_row_id [OF fx] list_row_id [OF fy] eq unfolding xy fst_conv snd_conv by metis
  have "visible nm" "visible nm'"
    using x y xy by (auto simp: set_list_pairs visible_names_def)
  then have "nm = nm'" using same by (rule visible_stem_eq)
  with x y xy show "x = y" using distinct_holder [of p cfg w q nm] by (simp add: set_list_pairs)
qed

lemma dict_of_distinct: "distinct (map fst ps) \<Longrightarrow> dict_of ps = ps"
proof -
  have "distinct (map fst (d @ ps)) \<Longrightarrow> fold (\<lambda>(k, v). AList.update k v) ps d = d @ ps" for d :: "('a, 'b) dict"
  proof (induction ps arbitrary: d)
    case (Cons p ps)
    have "AList.update (fst p) (snd p) d = d @ [p]" if "fst p \<notin> set (keys d)"
      using that by (induction d) auto
    with Cons show ?case by (auto simp: split_beta)
  qed simp
  from this [of "[]"] show "distinct (map fst ps) \<Longrightarrow> ?thesis" by (simp add: dict_of_def)
qed

lemma rows_sorted_by_id:
  assumes "distinct (map job_id es)"
  shows "map (\<lambda>jid. the (map_of (map (\<lambda>e. (job_id e, e)) es) jid)) (sort (map job_id es)) = sort_key job_id es"
proof -
  have get: "map_of (map (\<lambda>e. (job_id e, e)) es) (job_id e) = Some e" if "e \<in> set es" for e
    using assms that by (auto simp: map_of_eq_Some_iff comp_def)
  have "sort (map job_id es) = map job_id (sort_key job_id es)"
    by (rule properties_for_sort) simp_all
  then show ?thesis by (simp add: comp_def) (rule map_idI, simp add: get)
qed

lemma fst_list_all:
  assumes "wf_world w"
  shows "fst (list_all_rows dc cfg w) = sort_key job_id (list_rows dc cfg w)"
proof -
  let ?L = "list_rows dc cfg w"
  have "oks (map snd (map (\<lambda>(p, nm). (nm, list_row dc w p nm)) (list_pairs cfg w))) = ?L"
    by (simp add: comp_def split_beta)
  then have "fst (list_all_rows dc cfg w)
      = map (\<lambda>jid. the (map_of (dict_of (map (\<lambda>e. (job_id e, e)) ?L)) jid)) (sort (keys (dict_of (map (\<lambda>e. (job_id e, e)) ?L))))"
    unfolding list_all_rows_def Let_def by (simp only: fst_conv)
  moreover have "dict_of (map (\<lambda>e. (job_id e, e)) ?L) = map (\<lambda>e. (job_id e, e)) ?L"
    using distinct_list_ids [OF assms] by (intro dict_of_distinct) (simp add: comp_def)
  ultimately show ?thesis
    using rows_sorted_by_id [OF distinct_list_ids [OF assms]] by (simp add: comp_def)
qed


text \<open>A registry in both layouts: a readable row, an unreadable one, and one held twice.\<close>

definition sample_world_of :: "JobEntry \<Rightarrow> unit world" where
  "sample_world_of e = \<lparr>
     dirs = (\<lambda>p. case p of
        LegacyPlace \<Rightarrow> Dir fresh_stat [(record_name ''twice'', Malformed)]
      | RolePlace \<Rightarrow> Dir fresh_stat
          [(record_name (job_id sample_entry), Doc (envelope e) 8),
           (record_name ''bad'', Malformed), (record_name ''twice'', Malformed)]),
     index = None, replicas = ()\<rparr>"

definition sample_world :: "unit world" where
  "sample_world = sample_world_of sample_entry"

definition sample_config :: HeadConfig where
  "sample_config = \<lparr>cf_center = ''c'',
     cf_nodes = [\<lparr>nd_name = ''n1'', nd_local = False, nd_site = None, nd_artifact_seed = False, nd_drained = False\<rparr>],
     cf_max_my_jobs = Some 3, cf_reserve_free_per_node = 0, cf_disk_min_gib = 0, cf_layout = ''role-v1'',
     cf_legacy_registry = ''/r'', cf_role_registry = ''/s''\<rparr>"

lemma sample_world_wf: "wf_world sample_world"
  by (auto simp: wf_world_def sample_world_def sample_world_of_def files_of_def sample_entry_def make_entry_def record_name_def split: place.split)


lemma sample_place:
  "valid_job_id (job_id sample_entry)"
  "\<forall>c \<in> set (candidates sample_config). usable (sample_world_of e) (job_id sample_entry) (fst c)"
  "holding sample_config (sample_world_of e) (job_id sample_entry) = [(RolePlace, ''role-v1'')]"
  using sample_id
  by (simp_all add: candidates_def registry_path_def sample_config_def ROLE_LAYOUT_def usable_def sample_world_of_def files_of_def
      sample_entry_def make_entry_def record_name_def)

lemma sample_state_load:
  assumes "sample_state_ok st rs tf upd lay"
  shows "load dc sample_config (job_id sample_entry) (sample_world_of (sample_state st rs tf upd lay))
    = Inr (Some (normal_entry (Some 8) (sample_state st rs tf upd lay)))"
proof -
  have "read_entry_path dc (sample_world_of (sample_state st rs tf upd lay)) RolePlace (job_id sample_entry)
      = Inr (normal_entry (Some 8) (sample_state st rs tf upd lay))"
    using sample_state_envelope [OF assms]
    by (simp add: read_entry_path_def Let_def sample_world_of_def files_of_def decode_entry_result_def)
  then show ?thesis using sample_place by (simp add: load_Some)
qed

lemma sample_load:
  "load dc sample_config (job_id sample_entry) sample_world = Inr (Some (normal_entry (Some 8) sample_entry))"
  using sample_state_load [OF sample_entry_ok] by (simp add: sample_world_def sample_entry_state [symmetric])

end
