(* ===== verification/Active_Index.thy ===== *)
theory Active_Index
  imports Registry_Store
begin

text \<open>
  The derived active-job index of \<open>src/dt/jobs/active_index.py\<close> and \<open>active_entries\<close>.

  The index is a JSON file beside the registry that lists the rows the scheduler has to see,
  fenced by the revisions (identity and timestamps) of the registry directories. A reader
  uses it only while the fence matches; otherwise it scans the registry and may publish a new
  index. A rebuild is not atomic: \<open>rebuild\<close> takes the four states of the disk that its steps
  observe, so that a writer may commit between any two of them.

  \<open>io\<close> says whether the write of a derived file succeeds.
\<close>

section \<open>Revisions\<close>

definition revision_of :: "HeadConfig \<Rightarrow> 'r world \<Rightarrow> place \<Rightarrow> string + json" where
  "revision_of cfg w p =
     (case dirs w p of
        Absent \<Rightarrow> Inr (JObj [(''path'', JStr (dir_name cfg p)), (''exists'', JBool False)])
      | BadDir \<Rightarrow> Inl (''registry directory is unsafe: '' @ dir_name cfg p)
      | Dir st _ \<Rightarrow> Inr (JObj [(''path'', JStr (dir_name cfg p)), (''exists'', JBool True),
            (''device'', JInt (st_dev st)), (''inode'', JInt (st_ino st)),
            (''mtime_ns'', JInt (st_mtime_ns st)), (''ctime_ns'', JInt (st_ctime_ns st))]))"

fun collect_ok :: "('e + 'a) list \<Rightarrow> 'e + 'a list" where
  "collect_ok [] = Inr []"
| "collect_ok (r # rs) = bind_ok r (\<lambda>x. bind_ok (collect_ok rs) (\<lambda>xs. Inr (x # xs)))"

definition registry_directory_revisions :: "HeadConfig \<Rightarrow> 'r world \<Rightarrow> string + json list" where
  "registry_directory_revisions cfg w = collect_ok (map (revision_of cfg w) (scan_candidates cfg))"

section \<open>The index file\<close>

definition ACTIVE_INDEX_SCHEMA_VERSION :: string where "ACTIVE_INDEX_SCHEMA_VERSION = ''dt_job_active_index_v1''"
definition MAX_ACTIVE_INDEX_BYTES :: nat where "MAX_ACTIVE_INDEX_BYTES = 8 * 1024 * 1024"
definition MAX_ACTIVE_INDEX_ITEMS :: nat where "MAX_ACTIVE_INDEX_ITEMS = 200000"

record ActiveIndex =
  ai_job_ids :: "string list"
  ai_damage :: "RegistryDamage list"

definition damage_json :: "RegistryDamage \<Rightarrow> json" where
  "damage_json d = JObj [(''path'', JStr (dmg_path d)),
     (''detail'', JStr (excerpt MAX_JOB_DIAGNOSTIC_CHARS (dmg_detail d)))]"

definition index_document :: "json list \<Rightarrow> string list \<Rightarrow> RegistryDamage list \<Rightarrow> json" where
  "index_document revs ids dmg = JObj [
     (''schema_version'', JStr ACTIVE_INDEX_SCHEMA_VERSION),
     (''registry_revisions'', JList revs),
     (''job_ids'', JList (map JStr (sort ids))),
     (''damage'', JList (map damage_json dmg))]"

text \<open>
  \<open>job_ids\<close> is a set: \<open>ids\<close> lists it without repetition. A document without floats renders the
  same for every float printer.
\<close>

definition write_active_index ::
  "bool \<Rightarrow> HeadConfig \<Rightarrow> string list \<Rightarrow> RegistryDamage list \<Rightarrow> json list option \<Rightarrow> 'r world \<Rightarrow> string + 'r world" where
  "write_active_index io cfg ids dmg revs w =
     (if MAX_ACTIVE_INDEX_ITEMS < length ids \<or> MAX_ACTIVE_INDEX_ITEMS < length dmg
      then Inl ''active registry index exceeds its item limit''
      else bind_ok (case revs of None \<Rightarrow> registry_directory_revisions cfg w | Some r \<Rightarrow> Inr r) (\<lambda>r.
        let document = index_document r ids dmg in
        if MAX_ACTIVE_INDEX_BYTES < length (dumps_compact (\<lambda>_. []) document) + 1
        then Inl ''active registry index exceeds its size limit''
        else if \<not> io then Inl ''cannot publish active registry index''
        else Inr (w\<lparr>index := Some (Doc document 0)\<rparr>)))"

definition damage_item :: "json \<Rightarrow> RegistryDamage option" where
  "damage_item v =
     (case v of
        JObj d \<Rightarrow>
          (case (json_get d ''path'', json_get d ''detail'') of
             (JStr p, JStr m) \<Rightarrow> Some \<lparr>dmg_path = p, dmg_detail = excerpt MAX_JOB_DIAGNOSTIC_CHARS m\<rparr>
           | _ \<Rightarrow> None)
      | _ \<Rightarrow> None)"

fun all_some :: "'a option list \<Rightarrow> 'a list option" where
  "all_some [] = Some []"
| "all_some (None # r) = None"
| "all_some (Some x # r) = map_option (Cons x) (all_some r)"

definition read_active_index :: "HeadConfig \<Rightarrow> 'r world \<Rightarrow> ActiveIndex option" where
  "read_active_index cfg w =
     (case index w of
        Some (Doc (JObj d) _) \<Rightarrow>
          (case registry_directory_revisions cfg w of
             Inl _ \<Rightarrow> None
           | Inr revs \<Rightarrow>
               if json_get d ''schema_version'' \<noteq> JStr ACTIVE_INDEX_SCHEMA_VERSION
                  \<or> json_get d ''registry_revisions'' \<noteq> JList revs
               then None
               else
                 let raw_ids = json_get d ''job_ids''; raw_damage = json_get d ''damage'' in
                 if \<not> is_JList raw_ids \<or> MAX_ACTIVE_INDEX_ITEMS < length (list_items raw_ids)
                    \<or> (\<exists>v \<in> set (list_items raw_ids). \<not> (is_JStr v \<and> valid_job_id (str_of v)))
                    \<or> \<not> distinct (list_items raw_ids)
                    \<or> \<not> is_JList raw_damage \<or> MAX_ACTIVE_INDEX_ITEMS < length (list_items raw_damage)
                 then None
                 else map_option
                        (\<lambda>dmg. \<lparr>ai_job_ids = sort (map str_of (list_items raw_ids)), ai_damage = dmg\<rparr>)
                        (all_some (map damage_item (list_items raw_damage))))
      | _ \<Rightarrow> None)"

section \<open>Scanning and rebuilding\<close>

definition stream_active_registry ::
  "decoding \<Rightarrow> HeadConfig \<Rightarrow> time \<Rightarrow> 'r world \<Rightarrow> JobEntry list \<times> RegistryDamage list" where
  "stream_active_registry dc cfg now w =
     (let rows = scan_rows dc cfg w in
      (sort_key job_id (filter (active_index_member now) (oks rows)), bad_directories cfg w @ errs rows))"

definition ACTIVE_INDEX_REBUILD_RACE :: string where
  "ACTIVE_INDEX_REBUILD_RACE = ''registry changed during active-index rebuild''"

text \<open>
  The nested \<open>rebuild\<close> of \<open>active_entries\<close>: revisions read at \<open>w0\<close>, scan of \<open>w1\<close>, revisions read
  again at \<open>w2\<close>, publication on \<open>w3\<close>. The result is the rows, the damage and the disk.
\<close>

definition rebuild ::
  "bool \<Rightarrow> decoding \<Rightarrow> HeadConfig \<Rightarrow> time \<Rightarrow> bool \<Rightarrow> 'r world \<Rightarrow> 'r world \<Rightarrow> 'r world \<Rightarrow> 'r world
   \<Rightarrow> (JobEntry list \<times> RegistryDamage list) \<times> 'r world" where
  "rebuild io dc cfg now publish w0 w1 w2 w3 =
     (let (active, found) = stream_active_registry dc cfg now w1;
          before = registry_directory_revisions cfg w0;
          after = registry_directory_revisions cfg w2 in
      case after of
        Inl m \<Rightarrow> ((active, found @ [damaged ''registry'' m]), w3)
      | Inr revs \<Rightarrow>
          let stable = (before = Inr revs);
              found' = (case before of
                          Inl _ \<Rightarrow> found
                        | Inr b \<Rightarrow> if b = revs then found
                            else found @ [\<lparr>dmg_path = ''registry'', dmg_detail = ACTIVE_INDEX_REBUILD_RACE\<rparr>]);
              w' = (if publish \<and> stable \<and> registry_directory_revisions cfg w3 = Inr revs
                    then (case write_active_index io cfg (map job_id active) found' (Some revs) w3 of
                            Inl _ \<Rightarrow> w3 | Inr w4 \<Rightarrow> w4)
                    else w3)
          in ((active, found'), w'))"

fun load_indexed :: "decoding \<Rightarrow> HeadConfig \<Rightarrow> 'r world \<Rightarrow> string list \<Rightarrow> JobEntry list option" where
  "load_indexed dc cfg w [] = Some []"
| "load_indexed dc cfg w (jid # rest) =
     (case load dc cfg jid w of
        Inr (Some e) \<Rightarrow> map_option (Cons e) (load_indexed dc cfg w rest)
      | _ \<Rightarrow> None)"

text \<open>\<open>active_entries\<close> without interference: all its reads see the disk \<open>w\<close>.\<close>

definition active_entries ::
  "bool \<Rightarrow> decoding \<Rightarrow> HeadConfig \<Rightarrow> time \<Rightarrow> bool \<Rightarrow> 'r world \<Rightarrow> (JobEntry list \<times> RegistryDamage list) \<times> 'r world" where
  "active_entries io dc cfg now publish w =
     (case read_active_index cfg w of
        None \<Rightarrow> rebuild io dc cfg now publish w w w w
      | Some ix \<Rightarrow>
          (case load_indexed dc cfg w (ai_job_ids ix) of
             None \<Rightarrow> rebuild io dc cfg now publish w w w w
           | Some entries \<Rightarrow> ((filter (active_index_member now) entries, ai_damage ix), w)))"

definition refresh_active_index_after_mutation ::
  "bool \<Rightarrow> time \<Rightarrow> HeadConfig \<Rightarrow> ActiveIndex option \<Rightarrow> JobEntry option \<Rightarrow> string option \<Rightarrow> 'r world \<Rightarrow> 'r world" where
  "refresh_active_index_after_mutation io now cfg previous entry removed w =
     (case previous of
        None \<Rightarrow> w
      | Some ix \<Rightarrow>
          let changed = (case removed of Some j \<Rightarrow> Some j | None \<Rightarrow> map_option job_id entry);
              dmg = filter (\<lambda>d. case changed of None \<Rightarrow> True | Some j \<Rightarrow> dmg_path d \<noteq> record_name j) (ai_damage ix);
              ids1 = (case removed of None \<Rightarrow> ai_job_ids ix | Some j \<Rightarrow> filter (\<lambda>x. x \<noteq> j) (ai_job_ids ix));
              ids2 = (case entry of
                        None \<Rightarrow> ids1
                      | Some e \<Rightarrow> if active_index_member now e then List.insert (job_id e) ids1
                                  else filter (\<lambda>x. x \<noteq> job_id e) ids1)
          in (case write_active_index io cfg ids2 dmg None w of Inl _ \<Rightarrow> w | Inr w' \<Rightarrow> w'))"

section \<open>The public view of a row\<close>

definition hide_env :: "JobEntry \<Rightarrow> JobEntry" where
  "hide_env e = e\<lparr>custom_env := [], custom_env_loaded := False\<rparr>"

lemma validate_entry_custom_env: "validate_entry (a(''custom_env'' := v)) = validate_entry a"
proof -
  have own: "normalize_owner (a(''custom_env'' := v)) = (normalize_owner a)(''custom_env'' := v)"
    by (auto simp: normalize_owner_def fun_eq_iff)
  have "validate_entry_lifecycle (b(''custom_env'' := v)) = validate_entry_lifecycle b" for b :: attrs
    by (simp add: validate_entry_lifecycle_def)
  moreover have "validate_entry_collections (b(''custom_env'' := v)) = validate_entry_collections b" for b :: attrs
    by (simp add: validate_entry_collections_def)
  moreover have "validate_entry_provenance (b(''custom_env'' := v)) = validate_entry_provenance b" for b :: attrs
    by (simp add: validate_entry_provenance_def OPTIONAL_TEXT_def)
  moreover have "validate_entry_limits (b(''custom_env'' := v)) = validate_entry_limits b" for b :: attrs
    by (simp add: validate_entry_limits_def)
  moreover have "validate_entry_contracts (b(''custom_env'' := v)) = validate_entry_contracts b" for b :: attrs
    by (simp add: validate_entry_contracts_def)
  ultimately show ?thesis by (simp add: validate_entry_def own)
qed

lemma prepare_custom_env:
  "empty_text_to_null ''cache_source_env_hash'' (empty_text_to_null ''env_hash'' (bound_entry_diagnostics (a(''custom_env'' := v))))
   = (empty_text_to_null ''cache_source_env_hash'' (empty_text_to_null ''env_hash'' (bound_entry_diagnostics a)))(''custom_env'' := v)"
  by (auto simp: empty_text_to_null_def bound_entry_diagnostics_def fun_eq_iff)

lemma init_custom_env:
  "job_entry_init now (AList.update ''custom_env'' v payload) =
     map_sum id (\<lambda>a. a(''custom_env'' := v)) (job_entry_init now (AList.update ''custom_env'' u payload))"
proof -
  have "missing_fields (AList.update ''custom_env'' v payload) = missing_fields (AList.update ''custom_env'' u payload)"
  proof -
    have "''custom_env'' \<notin> set REQUIRED_FIELDS" by (simp add: REQUIRED_FIELDS_def)
    then have "map_of (AList.update ''custom_env'' x payload) f = map_of payload f" if "f \<in> set REQUIRED_FIELDS" for x f
      using that by (auto simp: update_conv')
    then show ?thesis unfolding missing_fields_def by (intro filter_cong) simp_all
  qed
  then show ?thesis
    by (auto simp: job_entry_init_def Let_def update_conv' fun_eq_iff)
qed

lemma normalize_custom_env: "normalize_owner (a(''custom_env'' := v)) = (normalize_owner a)(''custom_env'' := v)"
  by (auto simp: normalize_owner_def fun_eq_iff)

lemma entry_of_custom_env:
  "entry_of (a(''custom_env'' := v)) ks ld = (entry_of a ks ld)\<lparr>custom_env := strdict_of v\<rparr>"
  by (rule JobEntry.equality) simp_all

end
