(* ===== verification/Registry_Write.thy ===== *)
theory Registry_Write
  imports Active_Index
begin

text \<open>
  The write side of the job registry (\<open>save\<close>, \<open>remove_record\<close> and the dependency
  finalization of \<open>src/dt/jobs/__init__.py\<close>) as functions on the disk.

  An operation returns the disk it leaves behind, the caller's row as the code mutated it, and
  the message of the exception it raised, if any: a failing call may already have changed the
  disk. \<open>saving\<close> holds what a call takes from its surroundings: the decoding parameters, the
  float printer, the clocks, the file times, whether each write reaches the disk, and the
  update of the derived replica cache, which may be any function.

  The caller owns the job lock and the mutation lock, so an operation sees the disk change
  only by its own writes.
\<close>

section \<open>Saving a row\<close>

record 'r saving =
  sv_decoding :: decoding
  sv_float_repr :: "rat \<Rightarrow> string"
  sv_updated_at :: time
  sv_now :: time
  sv_mtime :: time
  sv_row_io :: bool
  sv_index_io :: bool
  sv_replicas :: "JobEntry option \<Rightarrow> JobEntry option \<Rightarrow> JobEntry option \<Rightarrow> 'r world \<Rightarrow> 'r"

text \<open>A finalized lost row accepts only a save that keeps it lost and finalized.\<close>

definition reopens :: "JobEntry option \<Rightarrow> JobEntry \<Rightarrow> bool" where
  "reopens existing e =
     (case existing of
        None \<Rightarrow> False
      | Some old \<Rightarrow> terminal_finalized_at old \<noteq> None
          \<and> (status e \<noteq> ''lost'' \<or> terminal_finalized_at e \<noteq> terminal_finalized_at old))"

definition inherit_layout :: "HeadConfig \<Rightarrow> JobEntry option \<Rightarrow> JobEntry \<Rightarrow> JobEntry" where
  "inherit_layout cfg existing e =
     (case existing of
        Some old \<Rightarrow> if storage_layout e = None then e\<lparr>storage_layout := storage_layout old\<rparr> else e
      | None \<Rightarrow> if storage_layout e = None \<and> cf_layout cfg = ROLE_LAYOUT
                then e\<lparr>storage_layout := Some ROLE_LAYOUT\<rparr> else e)"

text \<open>A row read without its private values gets them back from the stored row.\<close>

definition preserve_env :: "JobEntry option \<Rightarrow> JobEntry \<Rightarrow> string + JobEntry" where
  "preserve_env existing e =
     (if custom_env_loaded e then Inr e
      else case existing of
        None \<Rightarrow> Inl ''cannot preserve unloaded custom environment: registry row vanished''
      | Some old \<Rightarrow>
          if sort (keys (custom_env old)) \<noteq> custom_env_keys e
          then Inl ''custom environment changed while the registry row was being updated''
          else Inr (e\<lparr>custom_env := custom_env old, custom_env_keys := sort (keys (custom_env old)),
                      custom_env_loaded := True\<rparr>))"

text \<open>
  The caller's row and the persisted row, which are one object unless the environment had to
  be restored. \<open>encode_registry_entry\<close> bounds the diagnostics of the persisted object in place.
\<close>

definition stamp_rows :: "time \<Rightarrow> JobEntry \<Rightarrow> JobEntry \<Rightarrow> JobEntry \<times> JobEntry" where
  "stamp_rows t e persisted =
     (if custom_env_loaded e
      then (let e' = bound_entry (e\<lparr>updated_at := Some t, custom_env_keys := sort (keys (custom_env e))\<rparr>) in (e', e'))
      else (e\<lparr>updated_at := Some t\<rparr>, bound_entry (persisted\<lparr>updated_at := Some t\<rparr>)))"

text \<open>The steps under the mutation lock: publish the row, check the authority, advance the caches.\<close>

definition commit_row ::
  "'r saving \<Rightarrow> HeadConfig \<Rightarrow> RegistryLocation \<Rightarrow> JobEntry option \<Rightarrow> JobEntry \<Rightarrow> json \<Rightarrow> 'r world \<Rightarrow> 'r world \<times> check" where
  "commit_row sv cfg loc existing persisted doc w =
     (let jid = job_id persisted; previous_index = read_active_index cfg w in
      if \<not> sv_row_io sv then (w, Some (''cannot publish registry record: '' @ record_name jid))
      else
        let w1 = on_place (loc_place loc) (put_file (record_name jid) (Doc doc (sv_mtime sv))) w in
        case resolve_registry_record cfg False jid w1 of
          Inl m \<Rightarrow> (w1, Some m)
        | Inr (resolved, _) \<Rightarrow>
            if map_option loc_place resolved \<noteq> Some (loc_place loc)
            then (w1, Some ''registry authority changed while the record was saved'')
            else
              let w2 = refresh_active_index_after_mutation (sv_index_io sv) (sv_now sv) cfg previous_index (Some persisted) None w1
              in (w2\<lparr>replicas := sv_replicas sv existing (Some persisted) None w2\<rparr>, None))"

definition verify_reservation :: "decoding \<Rightarrow> RegistryLocation \<Rightarrow> JobEntry \<Rightarrow> 'r world \<Rightarrow> check" where
  "verify_reservation dc loc e w =
     (if dispatch_token e = None then None
      else case read_entry_path dc w (loc_place loc) (job_id e) of
        Inl m \<Rightarrow> Some m
      | Inr verified \<Rightarrow>
          if dispatch_token verified \<noteq> dispatch_token e \<or> dispatch_node verified \<noteq> dispatch_node e
          then Some ''dispatch reservation could not be read back'' else None)"

definition existing_row :: "decoding \<Rightarrow> 'r world \<Rightarrow> RegistryLocation \<Rightarrow> string \<Rightarrow> string + JobEntry option" where
  "existing_row dc w loc jid =
     (if loc_exists loc then bind_ok (read_entry_path dc w (loc_place loc) jid) (\<lambda>e. Inr (Some e)) else Inr None)"

text \<open>Everything before the encoded row is published: what is to be committed, or the raised message.\<close>

type_synonym plan = "RegistryLocation \<times> JobEntry option \<times> JobEntry \<times> json"

definition prepare_save ::
  "'r saving \<Rightarrow> HeadConfig \<Rightarrow> JobEntry \<Rightarrow> 'r world \<Rightarrow> 'r world \<times> JobEntry \<times> (string + plan)" where
  "prepare_save sv cfg e w =
     (case resolve_registry_record cfg True (job_id e) w of
        Inl m \<Rightarrow> (w, e, Inl m)
      | Inr (None, w1) \<Rightarrow> (w1, e, Inl ''assertion failed'')
      | Inr (Some loc, w1) \<Rightarrow>
      case existing_row (sv_decoding sv) w1 loc (job_id e) of
        Inl m \<Rightarrow> (w1, e, Inl m)
      | Inr existing \<Rightarrow>
          if reopens existing e then (w1, e, Inl ''a finalized lost result cannot be reopened'')
          else
            let e1 = inherit_layout cfg existing e in
            if loc_layout loc = LEGACY_LAYOUT \<and> storage_layout e1 = Some ROLE_LAYOUT
            then (w1, e1, Inl ''legacy registry authority cannot store a role-layout row'')
            else case preserve_env existing e1 of
              Inl m \<Rightarrow> (w1, e1, Inl m)
            | Inr restored \<Rightarrow>
                let (e2, persisted) = stamp_rows (sv_updated_at sv) e1 restored in
                (w1, e2, bind_ok
                   (encode_registry_entry (sv_float_repr sv) (fst (sv_decoding sv)) (snd (sv_decoding sv)) persisted)
                   (\<lambda>doc. Inr (loc, existing, persisted, doc))))"

definition save :: "'r saving \<Rightarrow> HeadConfig \<Rightarrow> JobEntry \<Rightarrow> 'r world \<Rightarrow> 'r world \<times> JobEntry \<times> check" where
  "save sv cfg e w =
     (case prepare_save sv cfg e w of
        (w1, e2, Inl m) \<Rightarrow> (w1, e2, Some m)
      | (w1, e2, Inr (loc, existing, persisted, doc)) \<Rightarrow>
          (case commit_row sv cfg loc existing persisted doc w1 of
             (w2, Some m) \<Rightarrow> (w2, e2, Some m)
           | (w2, None) \<Rightarrow> (w2, e2, verify_reservation (sv_decoding sv) loc e2 w2)))"

section \<open>Removing a row\<close>

text \<open>
  The canonical name is renamed to an ignored tombstone, which is then unlinked; \<open>rm_io\<close> says
  which of the steps fails: the rename, the first directory sync (after which the rename is
  undone), the unlink of the tombstone, or the last directory sync.
\<close>

datatype remove_io = RemoveOk | RenameFails | SyncFails | UnlinkFails | LastSyncFails

definition tombstone :: "string \<Rightarrow> string \<Rightarrow> string" where
  "tombstone jid token = ''.removing-'' @ jid @ ''-'' @ token @ ''.json''"

definition rename_file :: "string \<Rightarrow> string \<Rightarrow> dir \<Rightarrow> dir" where
  "rename_file a b d =
     (case map_of (dir_files d) a of None \<Rightarrow> d | Some f \<Rightarrow> put_file b f (drop_file a d))"

definition remove_file :: "remove_io \<Rightarrow> string \<Rightarrow> string \<Rightarrow> dir \<Rightarrow> dir" where
  "remove_file io jid token d =
     (let nm = record_name jid; tomb = tombstone jid token; moved = rename_file nm tomb d in
      case io of
        RenameFails \<Rightarrow> d
      | SyncFails \<Rightarrow> rename_file tomb nm moved
      | UnlinkFails \<Rightarrow> moved
      | _ \<Rightarrow> drop_file tomb moved)"

definition remove_record ::
  "'r saving \<Rightarrow> remove_io \<Rightarrow> string \<Rightarrow> HeadConfig \<Rightarrow> string \<Rightarrow> 'r world \<Rightarrow> 'r world \<times> check" where
  "remove_record sv io token cfg jid w =
     (case resolve_registry_record cfg False jid w of
        Inl m \<Rightarrow> (w, Some m)
      | Inr (None, _) \<Rightarrow> (w, None)
      | Inr (Some loc, _) \<Rightarrow>
      case read_entry_path (sv_decoding sv) w (loc_place loc) jid of
        Inl m \<Rightarrow> (w, Some m)
      | Inr removed_entry \<Rightarrow>
          let previous_index = read_active_index cfg w;
              w1 = on_place (loc_place loc) (remove_file io jid token) w in
          if io \<noteq> RemoveOk then (w1, Some (''cannot durably remove registry record: '' @ jid))
          else case resolve_registry_record cfg False jid w1 of
            Inl m \<Rightarrow> (w1, Some m)
          | Inr (Some _, _) \<Rightarrow> (w1, Some ''registry authority reappeared while the record was removed'')
          | Inr (None, _) \<Rightarrow>
              let w2 = refresh_active_index_after_mutation (sv_index_io sv) (sv_now sv) cfg previous_index None (Some jid) w1
              in (w2\<lparr>replicas := sv_replicas sv None None (Some removed_entry) w2\<rparr>, None))"

section \<open>Dependency finalization\<close>

text \<open>
  The disk, and either the raised message or the row (\<open>None\<close> when there is none). The job lock
  refuses an unsafe job id.
\<close>

definition finalize_loaded ::
  "'r saving \<Rightarrow> HeadConfig \<Rightarrow> time \<Rightarrow> JobEntry \<Rightarrow> 'r world \<Rightarrow> 'r world \<times> (string + JobEntry)" where
  "finalize_loaded sv cfg now e w =
     (case finalize_dependency_terminal_entry now e of
        Inl m \<Rightarrow> (w, Inl m)
      | Inr (e', dirty) \<Rightarrow>
          if \<not> dirty then (w, Inr e')
          else (case save sv cfg e' w of
                  (w', _, Some m) \<Rightarrow> (w', Inl m)
                | (w', saved, None) \<Rightarrow> (w', Inr saved)))"

definition finalize_dependency_terminal ::
  "'r saving \<Rightarrow> HeadConfig \<Rightarrow> time \<Rightarrow> string \<Rightarrow> 'r world \<Rightarrow> 'r world \<times> (string + JobEntry option)" where
  "finalize_dependency_terminal sv cfg now jid w =
     (if \<not> valid_job_id jid then (w, Inl ''job identity is unsafe'')
      else case load (sv_decoding sv) cfg jid w of
        Inl m \<Rightarrow> (w, Inl m)
      | Inr None \<Rightarrow> (w, Inr None)
      | Inr (Some e) \<Rightarrow> (let (w', r) = finalize_loaded sv cfg now e w in (w', bind_ok r (\<lambda>x. Inr (Some x)))))"

definition finalize_dependency_terminal_locked ::
  "'r saving \<Rightarrow> HeadConfig \<Rightarrow> time \<Rightarrow> JobEntry \<Rightarrow> 'r world \<Rightarrow> 'r world \<times> (string + JobEntry option)" where
  "finalize_dependency_terminal_locked sv cfg now e w =
     (case load (sv_decoding sv) cfg (job_id e) w of
        Inl m \<Rightarrow> (w, Inl m)
      | Inr None \<Rightarrow> (w, Inr None)
      | Inr (Some current) \<Rightarrow> (let (w', r) = finalize_loaded sv cfg now current w in (w', bind_ok r (\<lambda>x. Inr (Some x)))))"

section \<open>What a save does to the disk\<close>

text \<open>Two disks with the same files whose unsafe directories coincide.\<close>

definition same_rows :: "'r world \<Rightarrow> 'r world \<Rightarrow> bool" where
  "same_rows w w' \<longleftrightarrow> (\<forall>p. files_of w' p = files_of w p \<and> (dirs w' p = BadDir \<longleftrightarrow> dirs w p = BadDir))"

lemma same_rows_refl [simp]: "same_rows w w"
  by (simp add: same_rows_def)

lemma same_rows_trans: "same_rows u v \<Longrightarrow> same_rows v w \<Longrightarrow> same_rows u w"
  by (simp add: same_rows_def)

lemma load_same_rows: "same_rows w w' \<Longrightarrow> load dc cfg jid w' = load dc cfg jid w"
  by (rule load_cong) (simp_all add: same_rows_def)

lemma same_rows_dirs: "dirs w' = dirs w \<Longrightarrow> same_rows w w'"
  by (simp add: same_rows_def files_of_def)

lemma refresh_index_dirs [simp]: "dirs (refresh_active_index_after_mutation io now cfg previous e removed w) = dirs w"
  by (auto simp: refresh_active_index_after_mutation_def write_active_index_def Let_def bind_ok_def split: option.splits sum.splits)

lemma same_rows_create:
  "require_private_directory cfg True p w = Inr (b, w1) \<Longrightarrow> same_rows w w1 \<and> is_Dir (dirs w1 p)"
  by (auto simp: require_private_directory_def same_rows_def files_of_def on_place_def split: dir.splits if_splits)

lemma registry_path_candidate: "(registry_path cfg, cf_layout cfg) \<in> set (candidates cfg)"
  by (simp add: candidates_def)

lemma candidates_places: "fst ` set (candidates cfg) = {registry_path cfg, LegacyPlace}"
  by (auto simp: candidates_def)

lemma holding_place: "holding cfg w jid = [c] \<Longrightarrow> c \<in> set (candidates cfg) \<and> row_at w (fst c) jid \<noteq> None
    \<and> (\<forall>c' \<in> set (candidates cfg). c' \<noteq> c \<longrightarrow> row_at w (fst c') jid = None)"
proof -
  assume h: "holding cfg w jid = [c]"
  then have "set (holding cfg w jid) = {c}" by simp
  then show ?thesis by auto
qed

lemma row_is_Dir: "row_at w p jid \<noteq> None \<Longrightarrow> is_Dir (dirs w p)"
  by (cases "dirs w p") (auto simp: files_of_def)

text \<open>The location that a save resolves: the one directory that may hold the job afterwards.\<close>

lemma resolve_create:
  assumes "resolve_registry_record cfg True jid w = Inr (l, w1)"
  obtains loc where "l = Some loc" "valid_job_id jid" "same_rows w w1" "index w1 = index w" "is_Dir (dirs w1 (loc_place loc))"
    "(loc_place loc, loc_layout loc) \<in> set (candidates cfg)"
    "\<forall>c \<in> set (candidates cfg). usable w jid (fst c)"
    "\<forall>c \<in> set (candidates cfg). fst c \<noteq> loc_place loc \<longrightarrow> row_at w (fst c) jid = None"
    "loc_exists loc \<longleftrightarrow> row_at w (loc_place loc) jid \<noteq> None"
proof -
  from assms obtain locs where valid: "valid_job_id jid" and locs: "registry_locations cfg jid w = Inr locs"
    by (auto simp: resolve_registry_record_def bind_ok_Inr split: if_splits)
  then have use: "\<forall>c \<in> set (candidates cfg). usable w jid (fst c)" and eq: "locs = map location (holding cfg w jid)"
    by (simp_all add: registry_locations_Inr)
  consider (none) "holding cfg w jid = []" | (one) c where "holding cfg w jid = [c]" | (many) "1 < length (holding cfg w jid)"
    by (cases "holding cfg w jid" rule: list.exhaust; cases "tl (holding cfg w jid)") auto
  then show thesis
  proof cases
    case none
    then obtain b where req: "require_private_directory cfg True (registry_path cfg) w = Inr (b, w1)"
      and l: "l = Some \<lparr>loc_place = registry_path cfg, loc_layout = cf_layout cfg, loc_exists = False\<rparr>"
      using assms valid locs eq by (auto simp: resolve_registry_record_def bind_ok_Inr)
    have "index w1 = index w"
      using req by (auto simp: require_private_directory_def on_place_def split: dir.splits)
    moreover have "\<forall>c \<in> set (candidates cfg). row_at w (fst c) jid = None"
      using none by (simp add: filter_empty_conv)
    ultimately show thesis
      using that [OF l valid _ _ _ _ use] same_rows_create [OF req] registry_path_candidate [of cfg] by auto
  next
    case (one c)
    then have "l = Some (location c)" "w1 = w"
      using assms valid locs eq by (auto simp: resolve_registry_record_def)
    moreover have "is_Dir (dirs w (fst c))" using holding_place [OF one] row_is_Dir [of w "fst c" jid] by blast
    moreover have "\<forall>c' \<in> set (candidates cfg). fst c' \<noteq> fst c \<longrightarrow> row_at w (fst c') jid = None"
      using holding_place [OF one] by auto
    ultimately show thesis
      using that [of "location c"] holding_place [OF one] valid use by (auto simp: location_def)
  next
    case many
    then show thesis using assms valid locs eq by (auto simp: resolve_registry_record_def)
  qed
qed

text \<open>What a successful preparation guarantees.\<close>

lemma stamp_rows_ids:
  assumes "stamp_rows t e restored = (e2, persisted)" and "job_id restored = job_id e"
  shows "job_id e2 = job_id e" "job_id persisted = job_id e"
  using assms by (auto simp: stamp_rows_def Let_def bound_entry_select split: if_splits)

lemma preserve_env_Inr:
  "preserve_env existing e = Inr r \<longleftrightarrow>
     (if custom_env_loaded e then r = e
      else \<exists>old. existing = Some old \<and> sort (keys (custom_env old)) = custom_env_keys e
        \<and> r = e\<lparr>custom_env := custom_env old, custom_env_keys := sort (keys (custom_env old)), custom_env_loaded := True\<rparr>)"
  by (auto simp: preserve_env_def split: option.splits if_splits)

lemma inherit_layout_select [simp]:
  "job_id (inherit_layout cfg existing e) = job_id e"
  "custom_env_loaded (inherit_layout cfg existing e) = custom_env_loaded e"
  "status (inherit_layout cfg existing e) = status e"
  "terminal_finalized_at (inherit_layout cfg existing e) = terminal_finalized_at e"
  "dispatch_token (inherit_layout cfg existing e) = dispatch_token e"
  "dispatch_node (inherit_layout cfg existing e) = dispatch_node e"
  by (simp_all add: inherit_layout_def split: option.split)

lemma prepare_saveE:
  assumes "prepare_save sv cfg e w = (w1, e2, Inr (loc, existing, persisted, doc))"
  obtains restored where "resolve_registry_record cfg True (job_id e) w = Inr (Some loc, w1)"
    "existing_row (sv_decoding sv) w1 loc (job_id e) = Inr existing" "\<not> reopens existing e"
    "preserve_env existing (inherit_layout cfg existing e) = Inr restored"
    "stamp_rows (sv_updated_at sv) (inherit_layout cfg existing e) restored = (e2, persisted)"
    "encode_registry_entry (sv_float_repr sv) (fst (sv_decoding sv)) (snd (sv_decoding sv)) persisted = Inr doc"
  using assms
  by (auto simp: prepare_save_def Let_def bind_ok_Inr split: sum.splits prod.splits option.splits if_splits)

lemma holding_single:
  assumes "(p, lay) \<in> set (candidates cfg)" and "row_at w p jid \<noteq> None"
    and "\<forall>c \<in> set (candidates cfg). fst c \<noteq> p \<longrightarrow> row_at w (fst c) jid = None"
  shows "holding cfg w jid = [(p, lay)]"
proof (cases "registry_path cfg = LegacyPlace")
  case True
  then show ?thesis using assms by (simp add: candidates_def)
next
  case False
  then have cs: "candidates cfg = [(registry_path cfg, cf_layout cfg), (LegacyPlace, LEGACY_LAYOUT)]"
    by (simp add: candidates_def)
  with assms(1) consider "p = registry_path cfg" "lay = cf_layout cfg" | "p = LegacyPlace" "lay = LEGACY_LAYOUT" by auto
  then show ?thesis using assms(2,3) False unfolding cs by cases simp_all
qed

lemma commit_ok:
  assumes "is_Dir (dirs w (loc_place loc))" and "(loc_place loc, loc_layout loc) \<in> set (candidates cfg)"
    and "valid_job_id (job_id p)" and "\<forall>c \<in> set (candidates cfg). usable w (job_id p) (fst c)"
    and "\<forall>c \<in> set (candidates cfg). fst c \<noteq> loc_place loc \<longrightarrow> row_at w (fst c) (job_id p) = None"
    and "sv_row_io sv"
  shows "snd (commit_row sv cfg loc existing p doc w) = None
    \<and> dirs (fst (commit_row sv cfg loc existing p doc w))
        = dirs (on_place (loc_place loc) (put_file (record_name (job_id p)) (Doc doc (sv_mtime sv))) w)
    \<and> holding cfg (fst (commit_row sv cfg loc existing p doc w)) (job_id p) = [(loc_place loc, loc_layout loc)]
    \<and> (\<forall>c \<in> set (candidates cfg). usable (fst (commit_row sv cfg loc existing p doc w)) (job_id p) (fst c))"
proof -
  let ?f = "Doc doc (sv_mtime sv)" and ?nm = "record_name (job_id p)"
  let ?w1 = "on_place (loc_place loc) (put_file ?nm ?f) w"
  have row: "row_at ?w1 q (job_id p) = (if q = loc_place loc then Some ?f else row_at w q (job_id p))" for q
    using assms(1) by (simp add: files_put)
  have bad: "dirs ?w1 q = BadDir \<longleftrightarrow> dirs w q = BadDir" for q
    by (cases "dirs w q") (auto simp: on_place_def)
  have use: "\<forall>c \<in> set (candidates cfg). usable ?w1 (job_id p) (fst c)"
    using assms(4) row bad by (auto simp: usable_def)
  have hold: "holding cfg ?w1 (job_id p) = [(loc_place loc, loc_layout loc)]"
    using assms(2,5) row by (intro holding_single) simp_all
  have res: "resolve_registry_record cfg False (job_id p) ?w1 = Inr (Some (location (loc_place loc, loc_layout loc)), ?w1)"
    using assms(3) use hold by (simp add: resolve_Inr)
  let ?w2 = "fst (commit_row sv cfg loc existing p doc w)"
  have eq: "snd (commit_row sv cfg loc existing p doc w) = None \<and> dirs ?w2 = dirs ?w1"
    using assms(6) by (simp add: commit_row_def Let_def res location_def)
  then have "files_of ?w2 q = files_of ?w1 q" for q by (simp add: files_of_def)
  with eq use hold show ?thesis by (simp add: usable_def)
qed

lemma commit_fails: "\<not> sv_row_io sv \<Longrightarrow> fst (commit_row sv cfg loc existing p doc w) = w \<and> snd (commit_row sv cfg loc existing p doc w) \<noteq> None"
  by (simp add: commit_row_def Let_def)

text \<open>The two outcomes of a save: nothing visible changed, or the prepared row is the one on disk.\<close>

lemma save_unprepared:
  assumes "prepare_save sv cfg e w = (w1, e2, Inl m)"
  shows "save sv cfg e w = (w1, e2, Some m) \<and> same_rows w w1 \<and> index w1 = index w"
proof -
  have "same_rows w w1 \<and> index w1 = index w"
  proof (cases "resolve_registry_record cfg True (job_id e) w")
    case (Inl m')
    then show ?thesis using assms by (simp add: prepare_save_def)
  next
    case (Inr r)
    obtain l w' where r: "r = (l, w')" by (cases r)
    obtain loc where l: "l = Some loc" "same_rows w w'" "index w' = index w" using resolve_create [OF Inr [unfolded r]] by metis
    then have "w1 = w'"
      using assms Inr r by (auto simp: prepare_save_def Let_def split: sum.splits if_splits prod.splits)
    with l show ?thesis by simp
  qed
  then show ?thesis using assms by (simp add: save_def)
qed

lemma save_prepared:
  assumes prep: "prepare_save sv cfg e w = (w1, e2, Inr (loc, existing, persisted, doc))" and io: "sv_row_io sv"
  shows "load dc cfg (job_id e) (fst (save sv cfg e w)) = Inr (Some (normal_entry (Some (sv_mtime sv)) persisted))"
    and "dirs (fst (save sv cfg e w)) = dirs (on_place (loc_place loc) (put_file (record_name (job_id e)) (Doc doc (sv_mtime sv))) w1)"
    and "fst (snd (save sv cfg e w)) = e2" and "snd (snd (save sv cfg e w)) = None"
proof -
  from prep obtain restored where res: "resolve_registry_record cfg True (job_id e) w = Inr (Some loc, w1)"
    and env: "preserve_env existing (inherit_layout cfg existing e) = Inr restored"
    and stamp: "stamp_rows (sv_updated_at sv) (inherit_layout cfg existing e) restored = (e2, persisted)"
    and enc: "encode_registry_entry (sv_float_repr sv) (fst (sv_decoding sv)) (snd (sv_decoding sv)) persisted = Inr doc"
    by (rule prepare_saveE) (rule that)
  have "job_id restored = job_id e" using env by (auto simp: preserve_env_Inr split: if_splits)
  with stamp have ids: "job_id e2 = job_id e" "job_id persisted = job_id e" using stamp_rows_ids by fastforce+
  have tok: "dispatch_token e2 = dispatch_token persisted" "dispatch_node e2 = dispatch_node persisted"
    using env stamp by (auto simp: preserve_env_Inr stamp_rows_def Let_def bound_entry_def split: if_splits)
  from res have loc: "valid_job_id (job_id e)" "same_rows w w1" "is_Dir (dirs w1 (loc_place loc))"
    "(loc_place loc, loc_layout loc) \<in> set (candidates cfg)"
    "\<forall>c \<in> set (candidates cfg). usable w (job_id e) (fst c)"
    "\<forall>c \<in> set (candidates cfg). fst c \<noteq> loc_place loc \<longrightarrow> row_at w (fst c) (job_id e) = None"
    by (rule resolve_create; simp)+
  have use1: "\<forall>c \<in> set (candidates cfg). usable w1 (job_id e) (fst c)"
    "\<forall>c \<in> set (candidates cfg). fst c \<noteq> loc_place loc \<longrightarrow> row_at w1 (fst c) (job_id e) = None"
    using loc by (auto simp: usable_def same_rows_def)
  obtain w2 c where com: "commit_row sv cfg loc existing persisted doc w1 = (w2, c)" by (cases "commit_row sv cfg loc existing persisted doc w1")
  have c: "c = None" "dirs w2 = dirs (on_place (loc_place loc) (put_file (record_name (job_id e)) (Doc doc (sv_mtime sv))) w1)"
    and hold: "holding cfg w2 (job_id e) = [(loc_place loc, loc_layout loc)]"
    "\<forall>c \<in> set (candidates cfg). usable w2 (job_id e) (fst c)"
    using commit_ok [OF loc(3,4), of persisted sv existing doc] loc(1) use1 io ids com by simp_all
  have stored: "row_at w2 (loc_place loc) (job_id e) = Some (Doc doc (sv_mtime sv))"
    using c(2) loc(3) files_put [of "loc_place loc" "record_name (job_id e)" "Doc doc (sv_mtime sv)" w1 "loc_place loc" "record_name (job_id e)"]
    by (simp add: files_of_def)
  have read: "read_entry_path dc w2 (loc_place loc) (job_id e) = Inr (normal_entry (Some (sv_mtime sv)) persisted)" for dc
    using encode_decodes [OF enc, unfolded ids] by (simp add: read_entry_path_def Let_def stored decode_entry_result_def)
  then have ver: "verify_reservation (sv_decoding sv) loc e2 w2 = None"
    by (simp add: verify_reservation_def ids tok normal_select)
  have sv: "save sv cfg e w = (w2, e2, None)" by (simp add: save_def prep com c(1) ver)
  show "load dc cfg (job_id e) (fst (save sv cfg e w)) = Inr (Some (normal_entry (Some (sv_mtime sv)) persisted))"
    unfolding sv fst_conv load_Some using loc(1) hold read by simp
  show "dirs (fst (save sv cfg e w)) = dirs (on_place (loc_place loc) (put_file (record_name (job_id e)) (Doc doc (sv_mtime sv))) w1)"
    "fst (snd (save sv cfg e w)) = e2" "snd (snd (save sv cfg e w)) = None"
    by (simp_all add: sv c(2))
qed

lemma save_no_io:
  assumes "prepare_save sv cfg e w = (w1, e2, Inr plan)" and "\<not> sv_row_io sv"
  shows "fst (save sv cfg e w) = w1 \<and> same_rows w w1 \<and> index w1 = index w \<and> snd (snd (save sv cfg e w)) \<noteq> None"
proof -
  obtain loc existing persisted doc where pl: "plan = (loc, existing, persisted, doc)" by (cases plan)
  from assms(1) have "resolve_registry_record cfg True (job_id e) w = Inr (Some loc, w1)"
    unfolding pl by (rule prepare_saveE)
  then have "same_rows w w1 \<and> index w1 = index w" by (rule resolve_create) simp
  then show ?thesis
    using assms commit_fails [OF assms(2), of cfg loc existing persisted doc w1]
    by (auto simp: save_def pl split: prod.splits option.splits)
qed

lemma put_other:
  assumes "dirs w' = dirs (on_place p (put_file nm f) w1)" and "same_rows w w1"
  shows "nm' \<noteq> nm \<Longrightarrow> map_of (files_of w' q) nm' = map_of (files_of w q) nm'"
    and "dirs w' q = BadDir \<longleftrightarrow> dirs w q = BadDir"
proof -
  have eq: "files_of w' q = files_of (on_place p (put_file nm f) w1) q"
    by (simp only: files_of_def assms(1))
  show "map_of (files_of w' q) nm' = map_of (files_of w q) nm'" if "nm' \<noteq> nm"
    unfolding eq files_put using that assms(2) by (simp add: same_rows_def)
  have "dirs (on_place p (put_file nm f) w1) q = BadDir \<longleftrightarrow> dirs w1 q = BadDir"
    by (cases "dirs w1 q") (auto simp: on_place_def)
  then show "dirs w' q = BadDir \<longleftrightarrow> dirs w q = BadDir"
    unfolding assms(1) using assms(2) by (simp add: same_rows_def)
qed

lemma prepare_same_rows: "prepare_save sv cfg e w = (w1, e2, Inr (loc, existing, persisted, doc)) \<Longrightarrow> same_rows w w1"
  by (erule prepare_saveE) (erule resolve_create, simp)

lemma save_others:
  assumes "jid \<noteq> job_id e"
  shows "load dc cfg jid (fst (save sv cfg e w)) = load dc cfg jid w"
proof -
  obtain w1 e2 r where prep: "prepare_save sv cfg e w = (w1, e2, r)" by (metis prod.exhaust)
  show ?thesis
  proof (cases r)
    case (Inl m)
    with save_unprepared prep have "same_rows w (fst (save sv cfg e w))" by fastforce
    then show ?thesis by (rule load_same_rows)
  next
    case (Inr plan)
    obtain loc existing persisted doc where plan: "plan = (loc, existing, persisted, doc)" by (cases plan)
    show ?thesis
    proof (cases "sv_row_io sv")
      case True
      note d = save_prepared(2) [OF prep [unfolded Inr plan] True]
      show ?thesis
        using assms put_other [OF d prepare_same_rows [OF prep [unfolded Inr plan]]] by (intro load_cong) simp_all
    next
      case False
      with save_no_io [OF prep [unfolded Inr]] have "same_rows w (fst (save sv cfg e w))" by simp
      then show ?thesis by (rule load_same_rows)
    qed
  qed
qed

text \<open>The row a save compares with is the one \<open>load\<close> returns.\<close>

lemma existing_is_loaded:
  assumes "prepare_save sv cfg e w = (w1, e2, Inr (loc, existing, persisted, doc))"
  shows "load (sv_decoding sv) cfg (job_id e) w = Inr existing"
proof -
  from assms have res: "resolve_registry_record cfg True (job_id e) w = Inr (Some loc, w1)"
    and ex: "existing_row (sv_decoding sv) w1 loc (job_id e) = Inr existing"
    by (rule prepare_saveE; simp)+
  from res have loc: "valid_job_id (job_id e)" "same_rows w w1"
    "(loc_place loc, loc_layout loc) \<in> set (candidates cfg)"
    "\<forall>c \<in> set (candidates cfg). usable w (job_id e) (fst c)"
    "\<forall>c \<in> set (candidates cfg). fst c \<noteq> loc_place loc \<longrightarrow> row_at w (fst c) (job_id e) = None"
    "loc_exists loc \<longleftrightarrow> row_at w (loc_place loc) (job_id e) \<noteq> None"
    by (rule resolve_create; simp)+
  show ?thesis
  proof (cases "loc_exists loc")
    case True
    then obtain r where r: "existing = Some r" "read_entry_path (sv_decoding sv) w1 (loc_place loc) (job_id e) = Inr r"
      using ex by (auto simp: existing_row_def bind_ok_Inr)
    have "holding cfg w (job_id e) = [(loc_place loc, loc_layout loc)]"
      using loc True by (intro holding_single) simp_all
    moreover have "read_entry_path (sv_decoding sv) w (loc_place loc) (job_id e) = Inr r"
      using r(2) loc(2) by (simp add: read_entry_path_def same_rows_def)
    ultimately show ?thesis using loc r by (simp add: load_Some)
  next
    case False
    then have "existing = None" using ex by (simp add: existing_row_def)
    moreover have "holding cfg w (job_id e) = []" using loc False by (auto simp: filter_empty_conv)
    ultimately show ?thesis using loc by (simp add: load_None)
  qed
qed

section \<open>Properties of saving\<close>

lemma restore_then_stamp:
  "x\<lparr>custom_env := a, custom_env_keys := b, custom_env_loaded := c, updated_at := t\<rparr>
   = x\<lparr>updated_at := t, custom_env := a, custom_env_keys := b, custom_env_loaded := c\<rparr>"
  by (rule JobEntry.equality) simp_all

text \<open>
  C17. What is saved is what is read: after a save that raised nothing, loading the job returns
  the caller's row in normal form, whatever clock and schema printer the reader uses. A row
  whose private environment was not loaded is stored with the environment values the registry
  held before, so a status update never erases them.
\<close>

theorem save_then_load:
  assumes "save sv cfg e w = (w', e', None)"
  shows "(custom_env_loaded e \<longrightarrow> load dc cfg (job_id e) w' = Inr (Some (normal_entry (Some (sv_mtime sv)) e')))
    \<and> (\<not> custom_env_loaded e \<longrightarrow> (\<exists>old. load (sv_decoding sv) cfg (job_id e) w = Inr (Some old)
         \<and> load dc cfg (job_id e) w' = Inr (Some (normal_entry (Some (sv_mtime sv))
              (e'\<lparr>custom_env := custom_env old, custom_env_keys := sort (keys (custom_env old)), custom_env_loaded := True\<rparr>)))))"
proof -
  obtain w1 e2 r where prep: "prepare_save sv cfg e w = (w1, e2, r)" by (metis prod.exhaust)
  obtain loc existing persisted doc where r: "r = Inr (loc, existing, persisted, doc)"
    using assms save_unprepared [of sv cfg e w] prep by (cases r) auto
  note prep = prep [unfolded r]
  have io: "sv_row_io sv" using assms save_no_io [OF prep] by (cases "sv_row_io sv") auto
  have e': "e' = e2" using save_prepared(3) [OF prep io] assms by simp
  have stored: "load dc cfg (job_id e) w' = Inr (Some (normal_entry (Some (sv_mtime sv)) persisted))"
    using save_prepared(1) [OF prep io] assms by simp
  note ex = existing_is_loaded [OF prep]
  from prep obtain restored where env: "preserve_env existing (inherit_layout cfg existing e) = Inr restored"
    and stamp: "stamp_rows (sv_updated_at sv) (inherit_layout cfg existing e) restored = (e2, persisted)"
    by (rule prepare_saveE) (rule that)
  show ?thesis
  proof (cases "custom_env_loaded e")
    case True
    then have "persisted = e2" using stamp by (auto simp: stamp_rows_def Let_def)
    with True stored e' show ?thesis by simp
  next
    case False
    then obtain old where old: "existing = Some old" and res: "restored = (inherit_layout cfg existing e)\<lparr>custom_env := custom_env old,
        custom_env_keys := sort (keys (custom_env old)), custom_env_loaded := True\<rparr>"
      using env by (auto simp: preserve_env_Inr)
    let ?r = "e2\<lparr>custom_env := custom_env old, custom_env_keys := sort (keys (custom_env old)), custom_env_loaded := True\<rparr>"
    have e2: "e2 = (inherit_layout cfg existing e)\<lparr>updated_at := Some (sv_updated_at sv)\<rparr>"
      and "persisted = bound_entry (restored\<lparr>updated_at := Some (sv_updated_at sv)\<rparr>)"
      using stamp False by (simp_all add: stamp_rows_def)
    then have "persisted = bound_entry ?r" by (simp only: res e2 restore_then_stamp)
    then have "normal_entry mt persisted = normal_entry mt ?r" for mt by (simp only: normal_bound)
    then show ?thesis using False ex [unfolded old] stored unfolding e' by metis
  qed
qed

text \<open>
  A save touches one job: whatever happens, errors included, every other job loads exactly
  as before.
\<close>

theorem save_preserves_others:
  assumes "jid \<noteq> job_id e"
  shows "load dc cfg jid (fst (save sv cfg e w)) = load dc cfg jid w"
  by (rule save_others [OF assms])

lemma remove_file_rows:
  assumes "is_Dir d" and "map_of (dir_files d) (record_name jid) = Some f" and "tombstone jid token \<noteq> nm"
  shows "map_of (dir_files (remove_file io jid token d)) nm =
    (if nm = record_name jid \<and> io \<noteq> RenameFails \<and> io \<noteq> SyncFails then None else map_of (dir_files d) nm)"
proof -
  obtain st fs where d: "d = Dir st fs" using assms(1) by (cases d) auto
  show ?thesis using assms(2,3)
    by (cases io) (auto simp: d remove_file_def rename_file_def Let_def update_conv' delete_conv')
qed

lemma tombstone_hidden: "\<not> visible (tombstone jid token)"
  by (simp add: visible_def tombstone_def startswith_def)

lemma record_name_visible:
  assumes "valid_job_id jid"
  shows "visible (record_name jid)"
proof -
  have dot: "\<not> name_char CHR ''.''" by code_simp
  obtain c rest where jid: "jid = c # rest" using assms by (cases jid) (simp_all add: valid_job_id_def)
  then have "c \<noteq> CHR ''.''" using assms dot by (auto simp: valid_job_id_def)
  then show ?thesis
    by (simp add: visible_def record_name_def jid startswith_def endswith_suffix suffix_def)
qed

text \<open>What \<open>remove_record\<close> does to the registry directories.\<close>

lemma remove_recordE:
  fixes sv :: "'r saving" and w :: "'r world"
  obtains (same) "fst (remove_record sv io token cfg jid w) = w"
      "snd (remove_record sv io token cfg jid w) \<noteq> None \<or> load dc cfg jid w = Inr None"
  | (removed) c r where "holding cfg w jid = [c]" "valid_job_id jid" "\<forall>c \<in> set (candidates cfg). usable w jid (fst c)"
      "read_entry_path (sv_decoding sv) w (fst c) jid = Inr r"
      "dirs (fst (remove_record sv io token cfg jid w)) = dirs (on_place (fst c) (remove_file io jid token) w)"
      "io \<noteq> RemoveOk \<longrightarrow> snd (remove_record sv io token cfg jid w) \<noteq> None"
proof (cases "resolve_registry_record cfg False jid w")
  case (Inl m)
  then show thesis by (intro same) (simp_all add: remove_record_def)
next
  case (Inr lw)
  obtain l w1 where lw: "lw = (l, w1)" by (cases lw)
  show thesis
  proof (cases l)
    case None
    note res = Inr [unfolded lw None]
    have "load dc cfg jid w = Inr None" using res [unfolded resolve_Inr] unfolding load_None by blast
    then show thesis using res by (intro same) (simp_all add: remove_record_def)
  next
    case (Some loc)
    then obtain c where c: "holding cfg w jid = [c]" "valid_job_id jid" "\<forall>c \<in> set (candidates cfg). usable w jid (fst c)"
      "loc = location c" using Inr lw by (auto simp: resolve_Inr)
    show thesis
    proof (cases "read_entry_path (sv_decoding sv) w (fst c) jid")
      case Inl': (Inl m)
      then show thesis using Inr lw Some c(4) by (intro same) (simp_all add: remove_record_def location_def)
    next
      case Inr': (Inr r)
      show thesis
      proof (rule removed [OF c(1-3) Inr'])
        show "dirs (fst (remove_record sv io token cfg jid w)) = dirs (on_place (fst c) (remove_file io jid token) w)"
          using Inr lw Some c(4) Inr'
          by (simp add: remove_record_def location_def Let_def split: sum.split option.split prod.split)
        show "io \<noteq> RemoveOk \<longrightarrow> snd (remove_record sv io token cfg jid w) \<noteq> None"
          using Inr lw Some c(4) Inr' by (simp add: remove_record_def location_def Let_def)
      qed
    qed
  qed
qed

lemma removed_rows:
  assumes "dirs w' = dirs (on_place p (remove_file io jid token) w)" and "row_at w p jid \<noteq> None" and "visible nm"
  shows "map_of (files_of w' q) nm =
    (if q = p \<and> nm = record_name jid \<and> io \<noteq> RenameFails \<and> io \<noteq> SyncFails then None else map_of (files_of w q) nm)"
proof (cases "q = p")
  case True
  obtain f where f: "map_of (dir_files (dirs w p)) (record_name jid) = Some f"
    using assms(2) by (auto simp: files_of_def)
  have "tombstone jid token \<noteq> nm" using assms(3) tombstone_hidden by auto
  from remove_file_rows [OF row_is_Dir [OF assms(2)] f this, of io] True show ?thesis
    by (simp add: files_of_def assms(1) on_place_def)
qed (simp add: files_of_def assms(1) on_place_def)

lemma removed_bad:
  assumes "dirs w' = dirs (on_place p (remove_file io jid token) w)" and "row_at w p jid \<noteq> None"
  shows "dirs w' q = BadDir \<longleftrightarrow> dirs w q = BadDir"
proof -
  have "is_Dir (remove_file io jid token d)" if "is_Dir d" for d
    using that by (cases d; cases io) (auto simp: remove_file_def rename_file_def Let_def split: option.split)
  then have "remove_file io jid token (dirs w p) \<noteq> BadDir" "dirs w p \<noteq> BadDir"
    using row_is_Dir [OF assms(2)] by force+
  then show ?thesis by (simp add: assms(1) on_place_def)
qed

lemma remove_others:
  assumes "j \<noteq> jid"
  shows "load dc cfg j (fst (remove_record sv io token cfg jid w)) = load dc cfg j w"
proof (cases "valid_job_id j")
  case True
  show ?thesis
  proof (rule remove_recordE [of sv io token cfg jid w dc])
    fix c r
    assume h: "holding cfg w jid = [c]"
      and d: "dirs (fst (remove_record sv io token cfg jid w)) = dirs (on_place (fst c) (remove_file io jid token) w)"
    have row: "row_at w (fst c) jid \<noteq> None" using holding_place [OF h] by blast
    show ?thesis
    proof (rule load_cong)
      show "row_at (fst (remove_record sv io token cfg jid w)) p j = row_at w p j" for p
        using removed_rows [OF d row record_name_visible [OF True]] assms by simp
    qed (rule removed_bad [OF d row])
  qed simp
qed (simp add: load_def)

text \<open>
  A removed job is gone and only that job: after a \<open>remove_record\<close> that raised nothing, loading
  the job returns nothing and every other job loads as before. When it raised, the others are
  untouched as well, and after a failed first directory sync the row itself is back.
\<close>

theorem remove_then_load:
  assumes "remove_record sv io token cfg jid w = (w', r)"
  shows "(r = None \<longrightarrow> load dc cfg jid w' = Inr None)
    \<and> (\<forall>j. j \<noteq> jid \<longrightarrow> load dc cfg j w' = load dc cfg j w)
    \<and> (io \<in> {RenameFails, SyncFails} \<longrightarrow> load dc cfg jid w' = load dc cfg jid w)"
proof -
  have eq: "fst (remove_record sv io token cfg jid w) = w'" "snd (remove_record sv io token cfg jid w) = r"
    by (simp_all add: assms)
  have "(r = None \<longrightarrow> load dc cfg jid w' = Inr None)
    \<and> (io \<in> {RenameFails, SyncFails} \<longrightarrow> load dc cfg jid w' = load dc cfg jid w)"
  proof (rule remove_recordE [of sv io token cfg jid w dc], unfold eq)
    fix c row
    assume h: "holding cfg w jid = [c]" and valid: "valid_job_id jid"
      and use: "\<forall>c \<in> set (candidates cfg). usable w jid (fst c)"
      and d: "dirs w' = dirs (on_place (fst c) (remove_file io jid token) w)"
      and fail: "io \<noteq> RemoveOk \<longrightarrow> r \<noteq> None"
    have row: "row_at w (fst c) jid \<noteq> None" using holding_place [OF h] by blast
    note rows = removed_rows [OF d row record_name_visible [OF valid]] and bad = removed_bad [OF d row]
    have "load dc cfg jid w' = load dc cfg jid w" if "io \<in> {RenameFails, SyncFails}"
      using that rows bad by (intro load_cong) auto
    moreover have "load dc cfg jid w' = Inr None" if "r = None"
    proof -
      have io: "io = RemoveOk" using fail that by blast
      have "row_at w' (fst c') jid = None" if "c' \<in> set (candidates cfg)" for c'
        using rows [of "fst c'"] io holding_place [OF h] that by (cases "c' = c") auto
      then have "holding cfg w' jid = []" by (simp add: filter_empty_conv)
      moreover have "\<forall>c \<in> set (candidates cfg). usable w' jid (fst c)"
        using use rows bad by (auto simp: usable_def)
      ultimately show ?thesis by (simp add: load_None)
    qed
    ultimately show ?thesis by blast
  qed auto
  moreover have "load dc cfg j w' = load dc cfg j w" if "j \<noteq> jid" for j
    using remove_others [OF that, of dc cfg sv io token w] eq by simp
  ultimately show ?thesis by blast
qed

lemma remove_ok:
  assumes "load (sv_decoding sv) cfg jid w = Inr (Some e)"
  shows "snd (remove_record sv RemoveOk token cfg jid w) = None"
proof -
  from assms obtain c where c: "valid_job_id jid" "\<forall>c \<in> set (candidates cfg). usable w jid (fst c)" "holding cfg w jid = [c]"
    "read_entry_path (sv_decoding sv) w (fst c) jid = Inr e" by (auto simp: load_Some)
  let ?w1 = "on_place (fst c) (remove_file RemoveOk jid token) w"
  have row: "row_at w (fst c) jid \<noteq> None" using holding_place [OF c(3)] by blast
  note rows = removed_rows [OF refl row record_name_visible [OF c(1)], of RemoveOk token] and bad = removed_bad [OF refl row, of RemoveOk token]
  have "row_at ?w1 (fst c') jid = None" if "c' \<in> set (candidates cfg)" for c'
    using rows [of "fst c'"] holding_place [OF c(3)] that by (cases "c' = c") auto
  then have "holding cfg ?w1 jid = []" by (simp add: filter_empty_conv)
  moreover have "\<forall>c \<in> set (candidates cfg). usable ?w1 jid (fst c)"
    using c(2) rows bad by (auto simp: usable_def)
  ultimately have "resolve_registry_record cfg False jid ?w1 = Inr (None, ?w1)"
    using c(1) by (simp add: resolve_Inr)
  moreover have "resolve_registry_record cfg False jid w = Inr (Some (location c), w)"
    using c by (simp add: resolve_Inr)
  ultimately show ?thesis using c(4) by (simp add: remove_record_def location_def Let_def)
qed

section \<open>Concrete instances\<close>

definition quiet_saving :: "unit saving" where
  "quiet_saving = \<lparr>sv_decoding = (\<lambda>_. [], 9), sv_float_repr = (\<lambda>_. ''0.0''), sv_updated_at = 9, sv_now = 9, sv_mtime = 9,
     sv_row_io = True, sv_index_io = True, sv_replicas = (\<lambda>_ _ _ _. ())\<rparr>"

lemma sample_resolve:
  "resolve_registry_record sample_config create (job_id sample_entry) (sample_world_of e)
     = Inr (Some (location (RolePlace, ''role-v1'')), sample_world_of e)"
proof -
  have "registry_locations sample_config (job_id sample_entry) (sample_world_of e) = Inr [location (RolePlace, ''role-v1'')]"
    using sample_place(2,3) [of e] by (simp add: registry_locations_Inr)
  then show ?thesis using sample_id by (simp add: resolve_registry_record_def)
qed

lemma sample_existing:
  assumes "sample_state_ok st rs tf upd lay"
  shows "existing_row dc (sample_world_of (sample_state st rs tf upd lay)) (location (RolePlace, ''role-v1'')) (job_id sample_entry)
    = Inr (Some (normal_entry (Some 8) (sample_state st rs tf upd lay)))"
  using sample_state_load [OF assms, of dc] sample_place(1) sample_place(2,3) [of "sample_state st rs tf upd lay"]
  by (simp add: existing_row_def location_def load_Some)

text \<open>Saving the sample row in a new state over a stored state that is not final.\<close>

lemma sample_prepare:
  assumes old: "sample_state_ok st0 rs0 None upd0 (Some ROLE_LAYOUT)" and new: "sample_state_ok st rs tf (Some 9) (Some ROLE_LAYOUT)"
  shows "prepare_save quiet_saving sample_config (sample_state st rs tf upd (Some ROLE_LAYOUT))
      (sample_world_of (sample_state st0 rs0 None upd0 (Some ROLE_LAYOUT)))
    = (sample_world_of (sample_state st0 rs0 None upd0 (Some ROLE_LAYOUT)), sample_state st rs tf (Some 9) (Some ROLE_LAYOUT),
       Inr (location (RolePlace, ''role-v1''), Some (normal_entry (Some 8) (sample_state st0 rs0 None upd0 (Some ROLE_LAYOUT))),
            sample_state st rs tf (Some 9) (Some ROLE_LAYOUT), envelope (sample_state st rs tf (Some 9) (Some ROLE_LAYOUT))))"
proof -
  let ?old = "normal_entry (Some 8) (sample_state st0 rs0 None upd0 (Some ROLE_LAYOUT))"
  let ?new = "sample_state st rs tf upd (Some ROLE_LAYOUT)" and ?out = "sample_state st rs tf (Some 9) (Some ROLE_LAYOUT)"
  have inh: "inherit_layout sample_config (Some ?old) ?new = ?new"
    by (simp add: inherit_layout_def sample_state_select)
  have env: "preserve_env (Some ?old) ?new = Inr ?new" by (simp add: preserve_env_Inr sample_state_select)
  have "?new\<lparr>updated_at := Some 9, custom_env_keys := sort (keys (custom_env ?new))\<rparr> = ?out"
    by (simp add: sample_state_select) (rule JobEntry.equality, simp_all add: sample_state_def sample_entry_def make_entry_def)
  then have stamp: "stamp_rows 9 ?new ?new = (?out, ?out)"
    by (simp add: stamp_rows_def sample_state_select(5) sample_bound Let_def)
  have nr: "\<not> reopens (Some ?old) ?new" by (simp add: reopens_def sample_state_select)
  have "location (RolePlace, ''role-v1'') = \<lparr>loc_place = RolePlace, loc_layout = ''role-v1'', loc_exists = True\<rparr>"
    by (simp add: location_def)
  then have legacy: "loc_layout (location (RolePlace, ''role-v1'')) \<noteq> LEGACY_LAYOUT" by (simp add: LEGACY_LAYOUT_def)
  show ?thesis
    unfolding prepare_save_def sample_state_select(1)
    by (simp add: sample_resolve sample_existing [OF old] nr inh env stamp legacy Let_def
        sample_state_encodes [OF new] quiet_saving_def)
qed

abbreviation running_sample :: JobEntry where
  "running_sample \<equiv> sample_state ''running'' None None None (Some ROLE_LAYOUT)"

abbreviation killed_sample :: "time option \<Rightarrow> JobEntry" where
  "killed_sample t \<equiv> sample_state ''killed'' (Some ''cancelled'') None t (Some ROLE_LAYOUT)"

lemma sample_states_ok:
  "sample_state_ok ''running'' None None None (Some ROLE_LAYOUT)"
  "sample_state_ok ''killed'' (Some ''cancelled'') None (Some 9) (Some ROLE_LAYOUT)"
  "sample_state_ok ''killed'' (Some ''cancelled'') None (Some 3) (Some ROLE_LAYOUT)"
  by (simp_all add: sample_state_ok_def JOB_STATUSES_def RESULT_STATES_def)

lemma sample_save:
  "save quiet_saving sample_config (killed_sample None) (sample_world_of running_sample)
     = (fst (save quiet_saving sample_config (killed_sample None) (sample_world_of running_sample)), killed_sample (Some 9), None)"
  using save_prepared(3,4) [OF sample_prepare [OF sample_states_ok(1,2)]] by (simp add: prod_eq_iff quiet_saving_def)

theorem save_then_load_witness:
  "load (\<lambda>_. [], 11) sample_config (job_id sample_entry)
     (fst (save quiet_saving sample_config (killed_sample None) (sample_world_of running_sample)))
   = Inr (Some (normal_entry (Some 9) (killed_sample (Some 9))))"
  using save_then_load [OF sample_save] by (simp add: sample_state_select quiet_saving_def)

theorem save_preserves_others_witness:
  "load (\<lambda>_. [], 11) sample_config ''bad'' (fst (save quiet_saving sample_config (killed_sample None) (sample_world_of running_sample)))
   = load (\<lambda>_. [], 11) sample_config ''bad'' (sample_world_of running_sample)"
  by (rule save_preserves_others) (simp add: sample_state_select sample_entry_def make_entry_def)

theorem remove_then_load_witness:
  "\<exists>w'. remove_record quiet_saving RemoveOk ''ab'' sample_config (job_id sample_entry) (sample_world_of running_sample) = (w', None)
     \<and> load (\<lambda>_. [], 11) sample_config (job_id sample_entry) w' = Inr None"
proof -
  obtain w' r where r: "remove_record quiet_saving RemoveOk ''ab'' sample_config (job_id sample_entry) (sample_world_of running_sample) = (w', r)"
    by (metis prod.exhaust)
  with remove_ok [OF sample_state_load [OF sample_states_ok(1)], of quiet_saving "''ab''"] have "r = None" by simp
  with remove_then_load [OF r] r show ?thesis by blast
qed

end
