(* ===== verification/Index_Facts.thy ===== *)
theory Index_Facts
  imports Registry_Write
begin

text \<open>
  The public and the private decoding of a record agree up to the private environment values
  (\<open>hide_env\<close>), and whether a row belongs to the active index does not depend on them, nor on
  writing the row out and reading it back.
\<close>

section \<open>Public and private rows\<close>

lemma entry_of_loaded: "entry_of a ks ld = (entry_of a ks True)\<lparr>custom_env_loaded := ld\<rparr>"
  by (rule JobEntry.equality) simp_all

lemma fill_defaults_public: "fill_defaults mt (hide_env e) = hide_env (fill_defaults mt e)"
  by (rule JobEntry.equality) (simp_all add: hide_env_def fill_defaults_def Let_def)

lemma strdict_empty: "strdict_of (json_of_env []) = []"
  by (simp add: json_of_env_def strdict_of_def)

lemma decode_entry_public:
  "decode_entry now mt expected False raw = map_sum id hide_env (decode_entry now mt expected True raw)"
proof (cases raw)
  case (JObj d)
  let ?p = "filter (\<lambda>kv. fst kv \<in> set ENTRY_FIELDS) d"
  show ?thesis
  proof (cases "validate_env (case map_of ?p ''custom_env'' of None \<Rightarrow> JObj [] | Some v \<Rightarrow> v)")
    case (Inl m)
    then show ?thesis by (simp add: decode_entry_def JObj Let_def)
  next
    case (Inr env)
    let ?priv = "job_entry_init now (AList.update ''custom_env'' (json_of_env env) ?p)"
    have init: "job_entry_init now (AList.update ''custom_env'' (json_of_env []) ?p)
        = map_sum id (\<lambda>a. a(''custom_env'' := json_of_env [])) ?priv"
      by (rule init_custom_env)
    show ?thesis
    proof (cases ?priv)
      case (Inl m)
      then show ?thesis using Inr init by (simp add: decode_entry_def JObj Let_def)
    next
      case priv: (Inr a0)
      let ?prep = "\<lambda>a. empty_text_to_null ''cache_source_env_hash'' (empty_text_to_null ''env_hash'' (bound_entry_diagnostics a))"
      have row: "entry_of (normalize_owner ((?prep a0)(''custom_env'' := json_of_env []))) ks False
          = hide_env (entry_of (normalize_owner (?prep a0)) ks True)" for ks
        unfolding normalize_custom_env entry_of_custom_env strdict_empty
        by (subst entry_of_loaded) (simp add: hide_env_def)
      show ?thesis
        using Inr priv init
        by (simp add: decode_entry_def JObj Let_def prepare_custom_env validate_entry_custom_env row fill_defaults_public split: option.split)
    qed
  qed
qed (simp_all add: decode_entry_def)

lemma decode_public:
  "decode_registry_document sr now mt expected False raw = map_sum id hide_env (decode_registry_document sr now mt expected True raw)"
proof -
  have e: "map_error h (map_sum id f x) = map_sum id f (map_error h x)" for h :: "string \<Rightarrow> string" and f :: "JobEntry \<Rightarrow> JobEntry" and x
    by (cases x) simp_all
  show ?thesis
    by (auto simp: decode_registry_document_def Let_def decode_entry_public e split: json.split option.split)
qed

lemma hide_env_select:
  "job_id (hide_env e) = job_id e" "status (hide_env e) = status e" "reason (hide_env e) = reason e"
  by (simp_all add: hide_env_def)

lemma member_cong:
  assumes "status a = status b" "reason a = reason b" "result_state a = result_state b" "exit_code a = exit_code b"
    "dispatch_node a = dispatch_node b" "dispatch_token a = dispatch_token b"
    "terminal_finalized_at a = terminal_finalized_at b" "finished_at a = finished_at b" "updated_at a = updated_at b"
    "created_at a = created_at b" "retry_limit a = retry_limit b" "retried_by a = retried_by b"
    "retry_count a = retry_count b" "retry_on a = retry_on b"
  shows "active_index_member t a = active_index_member t b"
proof -
  have u: "is_uncertain_launch a = is_uncertain_launch b" by (simp only: is_uncertain_launch_def reason_text_def assms)
  have r: "effective_result_state a = effective_result_state b" by (simp only: effective_result_state_def assms)
  have q: "occupies_quota t a = occupies_quota t b"
    by (simp only: occupies_quota_def lost_reconciling_def observed_at_def u assms)
  have b: "retry_blocked_reason a = None \<longleftrightarrow> retry_blocked_reason b = None" by (simp only: retryable_iff u r assms)
  have f: "retry_pending_fence a = retry_pending_fence b" by (simp only: retry_pending_fence_def assms)
  show ?thesis by (simp only: active_index_member_def q b f assms)
qed

lemma member_public: "active_index_member t (hide_env e) = active_index_member t e"
  by (rule member_cong) (simp_all add: hide_env_def)

lemma member_normal:
  assumes "updated_at e = Some t0"
  shows "active_index_member t (normal_entry mt (bound_entry e)) = active_index_member t (bound_entry e)"
proof -
  have "reason (normal_entry mt (bound_entry e)) = reason (bound_entry e)"
    using excerpt_idem [of MAX_JOB_DIAGNOSTIC_CHARS]
    by (simp add: normal_special bound_entry_def option.map_comp comp_def MAX_JOB_DIAGNOSTIC_CHARS_def)
  moreover have "updated_at (normal_entry mt (bound_entry e)) = updated_at (bound_entry e)"
    using assms by (simp add: normal_filled bound_entry_def)
  ultimately show ?thesis by (intro member_cong) (simp_all add: bound_entry_def)
qed

end
