(* ===== verification/Index_Fence.thy ===== *)
theory Index_Fence
  imports Index_Facts
begin

text \<open>
  The revision fence of the active index. Every change of a registry directory advances its
  modification time (\<open>evolves\<close>), so a recorded revision that still matches means that the
  directories are unchanged. \<open>fenced_view\<close> states this contract for any state with a revision
  and a view; its lemmas are what the rebuild and every later reader rely on. Interpreted on
  \<open>registry_directory_revisions\<close> and the scanned directories.
\<close>

section \<open>The contract\<close>

locale fenced_view =
  fixes evolves :: "'w \<Rightarrow> 'w \<Rightarrow> bool" and revision :: "'w \<Rightarrow> 'v option" and view :: "'w \<Rightarrow> 'x"
  assumes evolves_refl: "evolves w w"
    and evolves_trans: "evolves u v \<Longrightarrow> evolves v w \<Longrightarrow> evolves u w"
    and fence: "evolves u w \<Longrightarrow> revision u = Some r \<Longrightarrow> revision w = Some r \<Longrightarrow> view u = view w"
    and squeeze: "evolves u v \<Longrightarrow> evolves v w \<Longrightarrow> view u = view w \<Longrightarrow> view v = view u"
    and view_revision: "view u = view w \<Longrightarrow> revision u = revision w"
begin

text \<open>A read between two equal revisions saw the view of either end.\<close>

lemma stable_read:
  assumes "evolves u v" "evolves v w" "revision u = Some r" "revision w = Some r"
  shows "view v = view w"
  using squeeze [OF assms(1,2)] fence [OF evolves_trans [OF assms(1,2)] assms(3,4)] by simp

text \<open>
  A cache that is right while its recorded revision is current stays right for ever: \<open>valid\<close> is
  what the cached value says of a view.
\<close>

definition kept :: "('x \<Rightarrow> bool) \<Rightarrow> 'v \<Rightarrow> 'w \<Rightarrow> bool" where
  "kept valid r w \<longleftrightarrow> (\<forall>w'. evolves w w' \<longrightarrow> revision w' = Some r \<longrightarrow> valid (view w'))"

lemma kept_evolves: "kept valid r w \<Longrightarrow> evolves w w' \<Longrightarrow> kept valid r w'"
  unfolding kept_def using evolves_trans by blast

lemma kept_publish: "revision w = Some r \<Longrightarrow> valid (view w) \<Longrightarrow> kept valid r w"
  unfolding kept_def using fence by metis

lemma kept_now: "kept valid r w \<Longrightarrow> revision w = Some r \<Longrightarrow> valid (view w)"
  unfolding kept_def using evolves_refl by blast

end

section \<open>Evolution of the registry directories\<close>

text \<open>
  A directory appears, or changes and advances its modification time; a directory that is
  unsafe, or missing and not created, stays as it is.
\<close>

fun dir_evolves :: "dir \<Rightarrow> dir \<Rightarrow> bool" where
  "dir_evolves Absent (Dir t gs) = True"
| "dir_evolves (Dir s fs) (Dir t gs) = (st_mtime_ns s < st_mtime_ns t \<or> s = t \<and> fs = gs)"
| "dir_evolves a b = (a = b)"

definition evolves :: "'r world \<Rightarrow> 'r world \<Rightarrow> bool" where
  "evolves w w' \<longleftrightarrow> (\<forall>p. dir_evolves (dirs w p) (dirs w' p))"

definition registry_view :: "HeadConfig \<Rightarrow> 'r world \<Rightarrow> dir list" where
  "registry_view cfg w = map (dirs w) (scan_candidates cfg)"

fun ok_of :: "'e + 'a \<Rightarrow> 'a option" where
  "ok_of (Inl _) = None" | "ok_of (Inr x) = Some x"

lemma ok_of_Some [simp]: "ok_of r = Some x \<longleftrightarrow> r = Inr x"
  by (cases r) simp_all

lemma dir_evolves_refl [simp]: "dir_evolves d d"
  by (cases d) simp_all

lemma dir_evolves_trans: "dir_evolves a b \<Longrightarrow> dir_evolves b c \<Longrightarrow> dir_evolves a c"
  by (cases a; cases b; cases c) auto

lemma dir_evolves_squeeze: "dir_evolves a b \<Longrightarrow> dir_evolves b a \<Longrightarrow> a = b"
  by (cases a; cases b) auto

lemma evolves_refl [simp]: "evolves w w"
  by (simp add: evolves_def)

lemma evolves_trans: "evolves u v \<Longrightarrow> evolves v w \<Longrightarrow> evolves u w"
  unfolding evolves_def using dir_evolves_trans by blast

lemma evolves_dirs: "dirs w' = dirs w \<Longrightarrow> evolves w w'"
  by (simp add: evolves_def)

lemma evolves_place: "dir_evolves (dirs w p) (f (dirs w p)) \<Longrightarrow> evolves w (on_place p f w)"
  by (simp add: evolves_def on_place_def)

lemma collect_ok_map: "collect_ok (map f xs) = Inr ys \<longleftrightarrow> list_all2 (\<lambda>x y. f x = Inr y) xs ys"
  by (induction xs arbitrary: ys) (auto simp: bind_ok_Inr list_all2_Cons1)

lemma revisions_Inr: "registry_directory_revisions cfg w = Inr revs \<longleftrightarrow>
    list_all2 (\<lambda>p r. revision_of cfg w p = Inr r) (scan_candidates cfg) revs"
  by (simp add: registry_directory_revisions_def collect_ok_map)

lemma revision_fence:
  assumes "revision_of cfg u p = Inr r" "revision_of cfg w p = Inr r" "dir_evolves (dirs u p) (dirs w p)"
  shows "dirs u p = dirs w p"
  using assms by (cases "dirs u p"; cases "dirs w p") (auto simp: revision_of_def)

lemma revisions_fence:
  assumes "evolves u w" "registry_directory_revisions cfg u = Inr r" "registry_directory_revisions cfg w = Inr r"
  shows "registry_view cfg u = registry_view cfg w"
proof -
  have "dirs u p = dirs w p" if "p \<in> set (scan_candidates cfg)" for p
  proof -
    from that obtain i where i: "i < length (scan_candidates cfg)" "p = scan_candidates cfg ! i"
      by (metis in_set_conv_nth)
    then have "revision_of cfg u p = Inr (r ! i)" "revision_of cfg w p = Inr (r ! i)"
      using assms(2,3) by (auto simp: revisions_Inr list_all2_conv_all_nth)
    then show ?thesis using assms(1) by (intro revision_fence) (simp_all add: evolves_def)
  qed
  then show ?thesis by (simp add: registry_view_def)
qed

lemma view_places: "registry_view cfg u = registry_view cfg w \<Longrightarrow> p \<in> set (scan_candidates cfg) \<Longrightarrow> dirs u p = dirs w p"
  by (simp add: registry_view_def)

lemma view_revisions:
  assumes "registry_view cfg u = registry_view cfg w"
  shows "registry_directory_revisions cfg u = registry_directory_revisions cfg w"
  unfolding registry_directory_revisions_def
  by (intro arg_cong [where f = collect_ok] map_cong refl) (simp add: revision_of_def view_places [OF assms])

interpretation registry: fenced_view evolves "\<lambda>w. ok_of (registry_directory_revisions cfg w)" "registry_view cfg"
proof
  fix u v w :: "'r world" and r
  show "evolves w w" by simp
  show "evolves u v \<Longrightarrow> evolves v w \<Longrightarrow> evolves u w" by (rule evolves_trans)
  show "evolves u w \<Longrightarrow> ok_of (registry_directory_revisions cfg u) = Some r \<Longrightarrow>
      ok_of (registry_directory_revisions cfg w) = Some r \<Longrightarrow> registry_view cfg u = registry_view cfg w"
    using revisions_fence by simp
  show "ok_of (registry_directory_revisions cfg u) = ok_of (registry_directory_revisions cfg w)"
    if "registry_view cfg u = registry_view cfg w"
    using view_revisions [OF that] by simp
  show "registry_view cfg v = registry_view cfg u"
    if "evolves u v" "evolves v w" "registry_view cfg u = registry_view cfg w"
    using that view_places [OF that(3)] dir_evolves_squeeze
    by (auto simp: registry_view_def evolves_def) metis
qed

section \<open>Readings of the view\<close>

lemma view_files: "registry_view cfg u = registry_view cfg w \<Longrightarrow> p \<in> set (scan_candidates cfg) \<Longrightarrow> files_of u p = files_of w p"
  unfolding files_of_def by (drule (1) view_places) simp

lemma view_scans:
  assumes "registry_view cfg u = registry_view cfg w"
  shows "scans cfg u = scans cfg w"
  unfolding scans_def by (intro filter_cong refl) (simp add: view_places [OF assms])

lemma view_scan_rows:
  assumes "registry_view cfg u = registry_view cfg w"
  shows "scan_rows dc cfg u = scan_rows dc cfg w"
proof -
  have hold: "holders cfg u nm = holders cfg w nm" for nm
    unfolding holders_def view_scans [OF assms]
    by (intro filter_cong refl) (simp add: scans_def view_files [OF assms])
  have "scan_row dc cfg u p nm = scan_row dc cfg w p nm \<and> visible_names u p = visible_names w p" if "p \<in> set (scans cfg w)" for p nm
  proof -
    have "files_of u p = files_of w p" using that view_files [OF assms] by (simp add: scans_def)
    then show ?thesis by (simp add: scan_row_def Let_def hold visible_names_def)
  qed
  then show ?thesis
    unfolding scan_rows_def view_scans [OF assms] by (intro arg_cong [where f = concat] map_cong refl) auto
qed

lemma view_bad_directories:
  assumes "registry_view cfg u = registry_view cfg w"
  shows "bad_directories cfg u = bad_directories cfg w"
  unfolding bad_directories_def
  by (intro arg_cong2 [where f = map] filter_cong refl) (simp add: view_places [OF assms])

lemma view_stream:
  assumes "registry_view cfg u = registry_view cfg w"
  shows "stream_active_registry dc cfg t u = stream_active_registry dc cfg t w"
  by (simp add: stream_active_registry_def view_scan_rows [OF assms] view_bad_directories [OF assms])

end
