(* ===== verification/Index_Refine.thy ===== *)
theory Index_Refine
  imports Index_Fence
begin

text \<open>
  \<open>active_entries\<close> implements the full scan. A readable index \<open>covers\<close> the registry: it lists
  every active row and reports the damage of the scan. \<open>index_ok\<close> is the invariant of the disk,
  that its index covers the registry whenever its fence is current, now and after any further
  evolution of the directories.

  Shown here: the index file reads back as written, a rebuild publishes only what the registry
  held at publication however writers interleave with it, saves and removals keep the index
  current, and \<open>active_entries\<close> returns what a full scan returns.
\<close>

section \<open>One outcome per record name\<close>

definition row_outcome :: "decoding \<Rightarrow> HeadConfig \<Rightarrow> 'r world \<Rightarrow> string \<Rightarrow> (RegistryDamage + JobEntry) option" where
  "row_outcome dc cfg w nm =
     (case holders cfg w nm of
        [] \<Rightarrow> None
      | p # _ \<Rightarrow> (case scan_row dc cfg w p nm of [] \<Rightarrow> None | r # _ \<Rightarrow> Some r))"

lemma holders_alt: "holders cfg w nm = filter (\<lambda>p. map_of (files_of w p) nm \<noteq> None) (scan_candidates cfg)"
proof -
  have "is_Dir (dirs w p)" if "map_of (files_of w p) nm \<noteq> None" for p
    using that by (cases "dirs w p") (auto simp: files_of_def)
  then show ?thesis unfolding holders_def scans_def filter_filter by (intro filter_cong refl) blast
qed

lemma distinct_holders: "distinct (holders cfg w nm)"
  by (simp add: holders_def distinct_scans)

lemma scan_row_members:
  assumes "p \<in> set (holders cfg w nm)"
  shows "set (scan_row dc cfg w p nm) = (if p = hd (holders cfg w nm) then set_option (row_outcome dc cfg w nm) else {})"
proof (cases "holders cfg w nm")
  case (Cons q qs)
  show ?thesis
  proof (cases "qs = []")
    case True
    have "scan_row dc cfg w q nm = (case row_outcome dc cfg w nm of None \<Rightarrow> [] | Some r \<Rightarrow> [r])"
      unfolding row_outcome_def Cons True
      by (simp add: scan_row_def Let_def Cons True split: option.split sum.split)
    then show ?thesis using assms Cons True by (cases "row_outcome dc cfg w nm") simp_all
  qed (use assms Cons in \<open>simp add: scan_row_def row_outcome_def Let_def\<close>)
qed (use assms in simp)

lemma visible_names_iff: "nm \<in> set (visible_names w p) \<longleftrightarrow> visible nm \<and> map_of (files_of w p) nm \<noteq> None"
  by (simp add: visible_names_def map_of_eq_None_iff) blast

lemma set_scan_rows: "set (scan_rows dc cfg w) = {r. \<exists>nm. visible nm \<and> row_outcome dc cfg w nm = Some r}"
proof -
  have "set (scan_rows dc cfg w) = (\<Union>p \<in> set (scans cfg w). \<Union>nm \<in> set (visible_names w p). set (scan_row dc cfg w p nm))"
    by (simp add: scan_rows_def)
  also have "\<dots> = {r. \<exists>nm p. visible nm \<and> p \<in> set (holders cfg w nm) \<and> r \<in> set (scan_row dc cfg w p nm)}"
    unfolding holders_def set_filter using visible_names_iff [of _ w] by blast
  also have "\<dots> = {r. \<exists>nm. visible nm \<and> holders cfg w nm \<noteq> [] \<and> row_outcome dc cfg w nm = Some r}"
    using hd_in_set by (fastforce simp: scan_row_members split: if_splits)
  finally show ?thesis by (auto simp: row_outcome_def)
qed

lemma outcome_damage_path: "row_outcome dc cfg w nm = Some (Inl d) \<Longrightarrow> dmg_path d = nm"
  by (auto simp: row_outcome_def scan_row_def damaged_def Let_def split: list.splits if_splits option.splits sum.splits)

lemma outcome_job_id: "row_outcome dc cfg w nm = Some (Inr e) \<Longrightarrow> job_id e = stem nm"
  using decode_result_id
  by (fastforce simp: row_outcome_def scan_row_def Let_def split: list.splits if_splits option.splits sum.splits)

lemma outcome_cong:
  assumes "\<And>p. p \<in> set (scan_candidates cfg) \<Longrightarrow> map_of (files_of w' p) nm = map_of (files_of w p) nm"
  shows "row_outcome dc cfg w' nm = row_outcome dc cfg w nm"
proof -
  have h: "holders cfg w' nm = holders cfg w nm"
    unfolding holders_alt using assms by (intro filter_cong refl) simp
  have "p \<in> set (holders cfg w nm) \<Longrightarrow> scan_row dc cfg w' p nm = scan_row dc cfg w p nm" for p
    using assms [of p] by (simp add: scan_row_def Let_def h) (simp add: holders_alt)
  then show ?thesis by (simp add: row_outcome_def h split: list.split)
qed

lemma set_oks: "set (oks rs) = {x. Inr x \<in> set rs}"
  by (induction rs rule: oks.induct) auto

lemma set_errs: "set (errs rs) = {x. Inl x \<in> set rs}"
  by (induction rs rule: errs.induct) auto

lemma set_scan_oks: "set (oks (scan_rows dc cfg w)) = {e. \<exists>nm. visible nm \<and> row_outcome dc cfg w nm = Some (Inr e)}"
  by (simp add: set_oks set_scan_rows)

lemma set_scan_errs: "set (errs (scan_rows dc cfg w)) = {d. \<exists>nm. visible nm \<and> row_outcome dc cfg w nm = Some (Inl d)}"
  by (simp add: set_errs set_scan_rows)

section \<open>Scanned rows and loaded rows\<close>

definition safe_dirs :: "HeadConfig \<Rightarrow> 'r world \<Rightarrow> bool" where
  "safe_dirs cfg w \<longleftrightarrow> (\<forall>p \<in> set (scan_candidates cfg). dirs w p \<noteq> BadDir)"

lemma revisions_safe: "registry_directory_revisions cfg w = Inr revs \<Longrightarrow> safe_dirs cfg w"
  by (auto simp: revisions_Inr safe_dirs_def revision_of_def list_all2_conv_all_nth in_set_conv_nth split: dir.splits)

lemma safe_no_bad: "safe_dirs cfg w \<Longrightarrow> bad_directories cfg w = []"
  by (simp add: safe_dirs_def bad_directories_def)

lemma scan_places: "set (scan_candidates cfg) = fst ` set (candidates cfg)"
  by (auto simp: scan_candidates_def candidates_def)

lemma holders_single: "holders cfg w (record_name jid) = [p] \<longleftrightarrow> (\<exists>lay. holding cfg w jid = [(p, lay)])"
  by (auto simp: holders_alt scan_candidates_def candidates_def)

lemma decode_result_public:
  "decode_entry_result dc nm jid False f = map_sum id hide_env (decode_entry_result dc nm jid True f)"
proof -
  have e: "map_error h (map_sum id g x) = map_sum id g (map_error h x)" for h :: "string \<Rightarrow> string" and g :: "JobEntry \<Rightarrow> JobEntry" and x
    by (cases x) simp_all
  show ?thesis unfolding decode_entry_result_def decode_public e by (simp split: option.split rfile.split)
qed

lemma map_sum_Inr: "map_sum id g x = Inr e \<longleftrightarrow> (\<exists>e'. x = Inr e' \<and> e = g e')"
  by (cases x) auto

lemma decode_result_valid: "decode_entry_result dc nm jid private f = Inr e \<Longrightarrow> valid_job_id (job_id e)"
  using decode_entry_wf decode_registry_document_entry
  by (fastforce simp: decode_entry_result_def wf_entry_def split: option.splits rfile.splits)

lemma outcome_entry:
  "row_outcome dc cfg w nm = Some (Inr e) \<longleftrightarrow>
     (\<exists>p f e'. holders cfg w nm = [p] \<and> map_of (files_of w p) nm = Some f \<and> f \<notin> {Symlink, Special, Oversized}
        \<and> decode_entry_result dc nm (stem nm) True (Some f) = Inr e' \<and> e = hide_env e')"
proof (cases "holders cfg w nm")
  case (Cons p ps)
  then have "map_of (files_of w p) nm \<noteq> None" by (metis (mono_tags, lifting) holders_def list.set_intros(1) mem_Collect_eq set_filter)
  then obtain f where f: "map_of (files_of w p) nm = Some f" by blast
  show ?thesis
  proof (cases "ps = []")
    case True
    have "private_error path f = None \<longleftrightarrow> f \<notin> {Symlink, Special, Oversized}" for path
      by (cases f) (simp_all add: private_error_def)
    then show ?thesis
      using Cons True f by (auto simp: row_outcome_def scan_row_def Let_def decode_result_public map_sum_Inr split: option.splits sum.splits)
  qed (use Cons in \<open>simp add: row_outcome_def scan_row_def Let_def\<close>)
qed (simp add: row_outcome_def)

lemma outcome_load:
  assumes "safe_dirs cfg w"
  shows "row_outcome dc cfg w (record_name jid) = Some (Inr e) \<longleftrightarrow>
    (\<exists>e'. load dc cfg jid w = Inr (Some e') \<and> e = hide_env e')"
proof
  assume "row_outcome dc cfg w (record_name jid) = Some (Inr e)"
  then obtain p f e' where o: "holders cfg w (record_name jid) = [p]" "row_at w p jid = Some f" "f \<notin> {Symlink, Special, Oversized}"
    "decode_entry_result dc (record_name jid) jid True (Some f) = Inr e'" "e = hide_env e'"
    by (auto simp: outcome_entry)
  obtain lay where lay: "holding cfg w jid = [(p, lay)]" using o(1) by (auto simp: holders_single)
  have "valid_job_id jid" using decode_result_valid [OF o(4)] decode_result_id [OF o(4)] by simp
  moreover have "usable w jid (fst c)" if "c \<in> set (candidates cfg)" for c
  proof -
    have "dirs w (fst c) \<noteq> BadDir" using assms that by (auto simp: safe_dirs_def scan_places)
    moreover have "row_at w (fst c) jid = None \<or> fst c = p"
      using holding_place [OF lay] that by (cases "c = (p, lay)") auto
    ultimately show ?thesis using o(2,3) by (auto simp: usable_def)
  qed
  moreover have "read_entry_path dc w p jid = Inr e'"
    using o by (auto simp: read_entry_path_def Let_def)
  ultimately show "\<exists>e'. load dc cfg jid w = Inr (Some e') \<and> e = hide_env e'"
    using lay o(5) by (auto simp: load_Some)
next
  assume "\<exists>e'. load dc cfg jid w = Inr (Some e') \<and> e = hide_env e'"
  then obtain c e' where l: "holding cfg w jid = [c]" "read_entry_path dc w (fst c) jid = Inr e'" "e = hide_env e'"
    by (auto simp: load_Some)
  have h: "holders cfg w (record_name jid) = [fst c]" using l(1) by (auto simp: holders_single intro: exI [of _ "snd c"])
  obtain f where f: "row_at w (fst c) jid = Some f" using holding_place [OF l(1)] by blast
  show "row_outcome dc cfg w (record_name jid) = Some (Inr e)"
    unfolding outcome_entry using h f l(2,3) by (auto simp: read_entry_path_def Let_def split: if_splits)
qed

section \<open>The index file reads back as written\<close>

definition bounded_damage :: "RegistryDamage \<Rightarrow> RegistryDamage" where
  "bounded_damage d = d\<lparr>dmg_detail := excerpt MAX_JOB_DIAGNOSTIC_CHARS (dmg_detail d)\<rparr>"

lemma excerpt_max_idem: "excerpt MAX_JOB_DIAGNOSTIC_CHARS (excerpt MAX_JOB_DIAGNOSTIC_CHARS s) = excerpt MAX_JOB_DIAGNOSTIC_CHARS s"
  by (rule excerpt_idem) (simp add: MAX_JOB_DIAGNOSTIC_CHARS_def)

lemma damage_round_trip: "all_some (map damage_item (map damage_json dmg)) = Some (map bounded_damage dmg)"
  by (induction dmg) (simp_all add: damage_item_def damage_json_def json_get_def bounded_damage_def excerpt_max_idem)

lemma write_read_index:
  assumes "write_active_index io cfg ids dmg ro w = Inr w'"
    and "ro = None \<or> ro = Some revs \<and> registry_directory_revisions cfg w = Inr revs"
    and "\<forall>j \<in> set ids. valid_job_id j" and "distinct ids"
  shows "read_active_index cfg w' = Some \<lparr>ai_job_ids = sort ids, ai_damage = map bounded_damage dmg\<rparr>
    \<and> dirs w' = dirs w"
proof -
  obtain r where r: "registry_directory_revisions cfg w = Inr r" and w': "w' = w\<lparr>index := Some (Doc (index_document r ids dmg) 0)\<rparr>"
    and len: "length ids \<le> MAX_ACTIVE_INDEX_ITEMS" "length dmg \<le> MAX_ACTIVE_INDEX_ITEMS"
    using assms(1,2) by (auto simp: write_active_index_def Let_def bind_ok_Inr not_less split: if_splits option.splits)
  have rev: "registry_directory_revisions cfg w' = Inr r"
    using r view_revisions [of cfg w' w] by (simp add: w' registry_view_def)
  have "map str_of (map JStr (sort ids)) = sort ids" by (simp add: comp_def)
  moreover have "distinct (map JStr (sort ids))" using assms(4) by (simp add: distinct_map inj_on_def)
  ultimately show ?thesis
    using rev len assms(3) damage_round_trip [of dmg]
    by (simp add: read_active_index_def w' index_document_def json_get_def sorted_sort_id)
qed

section \<open>Covering indexes\<close>

text \<open>Membership is decided at the time \<open>t\<close> of the last change of the index: rows only leave it later.\<close>

definition covers :: "decoding \<Rightarrow> HeadConfig \<Rightarrow> time \<Rightarrow> 'r world \<Rightarrow> ActiveIndex \<Rightarrow> bool" where
  "covers dc cfg t w ix \<longleftrightarrow>
     (\<forall>e \<in> set (oks (scan_rows dc cfg w)). active_index_member t e \<longrightarrow> job_id e \<in> set (ai_job_ids ix))
     \<and> distinct (ai_damage ix) \<and> set (ai_damage ix) = set (errs (scan_rows dc cfg w))"

definition index_fence :: "rfile option \<Rightarrow> json list option" where
  "index_fence i =
     (case i of
        Some (Doc (JObj d) _) \<Rightarrow> (case json_get d ''registry_revisions'' of JList r \<Rightarrow> Some r | _ \<Rightarrow> None)
      | _ \<Rightarrow> None)"

definition index_valid :: "decoding \<Rightarrow> HeadConfig \<Rightarrow> time \<Rightarrow> rfile option \<Rightarrow> 'r itself \<Rightarrow> dir list \<Rightarrow> bool" where
  "index_valid dc cfg t i T v \<longleftrightarrow>
     (\<forall>(u :: 'r world) ix. registry_view cfg u = v \<longrightarrow> index u = i \<longrightarrow> read_active_index cfg u = Some ix \<longrightarrow> covers dc cfg t u ix)"

definition index_ok :: "decoding \<Rightarrow> HeadConfig \<Rightarrow> time \<Rightarrow> 'r world \<Rightarrow> bool" where
  "index_ok dc cfg t w \<longleftrightarrow>
     (\<forall>revs. index_fence (index w) = Some revs \<longrightarrow>
        fenced_view.kept evolves (\<lambda>w. ok_of (registry_directory_revisions cfg w)) (registry_view cfg)
          (index_valid dc cfg t (index w) TYPE('r)) revs w)"

lemma read_fence:
  assumes "read_active_index cfg w = Some ix"
  obtains revs where "index_fence (index w) = Some revs" "registry_directory_revisions cfg w = Inr revs"
  using assms by (auto simp: read_active_index_def index_fence_def split: option.splits rfile.splits json.splits sum.splits if_splits)

lemma read_index_cong:
  "index u = index w \<Longrightarrow> registry_directory_revisions cfg u = registry_directory_revisions cfg w \<Longrightarrow>
   read_active_index cfg u = read_active_index cfg w"
  unfolding read_active_index_def by (simp only:)

lemma covers_cong:
  assumes "registry_view cfg u = registry_view cfg w"
  shows "covers dc cfg t u ix = covers dc cfg t w ix"
  by (simp add: covers_def view_scan_rows [OF assms])

lemma index_ok_evolves: "index_ok dc cfg t w \<Longrightarrow> evolves w w' \<Longrightarrow> index w' = index w \<Longrightarrow> index_ok dc cfg t w'"
  unfolding index_ok_def using registry.kept_evolves by metis

lemma index_ok_covers:
  assumes "index_ok dc cfg t w" and "read_active_index cfg w = Some ix"
  shows "covers dc cfg t w ix"
proof -
  from assms(2) obtain revs where f: "index_fence (index w) = Some revs" "registry_directory_revisions cfg w = Inr revs" by (rule read_fence)
  with assms(1) have "index_valid dc cfg t (index w) TYPE('a) (registry_view cfg w)"
    unfolding index_ok_def using registry.kept_now by fastforce
  then show ?thesis using assms(2) by (simp add: index_valid_def)
qed

lemma index_ok_publish:
  assumes "read_active_index cfg w = Some ix" and "covers dc cfg t w ix"
  shows "index_ok dc cfg t w"
  unfolding index_ok_def
proof (intro allI impI registry.kept_publish)
  fix revs
  assume f: "index_fence (index w) = Some revs"
  from assms(1) obtain r where r: "index_fence (index w) = Some r" "registry_directory_revisions cfg w = Inr r" by (rule read_fence)
  with f show "ok_of (registry_directory_revisions cfg w) = Some revs" by simp
  show "index_valid dc cfg t (index w) TYPE('a) (registry_view cfg w)"
    unfolding index_valid_def
  proof (intro allI impI)
    fix u :: "'a world" and ix'
    assume u: "registry_view cfg u = registry_view cfg w" "index u = index w" "read_active_index cfg u = Some ix'"
    have "read_active_index cfg u = read_active_index cfg w"
      using u(2) view_revisions [OF u(1)] by (rule read_index_cong)
    with u(3) assms show "covers dc cfg t u ix'" by (simp add: covers_cong [OF u(1)])
  qed
qed

lemma covers_later: "t \<le> t' \<Longrightarrow> covers dc cfg t w ix \<Longrightarrow> covers dc cfg t' w ix"
  unfolding covers_def using active_index_member_antitone by blast

lemma index_ok_later:
  assumes "t \<le> t'" and "index_ok dc cfg t w"
  shows "index_ok dc cfg t' w"
  using assms(2) covers_later [OF assms(1)]
  unfolding index_ok_def registry.kept_def index_valid_def by blast

section \<open>A scan reports each name once\<close>

lemma distinct_concat_key:
  assumes "distinct xs" and "\<And>x. x \<in> set xs \<Longrightarrow> length (f x) \<le> 1"
    and "\<And>x y a b. x \<in> set xs \<Longrightarrow> y \<in> set xs \<Longrightarrow> a \<in> set (f x) \<Longrightarrow> b \<in> set (f y) \<Longrightarrow> k a = k b \<Longrightarrow> x = y"
  shows "distinct (map k (concat (map f xs)))"
  using assms
proof (induction xs)
  case (Cons x xs)
  have "distinct (map k (concat (map f xs)))" using Cons by (intro Cons.IH) auto
  moreover have "distinct (map k (f x))"
    using Cons.prems(2) [of x] by (cases "f x"; cases "tl (f x)") auto
  moreover have "k a \<noteq> k b" if "a \<in> set (f x)" "y \<in> set xs" "b \<in> set (f y)" for a b y
    using Cons.prems(3) [of x y a b] Cons.prems(1) that by auto
  ultimately show ?case by fastforce
qed simp

definition scan_pairs :: "HeadConfig \<Rightarrow> 'r world \<Rightarrow> (place \<times> string) list" where
  "scan_pairs cfg w = concat (map (\<lambda>p. map (Pair p) (visible_names w p)) (scans cfg w))"

lemma scan_rows_pairs: "scan_rows dc cfg w = concat (map (\<lambda>x. scan_row dc cfg w (fst x) (snd x)) (scan_pairs cfg w))"
proof -
  have "concat (map (\<lambda>p. concat (f p)) ps) = concat (concat (map f ps))" for f :: "place \<Rightarrow> (RegistryDamage + JobEntry) list list" and ps
    by (induction ps) simp_all
  then show ?thesis by (simp add: scan_rows_def scan_pairs_def map_concat comp_def)
qed

lemma scan_pairs_holder: "x \<in> set (scan_pairs cfg w) \<Longrightarrow> fst x \<in> set (holders cfg w (snd x)) \<and> visible (snd x)"
  by (auto simp: scan_pairs_def holders_def visible_names_iff)

lemma errs_concat: "errs (concat xss) = concat (map errs xss)"
proof -
  have "errs (xs @ ys) = errs xs @ errs ys" for xs ys :: "('a + 'b) list" by (induction xs rule: errs.induct) auto
  then show ?thesis by (induction xss) simp_all
qed

lemma distinct_scan_damage:
  assumes "wf_world w"
  shows "distinct (map dmg_path (errs (scan_rows dc cfg w)))"
proof -
  let ?f = "\<lambda>x. errs (scan_row dc cfg w (fst x) (snd x))"
  have rows: "errs (scan_rows dc cfg w) = concat (map ?f (scan_pairs cfg w))"
    by (simp add: scan_rows_pairs errs_concat comp_def)
  have at_head: "fst x = hd (holders cfg w (snd x)) \<and> dmg_path d = snd x"
    if "x \<in> set (scan_pairs cfg w)" "d \<in> set (?f x)" for x d
    using that scan_pairs_holder [OF that(1)] outcome_damage_path [of dc cfg w]
    by (auto simp: set_errs scan_row_members split: if_splits)
  show ?thesis
    unfolding rows
  proof (rule distinct_concat_key)
    show "distinct (scan_pairs cfg w)"
      using assms unfolding scan_pairs_def
      by (intro distinct_tagged distinct_scans) (simp add: wf_world_def visible_names_def)
    show "length (?f x) \<le> 1" for x
      by (simp add: scan_row_def Let_def split: option.split sum.split)
    show "x = y" if "x \<in> set (scan_pairs cfg w)" "y \<in> set (scan_pairs cfg w)" "a \<in> set (?f x)" "b \<in> set (?f y)" "dmg_path a = dmg_path b" for x y a b
      using at_head [OF that(1,3)] at_head [OF that(2,4)] that(5) by (simp add: prod_eq_iff)
  qed
qed

lemma distinct_scan_ids:
  assumes "wf_world w"
  shows "distinct (map job_id (oks (scan_rows dc cfg w)))"
proof -
  have "mset (map job_id (oks (scan_rows dc cfg w))) = mset (map job_id (list_rows dc cfg w))"
    by (simp add: scan_list_mset)
  then show ?thesis using distinct_list_ids [OF assms, of dc cfg] by (metis mset_eq_imp_distinct_iff)
qed

lemma scan_damage_bounded:
  assumes "d \<in> set (errs (scan_rows dc cfg w))"
  shows "bounded_damage d = d"
proof -
  from assms obtain nm where "row_outcome dc cfg w nm = Some (Inl d)" by (auto simp: set_scan_errs)
  then have "\<exists>x. dmg_detail d = excerpt MAX_JOB_DIAGNOSTIC_CHARS x"
    by (auto simp: row_outcome_def scan_row_def damaged_def split_brain_detail_def Let_def
        split: list.splits if_splits option.splits sum.splits)
  then show ?thesis using excerpt_max_idem by (auto simp: bounded_damage_def)
qed

lemma scan_id_valid: "e \<in> set (oks (scan_rows dc cfg w)) \<Longrightarrow> valid_job_id (job_id e)"
  using decode_result_valid by (fastforce simp: set_scan_oks outcome_entry hide_env_select)

section \<open>Rebuilding\<close>

lemma stream_ids: "map job_id (fst (stream_active_registry dc cfg t w)) = sort (map job_id (filter (active_index_member t) (oks (scan_rows dc cfg w))))"
  unfolding stream_active_registry_def Let_def fst_conv by (rule properties_for_sort [symmetric]) simp_all

lemma publish_covers:
  assumes wf: "wf_world w" and rev: "registry_directory_revisions cfg w = Inr revs"
    and st: "stream_active_registry dc cfg t w = (active, found)"
    and wr: "write_active_index io cfg (map job_id active) found (Some revs) w = Inr w'"
  shows "read_active_index cfg w' = Some \<lparr>ai_job_ids = map job_id active, ai_damage = found\<rparr>"
    and "dirs w' = dirs w" and "index_ok dc cfg t w'"
proof -
  let ?rows = "scan_rows dc cfg w" and ?ix = "\<lparr>ai_job_ids = map job_id active, ai_damage = found\<rparr>"
  have safe: "bad_directories cfg w = []" using safe_no_bad revisions_safe rev by metis
  have found: "found = errs ?rows" using st by (simp add: stream_active_registry_def Let_def safe)
  have ids: "map job_id active = sort (map job_id (filter (active_index_member t) (oks ?rows)))"
    using stream_ids [of dc cfg t w] st by simp
  have "distinct (map job_id active)"
    unfolding ids using distinct_scan_ids [OF wf, of dc cfg] by (auto simp: distinct_map inj_on_def)
  moreover have "\<forall>j \<in> set (map job_id active). valid_job_id j"
    unfolding ids using scan_id_valid [of _ dc cfg w] by auto
  moreover have "map bounded_damage found = found"
    unfolding found by (intro map_idI scan_damage_bounded)
  ultimately have "read_active_index cfg w' = Some \<lparr>ai_job_ids = sort (map job_id active), ai_damage = found\<rparr> \<and> dirs w' = dirs w"
    using write_read_index [OF wr] rev by simp
  moreover have "sort (map job_id active) = map job_id active" unfolding ids by (simp add: sorted_sort_id)
  ultimately show r: "read_active_index cfg w' = Some ?ix" and d: "dirs w' = dirs w" by simp_all
  have "distinct found" unfolding found using distinct_scan_damage [OF wf, of dc cfg] by (simp add: distinct_map)
  then have "covers dc cfg t w ?ix" by (simp add: covers_def found ids)
  then have "covers dc cfg t w' ?ix" using covers_cong [of cfg w' w] d by (simp add: registry_view_def)
  with r show "index_ok dc cfg t w'" by (rule index_ok_publish)
qed

lemma rebuild_published:
  assumes ev: "evolves w0 w1" "evolves w1 w2" "evolves w2 w3"
    and rb: "rebuild io dc cfg now publish w0 w1 w2 w3 = ((active, found), w')" and diff: "w' \<noteq> w3"
  obtains revs where "stream_active_registry dc cfg now w3 = (active, found)" "registry_directory_revisions cfg w3 = Inr revs"
    "write_active_index io cfg (map job_id active) found (Some revs) w3 = Inr w'"
proof -
  from rb diff obtain revs where s1: "stream_active_registry dc cfg now w1 = (active, found)"
    and r: "registry_directory_revisions cfg w0 = Inr revs" "registry_directory_revisions cfg w2 = Inr revs" "registry_directory_revisions cfg w3 = Inr revs"
    and wr: "write_active_index io cfg (map job_id active) found (Some revs) w3 = Inr w'"
    by (auto simp: rebuild_def Let_def split: prod.splits sum.splits if_splits)
  have "registry_view cfg w1 = registry_view cfg w3"
    using registry.stable_read [OF ev(1) evolves_trans [OF ev(2,3)]] r by simp
  with s1 view_stream have "stream_active_registry dc cfg now w3 = (active, found)" by metis
  then show thesis using r(3) wr by (rule that)
qed

lemma rebuild_index_ok:
  assumes "evolves w0 w1" "evolves w1 w2" "evolves w2 w3" and "wf_world w3"
    and "index_ok dc cfg t w3" and "t \<le> now"
    and rb: "rebuild io dc cfg now publish w0 w1 w2 w3 = ((active, found), w')"
  shows "index_ok dc cfg now w' \<and> dirs w' = dirs w3"
proof (cases "w' = w3")
  case True
  then show ?thesis using index_ok_later assms by blast
next
  case False
  obtain revs where "stream_active_registry dc cfg now w3 = (active, found)" "registry_directory_revisions cfg w3 = Inr revs"
    "write_active_index io cfg (map job_id active) found (Some revs) w3 = Inr w'"
    by (rule rebuild_published [OF assms(1-3) rb False])
  from publish_covers(2,3) [OF assms(4) this(2,1,3)] show ?thesis by simp
qed

section \<open>Reading through the index\<close>

lemma load_indexed_Some:
  "load_indexed dc cfg w ids = Some es \<longleftrightarrow> list_all2 (\<lambda>j e. load dc cfg j w = Inr (Some e)) ids es"
  by (induction ids arbitrary: es) (auto simp: list_all2_Cons1 split: sum.splits option.splits)

lemma read_index_ids:
  "read_active_index cfg w = Some ix \<Longrightarrow>
     sorted (ai_job_ids ix) \<and> distinct (ai_job_ids ix) \<and> (\<forall>j \<in> set (ai_job_ids ix). valid_job_id j)"
proof -
  have "distinct (map str_of vs)" if "distinct vs" "\<forall>v \<in> set vs. is_JStr v" for vs
    using that by (auto simp: distinct_map inj_on_def) (metis is_JStr.elims(2) str_of.simps(1))
  then show "read_active_index cfg w = Some ix \<Longrightarrow> ?thesis"
    by (auto simp: read_active_index_def Let_def split: option.splits rfile.splits json.splits sum.splits if_splits)
qed

lemma rows_unique:
  assumes "sorted (map k xs)" "distinct (map k xs)" "sorted (map k ys)" "distinct (map k ys)" "set xs = set ys"
  shows "xs = ys"
proof -
  have "mset xs = mset ys" using assms by (auto simp: set_eq_iff_mset_eq_distinct distinct_map)
  then have "sort_key k xs = sort_key k ys" using assms(2) by (intro sort_key_inj_key_eq) (simp_all add: distinct_map)
  then show ?thesis using assms(1,3) by (simp add: sort_key_id_if_sorted)
qed

lemma indexed_rows:
  assumes wf: "wf_world w" and ok: "index_ok dc cfg t w" and "t \<le> now"
    and ix: "read_active_index cfg w = Some ix" and es: "load_indexed dc cfg w (ai_job_ids ix) = Some es"
  shows "map hide_env (filter (active_index_member now) es) = fst (stream_active_registry dc cfg now w)"
    and "mset (ai_damage ix) = mset (snd (stream_active_registry dc cfg now w))"
proof -
  let ?rows = "scan_rows dc cfg w"
  obtain revs where rev: "registry_directory_revisions cfg w = Inr revs" using ix by (rule read_fence)
  note safe = revisions_safe [OF rev]
  have cov: "covers dc cfg t w ix" using index_ok_covers [OF ok ix] .
  have each: "list_all2 (\<lambda>j e. load dc cfg j w = Inr (Some e)) (ai_job_ids ix) es" using es by (simp add: load_indexed_Some)
  then have "list_all2 (\<lambda>j e. job_id e = j) (ai_job_ids ix) es"
    by (rule list_all2_mono) (rule load_job_id)
  then have ids: "map job_id es = ai_job_ids ix" by (induction rule: list_all2_induct) simp_all
  have mem: "e \<in> set es \<longleftrightarrow> job_id e \<in> set (ai_job_ids ix) \<and> load dc cfg (job_id e) w = Inr (Some e)" for e
  proof -
    have "load dc cfg (job_id x) w = Inr (Some x)" if "x \<in> set es" for x
      using each that unfolding ids [symmetric] by (simp add: list_all2_map1 list.rel_refl_strong list_all2_same)
    then show ?thesis unfolding ids [symmetric] by force
  qed
  have sorted: "sorted (map job_id (filter P es)) \<and> distinct (map job_id (filter P es))" for P
    using read_index_ids [OF ix] unfolding ids [symmetric]
    by (auto simp: sorted_filter distinct_map inj_on_def)
  have set: "hide_env ` {e \<in> set es. active_index_member now e} = {e \<in> set (oks ?rows). active_index_member now e}"
  proof (intro set_eqI iffI)
    fix x
    assume "x \<in> hide_env ` {e \<in> set es. active_index_member now e}"
    then obtain e where e: "e \<in> set es" "active_index_member now e" "x = hide_env e" by auto
    then have l: "load dc cfg (job_id e) w = Inr (Some e)" using mem by simp
    then have "row_outcome dc cfg w (record_name (job_id e)) = Some (Inr x)" using outcome_load [OF safe] e(3) by blast
    moreover have "visible (record_name (job_id e))" using l by (intro record_name_visible) (simp add: load_Some)
    ultimately show "x \<in> {e \<in> set (oks ?rows). active_index_member now e}"
      using e by (auto simp: set_scan_oks member_public)
  next
    fix x
    assume x: "x \<in> {e \<in> set (oks ?rows). active_index_member now e}"
    then obtain nm where nm: "visible nm" "row_outcome dc cfg w nm = Some (Inr x)" by (auto simp: set_scan_oks)
    have "nm = record_name (job_id x)" using outcome_job_id [OF nm(2)] visible_stem [OF nm(1)] by simp
    then obtain e where e: "load dc cfg (job_id x) w = Inr (Some e)" "x = hide_env e"
      using nm(2) outcome_load [OF safe] by blast
    have "job_id x \<in> set (ai_job_ids ix)"
      using x cov active_index_member_antitone [OF assms(3)] by (auto simp: covers_def)
    then have "e \<in> set es" using mem e load_job_id [OF e(1)] by simp
    then show "x \<in> hide_env ` {e \<in> set es. active_index_member now e}" using x e(2) by (auto simp: member_public)
  qed
  have jid: "map job_id (map hide_env (filter P es)) = map job_id (filter P es)" for P by (simp add: comp_def hide_env_select)
  show "map hide_env (filter (active_index_member now) es) = fst (stream_active_registry dc cfg now w)"
  proof (rule rows_unique [of job_id])
    show "distinct (map job_id (fst (stream_active_registry dc cfg now w)))"
      unfolding stream_ids using distinct_scan_ids [OF wf, of dc cfg] by (auto simp: distinct_map inj_on_def)
    show "set (map hide_env (filter (active_index_member now) es)) = set (fst (stream_active_registry dc cfg now w))"
      using set by (simp add: stream_active_registry_def Let_def)
    show "sorted (map job_id (map hide_env (filter (active_index_member now) es)))"
      "distinct (map job_id (map hide_env (filter (active_index_member now) es)))"
      unfolding jid using sorted by blast+
  qed (simp add: stream_ids)
  have "distinct (errs ?rows)" using distinct_scan_damage [OF wf, of dc cfg] by (simp add: distinct_map)
  then have "mset (ai_damage ix) = mset (errs ?rows)"
    using cov set_eq_iff_mset_eq_distinct [of "ai_damage ix" "errs ?rows"] by (simp add: covers_def)
  then show "mset (ai_damage ix) = mset (snd (stream_active_registry dc cfg now w))"
    using safe_no_bad [OF safe] by (simp add: stream_active_registry_def Let_def)
qed

lemma scan_public: "e \<in> set (oks (scan_rows dc cfg w)) \<Longrightarrow> hide_env e = e"
  by (auto simp: set_scan_oks outcome_entry) (simp add: hide_env_def)

lemma safe_revisions: "safe_dirs cfg w \<Longrightarrow> \<exists>revs. registry_directory_revisions cfg w = Inr revs"
proof -
  have "\<exists>ys. collect_ok (map f xs) = Inr ys" if "\<forall>x \<in> set xs. \<exists>y. f x = Inr y" for f :: "place \<Rightarrow> string + json" and xs
    using that by (induction xs) auto
  moreover assume "safe_dirs cfg w"
  then have "\<forall>p \<in> set (scan_candidates cfg). \<exists>r. revision_of cfg w p = Inr r"
    by (auto simp: safe_dirs_def revision_of_def split: dir.split)
  ultimately show ?thesis by (simp add: registry_directory_revisions_def)
qed

lemma active_entries_scan:
  assumes "wf_world w" and "index_ok dc cfg t w" and "t \<le> now"
    and "active_entries io dc cfg now publish w = ((active, damage), w')"
  shows "map hide_env active = fst (stream_active_registry dc cfg now w)
    \<and> (safe_dirs cfg w \<longrightarrow> mset damage = mset (snd (stream_active_registry dc cfg now w)))
    \<and> dirs w' = dirs w \<and> index_ok dc cfg now w'"
proof (cases "\<exists>ix es. read_active_index cfg w = Some ix \<and> load_indexed dc cfg w (ai_job_ids ix) = Some es")
  case True
  then obtain ix es where ix: "read_active_index cfg w = Some ix" "load_indexed dc cfg w (ai_job_ids ix) = Some es" by blast
  then have "active = filter (active_index_member now) es" "damage = ai_damage ix" "w' = w"
    using assms(4) by (auto simp: active_entries_def)
  then show ?thesis using indexed_rows [OF assms(1-3) ix] index_ok_later [OF assms(3,2)] by simp
next
  case False
  then have rb: "rebuild io dc cfg now publish w w w w = ((active, damage), w')"
    using assms(4) by (auto simp: active_entries_def split: option.splits)
  have act: "active = fst (stream_active_registry dc cfg now w)"
    using rb by (auto simp: rebuild_def Let_def split: prod.splits sum.splits)
  then have "map hide_env active = active"
    by (intro map_idI scan_public [of _ dc cfg w]) (simp add: stream_active_registry_def Let_def)
  moreover have "damage = snd (stream_active_registry dc cfg now w)" if "safe_dirs cfg w"
    using rb safe_revisions [OF that] by (auto simp: rebuild_def Let_def split: prod.splits)
  ultimately show ?thesis
    using rebuild_index_ok [OF evolves_refl evolves_refl evolves_refl assms(1-3) rb] act by simp
qed

text \<open>
  C21. The index is invisible: on a disk whose index invariant holds, \<open>active_entries\<close> returns the
  rows of a full scan of the registry that are active now, in the same order (up to the private
  environment values, which only the indexed path loads), and, when the registry directories
  are safe, exactly the damage reports of that scan. It leaves the registry untouched and the
  index invariant intact.
\<close>

theorem active_entries_refines:
  assumes "wf_world w" and "index_ok dc cfg t w" and "t \<le> now"
    and "active_entries io dc cfg now publish w = ((active, damage), w')"
  shows "map hide_env active = fst (stream_active_registry dc cfg now w)
    \<and> (safe_dirs cfg w \<longrightarrow> mset damage = mset (snd (stream_active_registry dc cfg now w)))
    \<and> dirs w' = dirs w \<and> index_ok dc cfg now w'"
  by (rule active_entries_scan [OF assms])

section \<open>Writers keep the index current\<close>

text \<open>What an incremental update needs to know of the changed record.\<close>

lemma covers_change:
  assumes cov: "covers dc cfg t w ix" and "t \<le> t'"
    and others: "\<And>nm. visible nm \<Longrightarrow> nm \<noteq> record_name jid \<Longrightarrow> row_outcome dc cfg w' nm = row_outcome dc cfg w nm"
    and good: "\<And>d. row_outcome dc cfg w' (record_name jid) \<noteq> Some (Inl d)"
    and member: "\<And>e. row_outcome dc cfg w' (record_name jid) = Some (Inr e) \<Longrightarrow> active_index_member t' e \<Longrightarrow> jid \<in> set ids"
    and keep: "set (ai_job_ids ix) - {jid} \<subseteq> set ids"
  shows "covers dc cfg t' w' \<lparr>ai_job_ids = ids, ai_damage = filter (\<lambda>d. dmg_path d \<noteq> record_name jid) (ai_damage ix)\<rparr>"
proof -
  have "job_id e \<in> set ids" if e: "e \<in> set (oks (scan_rows dc cfg w'))" "active_index_member t' e" for e
  proof -
    from e(1) obtain nm where nm: "visible nm" "row_outcome dc cfg w' nm = Some (Inr e)" by (auto simp: set_scan_oks)
    have name: "nm = record_name (job_id e)" using outcome_job_id [OF nm(2)] visible_stem [OF nm(1)] by simp
    show ?thesis
    proof (cases "job_id e = jid")
      case True
      then show ?thesis using member nm(2) e(2) name by simp
    next
      case False
      then have "row_outcome dc cfg w nm = Some (Inr e)" using others [OF nm(1)] nm(2) name by simp
      then have "e \<in> set (oks (scan_rows dc cfg w))" using nm(1) by (auto simp: set_scan_oks)
      then show ?thesis using cov keep False active_index_member_antitone [OF assms(2) e(2)] by (auto simp: covers_def)
    qed
  qed
  moreover have "{d. \<exists>nm. visible nm \<and> row_outcome dc cfg w' nm = Some (Inl d)}
      = {d. \<exists>nm. visible nm \<and> row_outcome dc cfg w nm = Some (Inl d)} \<inter> {d. dmg_path d \<noteq> record_name jid}"
    using others good outcome_damage_path [of dc cfg w] by (auto, metis, metis)
  then have "set (errs (scan_rows dc cfg w')) = {d \<in> set (ai_damage ix). dmg_path d \<noteq> record_name jid}"
    using cov by (auto simp: covers_def set_scan_errs)
  ultimately show ?thesis using cov by (simp add: covers_def)
qed

lemma refresh_index_ok:
  assumes ok: "index_ok dc cfg t w" and ev: "evolves w w1" and idx: "index w1 = index w" and t: "t \<le> now"
    and valid: "valid_job_id jid"
    and args: "e = None \<and> removed = Some jid \<or> removed = None \<and> (\<exists>r. e = Some r \<and> job_id r = jid)"
    and others: "\<And>nm. visible nm \<Longrightarrow> nm \<noteq> record_name jid \<Longrightarrow> row_outcome dc cfg w1 nm = row_outcome dc cfg w nm"
    and good: "\<And>d. row_outcome dc cfg w1 (record_name jid) \<noteq> Some (Inl d)"
    and member: "\<And>x. row_outcome dc cfg w1 (record_name jid) = Some (Inr x) \<Longrightarrow>
        \<exists>r. e = Some r \<and> active_index_member now x = active_index_member now r"
  shows "index_ok dc cfg now (refresh_active_index_after_mutation io now cfg (read_active_index cfg w) e removed w1)"
proof -
  have plain: "index_ok dc cfg now w1" using index_ok_evolves [OF index_ok_later [OF t ok] ev idx] .
  show ?thesis
  proof (cases "read_active_index cfg w")
    case None
    then show ?thesis using plain by (simp add: refresh_active_index_after_mutation_def)
  next
    case (Some ix)
    let ?dmg = "filter (\<lambda>d. dmg_path d \<noteq> record_name jid) (ai_damage ix)"
    define ids where "ids = (case e of None \<Rightarrow> filter (\<lambda>x. x \<noteq> jid) (ai_job_ids ix)
      | Some r \<Rightarrow> if active_index_member now r then List.insert jid (ai_job_ids ix) else filter (\<lambda>x. x \<noteq> jid) (ai_job_ids ix))"
    have ref: "refresh_active_index_after_mutation io now cfg (Some ix) e removed w1
        = (case write_active_index io cfg ids ?dmg None w1 of Inl _ \<Rightarrow> w1 | Inr w' \<Rightarrow> w')"
      using args by (auto simp: refresh_active_index_after_mutation_def ids_def)
    show ?thesis
    proof (cases "write_active_index io cfg ids ?dmg None w1")
      case (Inl m)
      then show ?thesis using plain by (simp add: Some ref)
    next
      case (Inr w2)
      have cov: "covers dc cfg t w ix" using index_ok_covers [OF ok Some] .
      have ids_ok: "\<forall>j \<in> set ids. valid_job_id j" "distinct ids"
        using read_index_ids [OF Some] valid by (auto simp: ids_def split: option.split)
      have "map bounded_damage ?dmg = ?dmg"
        using cov by (intro map_idI scan_damage_bounded [of _ dc cfg w]) (simp add: covers_def)
      with write_read_index [OF Inr _ ids_ok]
      have rd: "read_active_index cfg w2 = Some \<lparr>ai_job_ids = sort ids, ai_damage = ?dmg\<rparr>" and d: "dirs w2 = dirs w1" by simp_all
      have "covers dc cfg now w1 \<lparr>ai_job_ids = sort ids, ai_damage = ?dmg\<rparr>"
      proof (rule covers_change [OF cov t others good])
        show "jid \<in> set (sort ids)"
          if "row_outcome dc cfg w1 (record_name jid) = Some (Inr x)" "active_index_member now x" for x
          using member [OF that(1)] that(2) by (auto simp: ids_def)
      qed (auto simp: ids_def split: option.split)
      then have "covers dc cfg now w2 \<lparr>ai_job_ids = sort ids, ai_damage = ?dmg\<rparr>"
        using covers_cong [of cfg w2 w1] d by (simp add: registry_view_def)
      with rd have "index_ok dc cfg now w2" by (rule index_ok_publish)
      then show ?thesis by (simp add: Some ref Inr)
    qed
  qed
qed

lemma index_ok_replicas: "index_ok dc cfg t w \<Longrightarrow> index_ok dc cfg t (w\<lparr>replicas := rp\<rparr>)"
  using index_ok_evolves [of dc cfg t w "w\<lparr>replicas := rp\<rparr>"] by (simp add: evolves_dirs)

lemma put_evolves: "dir_evolves d (put_file nm f d)"
  by (cases d) (simp_all add: touch_def)

lemma drop_evolves: "dir_evolves d (drop_file nm d)"
  by (cases d) (simp_all add: touch_def)

lemma rename_evolves: "dir_evolves d (rename_file a b d)"
  using dir_evolves_trans [OF drop_evolves put_evolves] by (simp add: rename_file_def split: option.split)

lemma remove_evolves: "dir_evolves d (remove_file io jid token d)"
  using dir_evolves_trans rename_evolves drop_evolves by (simp add: remove_file_def Let_def split: remove_io.split) blast

lemma resolve_evolves:
  assumes "resolve_registry_record cfg create jid w = Inr (l, w1)"
  shows "evolves w w1 \<and> index w1 = index w"
proof -
  have "require_private_directory cfg c p w = Inr (b, w1) \<Longrightarrow> evolves w w1 \<and> index w1 = index w" for c p b
    by (auto simp: require_private_directory_def evolves_def on_place_def split: dir.splits if_splits)
  then show ?thesis
    using assms by (auto simp: resolve_registry_record_def bind_ok_Inr split: if_splits list.splits)
qed

lemma prepare_evolves: "prepare_save sv cfg e w = (w1, e2, r) \<Longrightarrow> evolves w w1 \<and> index w1 = index w"
  using resolve_evolves [of cfg True "job_id e" w]
  by (auto simp: prepare_save_def Let_def split: sum.splits option.splits if_splits prod.splits)

lemma stamped_bound:
  "stamp_rows t e restored = (e2, persisted) \<Longrightarrow> \<exists>x. persisted = bound_entry x \<and> updated_at x = Some t"
  unfolding stamp_rows_def Let_def by (auto split: if_splits)

lemma commit_index_ok:
  assumes prep: "prepare_save sv cfg e w = (w1, e2, Inr (loc, existing, persisted, doc))"
    and ok: "index_ok dc cfg t w1" and t: "t \<le> sv_now sv"
  shows "index_ok dc cfg (sv_now sv) (fst (commit_row sv cfg loc existing persisted doc w1))"
proof -
  let ?w2 = "on_place (loc_place loc) (put_file (record_name (job_id persisted)) (Doc doc (sv_mtime sv))) w1"
  let ?ix = "read_active_index cfg w1"
  have ev: "evolves w1 ?w2" "index ?w2 = index w1" using evolves_place put_evolves by (simp_all add: on_place_def evolves_def)
  have plain: "index_ok dc cfg (sv_now sv) ?w2" "index_ok dc cfg (sv_now sv) w1"
    using index_ok_evolves [OF index_ok_later [OF t ok] ev] index_ok_later [OF t ok] by simp_all
  let ?r = "refresh_active_index_after_mutation (sv_index_io sv) (sv_now sv) cfg ?ix (Some persisted) None ?w2"
  have "index_ok dc cfg (sv_now sv) ?r" if res: "sv_row_io sv"
  proof -
    from prep obtain restored where st: "stamp_rows (sv_updated_at sv) (inherit_layout cfg existing e) restored = (e2, persisted)"
      and env: "preserve_env existing (inherit_layout cfg existing e) = Inr restored"
      and rs: "resolve_registry_record cfg True (job_id e) w = Inr (Some loc, w1)"
      by (rule prepare_saveE) (rule that)
    have "job_id restored = job_id (inherit_layout cfg existing e)" using env by (auto simp: preserve_env_Inr split: if_splits)
    with stamp_rows_ids(2) [OF st] have pid: "job_id persisted = job_id e" by simp
    have valid: "valid_job_id (job_id e)" using rs by (auto simp: resolve_registry_record_def split: if_splits)
    obtain x where x: "persisted = bound_entry x" "updated_at x = Some (sv_updated_at sv)" using stamped_bound [OF st] by blast
    let ?w' = "fst (save sv cfg e w)"
    have files: "files_of ?w' q = files_of ?w2 q" and dirs: "dirs ?w' q = dirs ?w2 q" for q
      using save_prepared(2) [OF prep res] by (simp_all add: files_of_def pid)
    have loaded: "load dc cfg (job_id e) ?w2 = Inr (Some (normal_entry (Some (sv_mtime sv)) persisted))"
      using load_cong [of ?w2 "job_id e" ?w' dc cfg] save_prepared(1) [OF prep res, of dc] files dirs by simp
    show ?thesis
    proof (rule refresh_index_ok [OF ok ev t valid])
      show "Some persisted = None \<and> None = Some (job_id e) \<or> None = (None :: string option) \<and> (\<exists>r. Some persisted = Some r \<and> job_id r = job_id e)"
        by (simp add: pid)
      show "row_outcome dc cfg ?w2 nm = row_outcome dc cfg w1 nm" if "nm \<noteq> record_name (job_id e)" for nm
        using that pid put_other(1) [OF refl same_rows_refl] by (intro outcome_cong) simp
      have "safe_dirs cfg ?w2"
        using loaded by (auto simp: load_Some safe_dirs_def scan_places usable_def)
      note out = outcome_load [OF this, of dc "job_id e", unfolded loaded]
      have readable: "row_outcome dc cfg ?w2 (record_name (job_id e)) = Some (Inr (hide_env (normal_entry (Some (sv_mtime sv)) persisted)))"
        using out by simp
      show "row_outcome dc cfg ?w2 (record_name (job_id e)) \<noteq> Some (Inl d)" for d by (simp add: readable)
      show "\<exists>r. Some persisted = Some r \<and> active_index_member (sv_now sv) y = active_index_member (sv_now sv) r"
        if "row_outcome dc cfg ?w2 (record_name (job_id e)) = Some (Inr y)" for y
        using that readable member_normal [OF x(2)] by (auto simp: member_public x(1))
    qed
  qed
  then show ?thesis
    using plain by (simp add: index_ok_replicas commit_row_def Let_def split: sum.split prod.split)
qed

lemma save_index_ok:
  assumes "index_ok dc cfg t w" and "t \<le> sv_now sv"
  shows "index_ok dc cfg (sv_now sv) (fst (save sv cfg e w))"
proof -
  obtain w1 e2 r where prep: "prepare_save sv cfg e w = (w1, e2, r)" by (metis prod.exhaust)
  then have w1: "index_ok dc cfg t w1" using index_ok_evolves [OF assms(1)] prepare_evolves [OF prep] by blast
  show ?thesis
  proof (cases r)
    case (Inl m)
    then show ?thesis using prep index_ok_later [OF assms(2) w1] by (simp add: save_def)
  next
    case (Inr plan)
    obtain loc existing persisted doc where plan: "plan = (loc, existing, persisted, doc)" by (cases plan)
    have "fst (save sv cfg e w) = fst (commit_row sv cfg loc existing persisted doc w1)"
      using prep Inr plan by (simp add: save_def split: prod.split option.split)
    then show ?thesis using commit_index_ok [OF _ w1 assms(2)] prep Inr plan by simp
  qed
qed

lemma removed_index_ok:
  assumes ok: "index_ok dc cfg t w" "t \<le> now" and valid: "valid_job_id jid" and hold: "holding cfg w jid = [c]"
  shows "index_ok dc cfg now (refresh_active_index_after_mutation io now cfg (read_active_index cfg w) None (Some jid)
      (on_place (fst c) (remove_file RemoveOk jid token) w))"
proof -
  let ?w1 = "on_place (fst c) (remove_file RemoveOk jid token) w"
  have row: "row_at w (fst c) jid \<noteq> None" using holding_place [OF hold] by blast
  have ev: "evolves w ?w1" "index ?w1 = index w" using remove_evolves by (simp_all add: on_place_def evolves_def)
  note rows = removed_rows [OF refl row, of _ RemoveOk token]
  show ?thesis
  proof (rule refresh_index_ok [OF ok(1) ev ok(2) valid])
    show "row_outcome dc cfg ?w1 nm = row_outcome dc cfg w nm" if "visible nm" "nm \<noteq> record_name jid" for nm
      using rows [OF that(1)] that(2) by (intro outcome_cong) simp
    have "row_at ?w1 p jid = None" if "p \<in> set (scan_candidates cfg)" for p
      using rows [OF record_name_visible [OF valid]] holding_place [OF hold] that by (auto simp: scan_places)
    then have none: "row_outcome dc cfg ?w1 (record_name jid) = None"
      by (simp add: row_outcome_def holders_alt split: list.split)
    show "row_outcome dc cfg ?w1 (record_name jid) \<noteq> Some (Inl d)"
      "row_outcome dc cfg ?w1 (record_name jid) = Some (Inr x) \<Longrightarrow> \<exists>r. None = Some r \<and> active_index_member now x = active_index_member now r" for d x
      by (simp_all add: none)
  qed simp
qed

lemma remove_index_ok:
  assumes "index_ok dc cfg t w" and "t \<le> sv_now sv"
  shows "index_ok dc cfg (sv_now sv) (fst (remove_record sv io token cfg jid w))"
proof -
  have plain: "index_ok dc cfg (sv_now sv) w" using index_ok_later [OF assms(2,1)] .
  have moved: "index_ok dc cfg (sv_now sv) (on_place p (remove_file io jid token) w)" for p
    using index_ok_evolves [OF plain] remove_evolves by (simp add: on_place_def evolves_def)
  show ?thesis
  proof (cases "resolve_registry_record cfg False jid w")
    case (Inr lw)
    obtain l w0 where lw: "lw = (l, w0)" by (cases lw)
    note res = Inr [unfolded lw]
    show ?thesis
    proof (cases l)
      case (Some loc)
      with res [unfolded resolve_Inr] obtain c where c: "valid_job_id jid" "holding cfg w jid = [c]" "loc = location c" by auto
      note gone = removed_index_ok [OF assms c(1,2)]
      show ?thesis
        using res Some c(3) plain moved [of "fst c"] gone [THEN index_ok_replicas]
        by (cases "io = RemoveOk") (auto simp: remove_record_def location_def Let_def split: sum.split prod.split option.split)
    qed (use res plain in \<open>simp add: remove_record_def\<close>)
  qed (use plain in \<open>simp add: remove_record_def\<close>)
qed


text \<open>
  A rebuild is safe under concurrent writers: let other processes change the registry between
  any two of its steps. If it publishes an index at all, the index lists exactly the active rows
  and the damage of the registry at the moment of publication, and in every case the index
  invariant holds afterwards.
\<close>

theorem rebuild_race_free:
  assumes "evolves w0 w1" "evolves w1 w2" "evolves w2 w3" and "wf_world w3"
    and "index_ok dc cfg t w3" and "t \<le> now"
    and "rebuild io dc cfg now publish w0 w1 w2 w3 = ((active, found), w')"
  shows "index_ok dc cfg now w' \<and> dirs w' = dirs w3
    \<and> (w' = w3 \<or> stream_active_registry dc cfg now w3 = (active, found)
          \<and> read_active_index cfg w' = Some \<lparr>ai_job_ids = map job_id active, ai_damage = found\<rparr>)"
proof (cases "w' = w3")
  case True
  then show ?thesis using rebuild_index_ok [OF assms] by simp
next
  case False
  obtain revs where p: "stream_active_registry dc cfg now w3 = (active, found)" "registry_directory_revisions cfg w3 = Inr revs"
    "write_active_index io cfg (map job_id active) found (Some revs) w3 = Inr w'"
    by (rule rebuild_published [OF assms(1-3,7) False])
  show ?thesis using rebuild_index_ok [OF assms] publish_covers(1) [OF assms(4) p(2,1,3)] p(1) by simp
qed

section \<open>Concrete instances\<close>

text \<open>Without an index the invariant holds; the sample registry has a row, a damaged row and a row held twice.\<close>

lemma no_index_ok: "index w = None \<Longrightarrow> index_ok dc cfg t w"
  by (simp add: index_ok_def index_fence_def)

lemma sample_index_ok: "index_ok dc sample_config t (sample_world_of e)"
  by (rule no_index_ok) (simp add: sample_world_of_def)

lemma sample_safe: "safe_dirs sample_config (sample_world_of e)"
  by (auto simp: safe_dirs_def sample_world_of_def split: place.split)

theorem active_entries_refines_witness:
  "\<exists>active damage w'. active_entries True (\<lambda>_. [], 9) sample_config 9 True sample_world = ((active, damage), w')
     \<and> map hide_env active = fst (stream_active_registry (\<lambda>_. [], 9) sample_config 9 sample_world)
     \<and> mset damage = mset (snd (stream_active_registry (\<lambda>_. [], 9) sample_config 9 sample_world))
     \<and> index_ok (\<lambda>_. [], 9) sample_config 9 w'"
proof -
  obtain active damage w' where r: "active_entries True (\<lambda>_. [], 9) sample_config 9 True sample_world = ((active, damage), w')"
    by (metis prod.exhaust)
  have "index_ok (\<lambda>_. [], 9) sample_config 5 sample_world" "safe_dirs sample_config sample_world"
    unfolding sample_world_def by (rule sample_index_ok, rule sample_safe)
  with active_entries_refines [OF sample_world_wf _ _ r, of 5] r show ?thesis by auto
qed


text \<open>A writer commits between the scan and the second look at the revisions.\<close>

theorem rebuild_race_free_witness:
  "\<exists>active found w'. rebuild True (\<lambda>_. [], 9) sample_config 9 True sample_world sample_world
       (on_place RolePlace (put_file ''new.json'' Malformed) sample_world) (on_place RolePlace (put_file ''new.json'' Malformed) sample_world)
     = ((active, found), w') \<and> index_ok (\<lambda>_. [], 9) sample_config 9 w'
     \<and> w' = on_place RolePlace (put_file ''new.json'' Malformed) sample_world"
proof -
  let ?w = "on_place RolePlace (put_file ''new.json'' Malformed) sample_world"
  obtain active found w' where r: "rebuild True (\<lambda>_. [], 9) sample_config 9 True sample_world sample_world ?w ?w = ((active, found), w')"
    by (metis prod.exhaust)
  have ev: "evolves sample_world ?w" by (rule evolves_place) (rule put_evolves)
  have ok: "index_ok (\<lambda>_. [], 9) sample_config 9 ?w"
    by (rule no_index_ok) (simp add: on_place_def sample_world_def sample_world_of_def)
  have "registry_directory_revisions sample_config sample_world \<noteq> registry_directory_revisions sample_config ?w"
    by (simp add: registry_directory_revisions_def revision_of_def scan_candidates_def registry_path_def sample_config_def ROLE_LAYOUT_def
        sample_world_def sample_world_of_def on_place_def fresh_stat_def touch_def)
  then have "w' = ?w" using r by (auto simp: rebuild_def Let_def split: prod.splits sum.splits)
  with rebuild_race_free [OF evolves_refl ev evolves_refl wf_world_put [OF sample_world_wf] ok order_refl r] r show ?thesis by blast
qed

end
