(* ===== verification/Job_Status.thy ===== *)
theory Job_Status
  imports Registry_Write
begin

text \<open>
  Status probes (\<open>src/dt/jobs/status.py\<close>): one shell probe per node reports, for each running
  or provisionally lost job, a boot id, a trusted marker and four state tokens; the answer is
  parsed and turned into the row's next lifecycle state under the job lock.

  The remote shell is a parameter: \<open>run_result\<close> is what running the probe on a node returned
  or raised (the text of the probe program is not modelled). The transient observation that
  callers may pass in is always returned. An operation that writes returns the disk, the row,
  the observation and the message of an exception that escaped.

  The properties: a forged marker in a job-written field cannot move the anchor, batched
  output is cut back into exactly the sections that were printed, a probe moves a row only
  along the lifecycle with status, exit code and typed result changed together, and a refresh
  never overwrites a row that has moved on.
\<close>

section \<open>Parsing\<close>

definition STATUS_MARK :: string where "STATUS_MARK = ''@@DT_STATUS_V2@@''"
definition STATUS_PROBE_BATCH :: nat where "STATUS_PROBE_BATCH = 32"

record Observation =
  ob_node_unreachable :: bool
  ob_status_probe_error :: "string option"

definition clear_observation :: Observation where
  "clear_observation = \<lparr>ob_node_unreachable = False, ob_status_probe_error = None\<rparr>"

definition probe_error :: "string \<Rightarrow> Observation \<Rightarrow> Observation" where
  "probe_error msg ob = ob\<lparr>ob_status_probe_error := Some msg\<rparr>"

definition unreachable :: "string \<Rightarrow> Observation \<Rightarrow> Observation" where
  "unreachable msg ob = ob\<lparr>ob_node_unreachable := True, ob_status_probe_error := Some msg\<rparr>"

text \<open>The lists \<open>sections[0] ... sections[n - 1]\<close> and the index of the list \<open>current\<close> names.\<close>

fun split_loop :: "string \<Rightarrow> nat \<Rightarrow> string list \<Rightarrow> nat option \<Rightarrow> string list list \<Rightarrow> string list list" where
  "split_loop delimiter n [] current sections = sections"
| "split_loop delimiter n (line # rest) current sections =
     (if startswith line (delimiter @ '' '') then
        (let i = (case py_int (drop (length delimiter + 1) line) of None \<Rightarrow> -1 | Some v \<Rightarrow> v)
         in split_loop delimiter n rest (if 0 \<le> i \<and> i < int n then Some (nat i) else None) sections)
      else split_loop delimiter n rest current
             (case current of None \<Rightarrow> sections | Some i \<Rightarrow> sections[i := sections ! i @ [line]]))"

definition split_probe_sections :: "string list \<Rightarrow> string \<Rightarrow> nat \<Rightarrow> string list list" where
  "split_probe_sections lines delimiter n = split_loop delimiter n lines None (replicate n [])"

definition positive_timestamp :: "string \<Rightarrow> time option" where
  "positive_timestamp value =
     (case py_float value of Some (Fin t) \<Rightarrow> (if 0 < t then Some t else None) | _ \<Rightarrow> None)"

record StatusProbe =
  sp_token :: string
  sp_boot_id :: "string option"
  sp_started_at :: "time option"
  sp_finished_at :: "time option"
  sp_result :: string

definition field_after :: "string list \<Rightarrow> nat \<Rightarrow> nat \<Rightarrow> string \<Rightarrow> string" where
  "field_after tokens marker_index offset dflt =
     (if marker_index + offset < length tokens then tokens ! (marker_index + offset) else dflt)"

definition parse_status_probe :: "string list \<Rightarrow> Observation \<Rightarrow> Observation \<times> StatusProbe option" where
  "parse_status_probe tokens ob =
     (case index_where (\<lambda>t. t = STATUS_MARK) tokens of
        None \<Rightarrow> (probe_error ''status probe response is missing trusted protocol marker; registry retained'' ob, None)
      | Some m \<Rightarrow> (ob, Some
          \<lparr>sp_token = field_after tokens m 1 ''LOST'',
           sp_boot_id = (if m \<noteq> 0 then Some (tokens ! (m - 1)) else None),
           sp_started_at = positive_timestamp (field_after tokens m 2 ''UNKNOWN''),
           sp_finished_at = positive_timestamp (field_after tokens m 3 ''UNKNOWN''),
           sp_result = field_after tokens m 4 ''UNKNOWN''\<rparr>))"

text \<open>What running the probe on a node did: raised (message and type name) or ended.\<close>

datatype run_result = Raised string string | Ended int string string

definition raised_detail :: "string \<Rightarrow> string \<Rightarrow> string" where
  "raised_detail msg type_name = (let d = join '' '' (words msg) in if d = [] then type_name else d)"

definition failed_detail :: "int \<Rightarrow> string \<Rightarrow> string \<Rightarrow> string" where
  "failed_detail rc out err =
     join '' '' (words (if err \<noteq> [] then err else if out \<noteq> [] then out else ''status probe exited '' @ show_int rc))"

definition run_status_probe :: "run_result \<Rightarrow> Observation \<Rightarrow> Observation \<times> StatusProbe option" where
  "run_status_probe result ob =
     (case result of
        Raised msg type_name \<Rightarrow> (unreachable (raised_detail msg type_name) ob, None)
      | Ended rc out err \<Rightarrow>
          if rc \<noteq> 0 then (unreachable (failed_detail rc out err) ob, None)
          else parse_status_probe (splitlines (strip out)) ob)"

section \<open>Applying evidence\<close>

definition saved :: "'r saving \<Rightarrow> HeadConfig \<Rightarrow> JobEntry \<Rightarrow> Observation \<Rightarrow> 'r world
    \<Rightarrow> 'r world \<times> JobEntry \<times> Observation \<times> check" where
  "saved sv cfg e ob w = (let (w', e', r) = save sv cfg e w in (w', e', ob, r))"

text \<open>\<open>_mark_running_from_probe\<close>: the row and whether it has to be saved.\<close>

definition mark_running :: "time option \<Rightarrow> JobEntry \<Rightarrow> JobEntry \<times> bool" where
  "mark_running started e =
     (let c1 = (started \<noteq> None \<and> started_at e \<noteq> started);
          e1 = (if c1 then e\<lparr>started_at := started\<rparr> else e);
          c2 = (status e \<noteq> ''running'');
          c3 = (\<not> c2 \<and> reason e \<noteq> None \<and> \<not> startswith (reason_text e) CANCEL_UNVERIFIED_PREFIX);
          e2 = (if c2 then e1\<lparr>status := ''running'', reason := None, finished_at := None\<rparr>
                else if c3 then e1\<lparr>reason := None\<rparr> else e1);
          c4 = (exit_code e2 \<noteq> None \<or> result_state e2 \<noteq> None \<or> finished_at e2 \<noteq> None)
      in (e2\<lparr>exit_code := None, result_state := None, finished_at := None\<rparr>, c1 \<or> c2 \<or> c3 \<or> c4))"

definition mark_running_from_probe ::
  "'r saving \<Rightarrow> HeadConfig \<Rightarrow> JobEntry \<Rightarrow> time option \<Rightarrow> Observation \<Rightarrow> 'r world
   \<Rightarrow> 'r world \<times> JobEntry \<times> Observation \<times> check" where
  "mark_running_from_probe sv cfg e started ob w =
     (let (e', changed) = mark_running started e in
      if changed then saved sv cfg e' ob w else (w, e', ob, None))"

definition show_pid :: "int option \<Rightarrow> string" where
  "show_pid p = (case p of None \<Rightarrow> ''None'' | Some i \<Rightarrow> show_int i)"

definition lost_reason :: "JobEntry \<Rightarrow> string \<Rightarrow> string \<Rightarrow> string" where
  "lost_reason e token state_dir =
     (if token = ''STALE''
      then ''wrapper pid '' @ show_pid (pgid e) @ '' is alive but its process identity does not match this job; refusing to adopt a reused process''
      else ''wrapper pid '' @ show_pid (pgid e) @ '' is not running and '' @ state_dir @ ''/exit_code is missing'')"

text \<open>\<open>_mark_lost_from_probe\<close>: the row and whether it has to be saved.\<close>

definition mark_lost :: "time \<Rightarrow> string \<Rightarrow> string \<Rightarrow> JobEntry \<Rightarrow> JobEntry \<times> bool" where
  "mark_lost now token state_dir e =
     (let lr = lost_reason e token state_dir in
      if status e = ''lost'' then
        (let c1 = (reason_text e = []);
             e1 = (if c1 then e\<lparr>reason := Some lr, finished_at := Some (time_or (finished_at e) now)\<rparr> else e);
             c2 = (result_state e1 \<noteq> Some ''infra_failure'')
         in (e1\<lparr>result_state := Some ''infra_failure''\<rparr>, c1 \<or> c2))
      else (e\<lparr>status := ''lost'', terminal_finalized_at := None, reason := Some lr, finished_at := Some now,
              result_state := Some ''infra_failure''\<rparr>, True))"

definition mark_lost_from_probe ::
  "'r saving \<Rightarrow> HeadConfig \<Rightarrow> time \<Rightarrow> JobEntry \<Rightarrow> string \<Rightarrow> string \<Rightarrow> Observation \<Rightarrow> 'r world
   \<Rightarrow> 'r world \<times> JobEntry \<times> Observation \<times> check" where
  "mark_lost_from_probe sv cfg now e token state_dir ob w =
     (let (e', changed) = mark_lost now token state_dir e in
      if changed then saved sv cfg e' ob w else (w, e', ob, None))"

definition finish_entry :: "time \<Rightarrow> int \<Rightarrow> StatusProbe \<Rightarrow> JobEntry \<Rightarrow> JobEntry" where
  "finish_entry now ec tokens e = e\<lparr>
     exit_code := Some ec, status := ''finished'', reason := None,
     started_at := (case sp_started_at tokens of None \<Rightarrow> started_at e | Some t \<Rightarrow> Some t),
     finished_at := Some (time_or (sp_finished_at tokens) now),
     result_state := Some (if sp_result tokens \<in> set RESULT_STATES then sp_result tokens
                           else if ec = 0 then ''success'' else ''execution_failure'')\<rparr>"

definition rebooted :: "JobEntry \<Rightarrow> StatusProbe \<Rightarrow> bool" where
  "rebooted e tokens =
     (case (boot_id e, sp_boot_id tokens) of
        (Some b, Some current) \<Rightarrow> b \<noteq> [] \<and> current \<noteq> [] \<and> current \<noteq> ''UNKNOWN'' \<and> current \<noteq> b
      | _ \<Rightarrow> False)"

definition reboot_entry :: "time \<Rightarrow> StatusProbe \<Rightarrow> JobEntry \<Rightarrow> JobEntry" where
  "reboot_entry now tokens e = e\<lparr>
     status := ''lost'', terminal_finalized_at := None,
     reason := Some (''node rebooted since launch (boot_id '' @ the (boot_id e) @ '' -> '' @ the (sp_boot_id tokens)
       @ ''); exit_code is missing''),
     finished_at := Some (time_or (finished_at e) now), result_state := Some ''infra_failure''\<rparr>"

definition apply_status_probe ::
  "'r saving \<Rightarrow> HeadConfig \<Rightarrow> time \<Rightarrow> JobEntry \<Rightarrow> StatusProbe \<Rightarrow> string \<Rightarrow> Observation \<Rightarrow> 'r world
   \<Rightarrow> 'r world \<times> JobEntry \<times> Observation \<times> check" where
  "apply_status_probe sv cfg now e tokens state_dir ob w =
     (let token = sp_token tokens in
      if status e = ''lost'' \<and> terminal_finalized_at e \<noteq> None then
        (w, e,
         if token \<notin> {''LOST'', ''STALE''}
         then probe_error ''late worker evidence arrived after dependency finalization; registry retained'' ob else ob, None)
      else if token \<notin> {''RUNNING'', ''LOST'', ''STALE'', ''UNVERIFIED''} then
        (case py_int token of
           None \<Rightarrow> (w, e, ob, None)
         | Some ec \<Rightarrow>
             if \<not> (0 \<le> ec \<and> ec \<le> 255)
             then (w, e, probe_error (''out-of-range exit code '' @ show_int ec @ '' in state probe'') ob, None)
             else saved sv cfg (finish_entry now ec tokens e) ob w)
      else if rebooted e tokens then saved sv cfg (reboot_entry now tokens e) ob w
      else if token = ''RUNNING'' then
        (if status e = ''lost'' \<and> dependency_settled e
         then (w, e, probe_error ''late running evidence arrived after the lost-job recovery window; registry retained'' ob, None)
         else mark_running_from_probe sv cfg e (sp_started_at tokens) ob w)
      else if token = ''UNVERIFIED'' then
        (w, e, probe_error ''wrapper process identity or survivor census is unverified; registry retained'' ob, None)
      else mark_lost_from_probe sv cfg now e token state_dir ob w)"

section \<open>Refreshing one job\<close>

text \<open>\<open>run\<close> is the probe of this job on its node, as a function of the row and its state directory.\<close>

definition refresh_status_locked ::
  "(JobEntry \<Rightarrow> string \<Rightarrow> run_result) \<Rightarrow> 'r saving \<Rightarrow> HeadConfig \<Rightarrow> time \<Rightarrow> JobEntry \<Rightarrow> 'r world
   \<Rightarrow> 'r world \<times> JobEntry \<times> Observation \<times> check" where
  "refresh_status_locked run sv cfg now e w =
     (if status e \<notin> {''running'', ''lost''} then (w, e, clear_observation, None)
      else case validate_job_capsule (job_dir e) (Some (job_id e)) of
        Inl m \<Rightarrow> (w, e, probe_error m clear_observation, None)
      | Inr _ \<Rightarrow>
          let state_dir = job_state_dir (job_dir e) (storage_layout e) in
          (case run_status_probe (run e state_dir) clear_observation of
             (ob, None) \<Rightarrow> (w, e, ob, None)
           | (ob, Some tokens) \<Rightarrow> apply_status_probe sv cfg now e tokens state_dir ob w))"

definition refresh_status ::
  "(JobEntry \<Rightarrow> string \<Rightarrow> run_result) \<Rightarrow> 'r saving \<Rightarrow> HeadConfig \<Rightarrow> time \<Rightarrow> JobEntry \<Rightarrow> 'r world
   \<Rightarrow> 'r world \<times> JobEntry \<times> Observation \<times> check" where
  "refresh_status run sv cfg now e w =
     (if \<not> valid_job_id (job_id e) then (w, e, clear_observation, Some ''job identity is unsafe'')
      else case load (sv_decoding sv) cfg (job_id e) w of
        Inl m \<Rightarrow> (w, e, clear_observation, Some m)
      | Inr current \<Rightarrow>
          refresh_status_locked run sv cfg now (case current of None \<Rightarrow> e | Some c \<Rightarrow> c) w)"

section \<open>Refreshing many jobs\<close>

text \<open>
  One probe target is the row at probe time with its state directory. The first loop notes a
  clear observation per row and groups the probeable rows by node, in the order of their first
  appearance.
\<close>

type_synonym target = "JobEntry \<times> string"

definition collect_target ::
  "JobEntry \<Rightarrow> (string, Observation) dict \<times> (string \<times> bool, target list) dict
   \<Rightarrow> (string, Observation) dict \<times> (string \<times> bool, target list) dict" where
  "collect_target e st =
     (let (obs, by_node) = st; obs1 = AList.update (job_id e) clear_observation obs in
      if status e \<notin> {''running'', ''lost''} then (obs1, by_node)
      else case validate_job_capsule (job_dir e) (Some (job_id e)) of
        Inl m \<Rightarrow> (AList.update (job_id e) (probe_error m clear_observation) obs1, by_node)
      | Inr _ \<Rightarrow>
          (let key = (node e, node_local e) in
           (obs1, AList.update key
              (dict_get by_node key [] @ [(e, job_state_dir (job_dir e) (storage_layout e))]) by_node)))"

fun chunks :: "nat \<Rightarrow> nat \<Rightarrow> 'a list \<Rightarrow> 'a list list" where
  "chunks 0 n xs = []"
| "chunks (Suc fuel) n xs = (if xs = [] then [] else take n xs # chunks fuel n (drop n xs))"

definition probe_batches ::
  "(string \<times> bool, target list) dict \<Rightarrow> ((string \<times> bool) \<times> target list) list" where
  "probe_batches by_node =
     concat (map (\<lambda>(key, targets). map (Pair key) (chunks (length targets) STATUS_PROBE_BATCH targets)) by_node)"

text \<open>One batch: its delimiter (which carries a fresh nonce) and what running it returned.\<close>

type_synonym probing = "(string \<times> bool) \<Rightarrow> target list \<Rightarrow> string \<times> run_result"

definition note_all :: "(Observation \<Rightarrow> Observation) \<Rightarrow> target list \<Rightarrow> (string, Observation) dict \<Rightarrow> (string, Observation) dict" where
  "note_all f targets obs =
     fold (\<lambda>t o0. AList.update (job_id (fst t)) (f (dict_get o0 (job_id (fst t)) clear_observation)) o0) targets obs"

fun parse_sections ::
  "target list \<Rightarrow> string list list \<Rightarrow> (string, Observation) dict \<Rightarrow> (string, Observation) dict \<times> StatusProbe option list" where
  "parse_sections (t # targets) (sec # secs) obs =
     (let (ob, probe) = parse_status_probe sec (dict_get obs (job_id (fst t)) clear_observation);
          (obs', probes) = parse_sections targets secs (AList.update (job_id (fst t)) ob obs)
      in (obs', probe # probes))"
| "parse_sections _ _ obs = (obs, [])"

definition probe_batch ::
  "probing \<Rightarrow> (string \<times> bool) \<times> target list \<Rightarrow> (string, Observation) dict
   \<Rightarrow> (string, Observation) dict \<times> StatusProbe option list" where
  "probe_batch run batch obs =
     (let (key, targets) = batch; (delimiter, result) = run key targets in
      case result of
        Raised msg type_name \<Rightarrow>
          (note_all (unreachable (raised_detail msg type_name)) targets obs, replicate (length targets) None)
      | Ended rc out err \<Rightarrow>
          if rc \<noteq> 0
          then (note_all (unreachable (failed_detail rc out err)) targets obs, replicate (length targets) None)
          else parse_sections targets (split_probe_sections (splitlines out) delimiter (length targets)) obs)"

fun probe_all ::
  "probing \<Rightarrow> ((string \<times> bool) \<times> target list) list \<Rightarrow> (string, Observation) dict
   \<Rightarrow> (string, Observation) dict \<times> (target \<times> StatusProbe option) list" where
  "probe_all run [] obs = (obs, [])"
| "probe_all run (batch # rest) obs =
     (let (obs1, probes) = probe_batch run batch obs; (obs2, more) = probe_all run rest obs1
      in (obs2, zip (snd batch) probes @ more))"

record 'r refresh =
  rf_world :: "'r world"
  rf_refreshed :: "(string, JobEntry) dict"
  rf_observations :: "(string, Observation) dict"
  rf_raised :: check

definition same_process :: "JobEntry \<Rightarrow> JobEntry \<Rightarrow> bool" where
  "same_process current probed \<longleftrightarrow>
     status current \<in> {''running'', ''lost''} \<and> pgid current = pgid probed \<and> job_dir current = job_dir probed"

text \<open>Evidence is applied only while the row still describes the process that was probed.\<close>

definition apply_target ::
  "'r saving \<Rightarrow> HeadConfig \<Rightarrow> time \<Rightarrow> target \<times> StatusProbe option \<Rightarrow> 'r refresh \<Rightarrow> 'r refresh" where
  "apply_target sv cfg now tp st =
     (let ((probed, state_dir), probe) = tp; jid = job_id probed in
      if rf_raised st \<noteq> None then st
      else case probe of
        None \<Rightarrow> st
      | Some tokens \<Rightarrow>
      if \<not> valid_job_id jid then st\<lparr>rf_raised := Some ''job identity is unsafe''\<rparr>
      else case load (sv_decoding sv) cfg jid (rf_world st) of
        Inl m \<Rightarrow> st\<lparr>rf_raised := Some m\<rparr>
      | Inr row \<Rightarrow>
          let current = (case row of None \<Rightarrow> probed | Some c \<Rightarrow> c);
              st1 = st\<lparr>rf_refreshed := AList.update jid current (rf_refreshed st)\<rparr> in
          if \<not> same_process current probed then st1
          else
            let (w', e', ob, raised) = apply_status_probe sv cfg now current tokens state_dir
                   (dict_get (rf_observations st) jid clear_observation) (rf_world st)
            in st1\<lparr>rf_world := w', rf_refreshed := AList.update jid e' (rf_refreshed st1),
                   rf_observations := AList.update jid ob (rf_observations st), rf_raised := raised\<rparr>)"

definition refresh_statuses ::
  "probing \<Rightarrow> 'r saving \<Rightarrow> HeadConfig \<Rightarrow> time \<Rightarrow> JobEntry list \<Rightarrow> 'r world \<Rightarrow> 'r refresh" where
  "refresh_statuses run sv cfg now entries w =
     (let refreshed = dict_of (map (\<lambda>e. (job_id e, e)) entries);
          (obs, by_node) = fold collect_target entries ([], []);
          (obs', outcomes) = probe_all run (probe_batches by_node) obs
      in fold (apply_target sv cfg now) outcomes
           \<lparr>rf_world = w, rf_refreshed = refreshed, rf_observations = obs', rf_raised = None\<rparr>)"

end
