(* ===== verification/Status_Facts.thy ===== *)
theory Status_Facts
  imports Job_Status
begin

text \<open>
  Correctness of the status probes: the parser's anchor, the sections of a batched probe, the
  lifecycle transition a probe may cause, and what a refresh leaves alone.
\<close>

section \<open>The trusted marker\<close>

lemma index_where_first:
  "\<forall>x \<in> set pre. \<not> p x \<Longrightarrow> p y \<Longrightarrow> index_where p (pre @ y # rest) = Some (length pre)"
  by (induction pre) auto

lemma field_after_marker:
  assumes "1 \<le> k" and "k \<le> length toks"
  shows "field_after (pre @ mark # toks @ extra) (length pre) k dflt = toks ! (k - 1)"
proof -
  obtain i where k: "k = Suc i" using assms(1) by (cases k) auto
  then have "(pre @ mark # toks @ extra) ! (length pre + k) = toks ! i"
    using assms(2) by (simp add: nth_append)
  then show ?thesis using assms(2) k by (simp add: field_after_def)
qed


section \<open>The sections of a batched probe\<close>

definition render_section :: "string \<Rightarrow> nat \<times> string list \<Rightarrow> string list" where
  "render_section delimiter s = (delimiter @ '' '' @ show_nat (fst s)) # snd s"

definition clean_lines :: "string \<Rightarrow> string list \<Rightarrow> bool" where
  "clean_lines delimiter ls \<longleftrightarrow> (\<forall>l \<in> set ls. \<not> startswith l (delimiter @ '' ''))"

lemma split_loop_banner:
  "clean_lines d ls \<Longrightarrow> split_loop d n (ls @ rest) None S = split_loop d n rest None S"
  by (induction ls) (auto simp: clean_lines_def)

lemma split_loop_section:
  "clean_lines d ls \<Longrightarrow> i < length S \<Longrightarrow>
   split_loop d n (ls @ rest) (Some i) S = split_loop d n rest (Some i) (S[i := S ! i @ ls])"
proof (induction ls arbitrary: S)
  case (Cons l ls)
  then show ?case by (simp add: clean_lines_def)
qed (simp add: list_update_id)

lemma split_loop_sections:
  assumes "\<forall>s \<in> set secs. clean_lines d s" and "length xs + length secs = n"
  shows "split_loop d n (concat (map (render_section d) (enumerate_from (length xs) secs))) current
      (xs @ replicate (length secs) []) = xs @ secs"
  using assms
proof (induction secs arbitrary: xs current)
  case (Cons s secs)
  let ?S = "xs @ [] # replicate (length secs) []"
  have head: "startswith (d @ '' '' @ show_nat (length xs)) (d @ '' '')"
    using startswith_append [of "d @ '' ''" "show_nat (length xs)"] by simp
  have num: "drop (Suc (length d)) (d @ '' '' @ show_nat (length xs)) = show_nat (length xs)" by simp
  have upd: "?S[length xs := s] = (xs @ [s]) @ replicate (length secs) []" by simp
  have "split_loop d n (concat (map (render_section d) (enumerate_from (length xs) (s # secs)))) current ?S
      = split_loop d n (s @ concat (map (render_section d) (enumerate_from (Suc (length xs)) secs))) (Some (length xs)) ?S"
    using head num Cons.prems(2) by (simp add: enumerate_from_Cons render_section_def py_int_show_nat)
  also have "\<dots> = split_loop d n (concat (map (render_section d) (enumerate_from (Suc (length xs)) secs)))
      (Some (length xs)) (?S[length xs := s])"
    using Cons.prems(1) by (subst split_loop_section) (simp_all add: nth_append)
  finally show ?case using Cons.IH [of "xs @ [s]"] Cons.prems upd by simp
qed (simp add: enumerate_from_def)

text \<open>
  Cutting a batched probe is the inverse of printing it: for any sections whose lines do not
  start with the delimiter, and any banner the login shell printed before them, splitting the
  output returns exactly those sections, one list per job in order.
\<close>

theorem split_sections_round_trip:
  assumes "clean_lines delimiter banner" and "\<forall>s \<in> set secs. clean_lines delimiter s"
  shows "split_probe_sections (banner @ concat (map (render_section delimiter) (enumerate_from 0 secs))) delimiter (length secs)
    = secs"
  unfolding split_probe_sections_def split_loop_banner [OF assms(1)]
  using split_loop_sections [OF assms(2), of "[]" "length secs" None] by simp

section \<open>Transitions\<close>

lemma bound_lifecycle [simp]:
  "status (bound_entry e) = status e" "exit_code (bound_entry e) = exit_code e"
  "result_state (bound_entry e) = result_state e" "finished_at (bound_entry e) = finished_at e"
  "terminal_finalized_at (bound_entry e) = terminal_finalized_at e"
  by (simp_all add: bound_entry_def)

text \<open>A save may add layout, time stamp and bounds to the caller's row, but keeps its lifecycle.\<close>

lemma prepare_lifecycle:
  assumes "r = fst (snd (prepare_save sv cfg e w))"
  shows "status r = status e \<and> exit_code r = exit_code e \<and> result_state r = result_state e
    \<and> finished_at r = finished_at e \<and> terminal_finalized_at r = terminal_finalized_at e"
proof -
  have inh: "exit_code (inherit_layout cfg x e) = exit_code e" "result_state (inherit_layout cfg x e) = result_state e"
    "finished_at (inherit_layout cfg x e) = finished_at e" for x
    by (simp_all add: inherit_layout_def split: option.split)
  show ?thesis
    unfolding assms
    by (simp add: prepare_save_def Let_def stamp_rows_def inh split: sum.split prod.split option.split)
qed

lemma save_lifecycle:
  assumes "save sv cfg e w = (w', e', r)"
  shows "status e' = status e \<and> exit_code e' = exit_code e \<and> result_state e' = result_state e
    \<and> finished_at e' = finished_at e \<and> terminal_finalized_at e' = terminal_finalized_at e"
proof -
  have "fst (snd (save sv cfg e w)) = fst (snd (prepare_save sv cfg e w))"
    by (simp add: save_def split: prod.split sum.split option.split)
  then show ?thesis using prepare_lifecycle [OF refl, of sv cfg e w] assms by simp
qed

lemma saved_lifecycle:
  assumes "saved sv cfg e ob w = (w', e', ob', r)"
  shows "status e' = status e" "exit_code e' = exit_code e" "result_state e' = result_state e"
    "finished_at e' = finished_at e" "terminal_finalized_at e' = terminal_finalized_at e"
    "w' = fst (save sv cfg e w)"
proof -
  obtain w1 e1 r1 where s: "save sv cfg e w = (w1, e1, r1)" by (metis prod.exhaust)
  with assms have "e' = e1" "w' = w1" by (simp_all add: saved_def)
  with save_lifecycle [OF s] s show "status e' = status e" "exit_code e' = exit_code e" "result_state e' = result_state e"
    "finished_at e' = finished_at e" "terminal_finalized_at e' = terminal_finalized_at e" "w' = fst (save sv cfg e w)"
    by simp_all
qed

text \<open>What the rows may look like after evidence was applied.\<close>

definition as_finished :: "JobEntry \<Rightarrow> bool" where
  "as_finished e \<longleftrightarrow> status e = ''finished'' \<and> (\<exists>c. exit_code e = Some c \<and> 0 \<le> c \<and> c \<le> 255)
     \<and> (\<exists>rs \<in> set RESULT_STATES. result_state e = Some rs)"

definition as_running :: "JobEntry \<Rightarrow> bool" where
  "as_running e \<longleftrightarrow> status e = ''running'' \<and> exit_code e = None \<and> result_state e = None \<and> finished_at e = None"

definition as_lost :: "JobEntry \<Rightarrow> bool" where
  "as_lost e \<longleftrightarrow> status e = ''lost'' \<and> result_state e = Some ''infra_failure'' \<and> terminal_finalized_at e = None"

lemma finish_as_finished: "0 \<le> c \<Longrightarrow> c \<le> 255 \<Longrightarrow> as_finished (finish_entry now c tokens e)"
  by (simp add: as_finished_def finish_entry_def RESULT_STATES_def)

lemma reboot_as_lost: "as_lost (reboot_entry now tokens e)"
  by (simp add: as_lost_def reboot_entry_def)

lemma saved_as:
  assumes "saved sv cfg e ob w = (w', e', ob', r)"
  shows "as_finished e \<Longrightarrow> as_finished e'" "as_running e \<Longrightarrow> as_running e'" "as_lost e \<Longrightarrow> as_lost e'"
  by (simp_all add: as_finished_def as_running_def as_lost_def saved_lifecycle [OF assms])

lemma finish_entry_select: "job_id (finish_entry now c tokens e) = job_id e"
  by (simp add: finish_entry_def)

lemma reboot_entry_select: "job_id (reboot_entry now tokens e) = job_id e"
  by (simp add: reboot_entry_def)

lemma mark_running_lifecycle:
  "as_running (fst (mark_running started e)) \<and> job_id (fst (mark_running started e)) = job_id e"
  by (simp add: mark_running_def Let_def as_running_def)

lemma mark_lost_lifecycle:
  "(status e = ''lost'' \<longrightarrow> terminal_finalized_at e = None) \<Longrightarrow>
   as_lost (fst (mark_lost now token sd e)) \<and> job_id (fst (mark_lost now token sd e)) = job_id e"
  by (simp add: mark_lost_def Let_def as_lost_def)

text \<open>The branches of \<open>apply_status_probe\<close>, with the finalization fence settled first.\<close>

lemma apply_cases:
  assumes "apply_status_probe sv cfg now e tokens sd ob w = (w', e', ob', r)"
  obtains (keep) "w' = w" "e' = e"
  | (save_row) x where "as_finished x \<or> as_lost x \<or> as_running x" "saved sv cfg x ob w = (w', e', ob', r)" "job_id x = job_id e"
      "\<not> (status e = ''lost'' \<and> terminal_finalized_at e \<noteq> None)"
  | (same) "w' = w" "as_lost e' \<or> as_running e'" "job_id e' = job_id e"
      "\<not> (status e = ''lost'' \<and> terminal_finalized_at e \<noteq> None)"
proof (cases "status e = ''lost'' \<and> terminal_finalized_at e \<noteq> None")
  case True
  then show thesis using assms by (intro keep) (simp_all add: apply_status_probe_def Let_def)
next
  case open_row: False
  let ?t = "sp_token tokens"
  show thesis
  proof (cases "?t \<in> {''RUNNING'', ''LOST'', ''STALE'', ''UNVERIFIED''}")
    case False
    show thesis
    proof (cases "\<exists>c. py_int ?t = Some c \<and> 0 \<le> c \<and> c \<le> 255")
      case True
      then obtain c where c: "py_int ?t = Some c" "0 \<le> c" "c \<le> 255" by blast
      have "saved sv cfg (finish_entry now c tokens e) ob w = (w', e', ob', r)"
        using assms open_row False c by (simp add: apply_status_probe_def Let_def del: not_None_eq)
      then show thesis
        using finish_as_finished [OF c(2,3)] open_row by (intro save_row [of "finish_entry now c tokens e"]) (simp_all add: finish_entry_select)
    next
      case no: False
      then show thesis using assms open_row False
        by (intro keep) (auto simp: apply_status_probe_def Let_def split: option.splits if_splits)
    qed
  next
    case known: True
    show thesis
    proof (cases "rebooted e tokens")
      case True
      then have "saved sv cfg (reboot_entry now tokens e) ob w = (w', e', ob', r)"
        using assms open_row known by (auto simp: apply_status_probe_def Let_def)
      then show thesis
        using reboot_as_lost open_row by (intro save_row [of "reboot_entry now tokens e"]) (simp_all add: reboot_entry_select)
    next
      case nr: False
      consider (run) "?t = ''RUNNING''" "\<not> (status e = ''lost'' \<and> dependency_settled e)"
        | (late) "?t = ''UNVERIFIED'' \<or> ?t = ''RUNNING'' \<and> status e = ''lost'' \<and> dependency_settled e"
        | (lost) "?t = ''LOST'' \<or> ?t = ''STALE''" using known by blast
      then show thesis
      proof cases
        case run
        obtain x c where mr: "mark_running (sp_started_at tokens) e = (x, c)" by (metis prod.exhaust)
        have x: "as_running x" "job_id x = job_id e"
          using mark_running_lifecycle [of "sp_started_at tokens" e] mr by simp_all
        have "mark_running_from_probe sv cfg e (sp_started_at tokens) ob w = (w', e', ob', r)"
          using assms open_row run nr by (auto simp: apply_status_probe_def Let_def)
        then show thesis using x save_row [of x] same open_row
          by (cases c) (auto simp: mark_running_from_probe_def mr)
      next
        case late
        then show thesis using assms open_row nr
          by (intro keep) (auto simp: apply_status_probe_def Let_def split: if_splits)
      next
        case lost
        obtain x c where ml: "mark_lost now ?t sd e = (x, c)" by (metis prod.exhaust)
        have x: "as_lost x" "job_id x = job_id e"
          using mark_lost_lifecycle [of e now ?t sd] ml open_row by auto
        have "mark_lost_from_probe sv cfg now e ?t sd ob w = (w', e', ob', r)"
          using assms open_row lost nr by (auto simp: apply_status_probe_def Let_def)
        then show thesis using x save_row [of x] same open_row
          by (cases c) (auto simp: mark_lost_from_probe_def ml)
      qed
    qed
  qed
qed

text \<open>
  C18. A probe moves a row only along the lifecycle, with all fields together: after trusted
  evidence was applied the row is either untouched (on disk and in memory), or finished with an
  exit code in 0..255 and a typed result, or running with no exit code, result or end time, or
  provisionally lost as an infrastructure failure. A finalized lost row is always untouched.
\<close>

theorem probe_transition:
  assumes "apply_status_probe sv cfg now e tokens sd ob w = (w', e', ob', r)"
  shows "((w' = w \<and> e' = e) \<or> as_finished e' \<or> as_running e' \<or> as_lost e')
    \<and> (status e = ''lost'' \<and> terminal_finalized_at e \<noteq> None \<longrightarrow> w' = w \<and> e' = e)"
  using assms
proof (cases rule: apply_cases)
  case (save_row x)
  then have "as_finished e' \<or> as_running e' \<or> as_lost e'" using saved_as [OF save_row(2)] by blast
  then show ?thesis using save_row(4) by auto
next
  case same
  then show ?thesis by auto
qed simp

section \<open>Refreshing\<close>

lemma apply_world:
  assumes "apply_status_probe sv cfg now e tokens sd ob w = (w', e', ob', r)"
  shows "w' = w \<or> (\<exists>x. job_id x = job_id e \<and> w' = fst (save sv cfg x w)
      \<and> \<not> (status e = ''lost'' \<and> terminal_finalized_at e \<noteq> None))"
  by (rule apply_cases [OF assms]) (use saved_lifecycle(6) in blast)+

text \<open>A row a refresh must leave alone: terminal, or lost and already acted upon.\<close>

definition settled_row :: "JobEntry \<Rightarrow> bool" where
  "settled_row e \<longleftrightarrow> status e \<notin> {''running'', ''lost''} \<or> status e = ''lost'' \<and> terminal_finalized_at e \<noteq> None"

lemma apply_target_keeps:
  assumes "load (sv_decoding sv) cfg jid (rf_world st) = Inr (Some row)" and "settled_row row"
  shows "load (sv_decoding sv) cfg jid (rf_world (apply_target sv cfg now tp st)) = Inr (Some row)"
proof -
  obtain probed sd probe where tp: "tp = ((probed, sd), probe)" by (metis prod.exhaust)
  let ?load = "load (sv_decoding sv) cfg" and ?st' = "apply_target sv cfg now tp st"
  consider (same) "rf_world ?st' = rf_world st"
    | (applied) tokens cur current w' e' ob r where "?load (job_id probed) (rf_world st) = Inr cur"
        "current = (case cur of None \<Rightarrow> probed | Some c \<Rightarrow> c)" "same_process current probed"
        "apply_status_probe sv cfg now current tokens sd
           (dict_get (rf_observations st) (job_id probed) clear_observation) (rf_world st) = (w', e', ob, r)"
        "rf_world ?st' = w'"
    unfolding apply_target_def tp Let_def
    by (cases probe; cases "?load (job_id probed) (rf_world st)") (force split: prod.splits if_splits)+
  then show ?thesis
  proof cases
    case (applied tokens cur current w' e' ob r)
    have id: "job_id current = job_id probed"
    proof (cases cur)
      case (Some c)
      then show ?thesis using load_job_id [OF applied(1) [unfolded Some]] by (simp add: applied(2))
    qed (simp add: applied(2))
    show ?thesis
    proof (cases "job_id probed = jid")
      case True
      then have "current = row" using applied(1,2) assms(1) by auto
      then have "w' = rf_world st"
        using apply_world [OF applied(4)] applied(3) assms(2) by (auto simp: settled_row_def same_process_def)
      then show ?thesis using assms(1) applied(5) by simp
    next
      case False
      then show ?thesis
        using apply_world [OF applied(4)] assms(1) applied(5) id save_others by metis
    qed
  qed (simp add: assms(1))
qed

text \<open>
  C19. A refresh never overwrites a row that has moved on: a job that is queued, killed, failed,
  skipped or finished when its evidence is applied, or whose loss is already final, loads
  exactly as before, whatever the nodes answered and whatever stale rows the caller passed in.
\<close>

theorem refresh_keeps_settled:
  assumes "load (sv_decoding sv) cfg jid w = Inr (Some row)" and "settled_row row"
  shows "load (sv_decoding sv) cfg jid (rf_world (refresh_statuses run sv cfg now entries w)) = Inr (Some row)"
proof -
  have fold: "load (sv_decoding sv) cfg jid (rf_world st) = Inr (Some row) \<Longrightarrow>
      load (sv_decoding sv) cfg jid (rf_world (fold (apply_target sv cfg now) tps st)) = Inr (Some row)" for tps st
    by (induction tps arbitrary: st) (simp_all add: apply_target_keeps [OF _ assms(2)])
  show ?thesis
    unfolding refresh_statuses_def Let_def
    by (auto split: prod.split intro!: fold assms(1))
qed

section \<open>Concrete instances\<close>


theorem split_sections_round_trip_witness:
  "split_probe_sections ([''welcome''] @ concat (map (render_section ''@@x@@'') (enumerate_from 0 [[''a'', ''b''], [], [''c'']])))
     ''@@x@@'' (length [[''a'', ''b''], [], [''c'']]) = [[''a'', ''b''], [], [''c'']]"
proof -
  have "clean_lines ''@@x@@'' [''welcome'']" "\<forall>s \<in> set [[''a'', ''b''], [], [''c'']]. clean_lines ''@@x@@'' s"
    by (simp_all add: clean_lines_def startswith_def)
  from split_sections_round_trip [OF this] show ?thesis .
qed

definition final_lost :: JobEntry where
  "final_lost = sample_entry\<lparr>status := ''lost'', terminal_finalized_at := Some 5\<rparr>"

definition late_success :: StatusProbe where
  "late_success = \<lparr>sp_token = ''0'', sp_boot_id = None, sp_started_at = None, sp_finished_at = None, sp_result = ''success''\<rparr>"

theorem probe_transition_witness:
  "\<exists>w' e' ob. apply_status_probe quiet_saving sample_config 9 final_lost late_success ''d'' clear_observation sample_world
     = (w', e', ob, None) \<and> w' = sample_world \<and> e' = final_lost"
proof -
  have eq: "apply_status_probe quiet_saving sample_config 9 final_lost late_success ''d'' clear_observation sample_world
     = (sample_world, final_lost,
        probe_error ''late worker evidence arrived after dependency finalization; registry retained'' clear_observation, None)"
    by (simp add: apply_status_probe_def Let_def final_lost_def late_success_def)
  have "status final_lost = ''lost'' \<and> terminal_finalized_at final_lost \<noteq> None" by (simp add: final_lost_def)
  with probe_transition [OF eq] eq show ?thesis by blast
qed

text \<open>The registry holds a killed job; a probe that was in flight reports it as finished.\<close>

theorem refresh_keeps_settled_witness:
  "load (sv_decoding quiet_saving) sample_config (job_id sample_entry)
     (rf_world (refresh_statuses (\<lambda>_ _. (''@@x@@'', Ended 0 ''0'' [])) quiet_saving sample_config 9 [sample_entry]
        (sample_world_of (killed_sample (Some 3)))))
   = Inr (Some (normal_entry (Some 8) (killed_sample (Some 3))))"
  by (rule refresh_keeps_settled [OF sample_state_load [OF sample_states_ok(3)]])
     (simp add: settled_row_def sample_state_select)

end
