(* ===== verification/Registry_Run.thy ===== *)
theory Registry_Run
  imports Index_Refine Status_Facts
begin

text \<open>
  Runs of the registry: any sequence of saves, dependency finalizations, status refreshes,
  removals, index publications and directory touches (lock and temporary files), by any number
  of processes, in any order and with any of their input and output failing. Every operation
  runs under the registry's locks, so a run is a sequence of whole operations.

  \<open>save_stable\<close> is the contract of an invariant with the one primitive that changes rows: what
  every save keeps, every operation built on saves keeps. It is interpreted on the three
  invariants of the development: well-formed directories, a covering index, and the finality of
  a lost job.
\<close>

section \<open>Operations built on saves\<close>

locale save_stable =
  fixes inv :: "'r world \<Rightarrow> bool" and sv :: "'r saving" and cfg :: HeadConfig
  assumes save_inv: "inv w \<Longrightarrow> inv (fst (save sv cfg e w))"
begin

lemma finalize_loaded_inv:
  assumes "inv w"
  shows "inv (fst (finalize_loaded sv cfg now e w))"
proof -
  have "fst (case save sv cfg x w of (w', _, Some m) \<Rightarrow> (w', Inl m) | (w', s, None) \<Rightarrow> (w', Inr s)) = fst (save sv cfg x w)" for x
    by (simp split: prod.split option.split)
  then show ?thesis
    using assms save_inv [OF assms] by (simp add: finalize_loaded_def split: sum.split prod.split)
qed

lemma finalize_inv: "inv w \<Longrightarrow> inv (fst (finalize_dependency_terminal sv cfg now jid w))"
  using finalize_loaded_inv [of w now]
  by (simp add: finalize_dependency_terminal_def Let_def split_beta split: sum.split option.split)

lemma finalize_locked_inv: "inv w \<Longrightarrow> inv (fst (finalize_dependency_terminal_locked sv cfg now e w))"
  using finalize_loaded_inv [of w now]
  by (simp add: finalize_dependency_terminal_locked_def Let_def split_beta split: sum.split option.split)

lemma apply_target_inv:
  assumes "inv (rf_world st)"
  shows "inv (rf_world (apply_target sv cfg now tp st))"
proof -
  have "inv w'" if "apply_status_probe sv cfg now e tokens sd ob (rf_world st) = (w', x)" for e tokens sd ob w' x
  proof -
    obtain e' ob' r where x: "x = (e', ob', r)" by (metis prod.exhaust)
    from apply_world [OF that [unfolded x]] show ?thesis using assms save_inv [OF assms] by blast
  qed
  then have step: "inv (fst (apply_status_probe sv cfg now e tokens sd ob (rf_world st)))" for e tokens sd ob
    by (metis prod.exhaust_sel)
  obtain probed sd probe where tp: "tp = ((probed, sd), probe)" by (metis prod.exhaust)
  show ?thesis
    using assms step unfolding apply_target_def tp Let_def
    by (simp add: split_beta split: option.split sum.split)
qed

lemma refresh_inv: "inv w \<Longrightarrow> inv (rf_world (refresh_statuses run sv cfg now entries w))"
proof -
  have "inv (rf_world st) \<Longrightarrow> inv (rf_world (fold (apply_target sv cfg now) tps st))" for tps st
    by (induction tps arbitrary: st) (simp_all add: apply_target_inv)
  then show "inv w \<Longrightarrow> ?thesis" by (simp add: refresh_statuses_def Let_def split_beta)
qed

end

section \<open>The three invariants\<close>

lemma same_rows_wf: "same_rows w w' \<Longrightarrow> wf_world w \<Longrightarrow> wf_world w'"
  by (simp add: same_rows_def wf_world_def)

lemma wf_world_dirs: "dirs w' = dirs w \<Longrightarrow> wf_world w \<Longrightarrow> wf_world w'"
  by (simp add: wf_world_def files_of_def)

lemma save_wf:
  assumes "wf_world w"
  shows "wf_world (fst (save sv cfg e w))"
proof -
  obtain w1 e2 r where prep: "prepare_save sv cfg e w = (w1, e2, r)" by (metis prod.exhaust)
  show ?thesis
  proof (cases r)
    case (Inl m)
    then show ?thesis using save_unprepared [OF prep [unfolded Inl]] same_rows_wf assms by fastforce
  next
    case (Inr plan)
    obtain loc existing persisted doc where plan: "plan = (loc, existing, persisted, doc)" by (cases plan)
    have w1: "wf_world w1" using prepare_same_rows [OF prep [unfolded Inr plan]] assms by (rule same_rows_wf)
    show ?thesis
    proof (cases "sv_row_io sv")
      case True
      show ?thesis using save_prepared(2) [OF prep [unfolded Inr plan] True] wf_world_put [OF w1] by (rule wf_world_dirs)
    next
      case False
      then show ?thesis using save_no_io [OF prep [unfolded Inr]] w1 by simp
    qed
  qed
qed

lemma remove_wf:
  assumes "wf_world w"
  shows "wf_world (fst (remove_record sv io token cfg jid w))"
proof (rule remove_recordE [of sv io token cfg jid w undefined])
  fix c r
  assume d: "dirs (fst (remove_record sv io token cfg jid w)) = dirs (on_place (fst c) (remove_file io jid token) w)"
  have put: "wf_dict (dir_files d) \<Longrightarrow> wf_dict (dir_files (put_file nm f d))" for nm f d
    by (cases d) (auto intro: distinct_update)
  have drop: "wf_dict (dir_files d) \<Longrightarrow> wf_dict (dir_files (drop_file nm d))" for nm d
    by (cases d) (auto intro: distinct_delete)
  have "wf_dict (dir_files d) \<Longrightarrow> wf_dict (dir_files (rename_file a b d))" for a b d
    by (simp add: rename_file_def put drop split: option.split)
  then have "wf_dict (dir_files d) \<Longrightarrow> wf_dict (dir_files (remove_file io jid token d))" for d
    by (simp add: remove_file_def Let_def drop split: remove_io.split)
  then have "wf_world (on_place (fst c) (remove_file io jid token) w)"
    using assms by (simp add: wf_world_def files_of_def on_place_def)
  with d show ?thesis by (rule wf_world_dirs)
qed (use assms in simp)

text \<open>A job whose loss was finalized at \<open>stamp\<close>.\<close>

definition final_at :: "decoding \<Rightarrow> HeadConfig \<Rightarrow> string \<Rightarrow> time \<Rightarrow> 'r world \<Rightarrow> bool" where
  "final_at dc cfg jid stamp w \<longleftrightarrow>
     (\<exists>e. load dc cfg jid w = Inr (Some e) \<and> status e = ''lost'' \<and> terminal_finalized_at e = Some stamp)"

lemma save_final:
  assumes "final_at (sv_decoding sv) cfg jid stamp w"
  shows "final_at (sv_decoding sv) cfg jid stamp (fst (save sv cfg e w))"
proof (cases "job_id e = jid")
  case False
  then show ?thesis using assms save_others by (metis final_at_def)
next
  case True
  from assms obtain old where old: "load (sv_decoding sv) cfg jid w = Inr (Some old)" "status old = ''lost''" "terminal_finalized_at old = Some stamp"
    by (auto simp: final_at_def)
  have same: "?thesis" if "same_rows w (fst (save sv cfg e w))"
    using load_same_rows [OF that] assms by (simp add: final_at_def)
  obtain w1 e2 r where prep: "prepare_save sv cfg e w = (w1, e2, r)" by (metis prod.exhaust)
  show ?thesis
  proof (cases r)
    case (Inl m)
    then show ?thesis using save_unprepared [OF prep [unfolded Inl]] by (intro same) simp
  next
    case (Inr plan)
    obtain loc existing persisted doc where plan: "plan = (loc, existing, persisted, doc)" by (cases plan)
    note prep = prep [unfolded Inr plan]
    show ?thesis
    proof (cases "sv_row_io sv")
      case False
      then show ?thesis using save_no_io [OF prep] by (intro same) simp
    next
      case io: True
      have ex: "existing = Some old" using existing_is_loaded [OF prep] old(1) True by simp
      from prep obtain restored where nr: "\<not> reopens existing e"
        and env: "preserve_env existing (inherit_layout cfg existing e) = Inr restored"
        and stamp: "stamp_rows (sv_updated_at sv) (inherit_layout cfg existing e) restored = (e2, persisted)"
        by (rule prepare_saveE) (rule that)
      have "status persisted = status e \<and> terminal_finalized_at persisted = terminal_finalized_at e"
        using env stamp by (auto simp: preserve_env_Inr stamp_rows_def Let_def split: if_splits)
      moreover have "status e = ''lost''" "terminal_finalized_at e = Some stamp"
        using nr old(3) by (auto simp: ex reopens_def)
      ultimately show ?thesis
        using save_prepared(1) [OF prep io, of "sv_decoding sv"] True by (simp add: final_at_def normal_select)
    qed
  qed
qed

interpretation keeps_wf: save_stable wf_world sv cfg
  by unfold_locales (rule save_wf)

interpretation keeps_index: save_stable "index_ok dc cfg (sv_now sv)" sv cfg
  by unfold_locales (rule save_index_ok [OF _ order_refl])

interpretation keeps_final: save_stable "final_at (sv_decoding sv) cfg jid stamp" sv cfg
  by unfold_locales (rule save_final)

section \<open>Runs\<close>

text \<open>
  A state is the disk and the latest clock reading of an operation on it. \<open>protected\<close> lists the jobs
  that the run does not remove; all processes decode with \<open>dc\<close>.
\<close>

inductive registry_step :: "decoding \<Rightarrow> HeadConfig \<Rightarrow> string set \<Rightarrow> time \<times> 'r world \<Rightarrow> time \<times> 'r world \<Rightarrow> bool"
  for dc :: decoding and cfg :: HeadConfig and protected :: "string set" where
  save_step: "sv_decoding sv = dc \<Longrightarrow> t \<le> sv_now sv \<Longrightarrow>
    registry_step dc cfg protected (t, w) (sv_now sv, fst (save sv cfg e w))"
| finalize_step: "sv_decoding sv = dc \<Longrightarrow> t \<le> sv_now sv \<Longrightarrow>
    registry_step dc cfg protected (t, w) (sv_now sv, fst (finalize_dependency_terminal sv cfg now jid w))"
| finalize_locked_step: "sv_decoding sv = dc \<Longrightarrow> t \<le> sv_now sv \<Longrightarrow>
    registry_step dc cfg protected (t, w) (sv_now sv, fst (finalize_dependency_terminal_locked sv cfg now e w))"
| refresh_step: "sv_decoding sv = dc \<Longrightarrow> t \<le> sv_now sv \<Longrightarrow>
    registry_step dc cfg protected (t, w) (sv_now sv, rf_world (refresh_statuses run sv cfg now entries w))"
| remove_step: "sv_decoding sv = dc \<Longrightarrow> t \<le> sv_now sv \<Longrightarrow> jid \<notin> protected \<Longrightarrow>
    registry_step dc cfg protected (t, w) (sv_now sv, fst (remove_record sv io token cfg jid w))"
| active_step: "t \<le> now \<Longrightarrow>
    registry_step dc cfg protected (t, w) (now, snd (active_entries io dc cfg now publish w))"
| touch_step: "same_rows w w' \<Longrightarrow> evolves w w' \<Longrightarrow> index w' = index w \<Longrightarrow>
    registry_step dc cfg protected (t, w) (t, w')"

inductive_cases registry_stepE: "registry_step dc cfg protected (t, w) s'"

abbreviation registry_run :: "decoding \<Rightarrow> HeadConfig \<Rightarrow> string set \<Rightarrow> time \<times> 'r world \<Rightarrow> time \<times> 'r world \<Rightarrow> bool" where
  "registry_run dc cfg protected \<equiv> (registry_step dc cfg protected)\<^sup>*\<^sup>*"

lemma active_entries_dirs: "dirs (snd (active_entries io dc cfg now publish w)) = dirs w"
  by (auto simp: active_entries_def rebuild_def write_active_index_def Let_def bind_ok_def
      split: option.splits prod.splits sum.splits)

definition run_ok :: "decoding \<Rightarrow> HeadConfig \<Rightarrow> time \<times> 'r world \<Rightarrow> bool" where
  "run_ok dc cfg s \<longleftrightarrow> wf_world (snd s) \<and> index_ok dc cfg (fst s) (snd s)"

lemma step_ok:
  assumes "registry_step dc cfg protected s s'" and "run_ok dc cfg s"
  shows "run_ok dc cfg s'"
  using assms
proof (induction rule: registry_step.induct)
  case (active_step t now w io publish)
  obtain active damage w' where r: "active_entries io dc cfg now publish w = ((active, damage), w')" by (metis prod.exhaust)
  have "index_ok dc cfg now w'" "dirs w' = dirs w"
    using active_entries_scan [OF _ _ active_step.hyps r] active_step.prems by (simp_all add: run_ok_def)
  then show ?case using active_step.prems wf_world_dirs [of w' w] by (simp add: run_ok_def r)
next
  case (touch_step w w' t)
  then show ?case using same_rows_wf [of w w'] index_ok_evolves [of dc cfg t w w'] by (simp add: run_ok_def)
next
  case (remove_step sv t jid w io token)
  then show ?case using remove_wf [of w sv] remove_index_ok [of dc cfg t w sv] by (simp add: run_ok_def)
qed (auto simp: run_ok_def intro: save_wf save_index_ok keeps_wf.finalize_inv keeps_wf.finalize_locked_inv keeps_wf.refresh_inv
      keeps_index.finalize_inv keeps_index.finalize_locked_inv keeps_index.refresh_inv index_ok_later)

lemma step_final:
  assumes "registry_step dc cfg protected s s'" and "final_at dc cfg jid stamp (snd s)" and "jid \<in> protected"
  shows "final_at dc cfg jid stamp (snd s')"
  using assms
proof (induction rule: registry_step.induct)
  case (active_step t now w io publish)
  then show ?case
    unfolding final_at_def snd_conv load_same_rows [OF same_rows_dirs [OF active_entries_dirs]] by blast
next
  case (touch_step w w' t)
  then show ?case using load_same_rows [OF touch_step.hyps(1), of dc cfg jid] by (simp add: final_at_def)
next
  case (remove_step sv t j w io token)
  then have "jid \<noteq> j" by blast
  then show ?case using remove_step.prems remove_others [of jid j dc cfg sv] by (simp add: final_at_def)
qed (auto intro: save_final keeps_final.finalize_inv keeps_final.finalize_locked_inv keeps_final.refresh_inv)

lemma run_inv:
  assumes "registry_run dc cfg protected s s'" and "run_ok dc cfg s"
  shows "run_ok dc cfg s'"
  using assms by (induction rule: rtranclp_induct) (auto intro: step_ok)

text \<open>
  C22. Finality is permanent: once the loss of a job was finalized (so that its dependants may have
  been released), no sequence of registry operations other than removing the job itself changes
  that it is lost, nor the time of the decision. Stale writers and late worker evidence are
  refused whatever the interleaving.
\<close>

theorem finality_permanent:
  assumes "registry_run dc cfg protected s s'" and "jid \<in> protected"
    and "load dc cfg jid (snd s) = Inr (Some e)" and "status e = ''lost''" and "terminal_finalized_at e = Some stamp"
  shows "\<exists>e'. load dc cfg jid (snd s') = Inr (Some e') \<and> status e' = ''lost'' \<and> terminal_finalized_at e' = Some stamp"
proof -
  have "final_at dc cfg jid stamp (snd s)" using assms(3-5) by (simp add: final_at_def)
  with assms(1) have "final_at dc cfg jid stamp (snd s')"
    by (induction rule: rtranclp_induct) (auto intro: step_final [OF _ _ assms(2)])
  then show ?thesis by (simp add: final_at_def)
qed


section \<open>A concrete run\<close>

text \<open>The job is saved as killed, the active view published, the directories touched, and the row saved again.\<close>

abbreviation lost_sample :: JobEntry where
  "lost_sample \<equiv> sample_state ''lost'' (Some ''infra_failure'') (Some 4) (Some 3) (Some ROLE_LAYOUT)"

lemma lost_sample_ok: "sample_state_ok ''lost'' (Some ''infra_failure'') (Some 4) (Some 3) (Some ROLE_LAYOUT)"
  by (simp add: sample_state_ok_def JOB_STATUSES_def RESULT_STATES_def)

definition run_start :: "time \<times> unit world" where
  "run_start = (2, sample_world_of lost_sample)"

definition run_saved :: "time \<times> unit world" where
  "run_saved = (9, fst (save quiet_saving sample_config (killed_sample None) (snd run_start)))"

definition run_viewed :: "time \<times> unit world" where
  "run_viewed = (12, snd (active_entries True (\<lambda>_. [], 9) sample_config 12 True (snd run_saved)))"

lemma sample_run: "registry_run (\<lambda>_. [], 9) sample_config {job_id sample_entry} run_start run_viewed"
proof -
  have "registry_step (\<lambda>_. [], 9) sample_config {job_id sample_entry} run_start run_saved"
    using save_step [of quiet_saving "(\<lambda>_. [], 9)" 2 sample_config "{job_id sample_entry}" "snd run_start" "killed_sample None"]
    by (simp add: run_start_def run_saved_def quiet_saving_def)
  moreover have "registry_step (\<lambda>_. [], 9) sample_config {job_id sample_entry} run_saved run_viewed"
    using active_step [of 9 12 "(\<lambda>_. [], 9)" sample_config "{job_id sample_entry}" "snd run_saved" True True]
    by (simp add: run_saved_def run_viewed_def)
  ultimately show ?thesis by auto
qed

theorem finality_permanent_witness:
  "\<exists>e'. load (\<lambda>_. [], 9) sample_config (job_id sample_entry) (snd run_viewed) = Inr (Some e')
     \<and> status e' = ''lost'' \<and> terminal_finalized_at e' = Some 4"
proof (rule finality_permanent [OF sample_run])
  show "load (\<lambda>_. [], 9) sample_config (job_id sample_entry) (snd run_start) = Inr (Some (normal_entry (Some 8) lost_sample))"
    using sample_state_load [OF lost_sample_ok] by (simp add: run_start_def)
qed (simp_all add: normal_select sample_state_select)


end
