(* ===== verification/Scheduler.thy ===== *)
theory Scheduler
  imports Job_Entry
begin

text \<open>
  \<open>src/dt/scheduler.py\<close>: the admission verdict for one reservation and the explanation of a
  whole queue against one snapshot of the fleet. Both are pure functions of registry rows,
  the configuration and the probe rows a fleet query returned.

  Node probes are untyped (\<open>json\<close> objects). Converting a reported integer beyond the range of
  a double raises \<open>OverflowError\<close>, which the code does not catch: reading the probe rows is
  fallible. The mutable capacity object is threaded through the forecast as a value.
\<close>

section \<open>Capacity read off the probe rows\<close>

definition SCHEDULER_SCHEMA :: string where "SCHEDULER_SCHEMA = ''dt_scheduler_state_v1''"

record ResourceCapacity =
  rc_free :: "(string, int) dict"
  rc_total :: "(string, int) dict"
  rc_unavailable :: "string list"
  rc_disk_free :: "(string, rat) dict"
  rc_free_gpu_memory_mib :: "(string, int option list) dict"
  rc_gpu_memory_mib :: "(string, int option list) dict"
  rc_gpu_inventory_unknown :: "string list"
  rc_memory_inventory_unknown :: "string list"

record AdmissionDecision =
  ad_allowed :: bool
  ad_state :: string
  ad_reason :: string
  ad_blocking_job_id :: "string option"

definition capacity_overlaps :: "JobEntry \<Rightarrow> JobEntry \<Rightarrow> string \<Rightarrow> bool" where
  "capacity_overlaps older candidate candidate_node =
     (if gpus_requested older \<le> 0 \<or> gpus_requested candidate \<le> 0 then False
      else case dispatch_node older of
        Some n \<Rightarrow> n = candidate_node
      | None \<Rightarrow> pin_node older = None \<or> pin_node older = Some candidate_node)"

text \<open>\<open>int(raw)\<close> for a finite number, and whether it equals \<open>raw\<close>.\<close>

definition is_integral :: "rat \<Rightarrow> bool" where
  "is_integral r \<longleftrightarrow> of_int \<lfloor>r\<rfloor> = r"

definition gpu_total_mib :: "(string, json) dict \<Rightarrow> string + int option" where
  "gpu_total_mib row =
     (let raw = (case map_of row ''mem_total_mib'' of Some v \<Rightarrow> v | None \<Rightarrow> json_get row ''mem_total'') in
      if \<not> is_number raw then Inr None
      else bind_ok (finite_float raw) (\<lambda>fin.
        if \<not> fin \<or> num_of raw \<le> 0 \<or> \<not> is_integral (num_of raw) then Inr None
        else Inr (Some \<lfloor>num_of raw\<rfloor>)))"

text \<open>The loop over one node's cards: all memory sizes, those of free cards, two flags.\<close>

fun scan_gpus :: "json list \<Rightarrow> string + (int option list \<times> int option list \<times> bool \<times> bool)" where
  "scan_gpus [] = Inr ([], [], False, False)"
| "scan_gpus (gpu # rest) =
     (case gpu of
        JObj g \<Rightarrow>
          bind_ok (gpu_total_mib g) (\<lambda>memory.
          bind_ok (scan_gpus rest) (\<lambda>(rows, free_rows, gpu_unknown, mem_unknown).
            Inr (memory # rows, (if json_get g ''free'' = JBool True then memory # free_rows else free_rows),
                 gpu_unknown, memory = None \<or> mem_unknown)))
      | _ \<Rightarrow>
          bind_ok (scan_gpus rest) (\<lambda>(rows, free_rows, _, _). Inr (rows, free_rows, True, True)))"

definition empty_capacity :: ResourceCapacity where
  "empty_capacity = \<lparr>rc_free = [], rc_total = [], rc_unavailable = [], rc_disk_free = [],
     rc_free_gpu_memory_mib = [], rc_gpu_memory_mib = [], rc_gpu_inventory_unknown = [],
     rc_memory_inventory_unknown = []\<rparr>"

definition add_if :: "bool \<Rightarrow> 'a \<Rightarrow> 'a list \<Rightarrow> 'a list" where
  "add_if b x xs = (if b then List.insert x xs else xs)"

definition read_disk :: "(string, json) dict \<Rightarrow> string + rat option" where
  "read_disk row =
     (case json_get row ''system'' of
        JObj system \<Rightarrow>
          (let reported = json_get system ''disk_free_gib'' in
           if \<not> is_number reported then Inr None
           else bind_ok (finite_float reported) (\<lambda>fin. Inr (if fin then Some (num_of reported) else None)))
      | _ \<Rightarrow> Inr None)"

definition capacity_row :: "(string, json) dict \<Rightarrow> ResourceCapacity \<Rightarrow> string + ResourceCapacity" where
  "capacity_row row c =
     (let nd = str_of (json_get row ''node'') in
      if nd = [] then Inr c
      else if truthy (json_get row ''error'') then Inr (c\<lparr>rc_unavailable := List.insert nd (rc_unavailable c)\<rparr>)
      else
        let raw_gpus = json_get row ''gpus''; gs = list_items raw_gpus in
        bind_ok (scan_gpus gs) (\<lambda>(rows, free_rows, gpu_unknown, mem_unknown).
        bind_ok (read_disk row) (\<lambda>disk.
          let bad = \<not> is_JList raw_gpus \<or> truthy (json_get row ''gpu_inventory_error'') in
          Inr (c\<lparr>rc_total := AList.update nd (int (length gs)) (rc_total c),
                 rc_gpu_inventory_unknown := add_if (gpu_unknown \<or> bad) nd (rc_gpu_inventory_unknown c),
                 rc_memory_inventory_unknown := add_if (mem_unknown \<or> bad) nd (rc_memory_inventory_unknown c),
                 rc_gpu_memory_mib := AList.update nd rows (rc_gpu_memory_mib c),
                 rc_free_gpu_memory_mib := AList.update nd free_rows (rc_free_gpu_memory_mib c),
                 rc_free := AList.update nd (int (length free_rows)) (rc_free c),
                 rc_disk_free := (case disk of None \<Rightarrow> rc_disk_free c | Some d \<Rightarrow> AList.update nd d (rc_disk_free c))\<rparr>))))"

fun capacity_rows :: "(string, json) dict list \<Rightarrow> ResourceCapacity \<Rightarrow> string + ResourceCapacity" where
  "capacity_rows [] c = Inr c"
| "capacity_rows (row # rest) c = bind_ok (capacity_row row c) (capacity_rows rest)"

definition resource_capacity :: "(string, json) dict list option \<Rightarrow> string + ResourceCapacity option" where
  "resource_capacity resources =
     (case resources of
        None \<Rightarrow> Inr None
      | Some rows \<Rightarrow> bind_ok (capacity_rows rows empty_capacity) (\<lambda>c. Inr (Some c)))"

section \<open>Why a row waits\<close>

type_synonym wait = "string \<times> string \<times> string"

definition dependency_wait_reason :: "JobEntry \<Rightarrow> string" where
  "dependency_wait_reason e =
     (if is_uncertain_launch e then ''has an uncertain launch outcome''
      else if status e = ''lost'' then ''is provisionally lost pending durable terminal finalization''
      else ''is '' @ status e)"

definition result_or_status :: "JobEntry \<Rightarrow> string" where
  "result_or_status e = (case effective_result_state e of None \<Rightarrow> status e | Some r \<Rightarrow> r)"

definition dependency_state :: "JobEntry \<Rightarrow> (string, JobEntry) dict \<Rightarrow> wait option" where
  "dependency_state e by_id =
     (case after_result e of
        Some dep \<Rightarrow>
          (case map_of by_id dep of
             None \<Rightarrow> Some (''blocked_dependency_missing'', ''result dependency '' @ dep @ '' was not found'',
                           ''repair or replace the missing predecessor'')
           | Some pred \<Rightarrow>
               if \<not> dependency_settled pred
               then Some (''waiting_dependency'', ''result dependency '' @ dep @ '' '' @ dependency_wait_reason pred,
                          ''dependency must complete as one of ['' @ join '','' (after_result_states e) @ '']'')
               else if result_or_status pred \<notin> set (after_result_states e)
               then Some (''blocked_predicate_false'', ''result dependency completed as '' @ result_or_status pred,
                          ''the scheduler will mark this job skipped'')
               else None)
      | None \<Rightarrow>
     case after_complete e of
        Some dep \<Rightarrow>
          (case map_of by_id dep of
             None \<Rightarrow> Some (''blocked_dependency_missing'', ''completion dependency '' @ dep @ '' was not found'',
                           ''repair or replace the missing predecessor'')
           | Some pred \<Rightarrow>
               if \<not> dependency_settled pred
               then Some (''waiting_dependency'', ''completion dependency '' @ dep @ '' '' @ dependency_wait_reason pred,
                          ''dependency '' @ dep @ '' must reach any terminal result'')
               else None)
      | None \<Rightarrow>
     case after_success e of
        None \<Rightarrow> None
      | Some dep \<Rightarrow>
          (case map_of by_id dep of
             None \<Rightarrow> Some (''blocked_dependency_missing'', ''dependency '' @ dep @ '' was not found'',
                           ''repair or replace the missing predecessor'')
           | Some pred \<Rightarrow>
               if \<not> dependency_settled pred
               then Some (''waiting_dependency'', ''dependency '' @ dep @ '' '' @ dependency_wait_reason pred,
                          ''dependency '' @ dep @ '' must finish successfully'')
               else if status pred \<noteq> ''finished'' \<or> exit_code pred \<noteq> Some 0
                       \<or> effective_result_state pred \<noteq> Some ''success''
               then Some (''blocked_dependency_false'',
                          ''dependency '' @ dep @ '' completed as '' @ result_or_status pred,
                          ''the scheduler will mark this dependent job skipped'')
               else None))"

definition persisted_wait :: "bool \<Rightarrow> bool \<Rightarrow> JobEntry \<Rightarrow> wait option" where
  "persisted_wait has_resource_snapshot attempting e =
     (let r = reason_text e in
      if startswith r ''blocked:'' \<and> \<not> attempting
      then Some (''blocked_constraint'', r, ''satisfy the reported job constraint'')
      else if \<not> has_resource_snapshot \<and> (contains ''unreachable:'' r \<or> startswith r ''waiting: no reachable'')
      then Some (''waiting_node'', r, ''a candidate node must become reachable'')
      else None)"

section \<open>Admission of one reservation\<close>

definition rows_by_id :: "JobEntry list \<Rightarrow> (string, JobEntry) dict" where
  "rows_by_id entries = dict_of (map (\<lambda>e. (job_id e, e)) entries)"

definition queued_rows :: "JobEntry list \<Rightarrow> JobEntry list" where
  "queued_rows entries = filter (\<lambda>e. status e = ''queued'') entries"

fun first_blocker :: "(string, JobEntry) dict \<Rightarrow> JobEntry \<Rightarrow> string \<Rightarrow> JobEntry list \<Rightarrow> JobEntry option" where
  "first_blocker by_id candidate candidate_node [] = None"
| "first_blocker by_id candidate candidate_node (older # rest) =
     (if job_id older = job_id candidate then None
      else if dependency_state older by_id \<noteq> None \<or> persisted_wait False False older \<noteq> None
      then first_blocker by_id candidate candidate_node rest
      else if \<not> capacity_overlaps older candidate candidate_node
      then first_blocker by_id candidate candidate_node rest
      else Some older)"

definition occupancy :: "time \<Rightarrow> JobEntry list \<Rightarrow> nat \<Rightarrow> int" where
  "occupancy now entries damage = int (count_if (occupies_quota now) entries) + int damage"

definition refuse :: "string \<Rightarrow> string \<Rightarrow> string option \<Rightarrow> AdmissionDecision" where
  "refuse st rsn blocker = \<lparr>ad_allowed = False, ad_state = st, ad_reason = rsn, ad_blocking_job_id = blocker\<rparr>"

definition admission_decision ::
  "HeadConfig \<Rightarrow> JobEntry \<Rightarrow> JobEntry list \<Rightarrow> string \<Rightarrow> nat \<Rightarrow> bool \<Rightarrow> time \<Rightarrow> AdmissionDecision" where
  "admission_decision cfg candidate entries candidate_node registry_damage has_fresh_candidate now =
     (let by_id = rows_by_id entries in
      case dependency_state candidate by_id of
        Some (st, rsn, _) \<Rightarrow> refuse st rsn None
      | None \<Rightarrow>
      case persisted_wait has_fresh_candidate has_fresh_candidate candidate of
        Some (st, rsn, _) \<Rightarrow> refuse st rsn None
      | None \<Rightarrow>
          let occ0 = occupancy now entries registry_damage;
              occ = (if occupies_quota now candidate then max 0 (occ0 - 1) else occ0);
              full = (case cf_max_my_jobs cfg of None \<Rightarrow> False | Some cap \<Rightarrow> cap \<le> occ) in
          if full
          then refuse ''waiting_quota'' (''max_my_jobs='' @ show_int (the (cf_max_my_jobs cfg)) @ '' is reached'') None
          else
            let queue = sort_key (\<lambda>e. (created_at e, job_id e)) (queued_rows entries) in
            case first_blocker by_id candidate candidate_node queue of
              Some older \<Rightarrow>
                refuse ''waiting_fifo'' (''FIFO capacity is reserved for earlier job '' @ job_id older) (Some (job_id older))
            | None \<Rightarrow>
                \<lparr>ad_allowed = True, ad_state = ''admit'', ad_reason = ''reservation may be claimed'',
                 ad_blocking_job_id = None\<rparr>)"

section \<open>Placement of one row\<close>

definition reason_or :: "JobEntry \<Rightarrow> string \<Rightarrow> string" where
  "reason_or e text = (if reason_text e = [] then text else reason_text e)"

definition meets :: "int option \<Rightarrow> int option \<Rightarrow> bool" where
  "meets minimum memory =
     (case minimum of None \<Rightarrow> True | Some m \<Rightarrow> (case memory of None \<Rightarrow> False | Some v \<Rightarrow> m \<le> v))"

definition wanted_gpus :: "JobEntry \<Rightarrow> int" where
  "wanted_gpus e = max 0 (gpus_requested e)"

definition reserve_for :: "HeadConfig \<Rightarrow> JobEntry \<Rightarrow> int" where
  "reserve_for cfg e = (if pin_node e \<noteq> None then 0 else max 0 (cf_reserve_free_per_node cfg))"

definition required_disk :: "HeadConfig \<Rightarrow> JobEntry \<Rightarrow> int" where
  "required_disk cfg e = max 0 (max (cf_disk_min_gib cfg) (case require_disk_gib e of None \<Rightarrow> 0 | Some d \<Rightarrow> d))"

definition disk_ok :: "HeadConfig \<Rightarrow> JobEntry \<Rightarrow> ResourceCapacity \<Rightarrow> string \<Rightarrow> bool" where
  "disk_ok cfg e c nd = (case map_of (rc_disk_free c) nd of None \<Rightarrow> True | Some have \<Rightarrow> of_int (required_disk cfg e) \<le> have)"

definition gpu_fit :: "HeadConfig \<Rightarrow> JobEntry \<Rightarrow> ResourceCapacity \<Rightarrow> string \<Rightarrow> bool" where
  "gpu_fit cfg e c nd =
     (let free_count = dict_get (rc_free c) nd 0; wanted = wanted_gpus e in
      if wanted = 0 then True
      else if nd \<in> set (rc_gpu_inventory_unknown c) then False
      else if free_count - wanted < reserve_for cfg e then False
      else if min_vram_mib e = None then wanted \<le> free_count
      else wanted \<le> int (count_if (meets (min_vram_mib e)) (dict_get (rc_free_gpu_memory_mib c) nd [])))"

definition node_names :: "HeadConfig \<Rightarrow> string list" where
  "node_names cfg = map nd_name (cf_nodes cfg)"

definition drained_names :: "HeadConfig \<Rightarrow> string list" where
  "drained_names cfg = map nd_name (filter nd_drained (cf_nodes cfg))"

definition shape_text :: "JobEntry \<Rightarrow> string" where
  "shape_text e = (case min_vram_mib e of None \<Rightarrow> [] | Some m \<Rightarrow> '' with at least '' @ show_int m @ '' MiB each'')"

definition inventory_unknown :: "JobEntry \<Rightarrow> ResourceCapacity \<Rightarrow> string \<Rightarrow> bool" where
  "inventory_unknown e c nd \<longleftrightarrow>
     nd \<in> set (rc_gpu_inventory_unknown c) \<or> (min_vram_mib e \<noteq> None \<and> nd \<in> set (rc_memory_inventory_unknown c))"

definition node_inventory :: "JobEntry \<Rightarrow> ResourceCapacity \<Rightarrow> string \<Rightarrow> int" where
  "node_inventory e c nd =
     (if min_vram_mib e = None then dict_get (rc_total c) nd 0
      else int (count_if (meets (min_vram_mib e)) (dict_get (rc_gpu_memory_mib c) nd [])))"

text \<open>The tail of \<open>_capacity_state\<close>: no node fits now.\<close>

definition unfit_state ::
  "HeadConfig \<Rightarrow> JobEntry \<Rightarrow> ResourceCapacity \<Rightarrow> string list \<Rightarrow> string list \<Rightarrow> wait" where
  "unfit_state cfg e c cands reachable =
     (let wanted = wanted_gpus e;
          known = filter (\<lambda>nd. \<not> inventory_unknown e c nd) reachable;
          max_inventory = fold max (map (node_inventory e c) known) 0 in
      if max_inventory < wanted then
        (let unknown = filter (\<lambda>nd. nd \<in> set (rc_unavailable c) \<or> inventory_unknown e c nd) cands in
         if unknown \<noteq> [] then
           (let inv = filter (inventory_unknown e c) unknown in
            ((if inv \<noteq> [] then ''waiting_gpu_inventory'' else ''waiting_node''),
             (if min_vram_mib e \<noteq> None then ''GPU memory inventory is unavailable on eligible nodes''
              else if inv \<noteq> [] then ''GPU inventory is unavailable on eligible nodes''
              else ''reachable nodes are too small but eligible inventory is unavailable''),
             ''inventory for '' @ join '', '' unknown @ '' must become available''))
         else
           (''blocked_resource_mismatch'',
            ''requests '' @ show_int wanted @ '' GPUs'' @ shape_text e @ '' but eligible nodes expose at most ''
              @ show_int max_inventory,
            ''change the resource request or eligible node set''))
      else
        (''waiting_capacity'',
         reason_or e (''waiting for '' @ show_int wanted @ '' GPU capacity'' @ shape_text e),
         ''one eligible node must have '' @ show_int wanted @ '' fitting GPUs and leave ''
           @ show_int (reserve_for cfg e) @ '' free in reserve''))"

definition candidate_nodes :: "HeadConfig \<Rightarrow> string list \<Rightarrow> JobEntry \<Rightarrow> string list" where
  "candidate_nodes cfg excluded e =
     filter (\<lambda>nd. nd \<notin> set (drained_names cfg))
       (case pin_node e of Some p \<Rightarrow> [p] | None \<Rightarrow> filter (\<lambda>nd. nd \<notin> set excluded) (node_names cfg))"

text \<open>A pin that no placement can satisfy: not configured, or drained.\<close>

definition pin_refused :: "HeadConfig \<Rightarrow> JobEntry \<Rightarrow> wait option" where
  "pin_refused cfg e =
     (case pin_node e of
        None \<Rightarrow> None
      | Some p \<Rightarrow>
          if p \<notin> set (node_names cfg)
          then Some (''blocked_invalid_pin'', ''pinned node '' @ p @ '' is not configured'',
                     ''repair the persisted pin or restore the configured node'')
          else if p \<in> set (drained_names cfg)
          then Some (''waiting_node'', ''pinned node '' @ p @ '' is drained for maintenance'',
                     ''nodes[].drained must be lifted on '' @ p @ '' or the job repinned'')
          else None)"

definition fitting_nodes :: "HeadConfig \<Rightarrow> JobEntry \<Rightarrow> ResourceCapacity \<Rightarrow> string list \<Rightarrow> string list" where
  "fitting_nodes cfg e c reachable = filter (disk_ok cfg e c) (filter (gpu_fit cfg e c) reachable)"

definition capacity_state ::
  "HeadConfig \<Rightarrow> JobEntry \<Rightarrow> ResourceCapacity option \<Rightarrow> string list \<Rightarrow> wait \<times> string option" where
  "capacity_state cfg e capacity excluded =
     (case capacity of
        None \<Rightarrow> ((''pending_dispatch'', reason_or e ''waiting for the next scheduler pass'',
                 ''the agent must complete a fresh capacity probe''), None)
      | Some c \<Rightarrow>
      case pin_refused cfg e of
        Some wt \<Rightarrow> (wt, None)
      | None \<Rightarrow>
          let cands = candidate_nodes cfg excluded e;
              reachable = filter (\<lambda>nd. map_of (rc_total c) nd \<noteq> None) cands;
              disk = required_disk cfg e in
          if cands = [] then
            ((''waiting_node'', ''every eligible node is drained for maintenance'',
              ''at least one node must have nodes[].drained lifted''), None)
          else if pin_node e \<noteq> None \<and> the (pin_node e) \<in> set (rc_unavailable c) then
            ((''waiting_node'', ''pinned node '' @ the (pin_node e) @ '' is unavailable'',
              ''node '' @ the (pin_node e) @ '' must become reachable''), None)
          else if reachable = [] then
            ((''waiting_node'', ''no eligible node has a usable resource snapshot'',
              ''an eligible node must become reachable''), None)
          else
            case fitting_nodes cfg e c reachable of
              nd # _ \<Rightarrow>
                ((''runnable'', nd @ '' currently satisfies the resource request'',
                  ''the live agent can dispatch this job now''), Some nd)
            | [] \<Rightarrow>
                if filter (gpu_fit cfg e c) reachable \<noteq> [] \<and> 0 < disk then
                  ((''waiting_disk'',
                    reason_or e (''eligible nodes have GPUs free but under '' @ show_int disk @ '' GiB disk''),
                    ''one eligible node must free at least '' @ show_int disk @ '' GiB of disk''), None)
                else (unfit_state cfg e c cands reachable, None))"

section \<open>The forecast over a whole queue\<close>

text \<open>
  The loop of \<open>_consume_capacity\<close>: \<open>n\<close> more cards to take from the node's free list, which the
  code pops in place.
\<close>

fun consume_cards :: "nat \<Rightarrow> string \<Rightarrow> int option \<Rightarrow> ResourceCapacity \<Rightarrow> ResourceCapacity" where
  "consume_cards 0 nd minimum c = c"
| "consume_cards (Suc n) nd minimum c =
     (let remaining = dict_get (rc_free_gpu_memory_mib c) nd [] in
      case index_where (meets minimum) remaining of
        None \<Rightarrow> c
      | Some i \<Rightarrow>
          consume_cards n nd minimum
            (c\<lparr>rc_free_gpu_memory_mib := AList.update nd (pop_at i remaining) (rc_free_gpu_memory_mib c),
               rc_free := AList.update nd (max 0 (dict_get (rc_free c) nd 0 - 1)) (rc_free c)\<rparr>))"

definition consume_capacity :: "ResourceCapacity \<Rightarrow> string \<Rightarrow> JobEntry \<Rightarrow> ResourceCapacity" where
  "consume_capacity c nd e = consume_cards (nat (gpus_requested e)) nd (min_vram_mib e) c"

record ScheduleRow =
  sr_job_id :: string
  sr_name :: string
  sr_position :: nat
  sr_state :: string
  sr_reason :: string
  sr_next_condition :: string
  sr_pin_node :: "string option"
  sr_gpus_requested :: int
  sr_min_vram_mib :: "int option"
  sr_selected_node :: "string option"
  sr_after_success :: "string option"
  sr_after_complete :: "string option"
  sr_after_result :: "string option"
  sr_after_result_states :: "string list"

text \<open>The loop's variables.\<close>

record Forecast =
  fc_running :: int
  fc_capacity :: "ResourceCapacity option"
  fc_unpinned_wait :: "string option"
  fc_busy_pins :: "(string, string) dict"
  fc_rows :: "ScheduleRow list"

definition base_verdict ::
  "HeadConfig \<Rightarrow> (string, JobEntry) dict \<Rightarrow> Forecast \<Rightarrow> JobEntry \<Rightarrow> wait \<times> string option" where
  "base_verdict cfg by_id fc e =
     (case dependency_state e by_id of
        Some wt \<Rightarrow> (wt, None)
      | None \<Rightarrow>
      case persisted_wait (fc_capacity fc \<noteq> None) False e of
        Some wt \<Rightarrow> (wt, None)
      | None \<Rightarrow>
          if dispatch_node e \<noteq> None \<or> dispatch_token e \<noteq> None then
            ((''dispatch_reserved'',
              (case dispatch_node e of
                 Some n \<Rightarrow> ''launch reservation is being recovered on '' @ n
               | None \<Rightarrow> ''launch reservation has incomplete node identity''),
              ''the reserved launch must be adopted or proven absent''), dispatch_node e)
          else if (case cf_max_my_jobs cfg of None \<Rightarrow> False | Some cap \<Rightarrow> cap \<le> fc_running fc) then
            ((''waiting_quota'', ''max_my_jobs='' @ show_int (the (cf_max_my_jobs cfg)) @ '' is reached'',
              ''running DT jobs must fall below '' @ show_int (the (cf_max_my_jobs cfg))), None)
          else
            let own = (case exclude_nodes e of None \<Rightarrow> [] | Some ns \<Rightarrow> ns);
                excluded = (if pin_node e = None \<and> 0 < gpus_requested e then own @ keys (fc_busy_pins fc) else own)
            in capacity_state cfg e (fc_capacity fc) excluded)"

definition fifo_owner :: "Forecast \<Rightarrow> JobEntry \<Rightarrow> string \<Rightarrow> string option" where
  "fifo_owner fc e st =
     (if st = ''runnable'' \<and> 0 < gpus_requested e then
        (case fc_unpinned_wait fc of
           Some j \<Rightarrow> Some j
         | None \<Rightarrow> (case pin_node e of None \<Rightarrow> None | Some p \<Rightarrow> map_of (fc_busy_pins fc) p))
      else None)"

definition row_verdict ::
  "HeadConfig \<Rightarrow> (string, JobEntry) dict \<Rightarrow> Forecast \<Rightarrow> JobEntry \<Rightarrow> wait \<times> string option" where
  "row_verdict cfg by_id fc e =
     (let ((st, rsn, cond), sel) = base_verdict cfg by_id fc e in
      case fifo_owner fc e st of
        Some j \<Rightarrow> ((''waiting_fifo'', ''FIFO capacity is reserved for earlier job '' @ j,
                   ''earlier overlapping job '' @ j @ '' must dispatch or unblock''), None)
      | None \<Rightarrow> ((st, rsn, cond), sel))"

definition forecast_step ::
  "HeadConfig \<Rightarrow> (string, JobEntry) dict \<Rightarrow> nat \<times> JobEntry \<Rightarrow> Forecast \<Rightarrow> Forecast" where
  "forecast_step cfg by_id pe fc =
     (let (position, e) = pe; ((st, rsn, cond), sel) = row_verdict cfg by_id fc e;
          takes = (st = ''runnable'' \<or> st = ''dispatch_reserved'');
          waits = (st = ''waiting_capacity'' \<and> 0 < gpus_requested e) in
      \<lparr>fc_running = (if st = ''runnable'' then fc_running fc + 1 else fc_running fc),
       fc_capacity = (case (fc_capacity fc, sel) of
                        (Some c, Some nd) \<Rightarrow> Some (if takes then consume_capacity c nd e else c)
                      | _ \<Rightarrow> fc_capacity fc),
       fc_unpinned_wait = (if waits \<and> pin_node e = None then Some (job_id e) else fc_unpinned_wait fc),
       fc_busy_pins = (case pin_node e of
                         Some p \<Rightarrow> if waits then setdefault p (job_id e) (fc_busy_pins fc) else fc_busy_pins fc
                       | None \<Rightarrow> fc_busy_pins fc),
       fc_rows = fc_rows fc @
         [\<lparr>sr_job_id = job_id e, sr_name = name e, sr_position = position, sr_state = st, sr_reason = rsn,
           sr_next_condition = cond, sr_pin_node = pin_node e, sr_gpus_requested = gpus_requested e,
           sr_min_vram_mib = min_vram_mib e, sr_selected_node = sel, sr_after_success = after_success e,
           sr_after_complete = after_complete e, sr_after_result = after_result e,
           sr_after_result_states = after_result_states e\<rparr>]\<rparr>)"

definition forecast ::
  "HeadConfig \<Rightarrow> (string, JobEntry) dict \<Rightarrow> (nat \<times> JobEntry) list \<Rightarrow> Forecast \<Rightarrow> Forecast" where
  "forecast cfg by_id = fold (forecast_step cfg by_id)"

record NodeRow =
  nr_node :: string
  nr_drained :: bool
  nr_available :: bool
  nr_physical_free_gpus :: "int option"
  nr_schedulable_free_gpus :: int

record Snapshot =
  sn_schema_version :: string
  sn_state :: string
  sn_idle_reason :: string
  sn_agent_alive :: "bool option"
  sn_agent_heartbeat_stale :: "bool option"
  sn_running :: int
  sn_queue_depth :: nat
  sn_runnable_queued :: nat
  sn_blocked_queued :: nat
  sn_waiting_queued :: nat
  sn_next_job_id :: "string option"
  sn_next_condition :: "string option"
  sn_registry_damage :: nat
  sn_capacity :: "NodeRow list"
  sn_queue :: "ScheduleRow list"

definition initial_forecast :: "int \<Rightarrow> ResourceCapacity option \<Rightarrow> Forecast" where
  "initial_forecast running capacity =
     \<lparr>fc_running = running, fc_capacity = capacity, fc_unpinned_wait = None, fc_busy_pins = [], fc_rows = []\<rparr>"

definition forecast_queue ::
  "HeadConfig \<Rightarrow> JobEntry list \<Rightarrow> ResourceCapacity option \<Rightarrow> nat \<Rightarrow> time \<Rightarrow> Forecast" where
  "forecast_queue cfg entries capacity registry_damage now =
     forecast cfg (rows_by_id entries) (enumerate_from 1 (sort_key created_at (queued_rows entries)))
       (initial_forecast (occupancy now entries registry_damage) capacity)"

definition node_rows :: "HeadConfig \<Rightarrow> ResourceCapacity option \<Rightarrow> ResourceCapacity option \<Rightarrow> NodeRow list" where
  "node_rows cfg initial final =
     (case final of
        None \<Rightarrow> []
      | Some c \<Rightarrow>
          map (\<lambda>n. \<lparr>nr_node = nd_name n, nr_drained = nd_drained n,
                    nr_available = (map_of (rc_total c) (nd_name n) \<noteq> None),
                    nr_physical_free_gpus = (case initial of None \<Rightarrow> None | Some c0 \<Rightarrow> map_of (rc_free c0) (nd_name n)),
                    nr_schedulable_free_gpus =
                      (if nd_drained n then 0
                       else max 0 (dict_get (rc_free c) (nd_name n) 0 - max 0 (cf_reserve_free_per_node cfg)))\<rparr>)
            (cf_nodes cfg))"

definition scheduler_snapshot ::
  "HeadConfig \<Rightarrow> JobEntry list \<Rightarrow> (string, json) dict list option \<Rightarrow> bool option \<Rightarrow> bool option \<Rightarrow> nat \<Rightarrow> time
   \<Rightarrow> string + Snapshot" where
  "scheduler_snapshot cfg entries resources agent_alive agent_heartbeat_stale registry_damage now =
     bind_ok (resource_capacity resources) (\<lambda>capacity.
       let running = occupancy now entries registry_damage;
           fc = forecast_queue cfg entries capacity registry_damage now;
           rows = fc_rows fc;
           queue_empty = (queued_rows entries = []);
           runnable = filter (\<lambda>r. sr_state r = ''runnable'') rows;
           blocked = filter (\<lambda>r. startswith (sr_state r) ''blocked_'') rows;
           waiting = filter (\<lambda>r. r \<notin> set runnable \<and> r \<notin> set blocked) rows;
           (st, idle) =
             (if \<not> queue_empty \<and> agent_alive = Some False
              then (''agent_stopped'', ''queued work cannot dispatch because the agent is stopped'')
              else if \<not> queue_empty \<and> agent_heartbeat_stale = Some True
              then (''agent_stale'', ''agent lock exists but its heartbeat is stale'')
              else if runnable \<noteq> []
              then (''runnable'', show_nat (length runnable) @ '' queued job(s) are runnable in this snapshot'')
              else if \<not> queue_empty then (''waiting'', sr_reason (hd rows))
              else if running \<noteq> 0 then (''running_without_queue'', ''running work has no queued successor'')
              else (''idle'', ''queue is empty''));
           next_row = (if runnable \<noteq> [] then Some (hd runnable) else if rows \<noteq> [] then Some (hd rows) else None)
       in Inr \<lparr>sn_schema_version = SCHEDULER_SCHEMA, sn_state = st, sn_idle_reason = idle,
               sn_agent_alive = agent_alive, sn_agent_heartbeat_stale = agent_heartbeat_stale, sn_running = running,
               sn_queue_depth = length rows, sn_runnable_queued = length runnable,
               sn_blocked_queued = length blocked, sn_waiting_queued = length waiting,
               sn_next_job_id = map_option sr_job_id next_row, sn_next_condition = map_option sr_next_condition next_row,
               sn_registry_damage = registry_damage, sn_capacity = node_rows cfg capacity (fc_capacity fc),
               sn_queue = rows\<rparr>)"

end
