(* ===== verification/Scheduler_Facts.thy ===== *)
theory Scheduler_Facts
  imports Scheduler
begin

text \<open>
  Correctness of admission and of the queue forecast: the quota is never exceeded, an
  admitted job takes no card an earlier unblocked waiter is queued for, a forecast node
  really satisfies the request, and the forecast never promises more cards than the probe
  reported free.
\<close>

section \<open>Admission\<close>

definition skippable :: "(string, JobEntry) dict \<Rightarrow> JobEntry \<Rightarrow> bool" where
  "skippable by_id e \<longleftrightarrow> dependency_state e by_id \<noteq> None \<or> persisted_wait False False e \<noteq> None"

lemma first_blocker_None:
  "first_blocker by_id cand nd q = None \<longleftrightarrow>
     (\<forall>older \<in> set (takeWhile (\<lambda>e. job_id e \<noteq> job_id cand) q).
        skippable by_id older \<or> \<not> capacity_overlaps older cand nd)"
  by (induction q) (auto simp: skippable_def)

lemma refuse_simps [simp]:
  "ad_allowed (refuse st rsn b) = False" "ad_state (refuse st rsn b) = st"
  by (simp_all add: refuse_def)

definition admission_occupancy :: "JobEntry \<Rightarrow> JobEntry list \<Rightarrow> nat \<Rightarrow> time \<Rightarrow> int" where
  "admission_occupancy cand entries damage now =
     (if occupies_quota now cand then max 0 (occupancy now entries damage - 1) else occupancy now entries damage)"

lemma admission_allowed_iff:
  "ad_allowed (admission_decision cfg cand entries nd damage fresh now) \<longleftrightarrow>
     dependency_state cand (rows_by_id entries) = None
     \<and> persisted_wait fresh fresh cand = None
     \<and> (\<forall>cap. cf_max_my_jobs cfg = Some cap \<longrightarrow> admission_occupancy cand entries damage now < cap)
     \<and> first_blocker (rows_by_id entries) cand nd
         (sort_key (\<lambda>e. (created_at e, job_id e)) (queued_rows entries)) = None"
  unfolding admission_decision_def Let_def admission_occupancy_def [symmetric]
  by (auto simp: not_le split: option.splits)

text \<open>The claim that follows an admission: the candidate's row gets a node and a token.\<close>

definition claim :: "string \<Rightarrow> string \<Rightarrow> string \<Rightarrow> JobEntry list \<Rightarrow> JobEntry list" where
  "claim jid nd token = map (\<lambda>e. if job_id e = jid
     then e\<lparr>dispatch_node := Some nd, dispatch_token := Some token\<rparr> else e)"

lemma claim_other: "jid \<notin> job_id ` set xs \<Longrightarrow> claim jid nd token xs = xs"
  by (auto simp: claim_def intro!: map_idI)

lemma claimed_occupies: "status e = ''queued'' \<Longrightarrow>
   occupies_quota now (e\<lparr>dispatch_node := Some nd, dispatch_token := Some token\<rparr>)"
  by (simp add: occupies_quota_def)

text \<open>
  C5. Quota safety: when \<open>admission_decision\<close> admits a queued row under \<open>max_my_jobs = cap\<close> and
  the reservation is then claimed, the number of rows that may own a slot, unreadable
  registry records included, does not exceed \<open>cap\<close>.
\<close>

theorem admission_keeps_quota:
  assumes "ad_allowed (admission_decision cfg cand entries nd damage fresh now)"
    and "cf_max_my_jobs cfg = Some cap" and "cand \<in> set entries" and "status cand = ''queued''"
    and "distinct (map job_id entries)"
  shows "occupancy now (claim (job_id cand) nd token entries) damage \<le> cap"
proof -
  obtain xs ys where split: "entries = xs @ cand # ys"
    using assms(3) by (meson split_list)
  have other: "claim (job_id cand) nd token xs = xs" "claim (job_id cand) nd token ys = ys"
    using assms(5) split by (simp_all add: claim_other)
  have "claim (job_id cand) nd token entries
      = xs @ cand\<lparr>dispatch_node := Some nd, dispatch_token := Some token\<rparr> # ys"
    using other by (simp add: split claim_def)
  then have "occupancy now (claim (job_id cand) nd token entries) damage
      = int (count_if (occupies_quota now) xs) + int (count_if (occupies_quota now) ys) + 1 + int damage"
    using claimed_occupies [OF assms(4)] by (simp add: occupancy_def)
  moreover have "admission_occupancy cand entries damage now < cap"
    using assms(1,2) by (simp add: admission_allowed_iff)
  ultimately show ?thesis
    by (auto simp: admission_occupancy_def occupancy_def split split: if_splits)
qed

text \<open>
  C7. FIFO safety: an admitted GPU job takes no card from an earlier waiter. Every earlier
  queued GPU row that is not held back by its own dependency or recorded constraint is
  either being launched on another node or pinned to another node.
\<close>

theorem admission_respects_fifo:
  assumes "ad_allowed (admission_decision cfg cand entries nd damage fresh now)"
    and "0 < gpus_requested cand" and "distinct (map job_id entries)" and "cand \<in> set entries"
    and "older \<in> set entries" and "status older = ''queued''" and "0 < gpus_requested older"
    and "(created_at older, job_id older) < (created_at cand, job_id cand)"
    and "\<not> skippable (rows_by_id entries) older"
  shows "case dispatch_node older of Some n \<Rightarrow> n \<noteq> nd | None \<Rightarrow> \<exists>p. pin_node older = Some p \<and> p \<noteq> nd"
proof -
  let ?k = "\<lambda>e. (created_at e, job_id e)"
  let ?q = "sort_key ?k (queued_rows entries)" and ?other = "\<lambda>e. job_id e \<noteq> job_id cand"
  have mem: "older \<in> set ?q" using assms(5,6) by (simp add: queued_rows_def)
  have "older \<in> set (takeWhile ?other ?q)"
  proof (rule ccontr)
    assume "older \<notin> set (takeWhile ?other ?q)"
    then have drop: "older \<in> set (dropWhile ?other ?q)"
      using mem by (metis Un_iff set_append takeWhile_dropWhile_id)
    then obtain c rest where c: "dropWhile ?other ?q = c # rest" by (cases "dropWhile ?other ?q") auto
    then have "job_id c = job_id cand" by (metis (mono_tags, lifting) dropWhile_eq_Cons_conv)
    moreover have "c \<in> set entries"
      using c set_dropWhileD [of c ?other ?q] by (auto simp: queued_rows_def)
    ultimately have "c = cand" using assms(3,4) by (simp add: distinct_map inj_on_def)
    have eq: "map ?k ?q = map ?k (takeWhile ?other ?q) @ map ?k (c # rest)"
      by (simp only: map_append [symmetric] c [symmetric] takeWhile_dropWhile_id)
    have "sorted (map ?k (takeWhile ?other ?q) @ map ?k (c # rest))"
      unfolding eq [symmetric] by (rule sorted_sort_key)
    then have "sorted (map ?k (c # rest))" unfolding sorted_append by blast
    then have "?k c \<le> ?k older" using drop unfolding c by (auto simp del: less_eq_prod_simp)
    with \<open>c = cand\<close> assms(8) show False by auto
  qed
  then have "\<not> capacity_overlaps older cand nd"
    using assms(1,9) by (auto simp: admission_allowed_iff first_blocker_None)
  then show ?thesis
    using assms(2,7) by (auto simp: capacity_overlaps_def split: option.splits)
qed

text \<open>
  CPU work is never held for GPUs: a job that requests no GPU is refused only for its
  own dependency or recorded constraint or because the quota is full, never with
  \<open>waiting_fifo\<close>, whatever the queue holds.
\<close>

theorem cpu_job_not_fifo_held:
  assumes "gpus_requested cand \<le> 0"
    and "dependency_state cand (rows_by_id entries) = None" and "persisted_wait fresh fresh cand = None"
  shows "ad_state (admission_decision cfg cand entries nd damage fresh now)
      = (if \<exists>cap. cf_max_my_jobs cfg = Some cap \<and> cap \<le> admission_occupancy cand entries damage now
         then ''waiting_quota'' else ''admit'')"
proof -
  have "first_blocker by_id cand nd q = None" for by_id q
    using assms(1) by (simp add: first_blocker_None capacity_overlaps_def)
  then show ?thesis
    using assms(2,3) unfolding admission_decision_def Let_def admission_occupancy_def [symmetric]
    by (auto split: option.splits)
qed

section \<open>Placement\<close>

lemma unfit_not_runnable: "fst (unfit_state cfg e c cands reachable) \<noteq> ''runnable''"
  by (simp add: unfit_state_def Let_def)

lemma pin_refused_not_runnable: "pin_refused cfg e = Some wt \<Longrightarrow> fst wt \<noteq> ''runnable''"
  by (auto simp: pin_refused_def split: option.splits if_splits)

text \<open>The nodes a row may use at all.\<close>

definition eligible :: "HeadConfig \<Rightarrow> string list \<Rightarrow> JobEntry \<Rightarrow> string \<Rightarrow> bool" where
  "eligible cfg excluded e nd \<longleftrightarrow>
     nd \<in> set (node_names cfg) \<and> nd \<notin> set (drained_names cfg)
     \<and> (case pin_node e of Some p \<Rightarrow> nd = p | None \<Rightarrow> nd \<notin> set excluded)"

lemma candidate_eligible:
  "pin_refused cfg e = None \<Longrightarrow> nd \<in> set (candidate_nodes cfg excluded e) \<longleftrightarrow> eligible cfg excluded e nd"
  by (auto simp: candidate_nodes_def eligible_def pin_refused_def split: option.splits if_splits)

lemma fitting_nodes_iff:
  "nd \<in> set (fitting_nodes cfg e c reachable) \<longleftrightarrow> nd \<in> set reachable \<and> gpu_fit cfg e c nd \<and> disk_ok cfg e c nd"
  by (auto simp: fitting_nodes_def)

lemma capacity_runnableE:
  assumes "capacity_state cfg e capacity excluded = ((''runnable'', rsn, cond), sel)"
  obtains c nd where "capacity = Some c" "sel = Some nd" "eligible cfg excluded e nd"
    "map_of (rc_total c) nd \<noteq> None" "gpu_fit cfg e c nd" "disk_ok cfg e c nd"
proof -
  obtain c where c: "capacity = Some c"
    using assms by (cases capacity) (auto simp: capacity_state_def)
  have pin: "pin_refused cfg e = None"
    using assms pin_refused_not_runnable [of cfg e] by (cases "pin_refused cfg e") (auto simp: capacity_state_def c)
  let ?cands = "candidate_nodes cfg excluded e"
  let ?reach = "filter (\<lambda>nd. map_of (rc_total c) nd \<noteq> None) ?cands"
  show thesis
  proof (cases "fitting_nodes cfg e c ?reach")
    case Nil
    then show thesis
      using assms unfit_not_runnable [of cfg e c ?cands ?reach]
      by (auto simp: capacity_state_def c pin Let_def split: if_splits)
  next
    case (Cons nd rest)
    then have "nd \<in> set (fitting_nodes cfg e c ?reach)" by simp
    then have fit: "nd \<in> set ?cands" "map_of (rc_total c) nd \<noteq> None" "gpu_fit cfg e c nd" "disk_ok cfg e c nd"
      by (auto simp: fitting_nodes_iff)
    have "sel = Some nd"
      using assms Cons by (auto simp: capacity_state_def c pin Let_def split: if_splits)
    with that [OF c _ candidate_eligible [OF pin, THEN iffD1]] fit show thesis by blast
  qed
qed

text \<open>
  A row that \<open>_capacity_state\<close> calls runnable really fits: the selected node is configured,
  not drained, honours the pin or the exclusions, answered the probe, has the requested
  number of free cards, each large enough when a minimum is set, keeps the reserve for an
  unpinned job, and has the required disk when its free disk is known.
\<close>

theorem capacity_state_sound:
  assumes "capacity_state cfg e capacity excluded = ((''runnable'', rsn, cond), sel)"
  shows "\<exists>c nd. capacity = Some c \<and> sel = Some nd \<and> eligible cfg excluded e nd
    \<and> map_of (rc_total c) nd \<noteq> None
    \<and> (0 < gpus_requested e \<longrightarrow>
         gpus_requested e + reserve_for cfg e \<le> dict_get (rc_free c) nd 0
         \<and> (\<forall>m. min_vram_mib e = Some m \<longrightarrow>
              gpus_requested e \<le> int (count_if (meets (Some m)) (dict_get (rc_free_gpu_memory_mib c) nd []))))
    \<and> (\<forall>have. map_of (rc_disk_free c) nd = Some have \<longrightarrow> of_int (required_disk cfg e) \<le> have)"
proof -
  obtain c nd where c: "capacity = Some c" "sel = Some nd" "eligible cfg excluded e nd"
    "map_of (rc_total c) nd \<noteq> None" and fit: "gpu_fit cfg e c nd" and disk: "disk_ok cfg e c nd"
    using capacity_runnableE [OF assms] .
  have "0 < gpus_requested e \<longrightarrow>
         gpus_requested e + reserve_for cfg e \<le> dict_get (rc_free c) nd 0
         \<and> (\<forall>m. min_vram_mib e = Some m \<longrightarrow>
              gpus_requested e \<le> int (count_if (meets (Some m)) (dict_get (rc_free_gpu_memory_mib c) nd [])))"
    using fit by (auto simp: gpu_fit_def wanted_gpus_def Let_def not_less split: if_splits)
  moreover have "\<forall>have. map_of (rc_disk_free c) nd = Some have \<longrightarrow> of_int (required_disk cfg e) \<le> have"
    using disk by (auto simp: disk_ok_def)
  ultimately show ?thesis using c by blast
qed

section \<open>Consumption of cards\<close>

abbreviation free_on :: "ResourceCapacity \<Rightarrow> string \<Rightarrow> int" where
  "free_on c nd \<equiv> dict_get (rc_free c) nd 0"

abbreviation cards_on :: "ResourceCapacity \<Rightarrow> string \<Rightarrow> int option list" where
  "cards_on c nd \<equiv> dict_get (rc_free_gpu_memory_mib c) nd []"

text \<open>The count of free cards and the list of their sizes agree.\<close>

definition wf_capacity :: "ResourceCapacity \<Rightarrow> bool" where
  "wf_capacity c \<longleftrightarrow> (\<forall>nd. free_on c nd = int (length (cards_on c nd)))"

lemma wf_capacity_row: "wf_capacity c \<Longrightarrow> capacity_row row c = Inr c' \<Longrightarrow> wf_capacity c'"
  by (auto simp: capacity_row_def Let_def bind_ok_Inr wf_capacity_def dict_get_update split: if_splits prod.splits)

lemma wf_capacity_rows: "wf_capacity c \<Longrightarrow> capacity_rows rows c = Inr c' \<Longrightarrow> wf_capacity c'"
  by (induction rows arbitrary: c) (auto simp: bind_ok_Inr dest: wf_capacity_row)

lemma wf_empty_capacity: "wf_capacity empty_capacity"
  by (simp add: empty_capacity_def wf_capacity_def dict_get_def)

lemma wf_resource_capacity:
  assumes "resource_capacity resources = Inr (Some c)"
  shows "wf_capacity c"
proof -
  obtain rows where "capacity_rows rows empty_capacity = Inr c"
    using assms by (cases resources) (auto simp: resource_capacity_def bind_ok_Inr)
  then show ?thesis by (rule wf_capacity_rows [OF wf_empty_capacity])
qed

lemma consume_cards_other:
  "nd' \<noteq> nd \<Longrightarrow> free_on (consume_cards n nd m c) nd' = free_on c nd' \<and> cards_on (consume_cards n nd m c) nd' = cards_on c nd'"
  by (induction n arbitrary: c) (auto simp: Let_def dict_get_update split: option.splits)

lemma consume_cards_wf: "wf_capacity c \<Longrightarrow> wf_capacity (consume_cards n nd m c)"
proof (induction n arbitrary: c)
  case (Suc n)
  show ?case
  proof (cases "index_where (meets m) (cards_on c nd)")
    case (Some i)
    then have "i < length (cards_on c nd)" using index_where_Some by blast
    then have "wf_capacity (c\<lparr>rc_free_gpu_memory_mib := AList.update nd (pop_at i (cards_on c nd)) (rc_free_gpu_memory_mib c),
               rc_free := AList.update nd (max 0 (free_on c nd - 1)) (rc_free c)\<rparr>)"
      using Suc.prems by (auto simp: wf_capacity_def dict_get_update length_pop_at)
    with Some Suc.IH show ?thesis by (simp add: Let_def)
  qed (simp add: Suc.prems)
qed simp

lemma consume_cards_le: "wf_capacity c \<Longrightarrow> free_on (consume_cards n nd m c) nd' \<le> free_on c nd'"
proof (induction n arbitrary: c)
  case (Suc n)
  show ?case
  proof (cases "index_where (meets m) (cards_on c nd)")
    case (Some i)
    then have i: "i < length (cards_on c nd)" using index_where_Some by blast
    let ?c = "c\<lparr>rc_free_gpu_memory_mib := AList.update nd (pop_at i (cards_on c nd)) (rc_free_gpu_memory_mib c),
               rc_free := AList.update nd (max 0 (free_on c nd - 1)) (rc_free c)\<rparr>"
    have "wf_capacity ?c"
      using Suc.prems i by (auto simp: wf_capacity_def dict_get_update length_pop_at)
    from Suc.IH [OF this] have "free_on (consume_cards n nd m ?c) nd' \<le> free_on ?c nd'" .
    also have "\<dots> \<le> free_on c nd'"
      using Suc.prems i by (auto simp: wf_capacity_def dict_get_update)
    finally show ?thesis using Some by (simp add: Let_def)
  qed simp
qed simp

text \<open>With enough fitting cards the loop takes exactly the requested number.\<close>

lemma consume_cards_exact:
  assumes "wf_capacity c" and "n \<le> count_if (meets m) (cards_on c nd)"
  shows "free_on (consume_cards n nd m c) nd = free_on c nd - int n
    \<and> count_if (meets m) (cards_on (consume_cards n nd m c) nd) = count_if (meets m) (cards_on c nd) - n"
  using assms
proof (induction n arbitrary: c)
  case (Suc n)
  obtain i where i: "index_where (meets m) (cards_on c nd) = Some i"
    using Suc.prems(2) by (cases "index_where (meets m) (cards_on c nd)")
      (auto simp: index_where_None count_if_zero [symmetric])
  then have lt: "i < length (cards_on c nd)" and hit: "meets m (cards_on c nd ! i)"
    using index_where_Some by blast+
  let ?c = "c\<lparr>rc_free_gpu_memory_mib := AList.update nd (pop_at i (cards_on c nd)) (rc_free_gpu_memory_mib c),
             rc_free := AList.update nd (max 0 (free_on c nd - 1)) (rc_free c)\<rparr>"
  have pop: "count_if (meets m) (cards_on c nd) = Suc (count_if (meets m) (pop_at i (cards_on c nd)))"
    using count_if_pop_at [OF lt, of "meets m"] hit by simp
  have "wf_capacity ?c" "n \<le> count_if (meets m) (cards_on ?c nd)"
    using Suc.prems lt pop by (auto simp: wf_capacity_def dict_get_update length_pop_at)
  from Suc.IH [OF this] show ?case
    using i pop lt Suc.prems by (auto simp: Let_def dict_get_update wf_capacity_def)
qed simp

lemma meets_None [simp]: "meets None = (\<lambda>_. True)"
  by (simp add: meets_def fun_eq_iff)

lemma count_if_True [simp]: "count_if (\<lambda>_. True) xs = length xs"
  by (simp add: count_if_def)

lemma gpu_fit_enough:
  assumes "wf_capacity c" and "gpu_fit cfg e c nd"
  shows "nat (gpus_requested e) \<le> count_if (meets (min_vram_mib e)) (cards_on c nd)"
  using assms by (auto simp: gpu_fit_def wanted_gpus_def Let_def wf_capacity_def nat_le_iff split: if_splits option.splits)

text \<open>
  Consumption is exact: on a capacity read from probe rows, taking the cards of a job that
  fits a node lowers the node's free count by exactly the number requested and leaves every
  other node untouched.
\<close>

theorem consume_capacity_exact:
  assumes "wf_capacity c" and "gpu_fit cfg e c nd"
  shows "free_on (consume_capacity c nd e) nd' = (if nd' = nd then free_on c nd - wanted_gpus e else free_on c nd')
    \<and> wf_capacity (consume_capacity c nd e)"
proof -
  have "free_on (consume_capacity c nd e) nd = free_on c nd - int (nat (gpus_requested e))"
    unfolding consume_capacity_def using consume_cards_exact [OF assms(1) gpu_fit_enough [OF assms]] by blast
  moreover have "int (nat (gpus_requested e)) = wanted_gpus e" by (simp add: wanted_gpus_def)
  ultimately show ?thesis
    using consume_cards_other [of nd' nd] consume_cards_wf [OF assms(1)] by (simp add: consume_capacity_def)
qed

section \<open>The forecast\<close>

text \<open>Cards promised on a node by the rows explained so far.\<close>

definition promised :: "string \<Rightarrow> ScheduleRow list \<Rightarrow> int" where
  "promised nd rows =
     (\<Sum>r \<leftarrow> rows. if sr_state r = ''runnable'' \<and> sr_selected_node r = Some nd then max 0 (sr_gpus_requested r) else 0)"

definition runnable_count :: "ScheduleRow list \<Rightarrow> nat" where
  "runnable_count rows = count_if (\<lambda>r. sr_state r = ''runnable'') rows"

lemma dependency_not_runnable: "dependency_state e by_id = Some wt \<Longrightarrow> fst wt \<noteq> ''runnable''"
  by (cases "after_result e"; cases "after_complete e"; cases "after_success e")
     (fastforce simp: dependency_state_def split: option.splits if_splits)+

lemma persisted_not_runnable: "persisted_wait snap att e = Some wt \<Longrightarrow> fst wt \<noteq> ''runnable''"
  by (auto simp: persisted_wait_def Let_def split: if_splits)

lemma base_runnable:
  assumes "base_verdict cfg by_id fc e = ((''runnable'', rsn, cond), sel)"
  obtains excluded where "capacity_state cfg e (fc_capacity fc) excluded = ((''runnable'', rsn, cond), sel)"
    and "\<forall>cap. cf_max_my_jobs cfg = Some cap \<longrightarrow> fc_running fc < cap"
    and "pin_node e = None \<and> 0 < gpus_requested e \<longrightarrow> set (keys (fc_busy_pins fc)) \<subseteq> set excluded"
    and "dependency_state e by_id = None"
proof -
  have dep: "dependency_state e by_id = None"
    using assms dependency_not_runnable [of e by_id] by (cases "dependency_state e by_id") (auto simp: base_verdict_def)
  have pers: "persisted_wait (fc_capacity fc \<noteq> None) False e = None"
    using assms persisted_not_runnable [of "fc_capacity fc \<noteq> None" False e] dep
    by (cases "persisted_wait (fc_capacity fc \<noteq> None) False e") (auto simp: base_verdict_def)
  have "\<not> (dispatch_node e \<noteq> None \<or> dispatch_token e \<noteq> None)"
    using assms by (rule contrapos_pn) (simp add: base_verdict_def dep pers del: not_None_eq)
  moreover have quota: "\<not> (case cf_max_my_jobs cfg of None \<Rightarrow> False | Some cap \<Rightarrow> cap \<le> fc_running fc)"
    using assms by (rule contrapos_pn) (use calculation in \<open>simp add: base_verdict_def dep pers del: not_None_eq\<close>)
  moreover define excluded where "excluded = (let own = (case exclude_nodes e of None \<Rightarrow> [] | Some ns \<Rightarrow> ns)
      in if pin_node e = None \<and> 0 < gpus_requested e then own @ keys (fc_busy_pins fc) else own)"
  ultimately have "capacity_state cfg e (fc_capacity fc) excluded = ((''runnable'', rsn, cond), sel)"
    using assms dep pers by (simp add: base_verdict_def Let_def del: not_None_eq)
  moreover have "\<forall>cap. cf_max_my_jobs cfg = Some cap \<longrightarrow> fc_running fc < cap"
    using quota by auto
  moreover have "pin_node e = None \<and> 0 < gpus_requested e \<longrightarrow> set (keys (fc_busy_pins fc)) \<subseteq> set excluded"
    by (simp add: excluded_def Let_def)
  ultimately show thesis using that dep by blast
qed

lemma row_runnable:
  assumes "row_verdict cfg by_id fc e = ((''runnable'', rsn, cond), sel)"
  shows "base_verdict cfg by_id fc e = ((''runnable'', rsn, cond), sel)"
    and "0 < gpus_requested e \<Longrightarrow> fc_unpinned_wait fc = None"
    and "0 < gpus_requested e \<Longrightarrow> pin_node e = Some p \<Longrightarrow> map_of (fc_busy_pins fc) p = None"
  using assms by (auto simp: row_verdict_def Let_def fifo_owner_def split: option.splits if_splits prod.splits)

text \<open>One iteration of the loop, by the verdict of its row.\<close>

lemma forecast_step_rows:
  assumes "row_verdict cfg by_id fc e = ((st, rsn, cond), sel)"
  shows "fc_rows (forecast_step cfg by_id (i, e) fc) = fc_rows fc @
      [\<lparr>sr_job_id = job_id e, sr_name = name e, sr_position = i, sr_state = st, sr_reason = rsn,
        sr_next_condition = cond, sr_pin_node = pin_node e, sr_gpus_requested = gpus_requested e,
        sr_min_vram_mib = min_vram_mib e, sr_selected_node = sel, sr_after_success = after_success e,
        sr_after_complete = after_complete e, sr_after_result = after_result e,
        sr_after_result_states = after_result_states e\<rparr>]"
    and "fc_running (forecast_step cfg by_id (i, e) fc) = (if st = ''runnable'' then fc_running fc + 1 else fc_running fc)"
    and "fc_capacity (forecast_step cfg by_id (i, e) fc) =
      (case (fc_capacity fc, sel) of
         (Some c, Some nd) \<Rightarrow> Some (if st = ''runnable'' \<or> st = ''dispatch_reserved'' then consume_capacity c nd e else c)
       | _ \<Rightarrow> fc_capacity fc)"
    and "fc_unpinned_wait (forecast_step cfg by_id (i, e) fc) =
      (if st = ''waiting_capacity'' \<and> 0 < gpus_requested e \<and> pin_node e = None then Some (job_id e) else fc_unpinned_wait fc)"
    and "fc_busy_pins (forecast_step cfg by_id (i, e) fc) =
      (case pin_node e of
         Some p \<Rightarrow> if st = ''waiting_capacity'' \<and> 0 < gpus_requested e then setdefault p (job_id e) (fc_busy_pins fc)
                   else fc_busy_pins fc
       | None \<Rightarrow> fc_busy_pins fc)"
  using assms by (simp_all add: forecast_step_def Let_def)

text \<open>
  The loop invariant: the forecast count of running jobs, the quota, and on every node the
  promised cards against the cards still free.
\<close>

definition forecast_inv :: "HeadConfig \<Rightarrow> int \<Rightarrow> ResourceCapacity option \<Rightarrow> Forecast \<Rightarrow> bool" where
  "forecast_inv cfg running capacity fc \<longleftrightarrow>
     fc_running fc = running + int (runnable_count (fc_rows fc))
     \<and> (\<forall>cap. cf_max_my_jobs cfg = Some cap \<longrightarrow> 0 < runnable_count (fc_rows fc) \<longrightarrow> fc_running fc \<le> cap)
     \<and> (case capacity of
          None \<Rightarrow> fc_capacity fc = None \<and> runnable_count (fc_rows fc) = 0
        | Some c0 \<Rightarrow> \<exists>c. fc_capacity fc = Some c \<and> wf_capacity c
            \<and> (\<forall>nd. free_on c nd + promised nd (fc_rows fc) \<le> free_on c0 nd))"

lemma wf_free_nonneg: "wf_capacity c \<Longrightarrow> 0 \<le> free_on c nd"
  by (simp add: wf_capacity_def)

lemma runnable_count_simps [simp]:
  "runnable_count [] = 0"
  "runnable_count (rows @ [r]) = runnable_count rows + (if sr_state r = ''runnable'' then 1 else 0)"
  by (simp_all add: runnable_count_def)

lemma promised_simps [simp]:
  "promised nd [] = 0"
  "promised nd (rows @ [r]) = promised nd rows
     + (if sr_state r = ''runnable'' \<and> sr_selected_node r = Some nd then max 0 (sr_gpus_requested r) else 0)"
  by (simp_all add: promised_def)

lemma forecast_inv_step:
  assumes inv: "forecast_inv cfg running capacity fc"
  shows "forecast_inv cfg running capacity (forecast_step cfg by_id (i, e) fc)"
proof -
  obtain st rsn cond sel where v: "row_verdict cfg by_id fc e = ((st, rsn, cond), sel)"
    by (metis prod.collapse)
  note step = forecast_step_rows [OF v]
  show ?thesis
  proof (cases "st = ''runnable''")
    case True
    with v have base: "base_verdict cfg by_id fc e = ((''runnable'', rsn, cond), sel)" by (simp add: row_runnable)
    obtain excluded where cs: "capacity_state cfg e (fc_capacity fc) excluded = ((''runnable'', rsn, cond), sel)"
      and quota: "\<forall>cap. cf_max_my_jobs cfg = Some cap \<longrightarrow> fc_running fc < cap"
      using base_runnable [OF base] by metis
    obtain c nd where c: "fc_capacity fc = Some c" "sel = Some nd" and fit: "gpu_fit cfg e c nd"
      using capacity_runnableE [OF cs] by metis
    obtain c0 where c0: "capacity = Some c0" and wf: "wf_capacity c"
      and room: "\<And>nd. free_on c nd + promised nd (fc_rows fc) \<le> free_on c0 nd"
      using inv c by (cases capacity) (auto simp: forecast_inv_def)
    have room': "free_on (consume_capacity c nd e) nd' + promised nd' (fc_rows (forecast_step cfg by_id (i, e) fc))
        \<le> free_on c0 nd'" for nd'
      using room [of nd'] consume_capacity_exact [OF wf fit, of nd'] True c
      by (auto simp: step(1) wanted_gpus_def)
    show ?thesis
      unfolding forecast_inv_def
      using inv quota True c c0 room' consume_capacity_exact [OF wf fit]
      by (auto simp: step forecast_inv_def)
  next
    case False
    have cnt: "runnable_count (fc_rows (forecast_step cfg by_id (i, e) fc)) = runnable_count (fc_rows fc)"
      "\<And>nd. promised nd (fc_rows (forecast_step cfg by_id (i, e) fc)) = promised nd (fc_rows fc)"
      using False by (simp_all add: step(1))
    show ?thesis
    proof (cases capacity)
      case None
      with inv show ?thesis by (simp add: forecast_inv_def cnt step(2,3) False)
    next
      case (Some c0)
      then obtain c where c: "fc_capacity fc = Some c" and wf: "wf_capacity c"
        and room: "\<And>nd. free_on c nd + promised nd (fc_rows fc) \<le> free_on c0 nd"
        using inv by (auto simp: forecast_inv_def)
      have le: "free_on (consume_capacity c nd e) nd' \<le> free_on c nd'" "wf_capacity (consume_capacity c nd e)" for nd nd'
        using consume_cards_le [OF wf] consume_cards_wf [OF wf] by (simp_all add: consume_capacity_def)
      obtain c' where "fc_capacity (forecast_step cfg by_id (i, e) fc) = Some c'" "wf_capacity c'"
        "\<And>nd. free_on c' nd \<le> free_on c nd"
        using c wf le by (cases sel; cases "st = ''dispatch_reserved''") (auto simp: step(3) False)
      moreover have "free_on c' nd + promised nd (fc_rows fc) \<le> free_on c0 nd" if "\<And>nd. free_on c' nd \<le> free_on c nd" for c' nd
        using that [of nd] room [of nd] by linarith
      ultimately show ?thesis using inv Some by (auto simp: forecast_inv_def cnt step(2) False)
    qed
  qed
qed

lemma forecast_inv_fold:
  "forecast_inv cfg running capacity fc \<Longrightarrow> forecast_inv cfg running capacity (forecast cfg by_id pes fc)"
  by (induction pes arbitrary: fc) (auto simp: forecast_def intro: forecast_inv_step)

lemma forecast_queue_inv:
  assumes "\<And>c. capacity = Some c \<Longrightarrow> wf_capacity c"
  shows "forecast_inv cfg (occupancy now entries damage) capacity (forecast_queue cfg entries capacity damage now)"
  unfolding forecast_queue_def using assms
  by (intro forecast_inv_fold) (auto simp: forecast_inv_def initial_forecast_def split: option.split)

section \<open>Snapshot properties\<close>

lemma scheduler_snapshotE:
  assumes "scheduler_snapshot cfg entries resources alive stale damage now = Inr sn"
  obtains capacity where "resource_capacity resources = Inr capacity"
    "sn_queue sn = fc_rows (forecast_queue cfg entries capacity damage now)"
    "sn_running sn = occupancy now entries damage"
    "sn_queue_depth sn = length (sn_queue sn)"
    "sn_runnable_queued sn = runnable_count (sn_queue sn)"
    "sn_blocked_queued sn = count_if (\<lambda>r. startswith (sr_state r) ''blocked_'') (sn_queue sn)"
    "sn_waiting_queued sn = count_if (\<lambda>r. sr_state r \<noteq> ''runnable'' \<and> \<not> startswith (sr_state r) ''blocked_'') (sn_queue sn)"
    "sn_next_job_id sn = map_option sr_job_id
       (if filter (\<lambda>r. sr_state r = ''runnable'') (sn_queue sn) \<noteq> []
        then Some (hd (filter (\<lambda>r. sr_state r = ''runnable'') (sn_queue sn)))
        else if sn_queue sn \<noteq> [] then Some (hd (sn_queue sn)) else None)"
proof -
  from assms obtain capacity where cap: "resource_capacity resources = Inr capacity"
    by (auto simp: scheduler_snapshot_def bind_ok_Inr)
  let ?rows = "fc_rows (forecast_queue cfg entries capacity damage now)"
  let ?P = "\<lambda>r. sr_state r = ''runnable''" and ?B = "\<lambda>r. startswith (sr_state r) ''blocked_''"
  have wait: "filter (\<lambda>r. r \<notin> set (filter ?P ?rows) \<and> r \<notin> set (filter ?B ?rows)) ?rows
      = filter (\<lambda>r. \<not> ?P r \<and> \<not> ?B r) ?rows"
    by (rule filter_cong) auto
  show thesis
    using assms by (intro that [OF cap])
      (auto simp: scheduler_snapshot_def cap Let_def wait count_if_def runnable_count_def simp del: set_filter split: prod.splits)
qed

text \<open>
  C6. No card is promised twice: summed over all rows the snapshot calls runnable on a node,
  the requested GPUs never exceed the cards the probe of that node reported free.
\<close>

theorem snapshot_no_overcommit:
  assumes "scheduler_snapshot cfg entries (Some resources) alive stale damage now = Inr sn"
    and "resource_capacity (Some resources) = Inr (Some c0)"
  shows "promised nd (sn_queue sn) \<le> free_on c0 nd"
proof -
  obtain capacity where cap: "resource_capacity (Some resources) = Inr capacity"
    and rows: "sn_queue sn = fc_rows (forecast_queue cfg entries capacity damage now)"
    by (rule scheduler_snapshotE [OF assms(1)]) (rule that)
  with assms(2) have "capacity = Some c0" by simp
  moreover have "wf_capacity c0" using wf_resource_capacity [OF assms(2)] .
  ultimately have "forecast_inv cfg (occupancy now entries damage) (Some c0) (forecast_queue cfg entries (Some c0) damage now)"
    by (intro forecast_queue_inv) simp
  then obtain c where "wf_capacity c" "free_on c nd + promised nd (sn_queue sn) \<le> free_on c0 nd"
    using rows \<open>capacity = Some c0\<close> by (auto simp: forecast_inv_def)
  then show ?thesis using wf_free_nonneg [of c nd] by linarith
qed

text \<open>
  The forecast respects the quota: with \<open>max_my_jobs = cap\<close>, the jobs already occupying a
  slot plus the rows called runnable never exceed \<open>cap\<close> (and nothing is runnable when the
  quota is already full). Without a resource snapshot nothing is called runnable.
\<close>

theorem snapshot_respects_quota:
  assumes "scheduler_snapshot cfg entries resources alive stale damage now = Inr sn"
  shows "(\<forall>cap. cf_max_my_jobs cfg = Some cap \<longrightarrow>
           sn_running sn + int (sn_runnable_queued sn) \<le> max cap (sn_running sn))
    \<and> (resources = None \<longrightarrow> sn_runnable_queued sn = 0)"
proof -
  obtain capacity where cap: "resource_capacity resources = Inr capacity"
    and rows: "sn_queue sn = fc_rows (forecast_queue cfg entries capacity damage now)"
    and run: "sn_running sn = occupancy now entries damage" "sn_runnable_queued sn = runnable_count (sn_queue sn)"
    by (rule scheduler_snapshotE [OF assms]) (rule that)
  have "forecast_inv cfg (occupancy now entries damage) capacity (forecast_queue cfg entries capacity damage now)"
    using cap wf_resource_capacity by (intro forecast_queue_inv) auto
  moreover have "resources = None \<Longrightarrow> capacity = None"
    using cap by (simp add: resource_capacity_def)
  ultimately show ?thesis
    using rows run by (cases "sn_runnable_queued sn = 0") (auto simp: forecast_inv_def)
qed

lemma length_forecast: "length (fc_rows (forecast cfg by_id pes fc)) = length (fc_rows fc) + length pes"
proof (induction pes arbitrary: fc)
  case (Cons pe pes)
  obtain i e where pe: "pe = (i, e)" by (cases pe)
  obtain st rsn cond sel where "row_verdict cfg by_id fc e = ((st, rsn, cond), sel)" by (metis prod.collapse)
  from forecast_step_rows(1) [OF this] have "length (fc_rows (forecast_step cfg by_id (i, e) fc)) = Suc (length (fc_rows fc))"
    by simp
  with Cons [of "forecast_step cfg by_id (i, e) fc"] show ?case by (simp add: forecast_def pe)
qed (simp add: forecast_def)

lemma count_if_partition:
  "(\<And>x. p x \<Longrightarrow> \<not> q x) \<Longrightarrow> count_if p xs + count_if q xs + count_if (\<lambda>x. \<not> p x \<and> \<not> q x) xs = length xs"
  by (induction xs) auto

text \<open>
  The summary counts are a partition: the snapshot explains every queued row, and the
  runnable, blocked and waiting counts add up to the queue depth.
\<close>

theorem snapshot_counts_partition:
  assumes "scheduler_snapshot cfg entries resources alive stale damage now = Inr sn"
  shows "sn_runnable_queued sn + sn_blocked_queued sn + sn_waiting_queued sn = sn_queue_depth sn
    \<and> sn_queue_depth sn = length (queued_rows entries)"
proof -
  obtain capacity where rows: "sn_queue sn = fc_rows (forecast_queue cfg entries capacity damage now)"
    and depth: "sn_queue_depth sn = length (sn_queue sn)"
    and counts: "sn_runnable_queued sn = runnable_count (sn_queue sn)"
      "sn_blocked_queued sn = count_if (\<lambda>r. startswith (sr_state r) ''blocked_'') (sn_queue sn)"
      "sn_waiting_queued sn = count_if (\<lambda>r. sr_state r \<noteq> ''runnable'' \<and> \<not> startswith (sr_state r) ''blocked_'') (sn_queue sn)"
    by (rule scheduler_snapshotE [OF assms]) (rule that)
  have "length (sn_queue sn) = length (queued_rows entries)"
    by (simp add: rows forecast_queue_def length_forecast initial_forecast_def)
  moreover have "\<not> startswith ''runnable'' ''blocked_''" by (simp add: startswith_def)
  ultimately show ?thesis
    using count_if_partition [of "\<lambda>r. sr_state r = ''runnable''" "\<lambda>r. startswith (sr_state r) ''blocked_''" "sn_queue sn"]
    by (simp add: depth counts runnable_count_def)
qed

section \<open>First in, first out\<close>

definition holds_capacity :: "ScheduleRow \<Rightarrow> bool" where
  "holds_capacity r \<longleftrightarrow> sr_state r = ''waiting_capacity'' \<and> 0 < sr_gpus_requested r"

text \<open>A later runnable GPU row next to an earlier row that waits for capacity.\<close>

definition fifo_ok :: "ScheduleRow \<Rightarrow> ScheduleRow \<Rightarrow> bool" where
  "fifo_ok earlier later \<longleftrightarrow>
     (holds_capacity earlier \<and> sr_state later = ''runnable'' \<and> 0 < sr_gpus_requested later \<longrightarrow>
      (\<exists>p. sr_pin_node earlier = Some p \<and> sr_selected_node later \<noteq> Some p))"

definition fifo_inv :: "Forecast \<Rightarrow> bool" where
  "fifo_inv fc \<longleftrightarrow> sorted_wrt fifo_ok (fc_rows fc)
     \<and> (\<forall>r \<in> set (fc_rows fc). holds_capacity r \<longrightarrow>
          (case sr_pin_node r of None \<Rightarrow> fc_unpinned_wait fc \<noteq> None | Some p \<Rightarrow> map_of (fc_busy_pins fc) p \<noteq> None))"

lemma runnable_avoids_pins:
  assumes "row_verdict cfg by_id fc e = ((''runnable'', rsn, cond), sel)" and "0 < gpus_requested e"
    and "map_of (fc_busy_pins fc) p \<noteq> None"
  shows "sel \<noteq> Some p"
proof -
  obtain excluded where cs: "capacity_state cfg e (fc_capacity fc) excluded = ((''runnable'', rsn, cond), sel)"
    and sub: "pin_node e = None \<and> 0 < gpus_requested e \<longrightarrow> set (keys (fc_busy_pins fc)) \<subseteq> set excluded"
    using base_runnable [OF row_runnable(1) [OF assms(1)]] by metis
  obtain nd where nd: "sel = Some nd" and el: "eligible cfg excluded e nd"
    using capacity_runnableE [OF cs] by metis
  have "nd \<noteq> p"
  proof (cases "pin_node e")
    case None
    have "p \<in> set (keys (fc_busy_pins fc))" using assms(3) by (metis map_of_eq_None_iff set_map)
    then have "p \<in> set excluded" using sub None assms(2) by blast
    then show ?thesis using el None by (auto simp: eligible_def)
  next
    case (Some q)
    then have "map_of (fc_busy_pins fc) q = None" using row_runnable(3) [OF assms(1,2)] by blast
    with assms(3) have "q \<noteq> p" by auto
    then show ?thesis using el Some by (simp add: eligible_def)
  qed
  with nd show ?thesis by simp
qed

lemma setdefault_mono: "map_of d p \<noteq> None \<Longrightarrow> map_of (setdefault q v d) p \<noteq> None"
  by (simp add: map_of_setdefault)

lemma fifo_inv_step:
  assumes "fifo_inv fc"
  shows "fifo_inv (forecast_step cfg by_id (i, e) fc)"
proof -
  obtain st rsn cond sel where v: "row_verdict cfg by_id fc e = ((st, rsn, cond), sel)"
    by (metis prod.collapse)
  note step = forecast_step_rows [OF v]
  let ?fc = "forecast_step cfg by_id (i, e) fc"
  have keep: "fc_unpinned_wait fc \<noteq> None \<Longrightarrow> fc_unpinned_wait ?fc \<noteq> None"
    "map_of (fc_busy_pins fc) p \<noteq> None \<Longrightarrow> map_of (fc_busy_pins ?fc) p \<noteq> None" for p
    by (auto simp: step(4,5) map_of_setdefault split: option.splits)
  have new: "\<forall>r \<in> set (fc_rows fc). fifo_ok r (last (fc_rows ?fc))"
  proof
    fix r assume r: "r \<in> set (fc_rows fc)"
    show "fifo_ok r (last (fc_rows ?fc))"
    proof (cases "holds_capacity r \<and> st = ''runnable'' \<and> 0 < gpus_requested e")
      case False
      then show ?thesis by (auto simp: fifo_ok_def step(1))
    next
      case True
      have "fc_unpinned_wait fc = None" using row_runnable(2) v True by blast
      then obtain p where p: "sr_pin_node r = Some p" "map_of (fc_busy_pins fc) p \<noteq> None"
        using assms r True by (auto simp: fifo_inv_def split: option.splits)
      then have "sel \<noteq> Some p" using runnable_avoids_pins v True by blast
      with p show ?thesis by (auto simp: fifo_ok_def step(1))
    qed
  qed
  have sorted: "sorted_wrt fifo_ok (fc_rows ?fc)"
    using assms new by (auto simp: fifo_inv_def step(1) sorted_wrt_append)
  have old: "\<forall>r \<in> set (fc_rows fc). holds_capacity r \<longrightarrow>
      (case sr_pin_node r of None \<Rightarrow> fc_unpinned_wait ?fc \<noteq> None | Some p \<Rightarrow> map_of (fc_busy_pins ?fc) p \<noteq> None)"
    using assms keep by (fastforce simp: fifo_inv_def split: option.splits)
  have "holds_capacity (last (fc_rows ?fc)) \<longrightarrow>
      (case pin_node e of None \<Rightarrow> fc_unpinned_wait ?fc \<noteq> None | Some p \<Rightarrow> map_of (fc_busy_pins ?fc) p \<noteq> None)"
    by (auto simp: holds_capacity_def step map_of_setdefault split: option.splits)
  with sorted old show ?thesis by (auto simp: fifo_inv_def step(1))
qed

lemma fifo_inv_fold: "fifo_inv fc \<Longrightarrow> fifo_inv (forecast cfg by_id pes fc)"
  by (induction pes arbitrary: fc) (auto simp: forecast_def intro: fifo_inv_step)

text \<open>
  C8. The snapshot never lets a later GPU job overtake: once a GPU row waits for capacity, no
  later GPU row is called runnable on capacity it could use. If the waiting row is unpinned
  nothing later is runnable on any GPU; if it is pinned, nothing later is placed on its node.
\<close>

theorem snapshot_fifo:
  assumes "scheduler_snapshot cfg entries resources alive stale damage now = Inr sn"
  shows "sorted_wrt fifo_ok (sn_queue sn)"
proof -
  obtain capacity where rows: "sn_queue sn = fc_rows (forecast_queue cfg entries capacity damage now)"
    by (rule scheduler_snapshotE [OF assms]) (rule that)
  have "fifo_inv (initial_forecast n capacity)" for n
    by (simp add: fifo_inv_def initial_forecast_def)
  then show ?thesis
    unfolding rows forecast_queue_def using fifo_inv_fold by (simp add: fifo_inv_def)
qed

lemma initial_forecast_select:
  "fc_running (initial_forecast n capacity) = n" "fc_capacity (initial_forecast n capacity) = capacity"
  "fc_unpinned_wait (initial_forecast n capacity) = None" "fc_busy_pins (initial_forecast n capacity) = []"
  "fc_rows (initial_forecast n capacity) = []"
  by (simp_all add: initial_forecast_def)

lemma forecast_prefix: "\<exists>rows. fc_rows (forecast cfg by_id pes fc) = fc_rows fc @ rows"
proof (induction pes arbitrary: fc)
  case (Cons pe pes)
  obtain i e where pe: "pe = (i, e)" by (cases pe)
  obtain st rsn cond sel where "row_verdict cfg by_id fc e = ((st, rsn, cond), sel)" by (metis prod.collapse)
  from forecast_step_rows(1) [OF this] Cons [of "forecast_step cfg by_id (i, e) fc"]
  show ?case by (auto simp: forecast_def pe)
qed (simp add: forecast_def)


section \<open>Concrete instances\<close>

text \<open>Two nodes with two and one cards; an older job for two cards, a younger one for one.\<close>

definition lab :: HeadConfig where
  "lab = \<lparr>cf_center = ''c'',
     cf_nodes = [\<lparr>nd_name = ''n1'', nd_local = False, nd_site = None, nd_artifact_seed = False, nd_drained = False\<rparr>,
                 \<lparr>nd_name = ''n2'', nd_local = False, nd_site = None, nd_artifact_seed = False, nd_drained = False\<rparr>],
     cf_max_my_jobs = Some 3, cf_reserve_free_per_node = 0, cf_disk_min_gib = 0, cf_layout = ''role-v1'',
     cf_legacy_registry = ''/r'', cf_role_registry = ''/s''\<rparr>"

definition queued_job :: "string \<Rightarrow> time \<Rightarrow> int \<Rightarrow> JobEntry" where
  "queued_job jid t g = (make_entry t jid jid ''c'' ''p'' ''-'' False ''d'' ''s'' ''x'')\<lparr>status := ''queued'', gpus_requested := g\<rparr>"

definition lab_rows :: "JobEntry list" where
  "lab_rows = [queued_job ''a'' 1 2, queued_job ''b'' 2 1]"

definition probe :: "string \<Rightarrow> nat \<Rightarrow> (string, json) dict" where
  "probe nd n = [(''node'', JStr nd),
     (''gpus'', JList (replicate n (JObj [(''free'', JBool True), (''mem_total_mib'', JInt 40000)])))]"

definition lab_probe :: "(string, json) dict list" where
  "lab_probe = [probe ''n1'' 2, probe ''n2'' 1]"

text \<open>The same nodes with only one free card on each, so that the older job has to wait.\<close>

definition busy_probe :: "(string, json) dict list" where
  "busy_probe = [
     [(''node'', JStr ''n1''),
      (''gpus'', JList [JObj [(''free'', JBool True), (''mem_total_mib'', JInt 40000)],
                        JObj [(''free'', JBool False), (''mem_total_mib'', JInt 40000)]])],
     probe ''n2'' 1]"

definition lab_snapshot :: Snapshot where
  "lab_snapshot = projr (scheduler_snapshot lab lab_rows (Some lab_probe) None None 0 5)"

definition busy_snapshot :: Snapshot where
  "busy_snapshot = projr (scheduler_snapshot lab lab_rows (Some busy_probe) None None 0 5)"

definition lab_capacity :: ResourceCapacity where
  "lab_capacity = the (projr (resource_capacity (Some lab_probe)))"

lemma projr_Inr: "\<not> isl r \<Longrightarrow> r = Inr (projr r)"
  by (cases r) simp_all

lemma lab_snapshot_ok: "scheduler_snapshot lab lab_rows (Some lab_probe) None None 0 5 = Inr lab_snapshot"
  unfolding lab_snapshot_def by (rule projr_Inr) code_simp

lemma busy_snapshot_ok: "scheduler_snapshot lab lab_rows (Some busy_probe) None None 0 5 = Inr busy_snapshot"
  unfolding busy_snapshot_def by (rule projr_Inr) code_simp

lemma lab_capacity_ok: "resource_capacity (Some lab_probe) = Inr (Some lab_capacity)"
proof -
  have "\<not> isl (resource_capacity (Some lab_probe))" "projr (resource_capacity (Some lab_probe)) \<noteq> None"
    by code_simp+
  then show ?thesis unfolding lab_capacity_def by (cases "resource_capacity (Some lab_probe)") auto
qed

lemma lab_older_admitted:
  "ad_allowed (admission_decision lab (queued_job ''a'' 1 2) lab_rows ''n1'' 1 True 5)"
  by code_simp

theorem admission_keeps_quota_witness:
  "ad_allowed (admission_decision lab (queued_job ''a'' 1 2) lab_rows ''n1'' 1 True 5)
   \<and> occupancy 5 (claim ''a'' ''n1'' ''tok'' lab_rows) 1 \<le> 3"
proof -
  have "cf_max_my_jobs lab = Some 3" "queued_job ''a'' 1 2 \<in> set lab_rows"
    "status (queued_job ''a'' 1 2) = ''queued''" "distinct (map job_id lab_rows)" "job_id (queued_job ''a'' 1 2) = ''a''"
    by (simp_all add: lab_def lab_rows_def queued_job_def make_entry_def)
  with admission_keeps_quota [OF lab_older_admitted, of 3 "''tok''"] lab_older_admitted show ?thesis by simp
qed

text \<open>The older job is pinned to the first node; the younger one is admitted on the second.\<close>

definition pinned_rows :: "JobEntry list" where
  "pinned_rows = [(queued_job ''a'' 1 2)\<lparr>pin_node := Some ''n1''\<rparr>, queued_job ''b'' 2 1]"

theorem admission_respects_fifo_witness:
  "ad_allowed (admission_decision lab (queued_job ''b'' 2 1) pinned_rows ''n2'' 0 True 5)
   \<and> (case dispatch_node (pinned_rows ! 0) of Some n \<Rightarrow> n \<noteq> ''n2'' | None \<Rightarrow> \<exists>p. pin_node (pinned_rows ! 0) = Some p \<and> p \<noteq> ''n2'')"
proof -
  have adm: "ad_allowed (admission_decision lab (queued_job ''b'' 2 1) pinned_rows ''n2'' 0 True 5)"
    by code_simp
  have "\<not> skippable (rows_by_id pinned_rows) (pinned_rows ! 0)" by code_simp
  with admission_respects_fifo [OF adm, of "pinned_rows ! 0"] adm show ?thesis
    by (simp add: pinned_rows_def queued_job_def make_entry_def)
qed

theorem cpu_job_not_fifo_held_witness:
  "ad_state (admission_decision lab (queued_job ''c'' 9 0) (queued_job ''c'' 9 0 # lab_rows) ''n1'' 0 False 9) = ''admit''"
proof -
  have "dependency_state (queued_job ''c'' 9 0) (rows_by_id (queued_job ''c'' 9 0 # lab_rows)) = None"
    "persisted_wait False False (queued_job ''c'' 9 0) = None"
    "\<not> 3 \<le> admission_occupancy (queued_job ''c'' 9 0) (queued_job ''c'' 9 0 # lab_rows) 0 9"
    by code_simp+
  with cpu_job_not_fifo_held [of "queued_job ''c'' 9 0" "queued_job ''c'' 9 0 # lab_rows" False lab "''n1''" 0 9]
  show ?thesis by (simp add: queued_job_def lab_def)
qed

theorem capacity_state_sound_witness:
  "\<exists>c nd. Some lab_capacity = Some c \<and> Some ''n1'' = Some nd \<and> eligible lab [] (queued_job ''a'' 1 2) nd
    \<and> map_of (rc_total c) nd \<noteq> None
    \<and> (0 < gpus_requested (queued_job ''a'' 1 2) \<longrightarrow>
         gpus_requested (queued_job ''a'' 1 2) + reserve_for lab (queued_job ''a'' 1 2) \<le> dict_get (rc_free c) nd 0
         \<and> (\<forall>m. min_vram_mib (queued_job ''a'' 1 2) = Some m \<longrightarrow>
              gpus_requested (queued_job ''a'' 1 2)
                \<le> int (count_if (meets (Some m)) (dict_get (rc_free_gpu_memory_mib c) nd []))))
    \<and> (\<forall>have. map_of (rc_disk_free c) nd = Some have \<longrightarrow> of_int (required_disk lab (queued_job ''a'' 1 2)) \<le> have)"
proof -
  have st: "fst (fst (capacity_state lab (queued_job ''a'' 1 2) (Some lab_capacity) [])) = ''runnable''"
    "snd (capacity_state lab (queued_job ''a'' 1 2) (Some lab_capacity) []) = Some ''n1''"
    by code_simp+
  obtain rsn cond where "capacity_state lab (queued_job ''a'' 1 2) (Some lab_capacity) [] = ((''runnable'', rsn, cond), Some ''n1'')"
    using st by (metis prod.collapse)
  from capacity_state_sound [OF this] show ?thesis .
qed

theorem consume_capacity_exact_witness:
  "free_on (consume_capacity lab_capacity ''n1'' (queued_job ''a'' 1 2)) ''n1''
     = free_on lab_capacity ''n1'' - wanted_gpus (queued_job ''a'' 1 2)
   \<and> wf_capacity (consume_capacity lab_capacity ''n1'' (queued_job ''a'' 1 2))"
proof -
  have "gpu_fit lab (queued_job ''a'' 1 2) lab_capacity ''n1''" by code_simp
  from consume_capacity_exact [OF wf_resource_capacity [OF lab_capacity_ok] this, of "''n1''"] show ?thesis by simp
qed

theorem snapshot_no_overcommit_witness:
  "promised ''n1'' (sn_queue lab_snapshot) \<le> free_on lab_capacity ''n1'' \<and> promised ''n1'' (sn_queue lab_snapshot) = 2"
proof -
  have "promised ''n1'' (sn_queue lab_snapshot) = 2" by code_simp
  with snapshot_no_overcommit [OF lab_snapshot_ok lab_capacity_ok, of "''n1''"] show ?thesis by simp
qed

theorem snapshot_respects_quota_witness:
  "sn_running lab_snapshot + int (sn_runnable_queued lab_snapshot) \<le> max 3 (sn_running lab_snapshot)
   \<and> sn_runnable_queued lab_snapshot = 2"
proof -
  have "sn_runnable_queued lab_snapshot = 2" by code_simp
  with snapshot_respects_quota [OF lab_snapshot_ok] show ?thesis by (simp add: lab_def)
qed

theorem snapshot_counts_partition_witness:
  "sn_runnable_queued busy_snapshot + sn_blocked_queued busy_snapshot + sn_waiting_queued busy_snapshot = sn_queue_depth busy_snapshot
   \<and> sn_queue_depth busy_snapshot = length (queued_rows lab_rows)"
  by (rule snapshot_counts_partition [OF busy_snapshot_ok])

theorem snapshot_fifo_witness:
  "sorted_wrt fifo_ok (sn_queue busy_snapshot)
   \<and> map sr_state (sn_queue busy_snapshot) = [''waiting_capacity'', ''waiting_fifo'']"
proof -
  have "map sr_state (sn_queue busy_snapshot) = [''waiting_capacity'', ''waiting_fifo'']" by code_simp
  with snapshot_fifo [OF busy_snapshot_ok] show ?thesis by simp
qed


end
