(* ===== verification/Job_Refs.thy ===== *)
theory Job_Refs
  imports Registry_Store
begin

text \<open>
  References to jobs (\<open>src/dt/jobs/__init__.py\<close>): the compact suffixes a listing prints and
  the resolver that reads them back.

  \<open>compact_refs\<close> finds collisions by binary search over the sorted ids; \<open>bisect_left\<close> and
  \<open>bisect_right\<close> are the loops of the standard library. Text is compared by code point, so the
  searched lists hold the code points of the ids; the bound \<open>prefix + U+FFFF\<close> lies above every
  character of the model. The properties: the searches count exactly the ids with the prefix,
  the fast routine returns what the quadratic definition returns, and every reference it
  prints resolves to its own job.
\<close>

section \<open>Binary search\<close>

function bisect_left :: "'a::linorder list \<Rightarrow> 'a \<Rightarrow> nat \<Rightarrow> nat \<Rightarrow> nat" where
  "bisect_left a x lo hi =
     (if lo < hi then
        let mid = (lo + hi) div 2 in
        if a ! mid < x then bisect_left a x (mid + 1) hi else bisect_left a x lo mid
      else lo)"
  by pat_completeness auto
termination by (relation "measure (\<lambda>(a, x, lo, hi). hi - lo)") auto

function bisect_right :: "'a::linorder list \<Rightarrow> 'a \<Rightarrow> nat \<Rightarrow> nat \<Rightarrow> nat" where
  "bisect_right a x lo hi =
     (if lo < hi then
        let mid = (lo + hi) div 2 in
        if x < a ! mid then bisect_right a x lo mid else bisect_right a x (mid + 1) hi
      else lo)"
  by pat_completeness auto
termination by (relation "measure (\<lambda>(a, x, lo, hi). hi - lo)") auto

declare bisect_left.simps [simp del] bisect_right.simps [simp del]

section \<open>Compact references\<close>

abbreviation codes :: "string \<Rightarrow> nat list" where
  "codes s \<equiv> map code s"

definition count_starting_with :: "nat list list \<Rightarrow> nat list \<Rightarrow> int" where
  "count_starting_with sorted_values pre =
     (let low = bisect_left sorted_values pre 0 (length sorted_values);
          high = bisect_right sorted_values (pre @ [0xFFFF]) 0 (length sorted_values)
      in int high - int low)"

text \<open>The loop over the widths; without a safe suffix the reference stays the whole id.\<close>

fun assign_ref :: "string list \<Rightarrow> nat list list \<Rightarrow> nat list list \<Rightarrow> string \<Rightarrow> nat list \<Rightarrow> string" where
  "assign_ref names sorted_ids sorted_reversed_ids jid [] = jid"
| "assign_ref names sorted_ids sorted_reversed_ids jid (width # rest) =
     (let candidate = drop (length jid - width) jid;
          own_prefix_matches = (if startswith jid candidate then 1 else 0) in
      if candidate \<in> set names
         \<or> count_starting_with sorted_reversed_ids (codes (rev candidate)) \<noteq> 1
         \<or> count_starting_with sorted_ids (codes candidate) \<noteq> own_prefix_matches
      then assign_ref names sorted_ids sorted_reversed_ids jid rest
      else candidate)"

definition widths :: "int \<Rightarrow> string \<Rightarrow> nat list" where
  "widths minimum jid = [nat minimum ..< length jid + 1]"

definition compact_refs :: "(string \<times> string) list \<Rightarrow> int \<Rightarrow> string + (string, string) dict" where
  "compact_refs records minimum =
     (if minimum < 1 then Inl ''minimum compact ref length must be positive''
      else
        let job_ids = map fst records; names = map snd records;
            sorted_ids = sort (map codes job_ids);
            sorted_reversed_ids = sort (map (\<lambda>j. codes (rev j)) job_ids)
        in Inr (dict_of (map (\<lambda>j. (j, assign_ref names sorted_ids sorted_reversed_ids j (widths minimum j))) job_ids)))"

definition compact_job_refs :: "JobEntry list \<Rightarrow> int \<Rightarrow> string + (string, string) dict" where
  "compact_job_refs entries minimum = compact_refs (map (\<lambda>e. (job_id e, name e)) entries) minimum"

section \<open>Resolution\<close>

definition scope_ref :: "HeadConfig \<Rightarrow> string \<Rightarrow> string option" where
  "scope_ref cfg ref0 =
     (let ref = strip ref0; scoped_prefix = cf_center cfg @ '':'' in
      if ref = [] then None
      else if startswith ref scoped_prefix then
        (let rest = drop (length scoped_prefix) ref in if rest = [] then None else Some rest)
      else if CHR '':'' \<in> set ref then None
      else Some ref)"

text \<open>\<open>max(xs, key=k)\<close>: the first of the greatest elements; \<open>sorted(xs, key=k, reverse=True)\<close>.\<close>

fun max_first :: "('a \<Rightarrow> 'b::linorder) \<Rightarrow> 'a \<Rightarrow> 'a list \<Rightarrow> 'a" where
  "max_first k x [] = x"
| "max_first k x (y # ys) = max_first k (if k x < k y then y else x) ys"

definition sorted_desc :: "('a \<Rightarrow> 'b::linorder) \<Rightarrow> 'a list \<Rightarrow> 'a list" where
  "sorted_desc k xs = rev (sort_key k (rev xs))"

definition resolve_ref_against :: "JobEntry list \<Rightarrow> string \<Rightarrow> JobEntry option \<times> JobEntry list" where
  "resolve_ref_against entries ref =
     (case filter (\<lambda>e. name e = ref) entries of
        x # xs \<Rightarrow> (Some (max_first created_at x xs), [])
      | [] \<Rightarrow>
          (case filter (\<lambda>e. startswith (job_id e) ref \<or> endswith (job_id e) ref) entries of
             [e] \<Rightarrow> (Some e, [])
           | matches \<Rightarrow> (None, sorted_desc created_at matches)))"

text \<open>
  \<open>resolve_ref\<close> outside a \<open>shared_resolution_snapshot\<close> scope, where \<open>resolution_entries\<close> is
  \<open>list_all\<close>.
\<close>

definition resolve_ref ::
  "decoding \<Rightarrow> HeadConfig \<Rightarrow> string \<Rightarrow> 'r world \<Rightarrow> string + JobEntry option \<times> JobEntry list" where
  "resolve_ref dc cfg ref w =
     (case scope_ref cfg ref of
        None \<Rightarrow> Inr (None, [])
      | Some scoped \<Rightarrow>
          bind_ok (load dc cfg scoped w) (\<lambda>exact.
            case exact of
              Some e \<Rightarrow> Inr (Some e, [])
            | None \<Rightarrow> Inr (resolve_ref_against (fst (list_all_rows dc cfg w)) scoped)))"

definition find_job :: "decoding \<Rightarrow> HeadConfig \<Rightarrow> string \<Rightarrow> 'r world \<Rightarrow> string + JobEntry option" where
  "find_job dc cfg ref w = bind_ok (resolve_ref dc cfg ref w) (\<lambda>(entry, _). Inr entry)"

section \<open>The searches\<close>

text \<open>
  On a sorted list both searches return the length of the initial segment their comparison
  accepts.
\<close>

definition below :: "('a \<Rightarrow> bool) \<Rightarrow> 'a list \<Rightarrow> nat \<Rightarrow> bool" where
  "below p a n \<longleftrightarrow> n \<le> length a \<and> (\<forall>i < n. p (a ! i)) \<and> (\<forall>i. n \<le> i \<longrightarrow> i < length a \<longrightarrow> \<not> p (a ! i))"

lemma below_count: "below p a n \<Longrightarrow> n = count_if p a"
proof -
  assume b: "below p a n"
  have "count_if p a = count_if p (take n a) + count_if p (drop n a)"
    by (metis append_take_drop_id count_if_simps(3))
  moreover have "filter p (take n a) = take n a"
    using b by (auto simp: filter_id_conv below_def in_set_conv_nth)
  moreover have "filter p (drop n a) = []"
    using b by (auto simp: filter_empty_conv below_def in_set_conv_nth)
  ultimately show "n = count_if p a" using b by (simp add: count_if_def below_def)
qed

lemma bisect_left_below:
  assumes "sorted a" "lo \<le> hi" "hi \<le> length a"
    and "\<forall>i < lo. a ! i < x" "\<forall>i. hi \<le> i \<longrightarrow> i < length a \<longrightarrow> \<not> a ! i < x"
  shows "below (\<lambda>y. y < x) a (bisect_left a x lo hi)"
  using assms
proof (induction a x lo hi rule: bisect_left.induct)
  case (1 a x lo hi)
  show ?case
  proof (cases "lo < hi")
    case True
    let ?m = "(lo + hi) div 2"
    have m: "lo \<le> ?m" "?m < hi" "?m < length a" using True "1.prems" by auto
    show ?thesis
    proof (cases "a ! ?m < x")
      case less: True
      then have "\<forall>i < ?m + 1. a ! i < x"
        using "1.prems"(1) m by (metis Suc_eq_plus1 le_less_trans less_Suc_eq_le sorted_nth_mono)
      then have "below (\<lambda>y. y < x) a (bisect_left a x (?m + 1) hi)"
        using "1.IH"(1) [OF True refl less] "1.prems" m by simp
      then show ?thesis using True less by (simp add: bisect_left.simps [of a x lo hi])
    next
      case ge: False
      then have "\<forall>i. ?m \<le> i \<longrightarrow> i < length a \<longrightarrow> \<not> a ! i < x"
        using "1.prems"(1) m by (metis le_less_trans sorted_nth_mono)
      then have "below (\<lambda>y. y < x) a (bisect_left a x lo ?m)"
        using "1.IH"(2) [OF True refl ge] "1.prems" m by simp
      then show ?thesis using True ge by (simp add: bisect_left.simps [of a x lo hi])
    qed
  next
    case False
    then have "bisect_left a x lo hi = lo" by (simp add: bisect_left.simps [of a x lo hi])
    with False "1.prems" show ?thesis by (simp add: below_def)
  qed
qed

lemma bisect_right_below:
  assumes "sorted a" "lo \<le> hi" "hi \<le> length a"
    and "\<forall>i < lo. a ! i \<le> x" "\<forall>i. hi \<le> i \<longrightarrow> i < length a \<longrightarrow> \<not> a ! i \<le> x"
  shows "below (\<lambda>y. y \<le> x) a (bisect_right a x lo hi)"
  using assms
proof (induction a x lo hi rule: bisect_right.induct)
  case (1 a x lo hi)
  show ?case
  proof (cases "lo < hi")
    case True
    let ?m = "(lo + hi) div 2"
    have m: "lo \<le> ?m" "?m < hi" "?m < length a" using True "1.prems" by auto
    show ?thesis
    proof (cases "x < a ! ?m")
      case less: True
      then have "\<forall>i. ?m \<le> i \<longrightarrow> i < length a \<longrightarrow> \<not> a ! i \<le> x"
        using "1.prems"(1) m by (metis le_less_trans not_le sorted_nth_mono)
      then have "below (\<lambda>y. y \<le> x) a (bisect_right a x lo ?m)"
        using "1.IH"(1) [OF True refl less] "1.prems" m by simp
      then show ?thesis using True less by (simp add: bisect_right.simps [of a x lo hi])
    next
      case ge: False
      then have "\<forall>i < ?m + 1. a ! i \<le> x"
        using "1.prems"(1) m by (metis Suc_eq_plus1 less_Suc_eq_le not_le order_trans sorted_nth_mono)
      then have "below (\<lambda>y. y \<le> x) a (bisect_right a x (?m + 1) hi)"
        using "1.IH"(2) [OF True refl ge] "1.prems" m by simp
      then show ?thesis using True ge by (simp add: bisect_right.simps [of a x lo hi])
    qed
  next
    case False
    then have "bisect_right a x lo hi = lo" by (simp add: bisect_right.simps [of a x lo hi])
    with False "1.prems" show ?thesis by (simp add: below_def)
  qed
qed

lemma bisect_counts:
  assumes "sorted a"
  shows "bisect_left a x 0 (length a) = count_if (\<lambda>y. y < x) a"
    and "bisect_right a x 0 (length a) = count_if (\<lambda>y. y \<le> x) a"
  using bisect_left_below [OF assms, of 0 "length a" x] bisect_right_below [OF assms, of 0 "length a" x]
  by (auto intro: below_count)

text \<open>Below the bound \<open>pre @ [M]\<close> lie the lists before \<open>pre\<close> and the lists that extend it.\<close>

lemma le_prefix_bound:
  fixes y :: "nat list"
  shows "\<forall>c \<in> set y. c < M \<Longrightarrow> y \<le> pre @ [M] \<longleftrightarrow> y < pre \<or> prefix pre y"
proof (induction pre arbitrary: y)
  case Nil
  then show ?case by (cases y) auto
next
  case (Cons a pre)
  then show ?case by (cases y) auto
qed

lemma prefix_not_less: "prefix pre y \<Longrightarrow> \<not> (y :: nat list) < pre"
proof (induction pre arbitrary: y)
  case (Cons a pre)
  then show ?case by (cases y) auto
qed simp

lemma count_if_disj:
  "(\<And>x. p x \<Longrightarrow> \<not> q x) \<Longrightarrow> count_if (\<lambda>x. p x \<or> q x) xs = count_if p xs + count_if q xs"
  by (induction xs) auto

lemma count_if_cong: "(\<And>x. x \<in> set xs \<Longrightarrow> p x = q x) \<Longrightarrow> count_if p xs = count_if q xs"
  by (simp add: count_if_def cong: filter_cong)

lemma count_starting_with_eq:
  assumes "sorted vs" and "\<forall>v \<in> set vs. \<forall>c \<in> set v. c < 0xFFFF"
  shows "count_starting_with vs pre = int (count_if (prefix pre) vs)"
proof -
  have "count_if (\<lambda>y. y \<le> pre @ [0xFFFF]) vs = count_if (\<lambda>y. y < pre \<or> prefix pre y) vs"
    using assms(2) by (intro count_if_cong le_prefix_bound) blast
  also have "\<dots> = count_if (\<lambda>y. y < pre) vs + count_if (prefix pre) vs"
    using prefix_not_less by (intro count_if_disj) blast
  finally show ?thesis by (simp add: count_starting_with_def bisect_counts [OF assms(1)])
qed

lemma code_bound: "\<forall>c \<in> set (codes s). c < 0xFFFF"
proof -
  have "code c < 256" for c by (cases c) (simp add: code_def of_char_def)
  then have "code c < 0xFFFF" for c by (rule less_le_trans) simp
  then show ?thesis by simp
qed

lemma code_inj: "inj code"
  by (simp add: inj_def code_def)

lemma prefix_codes: "prefix (codes p) (codes s) \<longleftrightarrow> prefix p s"
proof
  assume "prefix (codes p) (codes s)"
  then have "codes p = codes (take (length p) s)" by (auto simp: prefix_def take_map [symmetric])
  then have "p = take (length p) s" using code_inj by (simp add: inj_map_eq_map)
  then show "prefix p s" by (metis take_is_prefix)
qed (auto simp: prefix_def)

lemma count_ids: "count_starting_with (sort (map codes ids)) (codes c) = int (count_if (prefix c) ids)"
proof -
  have "count_if (prefix (codes c)) (sort (map codes ids)) = count_if (prefix (codes c)) (map codes ids)"
    by (rule count_if_mset) simp
  also have "\<dots> = count_if (prefix c) ids"
    by (simp add: count_if_def filter_map comp_def prefix_codes)
  finally show ?thesis using code_bound by (subst count_starting_with_eq) auto
qed

lemma count_reversed_ids:
  "count_starting_with (sort (map (\<lambda>j. codes (rev j)) ids)) (codes (rev c)) = int (count_if (suffix c) ids)"
proof -
  have "count_if (prefix (rev c)) (map rev ids) = count_if (suffix c) ids"
    by (simp add: count_if_def filter_map comp_def suffix_to_prefix [abs_def])
  then show ?thesis using count_ids [of "map rev ids" "rev c"] by (simp add: comp_def)
qed

lemma count_if_only:
  assumes "distinct xs" and "x \<in> set xs"
  shows "count_if p xs = (if p x then 1 else 0) \<longleftrightarrow> (\<forall>y \<in> set xs. y \<noteq> x \<longrightarrow> \<not> p y)"
proof -
  obtain ys zs where xs: "xs = ys @ x # zs" using assms(2) by (meson split_list)
  then have "x \<notin> set ys" "x \<notin> set zs" using assms(1) by auto
  then show ?thesis by (auto simp: xs count_if_zero)
qed

section \<open>The fast routine against its definition\<close>

text \<open>
  A suffix is safe for a job if it is no job name and no other id starts or ends with it; the
  reference is the shortest safe suffix of at least the minimum width.
\<close>

definition safe_ref :: "(string \<times> string) list \<Rightarrow> string \<Rightarrow> string \<Rightarrow> bool" where
  "safe_ref records jid c \<longleftrightarrow> c \<notin> snd ` set records
     \<and> (\<forall>r \<in> set records. fst r \<noteq> jid \<longrightarrow> \<not> startswith (fst r) c \<and> \<not> endswith (fst r) c)"

definition shortest_safe :: "(string \<times> string) list \<Rightarrow> int \<Rightarrow> string \<Rightarrow> string" where
  "shortest_safe records minimum jid =
     (case List.find (safe_ref records jid) (map (\<lambda>n. drop (length jid - n) jid) (widths minimum jid)) of
        None \<Rightarrow> jid | Some c \<Rightarrow> c)"

lemma accept_iff_safe:
  assumes "distinct (map fst records)" and "jid \<in> fst ` set records" and "suffix c jid"
  shows "safe_ref records jid c \<longleftrightarrow>
     c \<notin> set (map snd records)
     \<and> count_starting_with (sort (map (\<lambda>j. codes (rev j)) (map fst records))) (codes (rev c)) = 1
     \<and> count_starting_with (sort (map codes (map fst records))) (codes c) = (if startswith jid c then 1 else 0)"
proof -
  let ?ids = "map fst records"
  have mem: "jid \<in> set ?ids" using assms(2) by simp
  have "count_if (suffix c) ?ids = 1 \<longleftrightarrow> (\<forall>y \<in> set ?ids. y \<noteq> jid \<longrightarrow> \<not> suffix c y)"
    using count_if_only [OF assms(1) mem, of "suffix c"] assms(3) by simp
  moreover have "int (count_if (prefix c) ?ids) = (if startswith jid c then 1 else 0)
      \<longleftrightarrow> (\<forall>y \<in> set ?ids. y \<noteq> jid \<longrightarrow> \<not> prefix c y)"
    using count_if_only [OF assms(1) mem, of "prefix c"] by (auto simp: startswith_prefix split: if_splits)
  ultimately show ?thesis
    unfolding count_ids count_reversed_ids safe_ref_def
    by (auto simp: startswith_prefix endswith_suffix)
qed

lemma assign_ref_find:
  assumes "distinct (map fst records)" and "jid \<in> fst ` set records"
  shows "assign_ref (map snd records) (sort (map codes (map fst records)))
       (sort (map (\<lambda>j. codes (rev j)) (map fst records))) jid ws
     = (case List.find (safe_ref records jid) (map (\<lambda>n. drop (length jid - n) jid) ws) of None \<Rightarrow> jid | Some c \<Rightarrow> c)"
proof (induction ws)
  case (Cons n ws)
  have "suffix (drop (length jid - n) jid) jid" by (rule suffix_drop)
  from accept_iff_safe [OF assms this] Cons show ?case
    by (simp add: Let_def)
qed simp

text \<open>
  The fast compact-reference routine is equivalent to the quadratic definition: for
  distinct job ids, the two binary searches per candidate pick, for every job, exactly the
  shortest suffix (of at least the minimum width) that is no job name and that no other id
  starts or ends with, or the full id when there is none.
\<close>

theorem compact_refs_reference:
  assumes "distinct (map fst records)" and "1 \<le> minimum"
  shows "compact_refs records minimum = Inr (map (\<lambda>r. (fst r, shortest_safe records minimum (fst r))) records)"
proof -
  let ?ref = "\<lambda>j. assign_ref (map snd records) (sort (map codes (map fst records)))
       (sort (map (\<lambda>j. codes (rev j)) (map fst records))) j (widths minimum j)"
  have "?ref (fst r) = shortest_safe records minimum (fst r)" if "r \<in> set records" for r
    using assign_ref_find [OF assms(1), of "fst r"] that by (simp add: shortest_safe_def)
  moreover have "dict_of (map (\<lambda>j. (j, ?ref j)) (map fst records)) = map (\<lambda>j. (j, ?ref j)) (map fst records)"
    using assms(1) by (intro dict_of_distinct) (simp add: comp_def)
  ultimately show ?thesis using assms(2) by (simp add: compact_refs_def Let_def)
qed

lemma shortest_safe_cases:
  assumes "1 \<le> minimum"
  shows "shortest_safe records minimum jid = jid
    \<or> (suffix (shortest_safe records minimum jid) jid \<and> safe_ref records jid (shortest_safe records minimum jid)
       \<and> nat minimum \<le> length (shortest_safe records minimum jid))"
proof (cases "List.find (safe_ref records jid) (map (\<lambda>n. drop (length jid - n) jid) (widths minimum jid))")
  case (Some c)
  then obtain i where i: "i < length (widths minimum jid)" "safe_ref records jid c"
    "c = drop (length jid - widths minimum jid ! i) jid"
    by (auto simp: find_Some_iff)
  then have "nat minimum \<le> widths minimum jid ! i" "widths minimum jid ! i \<le> length jid"
    using nth_mem [OF i(1)] by (auto simp: widths_def simp del: upt_Suc)
  with i Some show ?thesis by (auto simp: shortest_safe_def suffix_drop)
qed (simp add: shortest_safe_def)

lemma resolve_safe:
  assumes "distinct (map job_id entries)" and "e \<in> set entries" and "suffix c (job_id e)"
    and "safe_ref (map (\<lambda>e. (job_id e, name e)) entries) (job_id e) c"
  shows "resolve_ref_against entries c = (Some e, [])"
proof -
  obtain xs ys where s: "entries = xs @ e # ys" using assms(2) by (meson split_list)
  then have "job_id e \<notin> job_id ` set xs" "job_id e \<notin> job_id ` set ys" using assms(1) by auto
  then have "\<forall>x \<in> set xs \<union> set ys. job_id x \<noteq> job_id e" by (metis Un_iff image_eqI)
  then have "\<forall>x \<in> set xs \<union> set ys. \<not> startswith (job_id x) c \<and> \<not> endswith (job_id x) c"
    using assms(4) by (simp add: s safe_ref_def ball_Un)
  then have "filter (\<lambda>x. startswith (job_id x) c \<or> endswith (job_id x) c) xs = []"
    "filter (\<lambda>x. startswith (job_id x) c \<or> endswith (job_id x) c) ys = []"
    by (auto simp: filter_empty_conv)
  then have "filter (\<lambda>x. startswith (job_id x) c \<or> endswith (job_id x) c) entries = [e]"
    using assms(3) by (simp add: s endswith_suffix)
  moreover have "filter (\<lambda>x. name x = c) entries = []"
    using assms(4) by (force simp: safe_ref_def filter_empty_conv)
  ultimately show ?thesis by (simp add: resolve_ref_against_def)
qed

text \<open>
  Every printed reference resolves to its own job: for rows with distinct ids, the
  compact reference of a row is a suffix of its id, and unless it is the full id (which the
  resolver loads directly) matching it against the same rows returns exactly that row,
  without ambiguity.
\<close>

theorem compact_refs_resolve:
  assumes "distinct (map job_id entries)" and "e \<in> set entries" and "compact_job_refs entries minimum = Inr refs"
  shows "\<exists>r. map_of refs (job_id e) = Some r \<and> suffix r (job_id e)
    \<and> (r = job_id e \<or> nat minimum \<le> length r \<and> resolve_ref_against entries r = (Some e, []))"
proof -
  let ?recs = "map (\<lambda>e. (job_id e, name e)) entries"
  have m: "1 \<le> minimum"
    using assms(3) by (auto simp: compact_job_refs_def compact_refs_def split: if_splits)
  have "refs = map (\<lambda>r. (fst r, shortest_safe ?recs minimum (fst r))) ?recs"
    using assms(1,3) compact_refs_reference [of ?recs minimum, OF _ m]
    by (simp add: compact_job_refs_def comp_def)
  then have refs: "refs = map (\<lambda>e. (job_id e, shortest_safe ?recs minimum (job_id e))) entries"
    by (simp add: comp_def)
  moreover have "distinct (map fst refs)" using assms(1) by (simp add: refs comp_def)
  ultimately have "map_of refs (job_id e) = Some (shortest_safe ?recs minimum (job_id e))"
    using assms(2) by (simp add: map_of_eq_Some_iff)
  then show ?thesis
    using shortest_safe_cases [OF m, of ?recs "job_id e"] resolve_safe [OF assms(1,2)] by auto
qed

section \<open>Concrete instances\<close>

text \<open>The ids end alike in four characters, and the shorter id is a suffix of the longer one.\<close>

definition colliding :: "(string \<times> string) list" where
  "colliding = [(''run_aabbcc'', ''r''), (''old_xabbcc'', ''o''), (''bcc'', ''s'')]"

theorem compact_refs_reference_witness:
  "compact_refs colliding 4 = Inr [(''run_aabbcc'', ''aabbcc''), (''old_xabbcc'', ''xabbcc''), (''bcc'', ''bcc'')]"
proof -
  have "compact_refs colliding 4 = Inr (map (\<lambda>r. (fst r, shortest_safe colliding 4 (fst r))) colliding)"
    by (rule compact_refs_reference) (simp_all add: colliding_def)
  moreover have "map (\<lambda>r. (fst r, shortest_safe colliding 4 (fst r))) colliding
      = [(''run_aabbcc'', ''aabbcc''), (''old_xabbcc'', ''xabbcc''), (''bcc'', ''bcc'')]"
    by code_simp
  ultimately show ?thesis by simp
qed

definition listed_rows :: "JobEntry list" where
  "listed_rows = [make_entry 1 ''run_aabbcc'' ''r'' ''c'' ''p'' ''n1'' False ''d'' ''s'' ''x'',
     make_entry 2 ''old_xabbcc'' ''o'' ''c'' ''p'' ''n1'' False ''d'' ''s'' ''x'']"

theorem compact_refs_resolve_witness:
  "\<exists>refs r. compact_job_refs listed_rows 4 = Inr refs \<and> map_of refs ''run_aabbcc'' = Some r
     \<and> (r = ''run_aabbcc'' \<or> nat 4 \<le> length r \<and> resolve_ref_against listed_rows r = (Some (listed_rows ! 0), []))"
proof -
  obtain refs where refs: "compact_job_refs listed_rows 4 = Inr refs"
    by (simp add: compact_job_refs_def compact_refs_def Let_def)
  have "distinct (map job_id listed_rows)" "listed_rows ! 0 \<in> set listed_rows" "job_id (listed_rows ! 0) = ''run_aabbcc''"
    by (simp_all add: listed_rows_def make_entry_def)
  with compact_refs_resolve [OF _ _ refs, of "listed_rows ! 0"] refs show ?thesis by auto
qed

end
