(* ===== verification/Queue_View.thy ===== *)
theory Queue_View
  imports Active_Index Scheduler_Facts
begin

text \<open>
  What the head derives from registry rows for admission and for display
  (\<open>src/dt/jobs/__init__.py\<close>): the quota count, the FIFO queue, the predecessors a queued job
  needs, the queue context of each job and the proof that no versioned row exists.

  The properties: a predecessor the registry can read is always found by the dependency
  check, the static node view contains every node the scheduler may select, contention counts
  are bounded by the queue position, and the verdict \<open>absent\<close> really is a proof about every row.
\<close>

section \<open>Quota and queue\<close>

text \<open>The count, the damage list after the call, and the disk.\<close>

definition quota_occupancy ::
  "bool \<Rightarrow> decoding \<Rightarrow> HeadConfig \<Rightarrow> JobEntry list option \<Rightarrow> RegistryDamage list \<Rightarrow> time \<Rightarrow> 'r world
   \<Rightarrow> (int \<times> RegistryDamage list) \<times> 'r world" where
  "quota_occupancy io dc cfg entries damage now w =
     (let ((rows, observed_damage), w') =
        (case entries of
           Some es \<Rightarrow> ((es, damage), w)
         | None \<Rightarrow> (let ((es, found), w1) = active_entries io dc cfg now True w in ((es, damage @ found), w1)))
      in ((int (count_if (occupies_quota now) rows) + int (length observed_damage), observed_damage), w'))"

definition running_count :: "bool \<Rightarrow> decoding \<Rightarrow> HeadConfig \<Rightarrow> time \<Rightarrow> 'r world \<Rightarrow> int \<times> 'r world" where
  "running_count io dc cfg now w =
     (let ((n, _), w') = quota_occupancy io dc cfg None [] now w in (n, w'))"

definition queued_entries :: "bool \<Rightarrow> decoding \<Rightarrow> HeadConfig \<Rightarrow> time \<Rightarrow> 'r world \<Rightarrow> JobEntry list \<times> 'r world" where
  "queued_entries io dc cfg now w =
     (let ((es, _), w') = active_entries io dc cfg now True w
      in (sort_key created_at (filter (\<lambda>e. status e = ''queued'') es), w'))"

section \<open>Predecessors\<close>

text \<open>One iteration of the inner loop: the set of known ids and the joined list.\<close>

definition add_predecessor ::
  "decoding \<Rightarrow> HeadConfig \<Rightarrow> 'r world \<Rightarrow> string option \<Rightarrow> string list \<times> JobEntry list \<Rightarrow> string list \<times> JobEntry list" where
  "add_predecessor dc cfg w dependency st =
     (let (known, joined) = st in
      case dependency of
        None \<Rightarrow> st
      | Some d \<Rightarrow>
          if d \<in> set known then st
          else (d # known,
                case load dc cfg d w of
                  Inr (Some predecessor) \<Rightarrow> joined @ [predecessor]
                | _ \<Rightarrow> joined))"

definition add_predecessors ::
  "decoding \<Rightarrow> HeadConfig \<Rightarrow> 'r world \<Rightarrow> JobEntry \<Rightarrow> string list \<times> JobEntry list \<Rightarrow> string list \<times> JobEntry list" where
  "add_predecessors dc cfg w e st =
     (if status e \<noteq> ''queued'' then st
      else fold (add_predecessor dc cfg w) [after_success e, after_complete e, after_result e] st)"

definition with_dependency_predecessors ::
  "decoding \<Rightarrow> HeadConfig \<Rightarrow> JobEntry list \<Rightarrow> 'r world \<Rightarrow> JobEntry list" where
  "with_dependency_predecessors dc cfg entries w =
     snd (fold (add_predecessors dc cfg w) entries (map job_id entries, entries))"

section \<open>Queue contexts\<close>

record QueueContext =
  qc_queue_position :: nat
  qc_queue_depth :: nat
  qc_queue_ahead_count :: nat
  qc_queue_head_job_id :: "string option"
  qc_queue_predecessor_job_id :: "string option"

definition fifo_queue :: "JobEntry list \<Rightarrow> JobEntry list" where
  "fifo_queue entries = sort_key created_at (filter (\<lambda>e. status e = ''queued'') entries)"

definition queue_contexts :: "JobEntry list \<Rightarrow> (string, QueueContext) dict" where
  "queue_contexts entries =
     (let queue = fifo_queue entries; depth = length queue;
          head = (if queue \<noteq> [] then Some (job_id (hd queue)) else None)
      in dict_of (map (\<lambda>(i, e). (job_id e,
           \<lparr>qc_queue_position = i + 1, qc_queue_depth = depth, qc_queue_ahead_count = i,
            qc_queue_head_job_id = head,
            qc_queue_predecessor_job_id = (if 0 < i then Some (job_id (queue ! (i - 1))) else None)\<rparr>))
         (enumerate_from 0 queue)))"

definition queue_eligible_nodes :: "HeadConfig \<Rightarrow> JobEntry \<Rightarrow> string list" where
  "queue_eligible_nodes cfg e =
     (let names = map nd_name (filter (\<lambda>n. \<not> nd_drained n) (cf_nodes cfg)) in
      case pin_node e of
        Some p \<Rightarrow> filter (\<lambda>nm. nm = p) names
      | None \<Rightarrow>
          (case exclude_nodes e of
             Some (x # xs) \<Rightarrow> filter (\<lambda>nm. nm \<notin> set (x # xs)) names
           | _ \<Rightarrow> names))"

record PlacementContext =
  pc_global_position :: nat
  pc_pinned_node :: "string option"
  pc_eligible_nodes :: "string list"
  pc_contention_position :: "nat option"
  pc_blocked_reason :: "string option"
  pc_last_attempt_at :: "time option"

definition queue_placement_contexts :: "HeadConfig \<Rightarrow> JobEntry list \<Rightarrow> (string, PlacementContext) dict" where
  "queue_placement_contexts cfg entries =
     (let queue = fifo_queue entries;
          eligible = dict_of (map (\<lambda>e. (job_id e, queue_eligible_nodes cfg e)) queue)
      in dict_of (map (\<lambda>(i, e).
           (let nodes = dict_get eligible (job_id e) [] in
            (job_id e,
             \<lparr>pc_global_position = i + 1, pc_pinned_node = pin_node e, pc_eligible_nodes = nodes,
              pc_contention_position =
                (if nodes \<noteq> []
                 then Some (1 + count_if (\<lambda>earlier. set nodes \<inter> set (dict_get eligible (job_id earlier) []) \<noteq> {})
                              (take i queue))
                 else None),
              pc_blocked_reason = reason e, pc_last_attempt_at = dispatch_claimed_at e\<rparr>)))
         (enumerate_from 0 queue)))"

section \<open>The schema of the stored rows\<close>

definition MAX_REGISTRY_AUTHORITY_PROBE_ROWS :: nat where "MAX_REGISTRY_AUTHORITY_PROBE_ROWS = 4096"

text \<open>One visible record: an early verdict, or the row is a legacy flat row (\<open>None\<close>).\<close>

definition authority_row :: "decoding \<Rightarrow> string \<Rightarrow> rfile \<Rightarrow> string option" where
  "authority_row dc nm f =
     (if \<not> valid_job_id (stem nm) then Some ''unproven''
      else case f of
        Doc raw mt \<Rightarrow>
          (case decode_registry_document (fst dc) (snd dc) (Some mt) (Some (stem nm)) True raw of
             Inl _ \<Rightarrow> Some ''unproven''
           | Inr _ \<Rightarrow>
               (case raw of
                  JObj d \<Rightarrow> if map_of d ''schema_version'' \<noteq> None then Some ''present'' else None
                | _ \<Rightarrow> None))
      | _ \<Rightarrow> Some ''unproven'')"

text \<open>The loop over a directory: the verdict that ends it, or the number of rows seen.\<close>

fun authority_rows :: "decoding \<Rightarrow> nat \<Rightarrow> (string, rfile) dict \<Rightarrow> string + nat" where
  "authority_rows dc observed [] = Inr observed"
| "authority_rows dc observed ((nm, f) # rest) =
     (if \<not> visible nm then authority_rows dc observed rest
      else if MAX_REGISTRY_AUTHORITY_PROBE_ROWS < observed + 1 then Inl ''unproven''
      else case authority_row dc nm f of
        Some verdict \<Rightarrow> Inl verdict
      | None \<Rightarrow> authority_rows dc (observed + 1) rest)"

fun authority_dirs :: "decoding \<Rightarrow> 'r world \<Rightarrow> nat \<Rightarrow> place list \<Rightarrow> string" where
  "authority_dirs dc w observed [] = ''absent''"
| "authority_dirs dc w observed (p # rest) =
     (case dirs w p of
        Absent \<Rightarrow> authority_dirs dc w observed rest
      | BadDir \<Rightarrow> ''unproven''
      | Dir _ fs \<Rightarrow>
          (case authority_rows dc observed fs of
             Inl verdict \<Rightarrow> verdict
           | Inr n \<Rightarrow> authority_dirs dc w n rest))"

definition registry_authority_schema_state :: "decoding \<Rightarrow> HeadConfig \<Rightarrow> 'r world \<Rightarrow> string" where
  "registry_authority_schema_state dc cfg w = authority_dirs dc w 0 (map fst (candidates cfg))"

section \<open>Predecessors are found\<close>

text \<open>
  The invariant of the loop: the joined list extends the input by rows the registry returned,
  every joined id is known, and a known id is joined unless the registry could not return it.
\<close>

definition pred_inv ::
  "decoding \<Rightarrow> HeadConfig \<Rightarrow> 'r world \<Rightarrow> JobEntry list \<Rightarrow> string list \<times> JobEntry list \<Rightarrow> bool" where
  "pred_inv dc cfg w entries st \<longleftrightarrow>
     (\<exists>extra. snd st = entries @ extra \<and> (\<forall>p \<in> set extra. load dc cfg (job_id p) w = Inr (Some p)))
     \<and> job_id ` set (snd st) \<subseteq> set (fst st)
     \<and> (\<forall>d \<in> set (fst st). d \<in> job_id ` set (snd st) \<or> (\<forall>p. load dc cfg d w \<noteq> Inr (Some p)))
     \<and> (distinct (map job_id entries) \<longrightarrow> distinct (map job_id (snd st)))"

lemma pred_inv_init: "pred_inv dc cfg w entries (map job_id entries, entries)"
  by (simp add: pred_inv_def)

lemma pred_inv_joined:
  "pred_inv dc cfg w entries st \<Longrightarrow> d \<in> set (fst st) \<Longrightarrow> load dc cfg d w = Inr (Some p) \<Longrightarrow> d \<in> job_id ` set (snd st)"
  by (auto simp: pred_inv_def)

lemma add_predecessor_inv:
  assumes "pred_inv dc cfg w entries st"
  shows "pred_inv dc cfg w entries (add_predecessor dc cfg w dep st)"
proof -
  obtain known joined where st: "st = (known, joined)" by (cases st)
  show ?thesis
  proof (cases "\<exists>d p. dep = Some d \<and> d \<notin> set known \<and> load dc cfg d w = Inr (Some p)")
    case True
    then obtain d p where d: "dep = Some d" "d \<notin> set known" "load dc cfg d w = Inr (Some p)" by blast
    have id: "job_id p = d" by (rule load_job_id [OF d(3)])
    have "add_predecessor dc cfg w dep st = (d # known, joined @ [p])"
      by (simp add: add_predecessor_def st d)
    then show ?thesis using assms d id by (auto simp: pred_inv_def st)
  next
    case False
    then have "add_predecessor dc cfg w dep st = st
        \<or> (\<exists>d. add_predecessor dc cfg w dep st = (d # known, joined) \<and> (\<forall>p. load dc cfg d w \<noteq> Inr (Some p)))"
      by (auto simp: add_predecessor_def st split: option.split sum.split)
    then show ?thesis
    proof
      assume "\<exists>d. add_predecessor dc cfg w dep st = (d # known, joined) \<and> (\<forall>p. load dc cfg d w \<noteq> Inr (Some p))"
      then obtain d where d: "add_predecessor dc cfg w dep st = (d # known, joined)" "\<forall>p. load dc cfg d w \<noteq> Inr (Some p)"
        by blast
      have "job_id ` set joined \<subseteq> set (d # known)" using assms by (simp add: pred_inv_def st) blast
      then show ?thesis using assms d(2) unfolding d(1) by (simp add: pred_inv_def st)
    qed (simp add: assms)
  qed
qed

lemma add_predecessors_inv:
  "pred_inv dc cfg w entries st \<Longrightarrow> pred_inv dc cfg w entries (add_predecessors dc cfg w e st)"
  by (simp add: add_predecessors_def add_predecessor_inv)

lemma fold_predecessors_inv:
  "pred_inv dc cfg w entries st \<Longrightarrow> pred_inv dc cfg w entries (fold (add_predecessors dc cfg w) es st)"
  by (induction es arbitrary: st) (simp_all add: add_predecessors_inv)

lemma add_predecessor_known:
  "set (fst st) \<subseteq> set (fst (add_predecessor dc cfg w dep st))"
  "dep = Some d \<Longrightarrow> d \<in> set (fst (add_predecessor dc cfg w dep st))"
  by (auto simp: add_predecessor_def split: option.split prod.split)

lemma add_predecessors_known:
  "x \<in> set (fst st) \<Longrightarrow> x \<in> set (fst (add_predecessors dc cfg w e st))"
  by (simp add: add_predecessors_def subsetD [OF add_predecessor_known(1)])

lemma fold_predecessors_known:
  "x \<in> set (fst st) \<Longrightarrow> x \<in> set (fst (fold (add_predecessors dc cfg w) es st))"
proof (induction es arbitrary: st)
  case (Cons e es)
  show ?case using Cons.IH [OF add_predecessors_known [OF Cons.prems]] by simp
qed simp

lemma own_predecessors_known:
  assumes "status e = ''queued''" and "Some d \<in> {after_success e, after_complete e, after_result e}"
  shows "d \<in> set (fst (add_predecessors dc cfg w e st))"
proof -
  let ?a = "add_predecessor dc cfg w"
  have "d \<in> set (fst (?a (after_result e) (?a (after_complete e) (?a (after_success e) st))))"
  proof -
    from assms(2) consider "after_success e = Some d" | "after_complete e = Some d" | "after_result e = Some d" by auto
    then show ?thesis
      by cases (intro subsetD [OF add_predecessor_known(1)] add_predecessor_known(2); assumption)+
  qed
  then show ?thesis using assms(1) by (simp add: add_predecessors_def)
qed

lemma all_predecessors_known:
  assumes "e \<in> set es" and "status e = ''queued''" and "Some d \<in> {after_success e, after_complete e, after_result e}"
  shows "d \<in> set (fst (fold (add_predecessors dc cfg w) es st))"
proof -
  obtain xs ys where es: "es = xs @ e # ys" using assms(1) by (meson split_list)
  let ?st = "fold (add_predecessors dc cfg w) xs st"
  have "d \<in> set (fst (add_predecessors dc cfg w e ?st))"
    using assms(2,3) by (rule own_predecessors_known)
  then have "d \<in> set (fst (fold (add_predecessors dc cfg w) ys (add_predecessors dc cfg w e ?st)))"
    by (rule fold_predecessors_known)
  then show ?thesis by (simp add: es)
qed

lemma rows_by_id_lookup: "map_of (rows_by_id es) d = None \<longleftrightarrow> d \<notin> job_id ` set es"
  by (simp add: rows_by_id_def map_of_dict_of map_of_eq_None_iff image_image)

lemma dependency_missing:
  assumes "dependency_state e by_id = Some wt" and "fst wt = ''blocked_dependency_missing''"
  shows "\<exists>d. Some d \<in> {after_success e, after_complete e, after_result e} \<and> map_of by_id d = None"
  using assms by (auto simp: dependency_state_def split: option.splits if_splits)

text \<open>
  A finished predecessor is never reported missing: after \<open>with_dependency_predecessors\<close>, a
  queued job whose predecessors the registry can load is never explained as
  \<open>blocked_dependency_missing\<close>, although the active index has dropped their terminal rows. The
  joined list is the input followed by rows exactly as loaded, and no id appears twice.
\<close>

theorem predecessors_found:
  assumes "e \<in> set entries" and "status e = ''queued''" and "distinct (map job_id entries)"
    and "\<forall>d. Some d \<in> {after_success e, after_complete e, after_result e} \<longrightarrow> (\<exists>p. load dc cfg d w = Inr (Some p))"
  shows "(\<forall>wt. dependency_state e (rows_by_id (with_dependency_predecessors dc cfg entries w)) = Some wt
            \<longrightarrow> fst wt \<noteq> ''blocked_dependency_missing'')
    \<and> (\<exists>extra. with_dependency_predecessors dc cfg entries w = entries @ extra
          \<and> (\<forall>p \<in> set extra. load dc cfg (job_id p) w = Inr (Some p)))
    \<and> distinct (map job_id (with_dependency_predecessors dc cfg entries w))"
proof -
  let ?st = "fold (add_predecessors dc cfg w) entries (map job_id entries, entries)"
  have inv: "pred_inv dc cfg w entries ?st" by (rule fold_predecessors_inv [OF pred_inv_init])
  have "d \<in> job_id ` set (snd ?st)" if d: "Some d \<in> {after_success e, after_complete e, after_result e}" for d
  proof -
    obtain p where "load dc cfg d w = Inr (Some p)" using assms(4) d by blast
    with inv all_predecessors_known [OF assms(1,2) d] show ?thesis by (rule pred_inv_joined)
  qed
  then have "\<forall>wt. dependency_state e (rows_by_id (snd ?st)) = Some wt \<longrightarrow> fst wt \<noteq> ''blocked_dependency_missing''"
    using dependency_missing [of e "rows_by_id (snd ?st)"] rows_by_id_lookup [of "snd ?st"] by blast
  then show ?thesis
    using inv assms(3) by (simp add: with_dependency_predecessors_def pred_inv_def)
qed

section \<open>The static views\<close>

lemma eligible_static:
  assumes "eligible cfg excluded e nd" and "\<forall>ns. exclude_nodes e = Some ns \<longrightarrow> set ns \<subseteq> set excluded"
  shows "nd \<in> set (queue_eligible_nodes cfg e)"
  using assms
  by (cases "pin_node e"; cases "exclude_nodes e" rule: option.exhaust)
     (auto simp: eligible_def queue_eligible_nodes_def Let_def node_names_def drained_names_def split: list.split)

text \<open>
  The static queue view agrees with the scheduler: whatever node the forecast selects for
  a row, also with further nodes excluded for earlier pinned waiters, is one of the eligible
  nodes the queue view lists for that row.
\<close>

theorem selected_node_eligible:
  assumes "capacity_state cfg e capacity ((case exclude_nodes e of None \<Rightarrow> [] | Some ns \<Rightarrow> ns) @ busy)
      = ((''runnable'', rsn, cond), sel)"
  shows "\<exists>nd. sel = Some nd \<and> nd \<in> set (queue_eligible_nodes cfg e)"
proof -
  obtain c nd where "sel = Some nd" "eligible cfg ((case exclude_nodes e of None \<Rightarrow> [] | Some ns \<Rightarrow> ns) @ busy) e nd"
    using capacity_runnableE [OF assms] by metis
  then show ?thesis using eligible_static by fastforce
qed

lemma count_if_take_zero: "count_if p (take i xs) = 0 \<longleftrightarrow> (\<forall>j < i. j < length xs \<longrightarrow> \<not> p (xs ! j))"
  by (auto simp: count_if_zero all_set_conv_all_nth)

lemma map_of_enumerated:
  assumes "distinct (map job_id q)" and "i < length q"
  shows "map_of (dict_of (map (\<lambda>(i, e). (job_id e, f i e)) (enumerate_from 0 q))) (job_id (q ! i)) = Some (f i (q ! i))"
proof -
  let ?ps = "map (\<lambda>(i, e). (job_id e, f i e)) (enumerate_from 0 q)"
  have "map (job_id \<circ> snd) (enumerate_from 0 q) = map job_id q"
    unfolding map_map [symmetric] map_snd_enumerate_from ..
  then have ids: "map fst ?ps = map job_id q" by (simp add: comp_def split_beta)
  have "?ps ! i = (job_id (q ! i), f i (q ! i))" using assms(2) by simp
  then have "(job_id (q ! i), f i (q ! i)) \<in> set ?ps"
    using assms(2) by (metis length_enumerate_from length_map nth_mem)
  then show ?thesis using assms(1) ids by (simp add: map_of_dict_of_distinct)
qed

lemma fifo_distinct: "distinct (map job_id entries) \<Longrightarrow> distinct (map job_id (fifo_queue entries))"
  by (auto simp: fifo_queue_def distinct_map intro: inj_on_subset)

text \<open>
  The contention position is a position: for the \<open>i\<close>-th job of the FIFO queue it lies
  between 1 and the global position \<open>i + 1\<close>, it is absent exactly when no configured node is
  eligible, and it is 1 exactly when no earlier queued job shares an eligible node.
\<close>

theorem contention_position_bounds:
  assumes "distinct (map job_id entries)" and "i < length (fifo_queue entries)"
  shows "\<exists>pc. map_of (queue_placement_contexts cfg entries) (job_id (fifo_queue entries ! i)) = Some pc
    \<and> pc_global_position pc = i + 1
    \<and> (pc_contention_position pc = None \<longleftrightarrow> queue_eligible_nodes cfg (fifo_queue entries ! i) = [])
    \<and> (\<forall>k. pc_contention_position pc = Some k \<longrightarrow> 1 \<le> k \<and> k \<le> i + 1
          \<and> (k = 1 \<longleftrightarrow> (\<forall>j < i. set (queue_eligible_nodes cfg (fifo_queue entries ! i))
                              \<inter> set (queue_eligible_nodes cfg (fifo_queue entries ! j)) = {})))"
proof -
  let ?q = "fifo_queue entries" and ?nodes = "queue_eligible_nodes cfg"
  have dist: "distinct (map job_id ?q)" by (rule fifo_distinct [OF assms(1)])
  define eligible_of where "eligible_of = dict_of (map (\<lambda>e. (job_id e, ?nodes e)) ?q)"
  have get: "dict_get eligible_of (job_id (?q ! j)) [] = ?nodes (?q ! j)" if "j < length ?q" for j
  proof -
    have "map_of eligible_of = map_of (map (\<lambda>e. (job_id e, ?nodes e)) ?q)"
      unfolding eligible_of_def using dist by (intro map_of_dict_of_distinct) (simp add: comp_def)
    moreover have "map_of (map (\<lambda>e. (job_id e, ?nodes e)) ?q) (job_id (?q ! j)) = Some (?nodes (?q ! j))"
      using dist that by (intro map_of_is_SomeI) (auto simp: comp_def)
    ultimately show ?thesis by (simp add: dict_get_def)
  qed
  define p where "p = (\<lambda>earlier :: JobEntry. set (?nodes (?q ! i)) \<inter> set (dict_get eligible_of (job_id earlier) []) \<noteq> {})"
  have none: "count_if p (take i ?q) = 0 \<longleftrightarrow> (\<forall>j < i. set (?nodes (?q ! i)) \<inter> set (?nodes (?q ! j)) = {})"
    using assms(2) get by (auto simp: count_if_take_zero p_def)
  have le: "count_if p (take i ?q) \<le> i" using count_if_le_length [of p "take i ?q"] by simp
  show ?thesis
    unfolding queue_placement_contexts_def Let_def eligible_of_def [symmetric]
    using none le by (subst map_of_enumerated [OF dist assms(2)]) (simp add: get [OF assms(2)] p_def [symmetric])
qed

section \<open>No versioned row\<close>

lemma authority_row_not_absent: "authority_row dc nm f \<noteq> Some ''absent''"
  by (auto simp: authority_row_def split: rfile.splits sum.splits json.splits)

lemma authority_rows_not_absent: "authority_rows dc n fs \<noteq> Inl ''absent''"
  by (induction dc n fs rule: authority_rows.induct) (auto simp: authority_row_not_absent split: option.split)

lemma authority_rows_all:
  "authority_rows dc n fs = Inr m \<Longrightarrow> (nm, f) \<in> set fs \<Longrightarrow> visible nm \<Longrightarrow> authority_row dc nm f = None"
  by (induction dc n fs rule: authority_rows.induct) (auto split: if_splits option.splits)

lemma authority_dirs_absent:
  assumes "authority_dirs dc w n ps = ''absent''" and "p \<in> set ps"
  shows "dirs w p \<noteq> BadDir \<and> (\<forall>(nm, f) \<in> set (files_of w p). visible nm \<longrightarrow> authority_row dc nm f = None)"
  using assms
proof (induction ps arbitrary: n)
  case (Cons q ps)
  show ?case
  proof (cases "dirs w q")
    case (Dir st fs)
    then obtain m where m: "authority_rows dc n fs = Inr m"
      using Cons.prems(1) authority_rows_not_absent [of dc n fs] by (auto split: sum.splits)
    then have "p \<noteq> q \<Longrightarrow> ?thesis" using Cons Dir by simp
    moreover have "p = q \<Longrightarrow> ?thesis"
      using authority_rows_all [OF m] Dir by (auto simp: files_of_def)
    ultimately show ?thesis by blast
  qed (use Cons in \<open>auto simp: files_of_def\<close>)
qed simp

text \<open>
  \<open>absent\<close> is a proof: when \<open>registry_authority_schema_state\<close> answers \<open>absent\<close>, no registry
  directory is unsafe and every visible record of both directories is well-formed JSON that
  decodes under its own id as a flat legacy row without \<open>schema_version\<close>. An unreadable,
  foreign or versioned row can therefore never authorise an older reader.
\<close>

theorem authority_absent_sound:
  assumes "registry_authority_schema_state dc cfg w = ''absent''"
    and "p \<in> set (map fst (candidates cfg))" and "(nm, f) \<in> set (files_of w p)" and "visible nm"
  shows "\<exists>raw mt e. f = Doc raw mt \<and> valid_job_id (stem nm)
    \<and> decode_registry_document (fst dc) (snd dc) (Some mt) (Some (stem nm)) True raw = Inr e
    \<and> (\<forall>d. raw = JObj d \<longrightarrow> map_of d ''schema_version'' = None)"
proof -
  have "authority_row dc nm f = None"
    using authority_dirs_absent [OF assms(1) [unfolded registry_authority_schema_state_def] assms(2)] assms(3,4) by blast
  then show ?thesis by (auto simp: authority_row_def split: if_splits rfile.splits sum.splits json.splits)
qed

section \<open>Concrete instances\<close>

text \<open>A queued job whose predecessor is the row of the sample registry.\<close>

definition dependent_job :: JobEntry where
  "dependent_job = (queued_job ''b'' 2 1)\<lparr>after_success := Some (job_id sample_entry)\<rparr>"

theorem predecessors_found_witness:
  "map_option fst (dependency_state dependent_job
       (rows_by_id (with_dependency_predecessors (\<lambda>_. [], 9) sample_config [dependent_job] sample_world)))
     \<noteq> Some ''blocked_dependency_missing''"
proof -
  have deps: "after_success dependent_job = Some (job_id sample_entry)" "after_complete dependent_job = None"
    "after_result dependent_job = None" "status dependent_job = ''queued''"
    by (simp_all add: dependent_job_def queued_job_def make_entry_def)
  show ?thesis
    using predecessors_found [of dependent_job "[dependent_job]" "(\<lambda>_. [], 9)" sample_config sample_world] deps sample_load
    by auto
qed

theorem selected_node_eligible_witness:
  "\<exists>nd. Some ''n2'' = Some nd \<and> nd \<in> set (queue_eligible_nodes lab (queued_job ''b'' 2 1))"
proof -
  have none: "exclude_nodes (queued_job ''b'' 2 1) = None" by (simp add: queued_job_def make_entry_def)
  have st: "fst (fst (capacity_state lab (queued_job ''b'' 2 1) (Some lab_capacity) [''n1''])) = ''runnable''"
    "snd (capacity_state lab (queued_job ''b'' 2 1) (Some lab_capacity) [''n1'']) = Some ''n2''"
    by code_simp+
  obtain rsn cond where "capacity_state lab (queued_job ''b'' 2 1) (Some lab_capacity) [''n1''] = ((''runnable'', rsn, cond), Some ''n2'')"
    using st by (metis prod.collapse)
  then show ?thesis
    using selected_node_eligible [of lab "queued_job ''b'' 2 1" "Some lab_capacity" "[''n1'']"] none by simp
qed

theorem contention_position_bounds_witness:
  "\<exists>pc. map_of (queue_placement_contexts lab lab_rows) ''b'' = Some pc \<and> pc_global_position pc = 2"
proof -
  have "distinct (map job_id lab_rows)" "1 < length (fifo_queue lab_rows)" "job_id (fifo_queue lab_rows ! 1) = ''b''"
    by (simp_all add: lab_rows_def fifo_queue_def queued_job_def make_entry_def)
  with contention_position_bounds [of lab_rows 1 lab] show ?thesis by auto
qed

definition flat_world :: "unit world" where
  "flat_world = \<lparr>dirs = (\<lambda>p. case p of
      LegacyPlace \<Rightarrow> Dir fresh_stat [(record_name (job_id sample_entry), Doc (JObj (document_of sample_entry)) 8)]
    | RolePlace \<Rightarrow> Absent), index = None, replicas = ()\<rparr>"

theorem authority_absent_sound_witness:
  "registry_authority_schema_state (\<lambda>_. [], 9) sample_config flat_world = ''absent''
   \<and> valid_job_id (stem (record_name (job_id sample_entry)))"
proof -
  have vis: "visible (record_name (job_id sample_entry))"
    by (simp add: visible_def record_name_def sample_entry_def make_entry_def startswith_def endswith_def)
  have "map_of (document_of sample_entry) ''schema_version'' = None"
    by (simp add: map_of_document ENTRY_FIELDS_def)
  then have row: "authority_row (\<lambda>_. [], 9) (record_name (job_id sample_entry)) (Doc (JObj (document_of sample_entry)) 8) = None"
    using sample_id sample_decodes by (simp add: authority_row_def)
  have st: "registry_authority_schema_state (\<lambda>_. [], 9) sample_config flat_world = ''absent''"
    using row vis
    by (simp add: registry_authority_schema_state_def candidates_def registry_path_def sample_config_def ROLE_LAYOUT_def
        flat_world_def MAX_REGISTRY_AUTHORITY_PROBE_ROWS_def)
  have "LegacyPlace \<in> set (map fst (candidates sample_config))"
    by (simp add: candidates_def)
  from authority_absent_sound [OF st this _ vis] st show ?thesis by (simp add: flat_world_def files_of_def)
qed

end
