(* ===== verification/Route_Health.thy ===== *)
theory Route_Health
  imports Job_Codec
begin

text \<open>
  The persistent circuit breaker of a direct artifact route (\<open>src/dt/route_health.py\<close>): one small
  JSON file per edge, read and rewritten under a per-edge lock by short-lived processes.

  \<open>circuits\<close> maps an edge's key to what the bounded reader finds in its file. An operation returns
  the new files and either the raised message or its result: reading may already have rebased
  the stored times after a wall-clock rollback before a later step fails. \<open>circuit_env\<close> holds what
  one call takes from its surroundings: the outcome of taking the lock, the clock, the jitter
  sample, the fresh reservation token, whether the write reaches the disk and the float printer.

  \<open>sha256\<close> is a parameter. Floats are exact rationals; the comparison of reservation tokens is
  plain equality.
\<close>

section \<open>State\<close>

definition SCHEMA_VERSION :: string where "SCHEMA_VERSION = ''dt_route_health_v2''"
definition LEGACY_SCHEMA_VERSION :: string where "LEGACY_SCHEMA_VERSION = ''dt_route_health_v1''"
definition MAX_STATE_BYTES :: nat where "MAX_STATE_BYTES = 4096"
definition MAX_FAILURES :: int where "MAX_FAILURES = 64"

record RouteCircuitState =
  rc_schema_version :: string
  rc_key_digest :: string
  rc_failures :: int
  rc_open_until :: time
  rc_last_failure_at :: time
  rc_last_kind :: string
  rc_updated_at :: time
  rc_reservation_token :: "string option"

record RouteCircuitDecision =
  rd_is_open :: bool
  rd_retry_after_s :: time
  rd_failures :: int
  rd_last_kind :: "string option"
  rd_reservation_token :: "string option"

record Site =
  site_name :: string
  route_circuit_failures :: int
  route_circuit_cooldown_s :: time
  route_circuit_max_cooldown_s :: time

text \<open>\<open>[a-z][a-z0-9_.-]{0,63}\<close>.\<close>

definition kind_ok :: "string \<Rightarrow> bool" where
  "kind_ok s \<longleftrightarrow> s \<noteq> [] \<and> length s \<le> 64 \<and> is_ascii_lower (hd s)
     \<and> (\<forall>c \<in> set s. is_ascii_lower c \<or> is_ascii_digit c \<or> c \<in> set ''_.-'')"

definition route_key :: "(string \<Rightarrow> string) \<Rightarrow> Site \<Rightarrow> string \<Rightarrow> string \<Rightarrow> string" where
  "route_key sha256 site source destination =
     sha256 (dumps_compact (\<lambda>_. []) (JList [JStr (site_name site), JStr source, JStr destination]))"

definition legacy_fields :: "string list" where
  "legacy_fields = [''schema_version'', ''key_digest'', ''failures'', ''open_until'', ''last_failure_at'',
     ''last_kind'', ''updated_at'']"

definition current_fields :: "string list" where
  "current_fields = legacy_fields @ [''reservation_token'']"

fun circuit_times :: "(string, json) dict \<Rightarrow> string list \<Rightarrow> string + time list" where
  "circuit_times d [] = Inr []"
| "circuit_times d (nm # rest) =
     (let v = json_get d nm in
      if \<not> is_number v then Inl (''route circuit '' @ nm @ '' is invalid'')
      else bind_ok (finite_float v) (\<lambda>fin.
        if \<not> fin \<or> num_of v < 0 then Inl (''route circuit '' @ nm @ '' is invalid'')
        else bind_ok (circuit_times d rest) (\<lambda>ts. Inr (num_of v # ts))))"

definition validate_state :: "json \<Rightarrow> string \<Rightarrow> string + RouteCircuitState" where
  "validate_state raw expected =
     (case raw of
        JObj d \<Rightarrow>
          let present = set (keys d); schema = json_get d ''schema_version'';
              failures = json_get d ''failures''; kind = json_get d ''last_kind'';
              token = json_get d ''reservation_token'' in
          if present \<noteq> set legacy_fields \<and> present \<noteq> set current_fields
          then Inl ''route circuit state has an invalid schema''
          else bind_ok (in_text_set schema [SCHEMA_VERSION, LEGACY_SCHEMA_VERSION]) (\<lambda>known.
          if \<not> known
          then Inl ''route circuit state has an unsupported version''
          else if schema = JStr SCHEMA_VERSION \<and> present \<noteq> set current_fields
          then Inl ''route circuit state has an invalid schema''
          else if schema = JStr LEGACY_SCHEMA_VERSION \<and> present \<noteq> set legacy_fields
          then Inl ''route circuit state has an invalid schema''
          else if json_get d ''key_digest'' \<noteq> JStr expected
          then Inl ''route circuit state key does not match its path''
          else if \<not> is_JInt failures \<or> \<not> (0 \<le> int_of failures \<and> int_of failures \<le> MAX_FAILURES)
          then Inl ''route circuit failure count is invalid''
          else if \<not> is_JStr kind \<or> \<not> kind_ok (str_of kind)
          then Inl ''route circuit failure kind is invalid''
          else if token \<noteq> JNull \<and> (\<not> is_JStr token \<or> \<not> is_hex 32 (str_of token))
          then Inl ''route circuit reservation token is invalid''
          else bind_ok (circuit_times d [''open_until'', ''last_failure_at'', ''updated_at'']) (\<lambda>ts. Inr
            \<lparr>rc_schema_version = SCHEMA_VERSION, rc_key_digest = expected, rc_failures = int_of failures,
             rc_open_until = ts ! 0, rc_last_failure_at = ts ! 1, rc_last_kind = str_of kind,
             rc_updated_at = ts ! 2, rc_reservation_token = opt_of str_of token\<rparr>))
      | _ \<Rightarrow> Inl ''route circuit state has an invalid schema'')"

text \<open>\<open>json.dumps(asdict(state), sort_keys=True)\<close> as a document.\<close>

definition state_json :: "RouteCircuitState \<Rightarrow> json" where
  "state_json s = JObj [
     (''failures'', JInt (rc_failures s)),
     (''key_digest'', JStr (rc_key_digest s)),
     (''last_failure_at'', JFloat (Fin (rc_last_failure_at s))),
     (''last_kind'', JStr (rc_last_kind s)),
     (''open_until'', JFloat (Fin (rc_open_until s))),
     (''reservation_token'', json_opt JStr (rc_reservation_token s)),
     (''schema_version'', JStr (rc_schema_version s)),
     (''updated_at'', JFloat (Fin (rc_updated_at s)))]"

section \<open>Files\<close>

datatype slot = UnsafeFile | OversizedFile | MalformedFile | StateFile json

type_synonym circuits = "string \<Rightarrow> slot option"

text \<open>A publication: complete, not done at all, or in place with its directory not synced.\<close>

datatype write_io = Written | NotWritten | Unsynced

record circuit_env =
  ce_lock :: check
  ce_clock :: pyfloat
  ce_jitter :: pyfloat
  ce_token :: string
  ce_io :: write_io
  ce_float_repr :: "rat \<Rightarrow> string"

definition read_circuit :: "circuits \<Rightarrow> string \<Rightarrow> string + RouteCircuitState option" where
  "read_circuit st key =
     (case st key of
        None \<Rightarrow> Inr None
      | Some UnsafeFile \<Rightarrow> Inl ''route circuit state is unsafe''
      | Some OversizedFile \<Rightarrow> Inl ''route circuit state is not a bounded file''
      | Some MalformedFile \<Rightarrow> Inl ''route circuit state is malformed''
      | Some (StateFile raw) \<Rightarrow> bind_ok (validate_state raw key) (\<lambda>s. Inr (Some s)))"

definition write_circuit :: "circuit_env \<Rightarrow> string \<Rightarrow> RouteCircuitState \<Rightarrow> circuits \<Rightarrow> circuits \<times> check" where
  "write_circuit env key s st =
     (if MAX_STATE_BYTES < length (dumps_compact (ce_float_repr env) (state_json s)) + 1
      then (st, Some ''route circuit state exceeds its size limit'')
      else case ce_io env of
        NotWritten \<Rightarrow> (st, Some ''route circuit state cannot be published'')
      | Unsynced \<Rightarrow> (st(key \<mapsto> StateFile (state_json s)), Some ''route circuit state cannot be published'')
      | Written \<Rightarrow> (st(key \<mapsto> StateFile (state_json s)), None))"

definition wall_now :: "circuit_env \<Rightarrow> string + time" where
  "wall_now env =
     (case ce_clock env of
        Fin t \<Rightarrow> if t < 0 then Inl ''route circuit clock returned an invalid time'' else Inr t
      | _ \<Rightarrow> Inl ''route circuit clock returned an invalid time'')"

definition rebase :: "time \<Rightarrow> RouteCircuitState \<Rightarrow> RouteCircuitState" where
  "rebase now s =
     (let rollback = rc_updated_at s - now in
      s\<lparr>rc_schema_version := SCHEMA_VERSION, rc_open_until := max 0 (rc_open_until s - rollback),
        rc_last_failure_at := max 0 (rc_last_failure_at s - rollback), rc_updated_at := now\<rparr>)"

definition current_state ::
  "circuit_env \<Rightarrow> string \<Rightarrow> circuits \<Rightarrow> circuits \<times> (string + RouteCircuitState option \<times> time)" where
  "current_state env key st =
     (case read_circuit st key of
        Inl m \<Rightarrow> (st, Inl m)
      | Inr state \<Rightarrow>
      case wall_now env of
        Inl m \<Rightarrow> (st, Inl m)
      | Inr now \<Rightarrow>
      case state of
        None \<Rightarrow> (st, Inr (None, now))
      | Some s \<Rightarrow>
          if rc_updated_at s \<le> now then (st, Inr (Some s, now))
          else case write_circuit env key (rebase now s) st of
            (st', Some m) \<Rightarrow> (st', Inl m)
          | (st', None) \<Rightarrow> (st', Inr (Some (rebase now s), now)))"

definition cooldown :: "circuit_env \<Rightarrow> time \<Rightarrow> time \<Rightarrow> time" where
  "cooldown env v maximum =
     (let sample = (case ce_jitter env of Fin x \<Rightarrow> x | _ \<Rightarrow> 1 / 2); clamped = min 1 (max 0 sample) in
      min maximum (max 0 (v * (9 / 10 + 1 / 5 * clamped))))"

section \<open>Operations\<close>

definition circuit_decision :: "RouteCircuitState option \<Rightarrow> time \<Rightarrow> time \<Rightarrow> RouteCircuitDecision" where
  "circuit_decision state now maximum =
     (case state of
        None \<Rightarrow> \<lparr>rd_is_open = False, rd_retry_after_s = 0, rd_failures = 0, rd_last_kind = None, rd_reservation_token = None\<rparr>
      | Some s \<Rightarrow>
          let retry_after = min maximum (max 0 (rc_open_until s - now)) in
          \<lparr>rd_is_open = (0 < retry_after), rd_retry_after_s = retry_after, rd_failures = rc_failures s,
           rd_last_kind = Some (rc_last_kind s), rd_reservation_token = None\<rparr>)"

text \<open>Every operation first takes the edge's lock and reads the (rebased) state.\<close>

definition locked ::
  "circuit_env \<Rightarrow> string \<Rightarrow> (RouteCircuitState option \<Rightarrow> time \<Rightarrow> circuits \<Rightarrow> circuits \<times> (string + 'a))
   \<Rightarrow> circuits \<Rightarrow> circuits \<times> (string + 'a)" where
  "locked env key body st =
     (case ce_lock env of
        Some m \<Rightarrow> (st, Inl m)
      | None \<Rightarrow>
          (case current_state env key st of
             (st1, Inl m) \<Rightarrow> (st1, Inl m)
           | (st1, Inr (state, now)) \<Rightarrow> body state now st1))"

definition publish ::
  "circuit_env \<Rightarrow> string \<Rightarrow> RouteCircuitState \<Rightarrow> 'a \<Rightarrow> circuits \<Rightarrow> circuits \<times> (string + 'a)" where
  "publish env key s result st =
     (case write_circuit env key s st of (st', Some m) \<Rightarrow> (st', Inl m) | (st', None) \<Rightarrow> (st', Inr result))"

definition ladder :: "circuit_env \<Rightarrow> Site \<Rightarrow> int \<Rightarrow> time" where
  "ladder env site steps =
     cooldown env (min (route_circuit_cooldown_s site * 2 ^ nat (min steps MAX_FAILURES)) (route_circuit_max_cooldown_s site))
       (route_circuit_max_cooldown_s site)"

definition decision ::
  "circuit_env \<Rightarrow> Site \<Rightarrow> string \<Rightarrow> circuits \<Rightarrow> circuits \<times> (string + RouteCircuitDecision)" where
  "decision env site key =
     locked env key (\<lambda>state now st.
       let d = circuit_decision state now (route_circuit_max_cooldown_s site) in
       case state of
         None \<Rightarrow> (st, Inr d)
       | Some s \<Rightarrow>
           if rd_is_open d \<or> rc_failures s < route_circuit_failures site then (st, Inr d)
           else
             let window = ladder env site (max 0 (rc_failures s - route_circuit_failures site)) in
             publish env key
               (s\<lparr>rc_schema_version := SCHEMA_VERSION, rc_key_digest := key, rc_open_until := now + window,
                  rc_updated_at := now, rc_reservation_token := Some (ce_token env)\<rparr>)
               \<lparr>rd_is_open = False, rd_retry_after_s = 0, rd_failures = rc_failures s,
                rd_last_kind = Some (rc_last_kind s), rd_reservation_token = Some (ce_token env)\<rparr> st)"

definition hmac_compare :: "string \<Rightarrow> string option \<Rightarrow> bool" where
  "hmac_compare expected observed \<longleftrightarrow> observed = Some expected"

definition record_success ::
  "circuit_env \<Rightarrow> Site \<Rightarrow> string \<Rightarrow> string option \<Rightarrow> circuits \<Rightarrow> circuits \<times> (string + unit)" where
  "record_success env site key token =
     locked env key (\<lambda>prior now st.
       case prior of
         None \<Rightarrow> (st, Inr ())
       | Some p \<Rightarrow>
           if (case token of
                 Some _ \<Rightarrow> (case rc_reservation_token p of None \<Rightarrow> True | Some r \<Rightarrow> \<not> hmac_compare r token)
               | None \<Rightarrow> rc_reservation_token p \<noteq> None)
           then (st, Inr ())
           else if rc_failures p = 0 \<and> rc_open_until p = 0 \<and> rc_last_kind p = ''success'' then (st, Inr ())
           else publish env key
                  \<lparr>rc_schema_version = SCHEMA_VERSION, rc_key_digest = key, rc_failures = 0, rc_open_until = 0,
                   rc_last_failure_at = 0, rc_last_kind = ''success'', rc_updated_at = now, rc_reservation_token = None\<rparr> () st)"

definition release_reservation ::
  "circuit_env \<Rightarrow> Site \<Rightarrow> string \<Rightarrow> string option \<Rightarrow> circuits \<Rightarrow> circuits \<times> (string + unit)" where
  "release_reservation env site key token =
     locked env key (\<lambda>prior now st.
       case prior of
         None \<Rightarrow> (st, Inr ())
       | Some p \<Rightarrow>
           if (case rc_reservation_token p of None \<Rightarrow> True | Some r \<Rightarrow> \<not> hmac_compare r token)
              \<or> rc_failures p < route_circuit_failures site
              \<or> rc_open_until p \<le> now \<or> rc_updated_at p \<le> rc_last_failure_at p
           then (st, Inr ())
           else publish env key
                  (p\<lparr>rc_schema_version := SCHEMA_VERSION, rc_key_digest := key, rc_open_until := 0,
                     rc_updated_at := now, rc_reservation_token := None\<rparr>) () st)"

definition next_failures :: "Site \<Rightarrow> RouteCircuitState option \<Rightarrow> time \<Rightarrow> int" where
  "next_failures site prior now =
     (case prior of
        Some p \<Rightarrow>
          if 0 < rc_failures p
             \<and> now - max (rc_last_failure_at p) (rc_open_until p) \<le> route_circuit_max_cooldown_s site
          then min (rc_failures p + 1) MAX_FAILURES else 1
      | None \<Rightarrow> 1)"

text \<open>The state after a failure that counts.\<close>

definition failure_state :: "circuit_env \<Rightarrow> Site \<Rightarrow> string \<Rightarrow> string \<Rightarrow> RouteCircuitState option \<Rightarrow> time \<Rightarrow> RouteCircuitState" where
  "failure_state env site key kind prior now =
     (let safe_kind = (if kind_ok kind then kind else ''unclassified'');
          failures = next_failures site prior now;
          open_for = (if route_circuit_failures site \<le> failures
                      then ladder env site (failures - route_circuit_failures site) else 0)
      in \<lparr>rc_schema_version = SCHEMA_VERSION, rc_key_digest = key, rc_failures = failures,
          rc_open_until = now + open_for, rc_last_failure_at = now, rc_last_kind = safe_kind,
          rc_updated_at = now, rc_reservation_token = None\<rparr>)"

definition record_failure ::
  "circuit_env \<Rightarrow> Site \<Rightarrow> string \<Rightarrow> string \<Rightarrow> string option \<Rightarrow> circuits \<Rightarrow> circuits \<times> (string + RouteCircuitDecision)" where
  "record_failure env site key kind token =
     locked env key (\<lambda>prior now st.
       let held = (case prior of None \<Rightarrow> None | Some p \<Rightarrow> rc_reservation_token p);
           stale = (token \<noteq> None \<and> (case held of None \<Rightarrow> True | Some r \<Rightarrow> \<not> hmac_compare r token));
           reserved_by_another = (token = None \<and> held \<noteq> None) in
       if stale \<or> reserved_by_another
       then (st, Inr (circuit_decision prior now (route_circuit_max_cooldown_s site)))
       else
         let s = failure_state env site key kind prior now
         in publish env key s (circuit_decision (Some s) now (route_circuit_max_cooldown_s site)) st)"

end
