(* ===== verification/Route_Facts.thy ===== *)
theory Route_Facts
  imports Route_Health Codec_Round_Trip
begin

text \<open>
  Correctness of the route circuit: its files are always readable by the next process, a
  half-open trial has one owner for the whole of its window, and every cooldown stays within
  the configured bounds.
\<close>

section \<open>Well-formed states\<close>

definition wf_state :: "string \<Rightarrow> RouteCircuitState \<Rightarrow> bool" where
  "wf_state key s \<longleftrightarrow>
     rc_schema_version s = SCHEMA_VERSION \<and> rc_key_digest s = key
     \<and> 0 \<le> rc_failures s \<and> rc_failures s \<le> MAX_FAILURES \<and> kind_ok (rc_last_kind s)
     \<and> pred_option (is_hex 32) (rc_reservation_token s)
     \<and> 0 \<le> rc_open_until s \<and> 0 \<le> rc_last_failure_at s \<and> 0 \<le> rc_updated_at s"

lemma field_sets:
  "set [''failures'', ''key_digest'', ''last_failure_at'', ''last_kind'', ''open_until'', ''reservation_token'', ''schema_version'', ''updated_at'']
     = set current_fields"
  "set current_fields \<noteq> set legacy_fields"
  by code_simp+

lemma validate_state_json:
  assumes "wf_state key s"
  shows "validate_state (state_json s) key = Inr s"
proof -
  have other: "SCHEMA_VERSION \<noteq> LEGACY_SCHEMA_VERSION" by (simp add: SCHEMA_VERSION_def LEGACY_SCHEMA_VERSION_def)
  show ?thesis
    unfolding state_json_def validate_state_def json.case Let_def list.map fst_conv field_sets(1)
    using assms other field_sets(2)
    by (cases "rc_reservation_token s") (simp_all add: wf_state_def json_get_def not_less MAX_FAILURES_def)
qed

lemma circuit_times_nonneg:
  "circuit_times d ns = Inr ts \<Longrightarrow> length ts = length ns \<and> (\<forall>t \<in> set ts. 0 \<le> t)"
  by (induction ns arbitrary: ts) (auto simp: Let_def bind_ok_Inr not_less split: if_splits)

lemma validate_state_wf:
  assumes "validate_state raw key = Inr s"
  shows "wf_state key s"
proof -
  obtain d where d: "raw = JObj d" using assms by (cases raw) (simp_all add: validate_state_def)
  note ok = assms [unfolded d validate_state_def json.case Let_def guard_ok bind_ok_Inr]
  then obtain ts where ts: "circuit_times d [''open_until'', ''last_failure_at'', ''updated_at''] = Inr ts"
    and s: "s = \<lparr>rc_schema_version = SCHEMA_VERSION, rc_key_digest = key, rc_failures = int_of (json_get d ''failures''),
        rc_open_until = ts ! 0, rc_last_failure_at = ts ! 1, rc_last_kind = str_of (json_get d ''last_kind''),
        rc_updated_at = ts ! 2, rc_reservation_token = opt_of str_of (json_get d ''reservation_token'')\<rparr>"
    by blast
  obtain a b c where abc: "ts = [a, b, c]" "0 \<le> a" "0 \<le> b" "0 \<le> c"
    using circuit_times_nonneg [OF ts] by (auto simp: length_Suc_conv)
  have "pred_option (is_hex 32) (opt_of str_of (json_get d ''reservation_token''))"
    using ok by (auto simp: opt_of_def)
  moreover have "0 \<le> int_of (json_get d ''failures'') \<and> int_of (json_get d ''failures'') \<le> MAX_FAILURES
      \<and> kind_ok (str_of (json_get d ''last_kind''))" using ok by blast
  ultimately show ?thesis using abc unfolding wf_state_def s by simp
qed

text \<open>A well-formed state fits into its file, so the size limit never refuses one.\<close>

lemma length_show_small: "0 \<le> n \<Longrightarrow> n \<le> 64 \<Longrightarrow> length (show_int n) \<le> 2"
  by (simp add: show_int_def) (subst show_nat.simps, subst show_nat.simps, simp)

lemma state_json_small:
  assumes "wf_state key s" and "length key \<le> 64" and "\<And>r. length (fr r) \<le> 32"
  shows "length (dumps_compact fr (state_json s)) + 1 \<le> MAX_STATE_BYTES"
proof -
  have k: "length (rc_last_kind s) \<le> 64" "length (rc_key_digest s) \<le> 64" "length (show_int (rc_failures s)) \<le> 2"
    using assms length_show_small by (auto simp: wf_state_def kind_ok_def MAX_FAILURES_def)
  have t: "length (dumps_compact fr (json_opt JStr (rc_reservation_token s))) \<le> 200"
    using assms(1) by (cases "rc_reservation_token s") (auto simp: wf_state_def is_hex_def intro: order_trans [OF length_dumps_str])
  have fs: "length (fr (rc_open_until s)) \<le> 32" "length (fr (rc_last_failure_at s)) \<le> 32" "length (fr (rc_updated_at s)) \<le> 32"
    using assms(3) by blast+
  let ?n = "\<lambda>x. length (dumps_str x)"
  have names: "?n ''failures'' \<le> 50" "?n ''key_digest'' \<le> 62" "?n ''last_failure_at'' \<le> 92" "?n ''last_kind'' \<le> 56"
    "?n ''open_until'' \<le> 62" "?n ''reservation_token'' \<le> 104" "?n ''schema_version'' \<le> 86" "?n ''updated_at'' \<le> 62"
    by (rule order_trans [OF length_dumps_str], simp)+
  have vals: "?n (rc_key_digest s) \<le> 386" "?n (rc_last_kind s) \<le> 386" "?n (rc_schema_version s) \<le> 110"
    using k assms(1) by (auto simp: wf_state_def SCHEMA_VERSION_def intro: order_trans [OF length_dumps_str])
  have "length (dumps_compact fr (state_json s)) \<le> 2 + (\<Sum>kv \<leftarrow> obj_items (state_json s). ?n (fst kv) + length (dumps_compact fr (snd kv)) + 2)"
    using length_join [of "'',''" "map (\<lambda>kv. dumps_str (fst kv) @ '':'' @ dumps_compact fr (snd kv)) (obj_items (state_json s))"]
    by (simp add: state_json_def comp_def)
  also have "\<dots> \<le> 2000"
    using names vals k(3) t fs by (simp add: state_json_def)
  finally show ?thesis by (simp add: MAX_STATE_BYTES_def)
qed

lemma read_circuit_wf: "read_circuit st key = Inr (Some s) \<Longrightarrow> wf_state key s"
  using validate_state_wf by (auto simp: read_circuit_def bind_ok_Inr split: option.splits slot.splits)

lemma read_written: "wf_state key s \<Longrightarrow> read_circuit (st(key \<mapsto> StateFile (state_json s))) key = Inr (Some s)"
  by (simp add: read_circuit_def validate_state_json)

lemma write_circuit_cases:
  assumes "write_circuit env key s st = (st', x)"
  obtains (refused) m where "st' = st" "x = Some m" | (replaced) "st' = st(key \<mapsto> StateFile (state_json s))"
  using assms by (cases "ce_io env") (auto simp: write_circuit_def split: if_splits)

section \<open>One locked operation\<close>

lemma rebase_wf: "wf_state key s \<Longrightarrow> 0 \<le> now \<Longrightarrow> wf_state key (rebase now s)"
  by (simp add: wf_state_def rebase_def Let_def)

text \<open>What a body sees: the state of a readable file, brought up to the present clock.\<close>

lemma current_state_cases:
  assumes "current_state env key st = (st1, r)"
  obtains (failed) m where "r = Inl m" "st1 = st"
  | (unsynced) m s now where "r = Inl m" "0 \<le> now" "ce_clock env = Fin now" "read_circuit st key = Inr (Some s)" "wf_state key s"
      "now < rc_updated_at s" "st1 = st(key \<mapsto> StateFile (state_json (rebase now s)))"
  | (state) state now where "r = Inr (state, now)" "0 \<le> now" "ce_clock env = Fin now"
      "read_circuit st1 key = Inr state" "pred_option (\<lambda>s. wf_state key s \<and> rc_updated_at s \<le> now) state"
      "st1 = st \<and> read_circuit st key = Inr state
       \<or> (\<exists>s. read_circuit st key = Inr (Some s) \<and> now < rc_updated_at s \<and> state = Some (rebase now s)
            \<and> st1 = st(key \<mapsto> StateFile (state_json (rebase now s))))"
proof (cases "read_circuit st key")
  case (Inl m)
  then show thesis using assms by (intro failed [of m]) (simp_all add: current_state_def)
next
  case (Inr state0)
  show thesis
  proof (cases "wall_now env")
    case (Inl m)
    then show thesis using assms Inr by (intro failed [of m]) (simp_all add: current_state_def)
  next
    case now: (Inr now)
    then have clock: "ce_clock env = Fin now" "0 \<le> now"
      by (auto simp: wall_now_def split: pyfloat.splits if_splits)
    show thesis
    proof (cases state0)
      case None
      then have "st1 = st" "r = Inr (None, now)" using assms Inr now by (simp_all add: current_state_def)
      with Inr None clock show thesis by (intro state [of None now]) simp_all
    next
      case (Some s)
      have wf: "wf_state key s" using Inr Some read_circuit_wf by blast
      show thesis
      proof (cases "rc_updated_at s \<le> now")
        case True
        then have "st1 = st" "r = Inr (Some s, now)" using assms Inr now Some by (simp_all add: current_state_def)
        with Inr Some clock wf True show thesis by (intro state [of "Some s" now]) auto
      next
        case rolled: False
        note re = rebase_wf [OF wf clock(2)]
        show thesis
        proof -
          obtain st' x where w: "write_circuit env key (rebase now s) st = (st', x)" by fastforce
          then have r: "st1 = st'" "r = (case x of Some m \<Rightarrow> Inl m | None \<Rightarrow> Inr (Some (rebase now s), now))"
            using assms Inr now Some rolled by (auto simp: current_state_def split: option.splits)
          have upd: "rc_updated_at (rebase now s) = now" by (simp add: rebase_def Let_def)
          from w show thesis
          proof (cases rule: write_circuit_cases)
            case (refused m)
            then show thesis using r by (intro failed [of m]) simp_all
          next
            case replaced
            show thesis
            proof (cases x)
              case None
              then show thesis
                using clock re read_written [OF re] replaced r upd Inr Some rolled
                by (intro state [of "Some (rebase now s)" now]) auto
            next
              case m: (Some m)
              then show thesis using clock replaced r Inr Some wf rolled by (intro unsynced [of m now s]) auto
            qed
          qed
        qed
      qed
    qed
  qed
qed

lemma current_fresh:
  assumes "read_circuit st key = Inr (Some s)" "ce_clock env = Fin now" "0 \<le> now" "rc_updated_at s \<le> now"
  shows "current_state env key st = (st, Inr (Some s, now))"
  using assms by (simp add: current_state_def wall_now_def)

lemma publish_cases:
  assumes "publish env key s x st = (st', r)"
  obtains (failed) m where "r = Inl m" "st' = st"
  | (unsynced) m where "r = Inl m" "st' = st(key \<mapsto> StateFile (state_json s))"
  | (written) "r = Inr x" "st' = st(key \<mapsto> StateFile (state_json s))"
proof -
  obtain st1 y where w: "write_circuit env key s st = (st1, y)" by fastforce
  then have r: "st' = st1" "r = (case y of Some m \<Rightarrow> Inl m | None \<Rightarrow> Inr x)"
    using assms by (auto simp: publish_def split: option.splits)
  from w show thesis
  proof (cases rule: write_circuit_cases)
    case (refused m)
    then show thesis using r by (intro failed [of m]) simp_all
  next
    case replaced
    then show thesis using r unsynced written by (cases y) auto
  qed
qed

section \<open>Cooldowns\<close>

text \<open>The bounds that the configuration enforces for a site.\<close>

definition site_ok :: "Site \<Rightarrow> bool" where
  "site_ok site \<longleftrightarrow> 1 \<le> route_circuit_failures site \<and> route_circuit_failures site \<le> 10
     \<and> 1 \<le> route_circuit_cooldown_s site \<and> route_circuit_cooldown_s site \<le> 3600
     \<and> route_circuit_cooldown_s site \<le> route_circuit_max_cooldown_s site \<and> route_circuit_max_cooldown_s site \<le> 86400"

lemma cooldown_bounds:
  assumes "0 \<le> v" "v \<le> maximum"
  shows "9 / 10 * v \<le> cooldown env v maximum" "cooldown env v maximum \<le> maximum" "cooldown env v maximum \<le> 11 / 10 * v"
proof -
  define x where "x = min 1 (max 0 (case ce_jitter env of Fin y \<Rightarrow> y | _ \<Rightarrow> 1 / 2))"
  have x: "0 \<le> x" "x \<le> 1" by (simp_all add: x_def)
  have c: "cooldown env v maximum = min maximum (max 0 (v * (9 / 10 + 1 / 5 * x)))"
    by (simp add: cooldown_def x_def Let_def)
  have "v * (9 / 10) \<le> v * (9 / 10 + 1 / 5 * x)" "v * (9 / 10 + 1 / 5 * x) \<le> v * (11 / 10)"
    using assms(1) x by (intro mult_left_mono; simp)+
  then show "9 / 10 * v \<le> cooldown env v maximum" "cooldown env v maximum \<le> maximum" "cooldown env v maximum \<le> 11 / 10 * v"
    using assms by (auto simp: c min_def max_def)
qed

lemma ladder_bounds:
  assumes "site_ok site"
  shows "9 / 10 * route_circuit_cooldown_s site \<le> ladder env site k" "ladder env site k \<le> route_circuit_max_cooldown_s site"
proof -
  let ?c = "route_circuit_cooldown_s site" and ?m = "route_circuit_max_cooldown_s site"
  let ?v = "min (?c * 2 ^ nat (min k MAX_FAILURES)) ?m"
  have c: "1 \<le> ?c" "?c \<le> ?m" using assms by (simp_all add: site_ok_def)
  have "?c * 1 \<le> ?c * 2 ^ nat (min k MAX_FAILURES)" using c(1) by (intro mult_left_mono) simp_all
  then have v: "?c \<le> ?v" "?v \<le> ?m" using c(2) by simp_all
  have "0 \<le> ?v" using v(1) c(1) by linarith
  note b = cooldown_bounds [OF this v(2), of env]
  show "9 / 10 * ?c \<le> ladder env site k" "ladder env site k \<le> ?m"
    using b(1,2) v(1) unfolding ladder_def by linarith+
qed

lemma ladder_pos: "site_ok site \<Longrightarrow> 0 < ladder env site k"
  using ladder_bounds(1) [of site env k] by (simp add: site_ok_def)

section \<open>Every operation leaves readable files\<close>

datatype circuit_op = Decide | Succeed "string option" | Release "string option" | Fail string "string option"

fun op_token :: "circuit_op \<Rightarrow> string option" where
  "op_token Decide = None" | "op_token (Succeed t) = t" | "op_token (Release t) = t" | "op_token (Fail k t) = t"

fun run_op :: "circuit_env \<Rightarrow> Site \<Rightarrow> string \<Rightarrow> circuit_op \<Rightarrow> circuits \<Rightarrow> circuits" where
  "run_op env site key Decide st = fst (decision env site key st)"
| "run_op env site key (Succeed t) st = fst (record_success env site key t st)"
| "run_op env site key (Release t) st = fst (release_reservation env site key t st)"
| "run_op env site key (Fail k t) st = fst (record_failure env site key k t st)"

text \<open>A file operation writes one well-formed state, or nothing.\<close>

definition writes_one :: "string \<Rightarrow> circuits \<Rightarrow> circuits \<Rightarrow> bool" where
  "writes_one key st st' \<longleftrightarrow> st' = st \<or> (\<exists>s. wf_state key s \<and> st' = st(key \<mapsto> StateFile (state_json s)))"

lemma writes_one_trans: "writes_one key u v \<Longrightarrow> writes_one key v w \<Longrightarrow> writes_one key u w"
  by (auto simp: writes_one_def)

lemma publish_writes_one: "wf_state key s \<Longrightarrow> writes_one key st (fst (publish env key s x st))"
  by (cases "publish env key s x st" rule: prod.exhaust) (auto simp: writes_one_def elim: publish_cases)

lemma locked_writes_one:
  assumes "\<And>state now st1. 0 \<le> now \<Longrightarrow> pred_option (wf_state key) state \<Longrightarrow> writes_one key st1 (fst (body state now st1))"
  shows "writes_one key st (fst (locked env key body st))"
proof (cases "ce_lock env")
  case None
  obtain st1 r where cs: "current_state env key st = (st1, r)" by (metis prod.exhaust)
  from cs show ?thesis
  proof (cases rule: current_state_cases)
    case (failed m)
    then show ?thesis using None cs by (simp add: locked_def writes_one_def)
  next
    case (unsynced m s now)
    then show ?thesis using None cs rebase_wf [OF unsynced(5,2)] by (auto simp: locked_def writes_one_def)
  next
    case (state s now)
    have wf: "pred_option (wf_state key) s" using state(5) by (cases s) simp_all
    have "writes_one key st st1"
      using state(6) wf by (auto simp: writes_one_def)
    then show ?thesis
      using writes_one_trans assms [OF state(2) wf, of st1] None cs state(1) by (simp add: locked_def)
  qed
qed (simp add: locked_def writes_one_def)

lemma kind_ok_success: "kind_ok ''success''" "kind_ok ''unclassified''"
  by code_simp+

lemma next_failures_bounds: "pred_option (wf_state key) prior \<Longrightarrow> 1 \<le> next_failures site prior now \<and> next_failures site prior now \<le> MAX_FAILURES"
  by (auto simp: next_failures_def MAX_FAILURES_def wf_state_def split: option.split)

lemma failure_state_select:
  "rc_schema_version (failure_state env site key kind prior now) = SCHEMA_VERSION"
  "rc_key_digest (failure_state env site key kind prior now) = key"
  "rc_failures (failure_state env site key kind prior now) = next_failures site prior now"
  "rc_open_until (failure_state env site key kind prior now) = now + (if route_circuit_failures site \<le> next_failures site prior now
     then ladder env site (next_failures site prior now - route_circuit_failures site) else 0)"
  "rc_last_failure_at (failure_state env site key kind prior now) = now"
  "rc_last_kind (failure_state env site key kind prior now) = (if kind_ok kind then kind else ''unclassified'')"
  "rc_updated_at (failure_state env site key kind prior now) = now"
  "rc_reservation_token (failure_state env site key kind prior now) = None"
  by (simp_all add: failure_state_def Let_def)

lemma failure_state_wf:
  assumes "site_ok site" and "0 \<le> now" and "pred_option (wf_state key) prior"
  shows "wf_state key (failure_state env site key kind prior now)"
proof -
  let ?n = "next_failures site prior now"
  have n: "0 \<le> ?n" "?n \<le> MAX_FAILURES" using next_failures_bounds [OF assms(3), of site now] by simp_all
  have l: "0 \<le> now + ladder env site (?n - route_circuit_failures site)"
    using assms(2) ladder_pos [OF assms(1), of env "?n - route_circuit_failures site"] by linarith
  have k: "kind_ok (if kind_ok kind then kind else ''unclassified'')" using kind_ok_success(2) by (cases "kind_ok kind") simp_all
  show ?thesis
    unfolding wf_state_def failure_state_select using n l k assms(2)
    by (cases "route_circuit_failures site \<le> ?n") (simp_all only: if_True if_False add_0_right option.pred_inject refl simp_thms)
qed

lemma run_op_writes_one:
  assumes "site_ok site" and "is_hex 32 (ce_token env)"
  shows "writes_one key st (run_op env site key op st)"
proof (cases op)
  case Decide
  have "0 \<le> now + ladder env site k" if "0 \<le> now" for now k
    using that ladder_pos [OF assms(1), of env k] by linarith
  then show ?thesis
    unfolding Decide run_op.simps decision_def using assms(2)
    by (intro locked_writes_one) (auto simp: Let_def wf_state_def split: option.splits intro!: publish_writes_one, simp_all add: writes_one_def)
next
  case (Succeed t)
  then show ?thesis
    unfolding Succeed run_op.simps record_success_def
    by (intro locked_writes_one) (auto simp: wf_state_def kind_ok_success MAX_FAILURES_def split: option.splits intro!: publish_writes_one, simp_all add: writes_one_def)
next
  case (Release t)
  then show ?thesis
    unfolding Release run_op.simps release_reservation_def
    by (intro locked_writes_one) (auto simp: wf_state_def split: option.splits intro!: publish_writes_one, simp_all add: writes_one_def)
next
  case (Fail k t)
  note wf = failure_state_wf [OF assms(1)]
  have body: "writes_one key st1 (fst (publish env key (failure_state env site key k prior now) x st1))"
    if "0 \<le> now" "pred_option (wf_state key) prior" for prior now st1 and x :: RouteCircuitDecision
    using publish_writes_one [OF wf [OF that]] .
  have same: "writes_one key st1 st1" for st1 by (simp add: writes_one_def)
  show ?thesis
    unfolding Fail run_op.simps record_failure_def
    by (intro locked_writes_one) (simp add: Let_def body same)
qed

text \<open>
  C25. The circuit file always stays readable: whatever operation runs on an edge, at whatever clock,
  jitter and token and whether or not its writes succeed, a state that could be read before can
  be read afterwards and is well formed (a failure count of 0 to 64, non-negative times, a legal
  kind and token), and no other edge's file changes.
\<close>

theorem circuit_stays_readable:
  assumes "site_ok site" and "is_hex 32 (ce_token env)" and "read_circuit st key = Inr r"
  shows "\<exists>r'. read_circuit (run_op env site key op st) key = Inr r' \<and> pred_option (wf_state key) r'
    \<and> (\<forall>other. other \<noteq> key \<longrightarrow> run_op env site key op st other = st other)"
proof -
  from run_op_writes_one [OF assms(1,2), of key st op]
  consider "run_op env site key op st = st" | s where "wf_state key s" "run_op env site key op st = st(key \<mapsto> StateFile (state_json s))"
    by (auto simp: writes_one_def)
  then show ?thesis
  proof cases
    case 1
    then show ?thesis using assms(3) read_circuit_wf [of st key] by (cases r) auto
  next
    case (2 s)
    then show ?thesis using read_written [OF 2(1), of st] by auto
  qed
qed

section \<open>A half-open trial has one owner\<close>

text \<open>
  The edge is reserved by \<open>tok\<close> after \<open>n\<close> failures. Another caller is one that does not present \<open>tok\<close>; it
  may run any operation as long as the window is open on its own clock.
\<close>

definition reserved :: "string \<Rightarrow> string \<Rightarrow> int \<Rightarrow> circuits \<Rightarrow> bool" where
  "reserved key tok n st \<longleftrightarrow>
     (\<exists>s. read_circuit st key = Inr (Some s) \<and> rc_reservation_token s = Some tok \<and> rc_failures s = n
        \<and> rc_updated_at s < rc_open_until s)"

inductive other_step :: "Site \<Rightarrow> string \<Rightarrow> string \<Rightarrow> circuits \<Rightarrow> circuits \<Rightarrow> bool" for site key tok where
  other_step: "op_token op \<noteq> Some tok \<Longrightarrow> read_circuit st key = Inr (Some s) \<Longrightarrow>
    (\<And>now. ce_clock env = Fin now \<Longrightarrow> now < rc_open_until s) \<Longrightarrow>
    other_step site key tok st (run_op env site key op st)"

inductive_cases other_stepE: "other_step site key tok st st'"

lemma rebase_keeps:
  "rc_reservation_token (rebase now s) = rc_reservation_token s" "rc_failures (rebase now s) = rc_failures s"
  "rc_updated_at (rebase now s) = now" "rc_open_until (rebase now s) = max 0 (rc_open_until s - (rc_updated_at s - now))"
  by (simp_all add: rebase_def Let_def)

text \<open>While the edge is reserved, another caller only sees an open circuit.\<close>

lemma other_locked:
  assumes site: "site_ok site" and res: "reserved key tok n st" and r: "read_circuit st key = Inr (Some s)"
    and w: "\<And>now. ce_clock env = Fin now \<Longrightarrow> now < rc_open_until s"
    and body: "\<And>s now st1. rc_reservation_token s = Some tok \<Longrightarrow> now < rc_open_until s \<Longrightarrow> fst (body (Some s) now st1) = st1"
  shows "reserved key tok n (fst (locked env key body st))"
proof (cases "ce_lock env")
  case None
  obtain st1 q where cs: "current_state env key st = (st1, q)" by (metis prod.exhaust)
  have s: "rc_reservation_token s = Some tok" "rc_failures s = n" "rc_updated_at s < rc_open_until s"
    using res r by (auto simp: reserved_def)
  from cs show ?thesis
  proof (cases rule: current_state_cases)
    case (failed m)
    then show ?thesis using None cs res by (simp add: locked_def)
  next
    case (unsynced m s1 now)
    have "s1 = s" using unsynced(4) r by simp
    then have "reserved key tok n st1"
      using read_written [OF rebase_wf [OF unsynced(5,2)], of st] unsynced(6,7) s by (auto simp: reserved_def rebase_keeps)
    then show ?thesis using None cs unsynced(1) by (simp add: locked_def)
  next
    case (state x now)
    have "\<exists>s1. x = Some s1 \<and> rc_reservation_token s1 = Some tok \<and> rc_failures s1 = n \<and> rc_updated_at s1 < rc_open_until s1 \<and> now < rc_open_until s1"
      using state(6) r s w [OF state(3)] by (auto simp: rebase_keeps)
    then obtain s1 where s1: "x = Some s1" "rc_reservation_token s1 = Some tok" "rc_failures s1 = n"
      "rc_updated_at s1 < rc_open_until s1" "now < rc_open_until s1" by blast
    have "reserved key tok n st1" using state(4) s1 by (auto simp: reserved_def)
    then show ?thesis using None cs state(1) s1 body [OF s1(2,5), of st1] by (simp add: locked_def)
  qed
qed (simp add: locked_def res)

lemma open_while_reserved:
  "site_ok site \<Longrightarrow> now < rc_open_until s \<Longrightarrow> rd_is_open (circuit_decision (Some s) now (route_circuit_max_cooldown_s site))"
  by (simp add: circuit_decision_def Let_def site_ok_def)

lemma other_step_reserved:
  assumes "site_ok site" and "other_step site key tok st st'" and "reserved key tok n st"
  shows "reserved key tok n st'"
  using assms(2)
proof (cases rule: other_step.cases)
  case (other_step op s env)
  note lock = other_locked [OF assms(1,3) other_step(3,4)]
  show ?thesis
  proof (cases op)
    case Decide
    show ?thesis unfolding other_step(1) Decide run_op.simps decision_def
      by (rule lock) (simp_all add: Let_def open_while_reserved [OF assms(1)])
  next
    case (Succeed t)
    then show ?thesis using other_step(2) unfolding other_step(1) Succeed run_op.simps record_success_def
      by (intro lock) (auto simp: hmac_compare_def split: option.split)
  next
    case (Release t)
    then show ?thesis using other_step(2) unfolding other_step(1) Release run_op.simps release_reservation_def
      by (intro lock) (auto simp: hmac_compare_def)
  next
    case (Fail k t)
    then show ?thesis using other_step(2) unfolding other_step(1) Fail run_op.simps record_failure_def
      by (intro lock) (auto simp: hmac_compare_def Let_def)
  qed
qed

lemma locked_result:
  assumes "locked env key body st = (st', Inr x)"
  obtains state now st1 where "ce_clock env = Fin now" "0 \<le> now" "read_circuit st1 key = Inr state"
    "pred_option (\<lambda>s. wf_state key s \<and> rc_updated_at s \<le> now) state" "body state now st1 = (st', Inr x)"
    "st1 = st \<and> read_circuit st key = Inr state \<or> (\<exists>s. read_circuit st key = Inr (Some s) \<and> now < rc_updated_at s)"
proof -
  obtain st1 q where cs: "current_state env key st = (st1, q)" by (metis prod.exhaust)
  have lock: "ce_lock env = None" using assms by (auto simp: locked_def split: option.splits)
  from cs show thesis
  proof (cases rule: current_state_cases)
    case (failed m)
    then show thesis using assms cs lock by (simp add: locked_def)
  next
    case unsynced
    then show thesis using assms cs lock by (simp add: locked_def)
  next
    case (state s now)
    then show thesis using assms cs lock by (intro that [of now st1 s]) (auto simp: locked_def)
  qed
qed

lemma decision_grants:
  assumes "site_ok site" and "is_hex 32 (ce_token env)"
    and "decision env site key st = (st1, Inr d)" and "rd_reservation_token d = Some tok"
  shows "reserved key tok (rd_failures d) st1" "route_circuit_failures site \<le> rd_failures d" "\<not> rd_is_open d"
proof -
  from assms(3) obtain state now st0 where c: "0 \<le> now" "pred_option (\<lambda>s. wf_state key s \<and> rc_updated_at s \<le> now) state"
    and body: "(let d = circuit_decision state now (route_circuit_max_cooldown_s site) in
       case state of
         None \<Rightarrow> (st0, Inr d)
       | Some s \<Rightarrow>
           if rd_is_open d \<or> rc_failures s < route_circuit_failures site then (st0, Inr d)
           else
             let window = ladder env site (max 0 (rc_failures s - route_circuit_failures site)) in
             publish env key
               (s\<lparr>rc_schema_version := SCHEMA_VERSION, rc_key_digest := key, rc_open_until := now + window,
                  rc_updated_at := now, rc_reservation_token := Some (ce_token env)\<rparr>)
               \<lparr>rd_is_open = False, rd_retry_after_s = 0, rd_failures = rc_failures s,
                rd_last_kind = Some (rc_last_kind s), rd_reservation_token = Some (ce_token env)\<rparr> st0) = (st1, Inr d)"
    unfolding decision_def by (rule locked_result) (rule that)
  have none: "rd_reservation_token (circuit_decision x now m) = None" for x m
    by (simp add: circuit_decision_def Let_def split: option.split)
  obtain s where s: "state = Some s" using body assms(4) none by (cases state) (auto simp: Let_def)
  have wf: "wf_state key s" using c(2) s by simp
  define s' where "s' = s\<lparr>rc_schema_version := SCHEMA_VERSION, rc_key_digest := key,
      rc_open_until := now + ladder env site (max 0 (rc_failures s - route_circuit_failures site)),
      rc_updated_at := now, rc_reservation_token := Some (ce_token env)\<rparr>"
  have pos: "0 < ladder env site (max 0 (rc_failures s - route_circuit_failures site))" by (rule ladder_pos [OF assms(1)])
  have ge: "route_circuit_failures site \<le> rc_failures s"
    and pub: "publish env key s' \<lparr>rd_is_open = False, rd_retry_after_s = 0, rd_failures = rc_failures s,
        rd_last_kind = Some (rc_last_kind s), rd_reservation_token = Some (ce_token env)\<rparr> st0 = (st1, Inr d)"
    using body assms(4) none by (auto simp: s Let_def s'_def split: if_splits)
  from pub have d: "d = \<lparr>rd_is_open = False, rd_retry_after_s = 0, rd_failures = rc_failures s,
        rd_last_kind = Some (rc_last_kind s), rd_reservation_token = Some (ce_token env)\<rparr>"
    and st1: "st1 = st0(key \<mapsto> StateFile (state_json s'))" by (auto elim: publish_cases)
  have "wf_state key s'" using wf c(1) pos assms(2) by (simp add: wf_state_def s'_def)
  from read_written [OF this, of st0] show "reserved key tok (rd_failures d) st1"
    using assms(4) pos by (auto simp: reserved_def st1 d s'_def)
  show "route_circuit_failures site \<le> rd_failures d" "\<not> rd_is_open d" by (simp_all add: d ge)
qed

lemma other_run_reserved:
  assumes "site_ok site" and "(other_step site key tok)\<^sup>*\<^sup>* st st'" and "reserved key tok n st"
  shows "reserved key tok n st'"
  using assms(2,3) by (induction rule: rtranclp_induct) (auto intro: other_step_reserved [OF assms(1)])

lemma reserved_refuses:
  assumes "site_ok site" and "reserved key tok n st" and "read_circuit st key = Inr (Some s)"
    and "ce_clock env = Fin now" "now < rc_open_until s" and "decision env site key st = (st', Inr d)"
  shows "rd_is_open d \<and> rd_reservation_token d = None"
proof -
  have s: "rc_updated_at s < rc_open_until s" using assms(2,3) by (auto simp: reserved_def)
  obtain st1 q where cs: "current_state env key st = (st1, q)" by (metis prod.exhaust)
  have lock: "ce_lock env = None" using assms(6) by (auto simp: decision_def locked_def split: option.splits)
  from cs show ?thesis
  proof (cases rule: current_state_cases)
    case (failed m)
    then show ?thesis using assms(6) cs lock by (simp add: decision_def locked_def)
  next
    case unsynced
    then show ?thesis using assms(6) cs lock by (simp add: decision_def locked_def)
  next
    case (state x t)
    have t: "t = now" using state(3) assms(4) by simp
    have "\<exists>s1. x = Some s1 \<and> now < rc_open_until s1" using state(6) assms(3,5) s t by (auto simp: rebase_keeps)
    then obtain s1 where s1: "x = Some s1" "now < rc_open_until s1" by blast
    have "d = circuit_decision (Some s1) now (route_circuit_max_cooldown_s site)"
      using assms(6) cs lock state(1) s1 t open_while_reserved [OF assms(1) s1(2)] by (simp add: decision_def locked_def Let_def)
    then show ?thesis using open_while_reserved [OF assms(1) s1(2)] by (simp add: circuit_decision_def Let_def)
  qed
qed

text \<open>
  C26. A half-open trial has one owner: when \<open>decision\<close> grants a caller the trial of an edge whose
  circuit had opened, then for the whole of the granted window nobody else can run one. Any
  number of other callers may ask, report successes or failures or release reservations, with
  wall clocks that may jump back: the reservation and the failure count stay as they are, and
  everyone who asks is refused.
\<close>

theorem reservation_exclusive:
  assumes "site_ok site" and "is_hex 32 (ce_token env)"
    and "decision env site key st = (st1, Inr d)" and "rd_reservation_token d = Some tok"
    and "(other_step site key tok)\<^sup>*\<^sup>* st1 st2"
  shows "\<exists>s. read_circuit st2 key = Inr (Some s) \<and> rc_reservation_token s = Some tok \<and> rc_failures s = rd_failures d
    \<and> (\<forall>env' now st' d'. ce_clock env' = Fin now \<and> now < rc_open_until s \<and> decision env' site key st2 = (st', Inr d')
          \<longrightarrow> rd_is_open d' \<and> rd_reservation_token d' = None)"
proof -
  have res: "reserved key tok (rd_failures d) st2"
    using other_run_reserved [OF assms(1,5) decision_grants(1) [OF assms(1-4)]] .
  then obtain s where s: "read_circuit st2 key = Inr (Some s)" "rc_reservation_token s = Some tok" "rc_failures s = rd_failures d"
    by (auto simp: reserved_def)
  with reserved_refuses [OF assms(1) res s(1)] show ?thesis by blast
qed

text \<open>
  The escalation ladder survives the trial: when the owner of a half-open trial reports its
  failure within one maximal cooldown after the window, the failure count goes up by one (capped
  at 64) instead of starting over, the reservation is gone, and the edge is closed to traffic
  for at least nine tenths of the configured cooldown and at most the configured maximum.
\<close>

theorem trial_failure_escalates:
  assumes "site_ok site" and "read_circuit st key = Inr (Some p)" and "rc_reservation_token p = Some tok"
    and "ce_clock env = Fin now" and "rc_updated_at p \<le> now" and "route_circuit_failures site \<le> rc_failures p"
    and "now \<le> rc_open_until p + route_circuit_max_cooldown_s site"
    and "record_failure env site key kind (Some tok) st = (st', Inr d)"
  shows "\<exists>s. read_circuit st' key = Inr (Some s) \<and> rc_failures s = min (rc_failures p + 1) MAX_FAILURES
    \<and> rc_reservation_token s = None \<and> rd_is_open d
    \<and> now + 9 / 10 * route_circuit_cooldown_s site \<le> rc_open_until s \<and> rc_open_until s \<le> now + route_circuit_max_cooldown_s site"
proof -
  let ?s = "failure_state env site key kind (Some p) now"
  have wf: "wf_state key p" by (rule read_circuit_wf [OF assms(2)])
  have lock: "ce_lock env = None" using assms(8) by (auto simp: record_failure_def locked_def split: option.splits)
  have now: "0 \<le> now" using wf assms(5) by (simp add: wf_state_def)
  have cs: "current_state env key st = (st, Inr (Some p, now))" by (rule current_fresh [OF assms(2,4) now assms(5)])
  have "publish env key ?s (circuit_decision (Some ?s) now (route_circuit_max_cooldown_s site)) st = (st', Inr d)"
    using assms(8) lock cs assms(3) by (simp add: record_failure_def locked_def hmac_compare_def Let_def)
  then have d: "d = circuit_decision (Some ?s) now (route_circuit_max_cooldown_s site)" and st': "st' = st(key \<mapsto> StateFile (state_json ?s))"
    by (auto elim: publish_cases)
  have n: "next_failures site (Some p) now = min (rc_failures p + 1) MAX_FAILURES"
    using assms(1,6,7) by (simp add: next_failures_def site_ok_def algebra_simps max_def)
  have up: "route_circuit_failures site \<le> min (rc_failures p + 1) MAX_FAILURES"
    using assms(1,6) by (simp add: site_ok_def MAX_FAILURES_def)
  let ?l = "ladder env site (min (rc_failures p + 1) MAX_FAILURES - route_circuit_failures site)"
  have until: "rc_open_until ?s = now + ?l" using up by (simp add: failure_state_select n)
  note l = ladder_bounds [OF assms(1), of env "min (rc_failures p + 1) MAX_FAILURES - route_circuit_failures site"]
    ladder_pos [OF assms(1), of env "min (rc_failures p + 1) MAX_FAILURES - route_circuit_failures site"]
  have "read_circuit st' key = Inr (Some ?s)"
    unfolding st' by (rule read_written) (rule failure_state_wf, use assms(1) now wf in simp_all)
  moreover have "rd_is_open d" unfolding d using until l(3) by (intro open_while_reserved [OF assms(1)]) simp
  ultimately show ?thesis
    using until l by (intro exI [of _ ?s]) (simp add: failure_state_select(3,8) n)
qed

section \<open>Concrete instances\<close>

text \<open>An edge whose circuit opened after two failures until time 100.\<close>

definition trial_site :: Site where
  "trial_site = \<lparr>site_name = ''lab'', route_circuit_failures = 2, route_circuit_cooldown_s = 60, route_circuit_max_cooldown_s = 900\<rparr>"

definition trial_token :: string where
  "trial_token = replicate 32 CHR ''a''"

definition trial_env :: "time \<Rightarrow> circuit_env" where
  "trial_env t = \<lparr>ce_lock = None, ce_clock = Fin t, ce_jitter = Fin (1 / 2), ce_token = trial_token, ce_io = Written,
     ce_float_repr = (\<lambda>_. ''0.0'')\<rparr>"

definition opened :: RouteCircuitState where
  "opened = \<lparr>rc_schema_version = SCHEMA_VERSION, rc_key_digest = ''k'', rc_failures = 2, rc_open_until = 100,
     rc_last_failure_at = 40, rc_last_kind = ''timeout'', rc_updated_at = 40, rc_reservation_token = None\<rparr>"

definition claimed :: RouteCircuitState where
  "claimed = opened\<lparr>rc_open_until := 180, rc_updated_at := 120, rc_reservation_token := Some trial_token\<rparr>"

definition file_of :: "RouteCircuitState \<Rightarrow> circuits" where
  "file_of s = (\<lambda>_. None)(''k'' \<mapsto> StateFile (state_json s))"

lemma trial_ok: "site_ok trial_site" "is_hex 32 (ce_token (trial_env t))" "is_hex 32 trial_token"
proof -
  show "site_ok trial_site" by (simp add: site_ok_def trial_site_def)
  have "is_hex_lower CHR ''a''" by code_simp
  then show "is_hex 32 trial_token" by (simp add: is_hex_def trial_token_def)
  then show "is_hex 32 (ce_token (trial_env t))" by (simp add: trial_env_def)
qed

lemma opened_wf: "wf_state ''k'' opened" "wf_state ''k'' claimed"
proof -
  have "kind_ok ''timeout''" by code_simp
  then show "wf_state ''k'' opened" "wf_state ''k'' claimed"
    using trial_ok(3) by (simp_all add: wf_state_def opened_def claimed_def MAX_FAILURES_def)
qed

lemma trial_read: "read_circuit (file_of opened) ''k'' = Inr (Some opened)" "read_circuit (file_of claimed) ''k'' = Inr (Some claimed)"
  unfolding file_of_def by (rule read_written, rule opened_wf)+

lemma trial_env_select:
  "ce_lock (trial_env t) = None" "ce_clock (trial_env t) = Fin t" "ce_jitter (trial_env t) = Fin (1 / 2)"
  "ce_token (trial_env t) = trial_token" "ce_io (trial_env t) = Written" "ce_float_repr (trial_env t) = (\<lambda>_. ''0.0'')"
  by (simp_all add: trial_env_def)

lemma trial_write:
  assumes "wf_state ''k'' s"
  shows "write_circuit (trial_env t) ''k'' s st = (st(''k'' \<mapsto> StateFile (state_json s)), None)"
  using state_json_small [OF assms, of "\<lambda>_. ''0.0''"] by (simp add: write_circuit_def trial_env_select)

lemma trial_granted:
  "decision (trial_env 120) trial_site ''k'' (file_of opened) = (file_of claimed, Inr
     \<lparr>rd_is_open = False, rd_retry_after_s = 0, rd_failures = 2, rd_last_kind = Some ''timeout'',
      rd_reservation_token = Some trial_token\<rparr>)"
proof -
  have cs: "current_state (trial_env 120) ''k'' (file_of opened) = (file_of opened, Inr (Some opened, 120))"
    by (rule current_fresh [OF trial_read(1)]) (simp_all add: trial_env_select opened_def)
  have w: "ladder (trial_env 120) trial_site 0 = 60"
    by (simp add: ladder_def cooldown_def trial_env_select trial_site_def)
  have upd: "opened\<lparr>rc_schema_version := SCHEMA_VERSION, rc_key_digest := ''k'', rc_open_until := 180, rc_updated_at := 120,
      rc_reservation_token := Some trial_token\<rparr> = claimed"
    by (simp add: claimed_def opened_def)
  have wr: "write_circuit (trial_env 120) ''k'' claimed (file_of opened) = (file_of claimed, None)"
    using trial_write [OF opened_wf(2)] by (simp add: file_of_def)
  have sel: "rc_failures opened = 2" "rc_last_kind opened = ''timeout''" "rc_open_until opened = 100" by (simp_all add: opened_def)
  have site: "route_circuit_failures trial_site = 2" by (simp add: trial_site_def)
  show ?thesis
    unfolding decision_def locked_def trial_env_select cs
    by (simp add: circuit_decision_def sel site w Let_def publish_def upd wr trial_env_select)
qed

theorem circuit_stays_readable_witness:
  "\<exists>r'. read_circuit (run_op (trial_env 130) trial_site ''k'' (Fail ''Bad kind'' None) (file_of opened)) ''k'' = Inr r'
     \<and> pred_option (wf_state ''k'') r'"
  using circuit_stays_readable [OF trial_ok(1,2) trial_read(1)] by blast

text \<open>The trial was granted at time 120; another process asks for it at time 130.\<close>

theorem reservation_exclusive_witness:
  "\<exists>s. read_circuit (run_op (trial_env 130) trial_site ''k'' Decide (file_of claimed)) ''k'' = Inr (Some s)
     \<and> rc_reservation_token s = Some trial_token \<and> rc_failures s = 2"
proof -
  have "other_step trial_site ''k'' trial_token (file_of claimed) (run_op (trial_env 130) trial_site ''k'' Decide (file_of claimed))"
    by (rule other_step [OF _ trial_read(2)]) (simp_all add: trial_env_select claimed_def)
  then have run: "(other_step trial_site ''k'' trial_token)\<^sup>*\<^sup>* (file_of claimed) (run_op (trial_env 130) trial_site ''k'' Decide (file_of claimed))"
    by auto
  from reservation_exclusive [OF trial_ok(1,2) trial_granted _ run] show ?thesis by auto
qed

theorem trial_failure_escalates_witness:
  "\<exists>s d. snd (record_failure (trial_env 170) trial_site ''k'' ''timeout'' (Some trial_token) (file_of claimed)) = Inr d
     \<and> read_circuit (fst (record_failure (trial_env 170) trial_site ''k'' ''timeout'' (Some trial_token) (file_of claimed))) ''k''
        = Inr (Some s)
     \<and> rc_failures s = 3 \<and> rd_is_open d"
proof -
  let ?f = "failure_state (trial_env 170) trial_site ''k'' ''timeout'' (Some claimed) 170"
  have cs: "current_state (trial_env 170) ''k'' (file_of claimed) = (file_of claimed, Inr (Some claimed, 170))"
    by (rule current_fresh [OF trial_read(2)]) (simp_all add: trial_env_select claimed_def)
  have wf: "wf_state ''k'' ?f" by (rule failure_state_wf [OF trial_ok(1)]) (use opened_wf(2) in simp_all)
  have tok: "rc_reservation_token claimed = Some trial_token" by (simp add: claimed_def)
  obtain st' d where r: "record_failure (trial_env 170) trial_site ''k'' ''timeout'' (Some trial_token) (file_of claimed) = (st', Inr d)"
    using trial_write [OF wf] by (simp add: record_failure_def locked_def trial_env_select cs tok hmac_compare_def Let_def publish_def)
  have c: "rc_updated_at claimed \<le> 170" "route_circuit_failures trial_site \<le> rc_failures claimed" "rc_failures claimed = 2"
    "170 \<le> rc_open_until claimed + route_circuit_max_cooldown_s trial_site"
    by (simp_all add: claimed_def opened_def trial_site_def)
  from trial_failure_escalates [OF trial_ok(1) trial_read(2) tok trial_env_select(2) c(1,2,4) r] r c(3) show ?thesis
    by (auto simp: MAX_FAILURES_def)
qed

end
