(* ===== verification/Submission_Intent.thy ===== *)
theory Submission_Intent
  imports Job_Codec
begin

text \<open>
  Durable identities of retry-safe submissions (\<open>src/dt/submission_intent.py\<close>): one JSON receipt per
  request id that says how far the submission got, which launch marker proves it, and whether the
  same request may be replayed. \<open>OSError\<close> carries the text of the error, or the name of its class when
  that text is blank; \<open>ActionError\<close> stands for any other exception of a caller's callback.

  \<open>requests\<close> maps the digest of a request id to what the bounded reader makes of the receipt: no
  file, a refusal (its message), or a document. Exceptions are values of \<open>exn\<close>, with the class
  hierarchy as predicates; \<open>'g\<close> is the record that the group exceptions carry. \<open>sha256\<close> is a parameter.
\<close>

section \<open>Exceptions\<close>

datatype 'g exn =
    InvalidRequestId string
  | RequestRecordError string
  | RequestDurabilityUnknown string
  | RequestLockError string
  | ValueError string
  | TypeError string
  | OverflowError string
  | OSError string
  | GroupRequestError string
  | GroupRequestConflict string
  | GroupRequestRejected string "'g option"
  | GroupRequestOutcomeUnknown string "'g option"
  | PrivateStateError string
  | RegistryError string
  | ActionError string

fun is_record_error :: "'g exn \<Rightarrow> bool" where
  "is_record_error (RequestRecordError _) = True"
| "is_record_error (RequestDurabilityUnknown _) = True"
| "is_record_error (RequestLockError _) = True"
| "is_record_error _ = False"

fun is_value_error :: "'g exn \<Rightarrow> bool" where
  "is_value_error (ValueError _) = True" | "is_value_error (InvalidRequestId _) = True" | "is_value_error _ = False"

section \<open>Receipts\<close>

definition REQUEST_SCHEMA_V1 :: string where "REQUEST_SCHEMA_V1 = ''dt_submission_request_v1''"
definition REQUEST_SCHEMA_V2 :: string where "REQUEST_SCHEMA_V2 = ''dt_submission_request_v2''"
definition REQUEST_SCHEMA :: string where "REQUEST_SCHEMA = ''dt_submission_request_v3''"

definition REQUEST_STATES :: "string list" where
  "REQUEST_STATES = [''preparing'', ''replay_authorized'', ''confirmed'', ''rejected'', ''uncertain'']"

definition PROOF_REQUIREMENTS :: "string list" where
  "PROOF_REQUIREMENTS = [''none'', ''remote_launch_marker'', ''legacy_unknown'']"

definition REMOTE_PROOF_OUTCOMES :: "string list" where
  "REMOTE_PROOF_OUTCOMES = [''absent'', ''running'', ''finished'', ''unavailable'', ''invalid'']"

definition RETRYABLE_REJECTION_KINDS :: "string list" where
  "RETRYABLE_REJECTION_KINDS = [''NoCapacity'', ''NoReachableNode'', ''claimed_action_interrupted'']"

definition V1_RECORD_FIELDS :: "string list" where
  "V1_RECORD_FIELDS = [''schema'', ''request_id'', ''intent_sha256'', ''job_id'', ''state'', ''created_at'', ''updated_at'',
     ''error_kind'', ''error_message'']"

definition RECORD_FIELDS :: "string list" where
  "RECORD_FIELDS = V1_RECORD_FIELDS @ [''proof_requirement'', ''proof_node'', ''proof_job_dir'', ''launch_identity_sha256'']"

record RequestRecord =
  rq_schema :: string
  rq_request_id :: string
  rq_intent_sha256 :: string
  rq_job_id :: string
  rq_state :: string
  rq_created_at :: time
  rq_updated_at :: time
  rq_error_kind :: "string option"
  rq_error_message :: "string option"
  rq_proof_requirement :: string
  rq_proof_node :: "string option"
  rq_proof_job_dir :: "string option"
  rq_launch_identity_sha256 :: "string option"

record RemoteLaunchProof =
  rp_outcome :: string
  rp_node :: string
  rp_job_dir :: string
  rp_launch_identity_sha256 :: string

record RequestDisposition =
  dp_schema_version :: string
  dp_disposition :: string
  dp_request_id :: string
  dp_job_id :: string
  dp_retry_safe :: bool
  dp_facts :: "string list"
  dp_actions :: "string list"

text \<open>\<open>[A-Za-z0-9][A-Za-z0-9._:@+-]{0,127}\<close> and \<open>[A-Za-z][A-Za-z0-9_.:-]{0,63}\<close>.\<close>

definition request_id_char :: "char \<Rightarrow> bool" where
  "request_id_char c \<longleftrightarrow> is_ascii_alnum c \<or> c \<in> set ''._:@+-''"

definition request_id_ok :: "string \<Rightarrow> bool" where
  "request_id_ok s \<longleftrightarrow> s \<noteq> [] \<and> length s \<le> 128 \<and> is_ascii_alnum (hd s) \<and> (\<forall>c \<in> set s. request_id_char c)"

definition error_kind_ok :: "string \<Rightarrow> bool" where
  "error_kind_ok s \<longleftrightarrow> s \<noteq> [] \<and> length s \<le> 64 \<and> is_ascii_alpha (hd s)
     \<and> (\<forall>c \<in> set s. is_ascii_alnum c \<or> c \<in> set ''_.:-'')"

definition validate_request_id :: "string \<Rightarrow> 'g exn + string" where
  "validate_request_id rid =
     (if request_id_ok rid then Inr rid
      else Inl (InvalidRequestId ''--request-id must be 1-128 characters: letters, digits, . _ : @ + -''))"

definition request_digest :: "(string \<Rightarrow> string) \<Rightarrow> string \<Rightarrow> 'g exn + string" where
  "request_digest sha256 rid = bind_ok (validate_request_id rid) (\<lambda>r. Inr (sha256 r))"

section \<open>Decoding\<close>

text \<open>\<open>not isinstance(v, (int, float)) or isinstance(v, bool) or not math.isfinite(float(v)) or float(v) <= 0\<close>.\<close>

definition bad_timestamp :: "json \<Rightarrow> 'g exn + bool" where
  "bad_timestamp v =
     (if \<not> is_number v then Inr True
      else map_error OverflowError (bind_ok (finite_float v) (\<lambda>fin. Inr (\<not> fin \<or> num_of v \<le> 0))))"

definition bad_proof_text :: "nat \<Rightarrow> json \<Rightarrow> bool" where
  "bad_proof_text limit v \<longleftrightarrow>
     v \<noteq> JNull \<and> (\<not> is_JStr v \<or> str_of v = [] \<or> limit < length (str_of v) \<or> (\<exists>c \<in> set (str_of v). code c < 32))"

definition record_of :: "(string, json) dict \<Rightarrow> RequestRecord" where
  "record_of d = \<lparr>
     rq_schema = str_of (json_get d ''schema''), rq_request_id = str_of (json_get d ''request_id''),
     rq_intent_sha256 = str_of (json_get d ''intent_sha256''), rq_job_id = str_of (json_get d ''job_id''),
     rq_state = str_of (json_get d ''state''), rq_created_at = num_of (json_get d ''created_at''),
     rq_updated_at = num_of (json_get d ''updated_at''), rq_error_kind = opt_of str_of (json_get d ''error_kind''),
     rq_error_message = opt_of str_of (json_get d ''error_message''),
     rq_proof_requirement = str_of (case map_of d ''proof_requirement'' of None \<Rightarrow> JStr ''legacy_unknown'' | Some v \<Rightarrow> v),
     rq_proof_node = opt_of str_of (json_get d ''proof_node''),
     rq_proof_job_dir = opt_of str_of (json_get d ''proof_job_dir''),
     rq_launch_identity_sha256 = opt_of str_of (json_get d ''launch_identity_sha256'')\<rparr>"

text \<open>The checks on the typed record.\<close>

definition check_record :: "string \<Rightarrow> RequestRecord \<Rightarrow> 'g exn + RequestRecord" where
  "check_record expected r =
     (if rq_schema r \<notin> {REQUEST_SCHEMA_V1, REQUEST_SCHEMA_V2, REQUEST_SCHEMA}
      then Inl (RequestRecordError (''unsupported submission request schema '' @ py_repr (rq_schema r)))
      else if rq_request_id r \<noteq> expected
      then Inl (RequestRecordError ''submission request digest does not match its identity'')
      else if \<not> is_hex 64 (rq_intent_sha256 r)
      then Inl (RequestRecordError ''submission request intent digest is invalid'')
      else if \<not> valid_job_id (rq_job_id r)
      then Inl (RequestRecordError ''submission request job identity is invalid'')
      else if rq_state r \<notin> set REQUEST_STATES
      then Inl (RequestRecordError ''submission request state is invalid'')
      else if rq_state r = ''replay_authorized'' \<and> rq_schema r \<noteq> REQUEST_SCHEMA
      then Inl (RequestRecordError ''submission request replay authorization requires the v3 schema'')
      else Inr r)"

definition decode_request :: "string \<Rightarrow> json \<Rightarrow> 'g exn + RequestRecord" where
  "decode_request expected raw =
     (case raw of
        JObj d \<Rightarrow>
          let schema = json_get d ''schema'';
              expected_fields = (if schema = JStr REQUEST_SCHEMA_V1 then V1_RECORD_FIELDS else RECORD_FIELDS);
              kind = json_get d ''error_kind''; message = json_get d ''error_message'';
              requirement = (case map_of d ''proof_requirement'' of None \<Rightarrow> JStr ''legacy_unknown'' | Some v \<Rightarrow> v);
              nd = json_get d ''proof_node''; jd = json_get d ''proof_job_dir'';
              identity = json_get d ''launch_identity_sha256'' in
          if set (keys d) \<noteq> set expected_fields
          then Inl (RequestRecordError ''submission request record has an invalid schema'')
          else if \<exists>nm \<in> set [''schema'', ''request_id'', ''intent_sha256'', ''job_id'', ''state'']. \<not> is_JStr (json_get d nm)
          then Inl (RequestRecordError ''submission request record has invalid fields'')
          else bind_ok (any_of bad_timestamp [json_get d ''created_at'', json_get d ''updated_at'']) (\<lambda>bad.
          if bad then Inl (RequestRecordError ''submission request timestamps are invalid'')
          else if kind \<noteq> JNull \<and> (\<not> is_JStr kind \<or> \<not> error_kind_ok (str_of kind))
          then Inl (RequestRecordError ''submission request error kind is invalid'')
          else if message \<noteq> JNull \<and> (\<not> is_JStr message \<or> 512 < length (str_of message))
          then Inl (RequestRecordError ''submission request error message is invalid'')
          else bind_ok (map_error TypeError (in_text_set requirement PROOF_REQUIREMENTS)) (\<lambda>known.
          if \<not> known then Inl (RequestRecordError ''submission request proof requirement is invalid'')
          else if bad_proof_text 255 nd then Inl (RequestRecordError ''submission request proof node is invalid'')
          else if bad_proof_text 4096 jd
          then Inl (RequestRecordError ''submission request proof job directory is invalid'')
          else if identity \<noteq> JNull \<and> (\<not> is_JStr identity \<or> \<not> is_hex 64 (str_of identity))
          then Inl (RequestRecordError ''submission request launch identity is invalid'')
          else if requirement = JStr ''remote_launch_marker'' \<and> JNull \<in> {nd, jd, identity}
          then Inl (RequestRecordError ''submission request remote proof locator is incomplete'')
          else if requirement \<in> {JStr ''none'', JStr ''legacy_unknown''} \<and> {nd, jd, identity} \<noteq> {JNull}
          then Inl (RequestRecordError ''submission request has an unexpected proof locator'')
          else check_record expected (record_of d)))
      | _ \<Rightarrow> Inl (RequestRecordError ''submission request record has an invalid schema''))"

text \<open>\<open>asdict(record)\<close>.\<close>

definition request_json :: "RequestRecord \<Rightarrow> json" where
  "request_json r = JObj [
     (''schema'', JStr (rq_schema r)), (''request_id'', JStr (rq_request_id r)),
     (''intent_sha256'', JStr (rq_intent_sha256 r)), (''job_id'', JStr (rq_job_id r)), (''state'', JStr (rq_state r)),
     (''created_at'', JFloat (Fin (rq_created_at r))), (''updated_at'', JFloat (Fin (rq_updated_at r))),
     (''error_kind'', json_opt JStr (rq_error_kind r)), (''error_message'', json_opt JStr (rq_error_message r)),
     (''proof_requirement'', JStr (rq_proof_requirement r)), (''proof_node'', json_opt JStr (rq_proof_node r)),
     (''proof_job_dir'', json_opt JStr (rq_proof_job_dir r)),
     (''launch_identity_sha256'', json_opt JStr (rq_launch_identity_sha256 r))]"

section \<open>Files\<close>

type_synonym requests = "string \<Rightarrow> (string + json) option"

text \<open>How far a publication got: not at all (an unsafe directory, or an operating system error), visible but perhaps not durable, or completely.\<close>

datatype save_io = SaveOk | SaveRefused string | SaveFails string | SaveUnsynced

definition load_request :: "(string \<Rightarrow> string) \<Rightarrow> string \<Rightarrow> requests \<Rightarrow> 'g exn + RequestRecord option" where
  "load_request sha256 rid rs =
     bind_ok (request_digest sha256 rid) (\<lambda>digest.
       case rs digest of
         None \<Rightarrow> Inr None
       | Some (Inl m) \<Rightarrow> Inl (RequestRecordError m)
       | Some (Inr raw) \<Rightarrow> bind_ok (decode_request rid raw) (\<lambda>r. Inr (Some r)))"

definition save_request :: "(string \<Rightarrow> string) \<Rightarrow> save_io \<Rightarrow> RequestRecord \<Rightarrow> requests \<Rightarrow> requests \<times> ('g exn + unit)" where
  "save_request sha256 io r rs =
     (case validate_request_id (rq_request_id r) of
        Inl x \<Rightarrow> (rs, Inl x)
      | Inr rid \<Rightarrow>
          let r' = (if rq_schema r \<noteq> REQUEST_SCHEMA then r\<lparr>rq_schema := REQUEST_SCHEMA\<rparr> else r) in
          (case decode_request rid (request_json r') of
             Inl x \<Rightarrow> (rs, Inl x)
           | Inr _ \<Rightarrow>
               (case io of
                  SaveRefused m \<Rightarrow> (rs, Inl (RequestRecordError m))
                | SaveFails m \<Rightarrow> (rs, Inl (OSError m))
                | SaveUnsynced \<Rightarrow> (rs(sha256 rid \<mapsto> Inr (request_json r')),
                    Inl (RequestDurabilityUnknown ''submission request record was published but its durability is unknown''))
                | SaveOk \<Rightarrow> (rs(sha256 rid \<mapsto> Inr (request_json r')), Inr ()))))"

section \<open>Transitions\<close>

definition create_request :: "string \<Rightarrow> string \<Rightarrow> string \<Rightarrow> time \<Rightarrow> 'g exn + RequestRecord" where
  "create_request rid intent job now =
     bind_ok (validate_request_id rid) (\<lambda>rid'. Inr
       \<lparr>rq_schema = REQUEST_SCHEMA, rq_request_id = rid', rq_intent_sha256 = intent, rq_job_id = job, rq_state = ''preparing'',
        rq_created_at = now, rq_updated_at = now, rq_error_kind = None, rq_error_message = None,
        rq_proof_requirement = ''none'', rq_proof_node = None, rq_proof_job_dir = None, rq_launch_identity_sha256 = None\<rparr>)"

definition bounded_message :: "string option \<Rightarrow> string option" where
  "bounded_message m = (case m of None \<Rightarrow> None | Some s \<Rightarrow> if s = [] then None else Some (take 512 (join '' '' (words s))))"

definition transition :: "time \<Rightarrow> RequestRecord \<Rightarrow> string \<Rightarrow> string option \<Rightarrow> string option \<Rightarrow> 'g exn + RequestRecord" where
  "transition now r state error_kind error_message =
     (if state \<notin> set REQUEST_STATES then Inl (ValueError (''invalid submission request state '' @ py_repr state))
      else if state = ''replay_authorized'' then Inl (ValueError ''use authorize_replay for a replay authorization'')
      else if rq_state r = ''replay_authorized'' \<and> state \<noteq> ''confirmed''
      then Inl (ValueError ''use reclaim_replay to consume a replay authorization'')
      else Inr (r\<lparr>rq_schema := REQUEST_SCHEMA, rq_state := state, rq_updated_at := now, rq_error_kind := error_kind,
                  rq_error_message := bounded_message error_message\<rparr>))"

definition rejection_is_retryable :: "RequestRecord \<Rightarrow> bool" where
  "rejection_is_retryable r \<longleftrightarrow>
     rq_state r = ''rejected'' \<and> (\<exists>k. rq_error_kind r = Some k \<and> k \<in> set RETRYABLE_REJECTION_KINDS)
     \<and> rq_proof_requirement r = ''none''"

definition authorize_replay :: "time \<Rightarrow> RequestRecord \<Rightarrow> RequestDisposition \<Rightarrow> 'g exn + RequestRecord" where
  "authorize_replay now r dp =
     (if dp_request_id dp \<noteq> rq_request_id r \<or> dp_job_id dp \<noteq> rq_job_id r \<or> dp_disposition dp \<noteq> ''safe_replay'' \<or> \<not> dp_retry_safe dp
      then Inl (ValueError ''submission request lacks an exact safe-replay disposition'')
      else if rq_state r = ''replay_authorized'' then Inr r
      else if rq_state r \<notin> {''preparing'', ''uncertain''} \<and> \<not> rejection_is_retryable r
      then Inl (ValueError (''submission request state '' @ py_repr (rq_state r) @ '' cannot authorize replay''))
      else Inr (r\<lparr>rq_schema := REQUEST_SCHEMA, rq_state := ''replay_authorized'', rq_updated_at := now,
                  rq_error_kind := Some ''proven_absent'',
                  rq_error_message := Some ''no registry job or matching remote launch marker exists''\<rparr>))"

definition reclaim_replay :: "time \<Rightarrow> RequestRecord \<Rightarrow> 'g exn + RequestRecord" where
  "reclaim_replay now r =
     (if rq_state r \<noteq> ''replay_authorized'' then Inl (ValueError ''submission request is not authorized for replay'')
      else Inr \<lparr>rq_schema = REQUEST_SCHEMA, rq_request_id = rq_request_id r, rq_intent_sha256 = rq_intent_sha256 r,
        rq_job_id = rq_job_id r, rq_state = ''preparing'', rq_created_at = rq_created_at r, rq_updated_at = now,
        rq_error_kind = None, rq_error_message = None, rq_proof_requirement = ''none'', rq_proof_node = None,
        rq_proof_job_dir = None, rq_launch_identity_sha256 = None\<rparr>)"

definition bind_remote_attempt ::
  "(string \<Rightarrow> string) \<Rightarrow> time \<Rightarrow> RequestRecord \<Rightarrow> string \<Rightarrow> string \<Rightarrow> string \<Rightarrow> 'g exn + RequestRecord" where
  "bind_remote_attempt sha256 now r nd jd token =
     (if rq_state r = ''replay_authorized'' then Inl (ValueError ''replay authorization must be reclaimed before launch'')
      else if nd = [] \<or> 255 < length nd \<or> (\<exists>c \<in> set nd. code c < 32) then Inl (ValueError ''remote proof node is invalid'')
      else if jd = [] \<or> 4096 < length jd \<or> (\<exists>c \<in> set jd. code c < 32)
      then Inl (ValueError ''remote proof job directory is invalid'')
      else if \<not> is_hex 32 token then Inl (ValueError ''remote launch token is invalid'')
      else Inr (r\<lparr>rq_schema := REQUEST_SCHEMA, rq_updated_at := now, rq_proof_requirement := ''remote_launch_marker'',
                  rq_proof_node := Some nd, rq_proof_job_dir := Some jd,
                  rq_launch_identity_sha256 := Some (sha256 token)\<rparr>))"

section \<open>Dispositions\<close>

definition disposition :: "string \<Rightarrow> RequestRecord \<Rightarrow> bool \<Rightarrow> string list \<Rightarrow> string list \<Rightarrow> RequestDisposition" where
  "disposition kind r safe facts actions =
     \<lparr>dp_schema_version = ''dt_request_disposition_v1'', dp_disposition = kind, dp_request_id = rq_request_id r,
      dp_job_id = rq_job_id r, dp_retry_safe = safe, dp_facts = (''request_state='' @ rq_state r) # facts, dp_actions = actions\<rparr>"

definition none_text :: "string option \<Rightarrow> string" where
  "none_text x = (case x of None \<Rightarrow> ''None'' | Some s \<Rightarrow> s)"

text \<open>The proof speaks about exactly the launch that the receipt is bound to.\<close>

definition proof_matches :: "RequestRecord \<Rightarrow> RemoteLaunchProof \<Rightarrow> bool" where
  "proof_matches r p \<longleftrightarrow> rp_outcome p \<in> set REMOTE_PROOF_OUTCOMES
     \<and> rq_proof_node r = Some (rp_node p) \<and> rq_proof_job_dir r = Some (rp_job_dir p)
     \<and> rq_launch_identity_sha256 r = Some (rp_launch_identity_sha256 p)"

definition proof_disposition :: "RequestRecord \<Rightarrow> RemoteLaunchProof option \<Rightarrow> RequestDisposition" where
  "proof_disposition r remote_proof =
     (case remote_proof of
        Some p \<Rightarrow>
          if \<not> proof_matches r p
          then disposition ''inspect_remote'' r False [''registry_job=absent'', ''remote_proof=missing_or_mismatched'']
                 [''inspect the bound launch marker on '' @ none_text (rq_proof_node r)]
          else
            let facts = [''registry_job=absent'', ''remote_proof='' @ rp_outcome p] in
            if rp_outcome p = ''absent''
            then disposition ''safe_replay'' r True facts [''persist a rejected proven-absent receipt before retrying'']
            else disposition ''inspect_remote'' r False facts
              [if rp_outcome p = ''unavailable''
               then ''restore connectivity to '' @ none_text (rq_proof_node r) @ '' and repeat exact proof''
               else if rp_outcome p = ''invalid''
               then ''quarantine and inspect the bound capsule for job '' @ rq_job_id r
               else ''recover job '' @ rq_job_id r @ '' from the bound remote marker'']
      | None \<Rightarrow> disposition ''inspect_remote'' r False [''registry_job=absent'', ''remote_proof=missing_or_mismatched'']
                  [''inspect the bound launch marker on '' @ none_text (rq_proof_node r)])"

definition resolve_disposition :: "RequestRecord \<Rightarrow> bool option \<Rightarrow> RemoteLaunchProof option \<Rightarrow> RequestDisposition" where
  "resolve_disposition r registry_job_present remote_proof =
     (if registry_job_present = Some True
      then disposition ''confirmed'' r False [''registry_job=present''] [''inspect job '' @ rq_job_id r]
      else if rq_state r = ''confirmed''
      then disposition ''confirmed'' r False [''durable_receipt=confirmed''] [''inspect retained history for job '' @ rq_job_id r]
      else if rq_state r = ''rejected''
      then if rejection_is_retryable r \<and> registry_job_present = Some False
           then disposition ''safe_replay'' r True [''registry_job=absent'', ''durable_receipt=retryable_rejection'']
                  [''retry the exact original command with this request id'']
           else disposition ''rejected'' r False [''durable_receipt=rejected''] [''do not retry this request id'']
      else if registry_job_present = None
      then disposition ''in_progress'' r False [''registry_job=unchecked''] [''query the authoritative registry'']
      else if rq_state r = ''replay_authorized''
      then disposition ''safe_replay'' r True [''registry_job=absent'', ''durable_replay=authorized'']
             [''retry the exact original command with this request id'']
      else if rq_proof_requirement r = ''none''
      then disposition ''safe_replay'' r True [''registry_job=absent'', ''remote_launch=impossible'']
             [''persist a rejected pre-launch receipt before retrying'']
      else if rq_proof_requirement r = ''legacy_unknown''
      then disposition ''inspect_remote'' r False [''registry_job=absent'', ''remote_proof=legacy_unknown'']
             [''inspect legacy worker state before any retry'']
      else proof_disposition r remote_proof)"

definition converge_disposition :: "time \<Rightarrow> RequestRecord \<Rightarrow> RequestDisposition \<Rightarrow> 'g exn + RequestRecord" where
  "converge_disposition now r dp =
     (if dp_request_id dp \<noteq> rq_request_id r \<or> dp_job_id dp \<noteq> rq_job_id r
      then Inl (ValueError ''request disposition identity mismatch'')
      else if dp_disposition dp = ''confirmed'' then transition now r ''confirmed'' None None
      else if dp_disposition dp = ''safe_replay'' then authorize_replay now r dp
      else if dp_disposition dp = ''rejected'' then Inr r
      else Inl (ValueError ''request disposition is not conclusive''))"

end
