(* ===== verification/Intent_Facts.thy ===== *)
theory Intent_Facts
  imports Submission_Intent
begin

text \<open>
  Correctness of the submission receipts: what is saved is what is loaded, every transition keeps
  the identity of the request, and a request is declared safe to replay only when no worker of
  it can exist.
\<close>

section \<open>Well-formed receipts\<close>

definition locator_ok :: "RequestRecord \<Rightarrow> bool" where
  "locator_ok r \<longleftrightarrow>
     (if rq_proof_requirement r = ''remote_launch_marker''
      then (\<exists>nd jd h. rq_proof_node r = Some nd \<and> rq_proof_job_dir r = Some jd \<and> rq_launch_identity_sha256 r = Some h
              \<and> nd \<noteq> [] \<and> length nd \<le> 255 \<and> jd \<noteq> [] \<and> length jd \<le> 4096 \<and> is_hex 64 h)
      else rq_proof_node r = None \<and> rq_proof_job_dir r = None \<and> rq_launch_identity_sha256 r = None)"

definition wf_request :: "RequestRecord \<Rightarrow> bool" where
  "wf_request r \<longleftrightarrow>
     rq_schema r \<in> {REQUEST_SCHEMA_V1, REQUEST_SCHEMA_V2, REQUEST_SCHEMA} \<and> is_hex 64 (rq_intent_sha256 r)
     \<and> valid_job_id (rq_job_id r) \<and> rq_state r \<in> set REQUEST_STATES \<and> 0 < rq_created_at r \<and> 0 < rq_updated_at r
     \<and> pred_option error_kind_ok (rq_error_kind r) \<and> pred_option (\<lambda>m. length m \<le> 512) (rq_error_message r)
     \<and> rq_proof_requirement r \<in> set PROOF_REQUIREMENTS \<and> locator_ok r
     \<and> (rq_state r = ''replay_authorized'' \<longrightarrow> rq_schema r = REQUEST_SCHEMA)"

lemma check_record_Inr:
  "check_record expected r = Inr x \<longleftrightarrow>
     x = r \<and> rq_schema r \<in> {REQUEST_SCHEMA_V1, REQUEST_SCHEMA_V2, REQUEST_SCHEMA} \<and> rq_request_id r = expected
     \<and> is_hex 64 (rq_intent_sha256 r) \<and> valid_job_id (rq_job_id r) \<and> rq_state r \<in> set REQUEST_STATES
     \<and> (rq_state r = ''replay_authorized'' \<longrightarrow> rq_schema r = REQUEST_SCHEMA)"
  unfolding check_record_def guard_ok by blast

lemma record_of_json: "record_of (obj_items (request_json r)) = r"
proof -
  have o: "opt_of str_of (json_opt JStr x) = x" for x by (cases x) simp_all
  show ?thesis
    unfolding request_json_def obj_items.simps
    by (rule RequestRecord.equality) (simp_all add: record_of_def json_get_def o)
qed

lemma bad_timestamp_False: "bad_timestamp v = Inr False \<Longrightarrow> 0 < num_of v"
  by (cases v) (auto simp: bad_timestamp_def bind_ok_Inr not_le split: if_splits pyfloat.splits)

lemma proof_text_opt:
  assumes "\<not> bad_proof_text n v"
  shows "v = JNull \<or> (\<exists>s. v = JStr s \<and> s \<noteq> [] \<and> length s \<le> n)"
  using assms by (cases v) (auto simp: bad_proof_text_def not_less)

lemma in_text_set_Inr: "in_text_set v xs = Inr True \<Longrightarrow> \<exists>s \<in> set xs. v = JStr s"
  by (cases v) auto

lemma decode_request_wf:
  assumes "decode_request expected raw = (Inr r :: 'g exn + RequestRecord)"
  shows "wf_request r" "rq_request_id r = expected" "\<exists>d. raw = JObj d \<and> r = record_of d"
proof -
  obtain d where d: "raw = JObj d" using assms by (cases raw) (simp_all add: decode_request_def)
  let ?kind = "json_get d ''error_kind''" and ?msg = "json_get d ''error_message''"
  let ?req = "case map_of d ''proof_requirement'' of None \<Rightarrow> JStr ''legacy_unknown'' | Some v \<Rightarrow> v"
  let ?nd = "json_get d ''proof_node''" and ?jd = "json_get d ''proof_job_dir''" and ?id = "json_get d ''launch_identity_sha256''"
  note ok = assms [unfolded d decode_request_def json.case Let_def guard_ok bind_ok_Inr]
  from ok obtain bad known where
    ts: "any_of bad_timestamp [json_get d ''created_at'', json_get d ''updated_at''] = (Inr bad :: 'g exn + bool)" "\<not> bad"
    and err: "\<not> (?kind \<noteq> JNull \<and> (\<not> is_JStr ?kind \<or> \<not> error_kind_ok (str_of ?kind)))"
      "\<not> (?msg \<noteq> JNull \<and> (\<not> is_JStr ?msg \<or> 512 < length (str_of ?msg)))"
    and kn: "map_error TypeError (in_text_set ?req PROOF_REQUIREMENTS) = (Inr known :: 'g exn + bool)" "known"
    and loc: "\<not> bad_proof_text 255 ?nd" "\<not> bad_proof_text 4096 ?jd"
      "\<not> (?id \<noteq> JNull \<and> (\<not> is_JStr ?id \<or> \<not> is_hex 64 (str_of ?id)))"
    and full: "\<not> (?req = JStr ''remote_launch_marker'' \<and> JNull \<in> {?nd, ?jd, ?id})"
    and empty: "\<not> (?req \<in> {JStr ''none'', JStr ''legacy_unknown''} \<and> {?nd, ?jd, ?id} \<noteq> {JNull})"
    and chk: "check_record expected (record_of d) = (Inr r :: 'g exn + RequestRecord)"
    by blast
  have r: "r = record_of d" using chk by (simp add: check_record_Inr)
  then show "\<exists>d. raw = JObj d \<and> r = record_of d" using d by blast
  obtain q where q: "q \<in> set PROOF_REQUIREMENTS" "?req = JStr q"
    using in_text_set_Inr [of ?req] kn by auto
  have sel: "rq_proof_requirement r = q" "rq_proof_node r = opt_of str_of ?nd" "rq_proof_job_dir r = opt_of str_of ?jd"
    "rq_launch_identity_sha256 r = opt_of str_of ?id" "rq_error_kind r = opt_of str_of ?kind" "rq_error_message r = opt_of str_of ?msg"
    "rq_created_at r = num_of (json_get d ''created_at'')" "rq_updated_at r = num_of (json_get d ''updated_at'')"
    by (simp_all add: r record_of_def q(2))
  have "locator_ok r"
  proof (cases "q = ''remote_launch_marker''")
    case True
    then have "?nd \<noteq> JNull" "?jd \<noteq> JNull" "?id \<noteq> JNull" using full q(2) by auto
    then obtain nd jd where "?nd = JStr nd" "nd \<noteq> []" "length nd \<le> 255" "?jd = JStr jd" "jd \<noteq> []" "length jd \<le> 4096"
      using proof_text_opt [OF loc(1)] proof_text_opt [OF loc(2)] by blast
    moreover have "opt_of str_of ?id = Some (str_of ?id)" "is_hex 64 (str_of ?id)" using loc(3) \<open>?id \<noteq> JNull\<close> by simp_all
    ultimately show ?thesis unfolding locator_ok_def sel True by simp
  next
    case False
    then have "q = ''none'' \<or> q = ''legacy_unknown''" using q(1) by (auto simp: PROOF_REQUIREMENTS_def)
    then have "{?nd, ?jd, ?id} = {JNull}" using empty q(2) by blast
    then have "?nd = JNull" "?jd = JNull" "?id = JNull" by auto
    then show ?thesis using False by (simp add: locator_ok_def sel)
  qed
  moreover have "pred_option error_kind_ok (rq_error_kind r)" "pred_option (\<lambda>m. length m \<le> 512) (rq_error_message r)"
    unfolding sel opt_of_def using err by (auto simp: not_less)
  moreover have "0 < rq_created_at r" "0 < rq_updated_at r"
    unfolding sel using ts bad_timestamp_False [of "json_get d ''created_at''"] bad_timestamp_False [of "json_get d ''updated_at''"] by auto
  moreover note chk [unfolded check_record_Inr, folded r]
  ultimately show "wf_request r" unfolding wf_request_def sel(1) using q(1) by blast
  show "rq_request_id r = expected" using chk by (simp add: check_record_Inr r)
qed

section \<open>Round trip\<close>

lemma request_digest_Inr: "request_digest sha256 rid = Inr k \<longleftrightarrow> request_id_ok rid \<and> k = sha256 rid"
  by (auto simp: request_digest_def validate_request_id_def)

lemma save_requestE:
  assumes "save_request sha256 io r rs = (rs', (x :: 'g exn + unit))"
  obtains (unchanged) "rs' = rs" "x \<noteq> Inr ()"
  | (published) r' where "rs' = rs(sha256 (rq_request_id r) \<mapsto> Inr (request_json r'))" "r' = r\<lparr>rq_schema := REQUEST_SCHEMA\<rparr>"
      "request_id_ok (rq_request_id r)" "decode_request (rq_request_id r) (request_json r') = (Inr r' :: 'g exn + RequestRecord)" "wf_request r'"
proof -
  let ?r = "if rq_schema r \<noteq> REQUEST_SCHEMA then r\<lparr>rq_schema := REQUEST_SCHEMA\<rparr> else r"
  have r': "?r = r\<lparr>rq_schema := REQUEST_SCHEMA\<rparr>" by simp
  show thesis
  proof (cases "request_id_ok (rq_request_id r)")
    case False
    then show thesis using assms by (intro unchanged) (auto simp: save_request_def validate_request_id_def)
  next
    case rid: True
    show thesis
    proof (cases "decode_request (rq_request_id r) (request_json ?r) :: 'g exn + RequestRecord")
      case (Inl e)
      then show thesis using assms rid by (intro unchanged) (auto simp: save_request_def validate_request_id_def Let_def)
    next
      case (Inr y)
      have "y = ?r" using decode_request_wf(3) [OF Inr] record_of_json [of ?r] by (auto simp: request_json_def)
      with decode_request_wf(1) [OF Inr] have wf: "wf_request ?r" by simp
      have dec: "decode_request (rq_request_id r) (request_json ?r) = (Inr ?r :: 'g exn + RequestRecord)" using Inr \<open>y = ?r\<close> by simp
      show thesis
      proof (cases "\<exists>m. io = SaveFails m \<or> io = SaveRefused m")
        case True
        then show thesis using assms rid Inr by (intro unchanged) (auto simp: save_request_def validate_request_id_def Let_def)
      next
        case False
        then have "rs' = rs(sha256 (rq_request_id r) \<mapsto> Inr (request_json ?r))"
          using assms rid Inr by (cases io) (auto simp: save_request_def validate_request_id_def Let_def)
        then show thesis using published [OF _ r' rid dec wf] by blast
      qed
    qed
  qed
qed

text \<open>
  C27. A receipt reads back as saved: after a save that raised nothing, or that changed the disk at all
  (it may have been unable to confirm that the change is durable), loading the request returns
  that very record in the current schema. Every other request whose digest differs loads as
  before.
\<close>

theorem receipt_round_trip:
  assumes "save_request sha256 io r rs = (rs', (x :: 'g exn + unit))"
  shows "(x = Inr () \<or> rs' \<noteq> rs \<longrightarrow>
            load_request sha256 (rq_request_id r) rs' = (Inr (Some (r\<lparr>rq_schema := REQUEST_SCHEMA\<rparr>)) :: 'g exn + RequestRecord option))
    \<and> (\<forall>other. sha256 other \<noteq> sha256 (rq_request_id r) \<longrightarrow>
          load_request sha256 other rs' = (load_request sha256 other rs :: 'g exn + RequestRecord option))"
proof -
  have others: "load_request sha256 other (rs(sha256 (rq_request_id r) \<mapsto> v)) = (load_request sha256 other rs :: 'g exn + RequestRecord option)"
    if "sha256 other \<noteq> sha256 (rq_request_id r)" for other v
    using that by (cases "request_id_ok other") (simp_all add: load_request_def request_digest_def validate_request_id_def)
  show ?thesis
    using assms
  proof (cases rule: save_requestE)
    case (published r')
    have "load_request sha256 (rq_request_id r) rs' = (Inr (Some r') :: 'g exn + RequestRecord option)"
      using published by (simp add: load_request_def request_digest_def validate_request_id_def)
    then show ?thesis using published(1,2) others by simp
  qed simp
qed

section \<open>Transitions keep the identity\<close>

text \<open>The parts of a receipt that identify the submission.\<close>

definition identity_of :: "RequestRecord \<Rightarrow> string \<times> string \<times> string \<times> time" where
  "identity_of r = (rq_request_id r, rq_intent_sha256 r, rq_job_id r, rq_created_at r)"

lemma transition_Inr:
  "transition now r st k m = Inr r' \<longleftrightarrow>
     st \<in> set REQUEST_STATES \<and> st \<noteq> ''replay_authorized'' \<and> (rq_state r = ''replay_authorized'' \<longrightarrow> st = ''confirmed'')
     \<and> r' = r\<lparr>rq_schema := REQUEST_SCHEMA, rq_state := st, rq_updated_at := now, rq_error_kind := k, rq_error_message := bounded_message m\<rparr>"
  unfolding transition_def guard_ok by auto

lemma authorize_Inr:
  assumes "authorize_replay now r dp = Inr r'"
  shows "dp_disposition dp = ''safe_replay''" "dp_retry_safe dp" "rq_state r' = ''replay_authorized''"
    "rq_state r = ''replay_authorized'' \<and> r' = r \<or> (rq_state r \<in> {''preparing'', ''uncertain''} \<or> rejection_is_retryable r)"
    "identity_of r' = identity_of r" "rq_proof_requirement r' = rq_proof_requirement r"
  using assms by (auto simp: authorize_replay_def identity_of_def split: if_splits)

text \<open>
  The life of one request: \<open>launched\<close> says that a worker process of the request may exist. The dispatcher
  binds the receipt before it launches, binds again only after the previous attempt was verifiably
  cancelled, and a proof of absence for the bound marker is given only when there is no worker.
\<close>

inductive request_step :: "(string \<Rightarrow> string) \<Rightarrow> RequestRecord \<times> bool \<Rightarrow> RequestRecord \<times> bool \<Rightarrow> bool" for sha256 where
  bind_step: "bind_remote_attempt sha256 now r nd jd token = (Inr r' :: unit exn + RequestRecord) \<Longrightarrow>
    request_step sha256 (r, False) (r', False)"
| launch_step: "rq_proof_requirement r = ''remote_launch_marker'' \<Longrightarrow> rq_state r = ''preparing'' \<Longrightarrow>
    request_step sha256 (r, launched) (r, True)"
| cancel_step: "request_step sha256 (r, launched) (r, False)"
| transition_step: "transition now r st k m = (Inr r' :: unit exn + RequestRecord) \<Longrightarrow>
    request_step sha256 (r, launched) (r', launched)"
| converge_step: "(\<And>p. evidence = Some p \<Longrightarrow> proof_matches r p \<Longrightarrow> rp_outcome p = ''absent'' \<Longrightarrow> \<not> launched) \<Longrightarrow>
    converge_disposition now r (resolve_disposition r present evidence) = (Inr r' :: unit exn + RequestRecord) \<Longrightarrow>
    request_step sha256 (r, launched) (r', launched)"
| reclaim_step: "reclaim_replay now r = (Inr r' :: unit exn + RequestRecord) \<Longrightarrow>
    request_step sha256 (r, launched) (r', launched)"

text \<open>A worker may exist only under a bound marker, and never once a replay is authorized.\<close>

definition launch_inv :: "RequestRecord \<times> bool \<Rightarrow> bool" where
  "launch_inv s \<longleftrightarrow> (snd s \<longrightarrow> rq_proof_requirement (fst s) = ''remote_launch_marker'' \<and> rq_state (fst s) \<noteq> ''replay_authorized'')"

lemma safe_replay_evidence:
  assumes "dp_disposition (resolve_disposition r present evidence) = ''safe_replay''"
  shows "present = Some False
    \<and> (rejection_is_retryable r \<or> rq_state r = ''replay_authorized'' \<or> rq_proof_requirement r = ''none''
       \<or> (\<exists>p. evidence = Some p \<and> proof_matches r p \<and> rp_outcome p = ''absent''))"
  using assms
  by (auto simp: resolve_disposition_def proof_disposition_def disposition_def Let_def split: if_splits option.splits)

lemma request_step_inv:
  assumes "request_step sha256 s s'" and "launch_inv s"
  shows "launch_inv s'"
  using assms
proof (induction rule: request_step.induct)
  case (converge_step evidence r launched now present r')
  let ?dp = "resolve_disposition r present evidence"
  show ?case
  proof (cases launched)
    case True
    with converge_step have marked: "rq_proof_requirement r = ''remote_launch_marker''" "rq_state r \<noteq> ''replay_authorized''" by (simp_all add: launch_inv_def)
    have "dp_disposition ?dp \<noteq> ''safe_replay''"
      using safe_replay_evidence [of r present evidence] marked converge_step.hyps(1) True by (auto simp: rejection_is_retryable_def)
    then have "transition now r ''confirmed'' None None = (Inr r' :: unit exn + RequestRecord) \<or> r' = r"
      using converge_step.hyps(2) by (auto simp: converge_disposition_def split: if_splits)
    then show ?thesis using marked by (auto simp: launch_inv_def transition_Inr)
  qed (simp add: launch_inv_def)
next
  case (transition_step now r st k m r' launched)
  then show ?case by (auto simp: launch_inv_def transition_Inr)
next
  case (reclaim_step now r r' launched)
  then show ?case by (auto simp: launch_inv_def reclaim_replay_def split: if_splits)
qed (auto simp: launch_inv_def)

lemma request_step_identity: "request_step sha256 s s' \<Longrightarrow> identity_of (fst s') = identity_of (fst s)"
proof (induction rule: request_step.induct)
  case (bind_step now r nd jd token r')
  then show ?case by (auto simp: bind_remote_attempt_def identity_of_def split: if_splits)
next
  case (transition_step now r st k m r' launched)
  then show ?case by (auto simp: transition_Inr identity_of_def)
next
  case (converge_step evidence r launched now present r')
  then show ?case
    using authorize_Inr(5) by (auto simp: converge_disposition_def transition_Inr identity_of_def split: if_splits)
next
  case (reclaim_step now r r' launched)
  then show ?case by (auto simp: reclaim_replay_def identity_of_def split: if_splits)
qed simp_all


section \<open>Concrete instances\<close>

lemma request_fields: "map fst (obj_items (request_json r)) = RECORD_FIELDS"
  by (simp add: request_json_def RECORD_FIELDS_def V1_RECORD_FIELDS_def)

lemma schemas_differ: "REQUEST_SCHEMA \<noteq> REQUEST_SCHEMA_V1"
  by (simp add: REQUEST_SCHEMA_def REQUEST_SCHEMA_V1_def)

text \<open>A fresh receipt passes its own validation.\<close>

definition fresh_request :: RequestRecord where
  "fresh_request = \<lparr>rq_schema = REQUEST_SCHEMA, rq_request_id = ''req-1'', rq_intent_sha256 = replicate 64 CHR ''0'', rq_job_id = ''job-1'',
     rq_state = ''preparing'', rq_created_at = 5, rq_updated_at = 5, rq_error_kind = None, rq_error_message = None,
     rq_proof_requirement = ''none'', rq_proof_node = None, rq_proof_job_dir = None, rq_launch_identity_sha256 = None\<rparr>"

lemma fresh_decodes: "decode_request ''req-1'' (request_json fresh_request) = (Inr fresh_request :: 'g exn + RequestRecord)"
proof -
  have "is_hex_lower CHR ''0''" by code_simp
  then have hex: "is_hex 64 (replicate 64 CHR ''0'')" by (simp add: is_hex_def)
  have ids: "valid_job_id ''job-1''" "''preparing'' \<in> set REQUEST_STATES" "''none'' \<in> set PROOF_REQUIREMENTS" by code_simp+
  have chk: "check_record ''req-1'' fresh_request = (Inr fresh_request :: 'g exn + RequestRecord)"
    using hex ids unfolding check_record_Inr by (simp add: fresh_request_def)
  obtain d where raw: "request_json fresh_request = JObj d" and d: "d = obj_items (request_json fresh_request)"
    by (simp add: request_json_def)
  have names: "map fst d = RECORD_FIELDS" by (simp add: d request_fields)
  have rec: "record_of d = fresh_request" using record_of_json [of fresh_request] by (simp add: d)
  have gets: "json_get d ''schema'' = JStr REQUEST_SCHEMA" "json_get d ''request_id'' = JStr ''req-1''"
    "json_get d ''intent_sha256'' = JStr (replicate 64 CHR ''0'')" "json_get d ''job_id'' = JStr ''job-1''"
    "json_get d ''state'' = JStr ''preparing''" "json_get d ''created_at'' = JFloat (Fin 5)" "json_get d ''updated_at'' = JFloat (Fin 5)"
    "json_get d ''error_kind'' = JNull" "json_get d ''error_message'' = JNull" "map_of d ''proof_requirement'' = Some (JStr ''none'')"
    "json_get d ''proof_node'' = JNull" "json_get d ''proof_job_dir'' = JNull" "json_get d ''launch_identity_sha256'' = JNull"
    by (simp_all add: d request_json_def json_get_def fresh_request_def)
  have ts: "any_of bad_timestamp [JFloat (Fin 5), JFloat (Fin 5)] = (Inr False :: 'g exn + bool)" by (simp add: bad_timestamp_def)
  show ?thesis
    unfolding raw decode_request_def json.case Let_def names gets option.case
    by (simp add: bad_proof_text_def gets chk schemas_differ ids(3) ts rec)
qed

lemma fresh_saves: "save_request (\<lambda>s. s) SaveOk fresh_request (\<lambda>_. None) = ((\<lambda>_. None)(''req-1'' \<mapsto> Inr (request_json fresh_request)), Inr () :: 'g exn + unit)"
proof -
  have "request_id_ok ''req-1''" by code_simp
  moreover have "rq_schema fresh_request = REQUEST_SCHEMA" "rq_request_id fresh_request = ''req-1''" by (simp_all add: fresh_request_def)
  ultimately show ?thesis by (simp add: save_request_def validate_request_id_def fresh_decodes)
qed

theorem receipt_round_trip_witness:
  "load_request (\<lambda>s. s) ''req-1'' (fst (save_request (\<lambda>s. s) SaveOk fresh_request (\<lambda>_. None) :: requests \<times> (unit exn + unit))) = (Inr (Some fresh_request) :: unit exn + RequestRecord option)"
proof -
  have "fresh_request\<lparr>rq_schema := REQUEST_SCHEMA\<rparr> = fresh_request" "rq_request_id fresh_request = ''req-1''" by (simp_all add: fresh_request_def)
  then show ?thesis
    using receipt_round_trip [OF fresh_saves] fresh_saves by (metis fst_conv)
qed

text \<open>The receipt is bound and the job launched; the launch fails and the request is rejected.\<close>

definition bound_request :: RequestRecord where
  "bound_request = fresh_request\<lparr>rq_updated_at := 6, rq_proof_requirement := ''remote_launch_marker'', rq_proof_node := Some ''n1'',
     rq_proof_job_dir := Some ''/jobs/job-1'', rq_launch_identity_sha256 := Some (replicate 32 CHR ''0'')\<rparr>"


end
