(* ===== verification/Submission_Group.thy ===== *)
theory Submission_Group
  imports Submission_Intent Registry_Store
begin

text \<open>
  Durable parents of multi-job submissions (\<open>src/dt/submission_group.py\<close>): a receipt per group
  request that counts how many children were confirmed, in order, and fences the remote
  preparation (\<open>claimed_action\<close>) so that it is not repeated when its outcome is unknown.

  A state holds both receipt directories and, as a trace, the preparations that were run. Every
  publication takes its outcome (\<open>save_io\<close>) as a parameter, and a callback is what it did: it
  returned, or it raised an exception that may carry the \<open>retry_safe\<close> mark. The operations run
  under the request lock; \<open>request_lock\<close> models what the lock's context manager does to the
  exceptions of its body.
\<close>

section \<open>Receipts\<close>

definition GROUP_REQUEST_SCHEMA :: string where "GROUP_REQUEST_SCHEMA = ''dt_submission_group_request_v1''"

definition GROUP_REQUEST_STATES :: "string list" where
  "GROUP_REQUEST_STATES = [''preparing'', ''prepared'', ''confirmed'', ''rejected'', ''uncertain'']"

definition GROUP_TERMINAL_STATES :: "string list" where
  "GROUP_TERMINAL_STATES = [''confirmed'', ''rejected'']"

definition GROUP_OPERATIONS :: "string list" where
  "GROUP_OPERATIONS = [''batch'', ''chain'', ''fork_repeat'', ''matrix'']"

definition GROUP_FIELDS :: "string list" where
  "GROUP_FIELDS = [''schema'', ''request_id'', ''intent_sha256'', ''operation'', ''requested'', ''submitted'', ''state'',
     ''created_at'', ''updated_at'', ''exit_code'', ''error_kind'', ''error_message'']"

record GroupRequestRecord =
  gr_schema :: string
  gr_request_id :: string
  gr_intent_sha256 :: string
  gr_operation :: string
  gr_requested :: int
  gr_submitted :: int
  gr_state :: string
  gr_created_at :: time
  gr_updated_at :: time
  gr_exit_code :: "int option"
  gr_error_kind :: "string option"
  gr_error_message :: "string option"

type_synonym gexn = "GroupRequestRecord exn"

fun is_group_error :: "gexn \<Rightarrow> bool" where
  "is_group_error (GroupRequestError _) = True"
| "is_group_error (GroupRequestConflict _) = True"
| "is_group_error (GroupRequestRejected _ _) = True"
| "is_group_error (GroupRequestOutcomeUnknown _ _) = True"
| "is_group_error _ = False"

fun is_os_error :: "gexn \<Rightarrow> bool" where
  "is_os_error (OSError _) = True" | "is_os_error _ = False"

section \<open>Children\<close>

text \<open>\<open>f"{i:06d}"\<close> for a positive i.\<close>

definition zero_padded :: "nat \<Rightarrow> nat \<Rightarrow> string" where
  "zero_padded width n = replicate (width - length (show_nat n)) CHR ''0'' @ show_nat n"

definition item_request_id :: "(string \<Rightarrow> string) \<Rightarrow> string \<Rightarrow> int \<Rightarrow> gexn + string" where
  "item_request_id sha256 rid i =
     bind_ok (validate_request_id rid) (\<lambda>_.
       if i < 1 then Inl (ValueError ''group request item index must be positive'')
       else Inr (''dtg:'' @ take 40 (sha256 rid) @ '':'' @ zero_padded 6 (nat i)))"

section \<open>Decoding\<close>

definition group_kind_ok :: "string \<Rightarrow> bool" where
  "group_kind_ok s \<longleftrightarrow> s \<noteq> [] \<and> (\<forall>c \<in> set s. is_ascii_alnum c \<or> c \<in> set ''_.:-'')"

definition group_of :: "(string, json) dict \<Rightarrow> GroupRequestRecord" where
  "group_of d = \<lparr>
     gr_schema = str_of (json_get d ''schema''), gr_request_id = str_of (json_get d ''request_id''),
     gr_intent_sha256 = str_of (json_get d ''intent_sha256''), gr_operation = str_of (json_get d ''operation''),
     gr_requested = int_of (json_get d ''requested''), gr_submitted = int_of (json_get d ''submitted''),
     gr_state = str_of (json_get d ''state''),
     gr_created_at = num_of (json_get d ''created_at''), gr_updated_at = num_of (json_get d ''updated_at''),
     gr_exit_code = opt_of int_of (json_get d ''exit_code''), gr_error_kind = opt_of str_of (json_get d ''error_kind''),
     gr_error_message = opt_of str_of (json_get d ''error_message'')\<rparr>"

definition check_group :: "string \<Rightarrow> GroupRequestRecord \<Rightarrow> gexn + GroupRequestRecord" where
  "check_group expected g =
     (if gr_schema g \<noteq> GROUP_REQUEST_SCHEMA
      then Inl (GroupRequestError (''unsupported submission group schema '' @ py_repr (gr_schema g)))
      else if gr_request_id g \<noteq> expected
      then Inl (GroupRequestError ''submission group digest does not match its identity'')
      else if \<not> is_hex 64 (gr_intent_sha256 g)
      then Inl (GroupRequestError ''submission group intent digest is invalid'')
      else if gr_operation g \<notin> set GROUP_OPERATIONS
      then Inl (GroupRequestError ''submission group operation is invalid'')
      else if gr_requested g < 1 \<or> gr_requested g > 10000
      then Inl (GroupRequestError ''submission group size is invalid'')
      else if gr_submitted g < 0 \<or> gr_submitted g > gr_requested g
      then Inl (GroupRequestError ''submission group progress is invalid'')
      else if gr_state g \<notin> set GROUP_REQUEST_STATES
      then Inl (GroupRequestError ''submission group state is invalid'')
      else if gr_state g = ''confirmed'' \<and> gr_exit_code g = None
      then Inl (GroupRequestError ''confirmed submission group is missing its exit code'')
      else if gr_state g \<noteq> ''confirmed'' \<and> gr_exit_code g \<noteq> None
      then Inl (GroupRequestError ''non-terminal submission group has an exit code'')
      else if gr_state g = ''confirmed'' \<and> gr_error_kind g = None \<and> gr_exit_code g \<noteq> Some 0
      then Inl (GroupRequestError ''successful submission group has a failure exit code'')
      else if gr_state g = ''confirmed'' \<and> gr_error_kind g \<noteq> None \<and> gr_exit_code g = Some 0
      then Inl (GroupRequestError ''failed submission group has a success exit code'')
      else if gr_state g = ''confirmed'' \<and> gr_error_kind g = None \<and> gr_submitted g \<noteq> gr_requested g
      then Inl (GroupRequestError ''successful submission group is incomplete'')
      else if gr_state g = ''rejected'' \<and> (gr_submitted g \<noteq> 0 \<or> gr_error_kind g = None)
      then Inl (GroupRequestError ''rejected submission group has invalid progress or no failure kind'')
      else if gr_state g = ''prepared'' \<and> (gr_error_kind g \<noteq> None \<or> gr_error_message g \<noteq> None)
      then Inl (GroupRequestError ''prepared submission group has failure details'')
      else if \<exists>k. gr_error_kind g = Some k \<and> (64 < length k \<or> \<not> group_kind_ok k)
      then Inl (GroupRequestError ''submission group error kind is invalid'')
      else if \<exists>m. gr_error_message g = Some m \<and> 512 < length m
      then Inl (GroupRequestError ''submission group error message is too long'')
      else Inr g)"

definition decode_group :: "string \<Rightarrow> json \<Rightarrow> gexn + GroupRequestRecord" where
  "decode_group expected raw =
     (case raw of
        JObj d \<Rightarrow>
          let exit = json_get d ''exit_code''; kind = json_get d ''error_kind''; message = json_get d ''error_message'' in
          if set (keys d) \<noteq> set GROUP_FIELDS
          then Inl (GroupRequestError ''submission group record has an invalid schema'')
          else if \<exists>nm \<in> set [''schema'', ''request_id'', ''intent_sha256'', ''operation'', ''state'']. \<not> is_JStr (json_get d nm)
          then Inl (GroupRequestError ''submission group record has invalid fields'')
          else if \<exists>nm \<in> set [''requested'', ''submitted'']. \<not> is_JInt (json_get d nm)
          then Inl (GroupRequestError ''submission group progress is invalid'')
          else bind_ok (any_of bad_timestamp [json_get d ''created_at'', json_get d ''updated_at'']) (\<lambda>bad.
          if bad then Inl (GroupRequestError ''submission group timestamps are invalid'')
          else if exit \<noteq> JNull \<and> (\<not> is_JInt exit \<or> \<not> (0 \<le> int_of exit \<and> int_of exit \<le> 255))
          then Inl (GroupRequestError ''submission group exit code is invalid'')
          else if kind \<noteq> JNull \<and> \<not> is_JStr kind
          then Inl (GroupRequestError ''submission group error kind is invalid'')
          else if message \<noteq> JNull \<and> \<not> is_JStr message
          then Inl (GroupRequestError ''submission group error message is invalid'')
          else check_group expected (group_of d))
      | _ \<Rightarrow> Inl (GroupRequestError ''submission group record has an invalid schema''))"

text \<open>\<open>asdict(record)\<close>.\<close>

definition group_json :: "GroupRequestRecord \<Rightarrow> json" where
  "group_json g = JObj [
     (''schema'', JStr (gr_schema g)), (''request_id'', JStr (gr_request_id g)),
     (''intent_sha256'', JStr (gr_intent_sha256 g)), (''operation'', JStr (gr_operation g)),
     (''requested'', JInt (gr_requested g)), (''submitted'', JInt (gr_submitted g)), (''state'', JStr (gr_state g)),
     (''created_at'', JFloat (Fin (gr_created_at g))), (''updated_at'', JFloat (Fin (gr_updated_at g))),
     (''exit_code'', json_opt JInt (gr_exit_code g)), (''error_kind'', json_opt JStr (gr_error_kind g)),
     (''error_message'', json_opt JStr (gr_error_message g))]"

section \<open>Files\<close>

text \<open>What reading a group receipt finds: its directory refused, a file that cannot be read safely, or a document.\<close>

datatype group_slot = DirectoryRefused string | Unreadable | Document json

record group_state =
  gs_requests :: requests
  gs_groups :: "string \<Rightarrow> group_slot option"
  gs_prepared :: "(string \<times> bool) list"

definition load_group :: "(string \<Rightarrow> string) \<Rightarrow> string \<Rightarrow> group_state \<Rightarrow> gexn + GroupRequestRecord option" where
  "load_group sha256 rid st =
     (case gs_groups st (sha256 rid) of
        Some (DirectoryRefused m) \<Rightarrow> Inl (GroupRequestError m)
      | slot \<Rightarrow> bind_ok (request_digest sha256 rid) (\<lambda>_.
          case slot of
            None \<Rightarrow> Inr None
          | Some (Document raw) \<Rightarrow> bind_ok (decode_group rid raw) (\<lambda>g. Inr (Some g))
          | Some _ \<Rightarrow> Inl (GroupRequestError ''cannot safely read submission group record'')))"

definition save_group ::
  "(string \<Rightarrow> string) \<Rightarrow> save_io \<Rightarrow> GroupRequestRecord \<Rightarrow> group_state \<Rightarrow> group_state \<times> (gexn + unit)" where
  "save_group sha256 io g st =
     (case bind_ok (validate_request_id (gr_request_id g)) (\<lambda>rid. decode_group rid (group_json g)) of
        Inl x \<Rightarrow> (st, Inl x)
      | Inr _ \<Rightarrow>
          let st' = st\<lparr>gs_groups := (gs_groups st)(sha256 (gr_request_id g) \<mapsto> Document (group_json g))\<rparr> in
          (case io of
             SaveRefused m \<Rightarrow> (st, Inl (GroupRequestError m))
           | SaveFails m \<Rightarrow> (st, Inl (OSError m))
           | SaveUnsynced \<Rightarrow> (st', Inl (RequestDurabilityUnknown ''submission group record was published but its durability is unknown''))
           | SaveOk \<Rightarrow> (st', Inr ())))"

text \<open>A record that is returned once it is saved.\<close>

definition saved_group ::
  "(string \<Rightarrow> string) \<Rightarrow> save_io \<Rightarrow> GroupRequestRecord \<Rightarrow> group_state \<Rightarrow> group_state \<times> (gexn + GroupRequestRecord)" where
  "saved_group sha256 io g st =
     (case save_group sha256 io g st of (st', Inl x) \<Rightarrow> (st', Inl x) | (st', Inr _) \<Rightarrow> (st', Inr g))"

section \<open>The confirmed prefix\<close>

definition unreadable_child :: "string \<Rightarrow> int \<Rightarrow> string" where
  "unreadable_child rid i = ''request '' @ py_repr rid @ '' child '' @ show_int i
     @ '' has unreadable durable state; refusing to submit more jobs''"

definition foreign_child :: "string \<Rightarrow> string \<Rightarrow> string" where
  "foreign_child rid job = ''request '' @ py_repr rid @ '' records child '' @ py_repr job
     @ '', but its authoritative child receipt or job row is missing, unconfirmed, or belongs to a different request; refusing to submit more jobs''"

fun load_entries :: "(string \<Rightarrow> string) \<Rightarrow> (string \<Rightarrow> string + JobEntry option) \<Rightarrow> GroupRequestRecord \<Rightarrow> group_state
    \<Rightarrow> int list \<Rightarrow> string list \<Rightarrow> gexn + JobEntry list" where
  "load_entries sha256 load_job g st [] seen = Inr []"
| "load_entries sha256 load_job g st (i # indices) seen =
     bind_ok (item_request_id sha256 (gr_request_id g) i) (\<lambda>expected.
       case load_request sha256 expected (gs_requests st) of
         Inl x \<Rightarrow> if is_record_error x then Inl (GroupRequestError (unreadable_child (gr_request_id g) i)) else Inl x
       | Inr child \<Rightarrow>
           let job = (case child of None \<Rightarrow> ''-'' | Some r \<Rightarrow> rq_job_id r) in
           bind_ok (case child of None \<Rightarrow> Inr None | Some _ \<Rightarrow> map_error RegistryError (load_job job)) (\<lambda>entry.
             case (entry, child) of
               (Some e, Some r) \<Rightarrow>
                 if request_id e \<noteq> Some expected \<or> rq_state r \<noteq> ''confirmed'' \<or> job \<in> set seen
                 then Inl (GroupRequestError (foreign_child (gr_request_id g) job))
                 else bind_ok (load_entries sha256 load_job g st indices (job # seen)) (\<lambda>es. Inr (e # es))
             | _ \<Rightarrow> Inl (GroupRequestError (foreign_child (gr_request_id g) job))))"

definition load_entries_or_fail :: "(string \<Rightarrow> string) \<Rightarrow> decoding \<Rightarrow> HeadConfig \<Rightarrow> 'r world \<Rightarrow> GroupRequestRecord \<Rightarrow> group_state
    \<Rightarrow> gexn + JobEntry list" where
  "load_entries_or_fail sha256 dc cfg w g st =
     load_entries sha256 (\<lambda>job. load dc cfg job w) g st [1..gr_submitted g] []"

section \<open>Transitions\<close>

definition claim_created :: "(string \<Rightarrow> string) \<Rightarrow> time \<Rightarrow> save_io \<Rightarrow> string \<Rightarrow> string \<Rightarrow> string \<Rightarrow> int
    \<Rightarrow> group_state \<Rightarrow> group_state \<times> (gexn + GroupRequestRecord \<times> bool)" where
  "claim_created sha256 now io rid intent operation requested st =
     (case load_request sha256 rid (gs_requests st) of
        Inl x \<Rightarrow> (st, Inl x)
      | Inr (Some _) \<Rightarrow> (st, Inl (GroupRequestConflict (''request '' @ py_repr rid @ '' already belongs to a single-job intent'')))
      | Inr None \<Rightarrow>
     (case load_group sha256 rid st of
        Inl x \<Rightarrow> (st, Inl x)
      | Inr (Some g) \<Rightarrow>
          if gr_intent_sha256 g \<noteq> intent \<or> gr_operation g \<noteq> operation \<or> gr_requested g \<noteq> requested
          then (st, Inl (GroupRequestConflict (''request '' @ py_repr rid @ '' already belongs to a different intent'')))
          else (st, Inr (g, False))
      | Inr None \<Rightarrow>
          if operation \<notin> set GROUP_OPERATIONS
          then (st, Inl (ValueError (''unsupported submission group operation '' @ py_repr operation)))
          else if requested < 1 \<or> requested > 10000
          then (st, Inl (ValueError ''submission group size must be between 1 and 10000''))
          else
     (case validate_request_id rid of
        Inl x \<Rightarrow> (st, Inl x)
      | Inr rid' \<Rightarrow>
          let g = \<lparr>gr_schema = GROUP_REQUEST_SCHEMA, gr_request_id = rid', gr_intent_sha256 = intent, gr_operation = operation,
                   gr_requested = requested, gr_submitted = 0, gr_state = ''preparing'', gr_created_at = now, gr_updated_at = now,
                   gr_exit_code = None, gr_error_kind = None, gr_error_message = None\<rparr> in
          (case saved_group sha256 io g st of
             (st', Inl x) \<Rightarrow> (st', Inl x)
           | (st', Inr g') \<Rightarrow> (st', Inr (g', True))))))"

definition claim :: "(string \<Rightarrow> string) \<Rightarrow> time \<Rightarrow> save_io \<Rightarrow> string \<Rightarrow> string \<Rightarrow> string \<Rightarrow> int
    \<Rightarrow> group_state \<Rightarrow> group_state \<times> (gexn + GroupRequestRecord)" where
  "claim sha256 now io rid intent operation requested st =
     (case claim_created sha256 now io rid intent operation requested st of (st', x) \<Rightarrow> (st', bind_ok x (\<lambda>(g, _). Inr g)))"

definition confirmed_child :: "(string \<Rightarrow> string) \<Rightarrow> string \<Rightarrow> int \<Rightarrow> string \<Rightarrow> group_state \<Rightarrow> gexn + bool" where
  "confirmed_child sha256 rid i job st =
     bind_ok (item_request_id sha256 rid i) (\<lambda>child_id.
     bind_ok (load_request sha256 child_id (gs_requests st)) (\<lambda>child.
       Inr (case child of None \<Rightarrow> False | Some r \<Rightarrow> rq_state r = ''confirmed'' \<and> rq_job_id r = job)))"

definition record_job :: "(string \<Rightarrow> string) \<Rightarrow> time \<Rightarrow> save_io \<Rightarrow> GroupRequestRecord \<Rightarrow> int \<Rightarrow> string
    \<Rightarrow> group_state \<Rightarrow> group_state \<times> (gexn + GroupRequestRecord)" where
  "record_job sha256 now io g i job st =
     (if gr_state g \<in> set GROUP_TERMINAL_STATES
      then (st, Inl (GroupRequestError ''terminal submission group cannot record more jobs''))
      else if i < 1 \<or> i > gr_requested g
      then (st, Inl (GroupRequestError ''submission group child index is out of range''))
      else if i > gr_submitted g + 1
      then (st, Inl (GroupRequestError ''submission group progress is not a strict prefix''))
      else case confirmed_child sha256 (gr_request_id g) i job st of
        Inl x \<Rightarrow> (st, Inl x)
      | Inr False \<Rightarrow> (st, Inl (GroupRequestError ''submission group child is not durably confirmed for this job''))
      | Inr True \<Rightarrow>
          if i \<le> gr_submitted g then (st, Inr g)
          else saved_group sha256 io
            (g\<lparr>gr_submitted := i, gr_state := (if gr_state g = ''prepared'' then ''prepared'' else ''preparing''),
               gr_updated_at := now, gr_exit_code := None, gr_error_kind := None, gr_error_message := None\<rparr>) st)"

definition transition_group :: "(string \<Rightarrow> string) \<Rightarrow> time \<Rightarrow> save_io \<Rightarrow> GroupRequestRecord \<Rightarrow> string \<Rightarrow> int option
    \<Rightarrow> string option \<Rightarrow> string option \<Rightarrow> group_state \<Rightarrow> group_state \<times> (gexn + GroupRequestRecord)" where
  "transition_group sha256 now io g state exit kind message st =
     (if state \<notin> set GROUP_REQUEST_STATES
      then (st, Inl (ValueError (''invalid submission group state '' @ py_repr state)))
      else saved_group sha256 io
        (g\<lparr>gr_state := state, gr_updated_at := now, gr_exit_code := (if state = ''confirmed'' then exit else None),
           gr_error_kind := kind, gr_error_message := bounded_message message\<rparr>) st)"

section \<open>Locked operations\<close>

text \<open>
  \<open>with lock(cfg, request_id): ...\<close>: the identity is checked first; the lock may be refused
  (\<open>Some\<close> its reason); an operating system or private-state error that leaves the body passes
  through the context manager and is reported as a lock error.
\<close>

definition lock_error :: "string \<Rightarrow> gexn" where
  "lock_error m = RequestLockError (''cannot safely open or acquire durable submission lock: '' @ take 512 (join '' '' (words m)))"

definition through_lock :: "gexn \<Rightarrow> gexn" where
  "through_lock x = (case x of OSError m \<Rightarrow> lock_error m | PrivateStateError m \<Rightarrow> lock_error m | _ \<Rightarrow> x)"

definition request_lock ::
  "string option \<Rightarrow> string \<Rightarrow> (group_state \<Rightarrow> group_state \<times> (gexn + 'a)) \<Rightarrow> group_state \<Rightarrow> group_state \<times> (gexn + 'a)" where
  "request_lock refused rid body st =
     (case validate_request_id rid of
        Inl x \<Rightarrow> (st, Inl x)
      | Inr _ \<Rightarrow>
          (case refused of
             Some m \<Rightarrow> (st, Inl (lock_error m))
           | None \<Rightarrow> (case body st of (st', r) \<Rightarrow> (st', map_error through_lock r))))"

text \<open>What the outside does during one locked operation: the lock, two clock readings and the outcomes of two publications.\<close>

record group_env =
  ge_lock :: "string option"
  ge_now :: time
  ge_save :: save_io
  ge_later :: time
  ge_final :: save_io

text \<open>A callback returns, or raises an exception with its \<open>retry_safe\<close> mark and its text (\<open>str(exc) or type(exc).__name__\<close>).\<close>

datatype callback = Returns | Raises gexn bool string

definition persistence_error :: "gexn \<Rightarrow> bool" where
  "persistence_error x \<longleftrightarrow> is_os_error x \<or> is_value_error x \<or> is_record_error x \<or> is_group_error x"

definition outcome_unknown :: "string \<Rightarrow> group_state \<times> (gexn + GroupRequestRecord) \<Rightarrow> group_state \<times> (gexn + GroupRequestRecord)" where
  "outcome_unknown m r =
     (case r of (st, Inl x) \<Rightarrow> (st, Inl (if persistence_error x then GroupRequestOutcomeUnknown m None else x)) | _ \<Rightarrow> r)"

definition prepare_claimed :: "(string \<Rightarrow> string) \<Rightarrow> group_env \<Rightarrow> string \<Rightarrow> callback option \<Rightarrow> GroupRequestRecord
    \<Rightarrow> group_state \<Rightarrow> group_state \<times> (gexn + GroupRequestRecord)" where
  "prepare_claimed sha256 ev rid action g st =
     (case action of
        None \<Rightarrow> (st, Inr g)
      | Some Returns \<Rightarrow>
          outcome_unknown (''request '' @ py_repr rid @ '' preparation completed but its durable receipt could not be written; outcome unknown'')
            (transition_group sha256 (ge_later ev) (ge_final ev) g ''prepared'' None None None
              (st\<lparr>gs_prepared := gs_prepared st @ [(rid, False)]\<rparr>))
      | Some (Raises x retry_safe txt) \<Rightarrow>
          (case outcome_unknown (''request '' @ py_repr rid @ '' preparation failed but its durable receipt could not be written; outcome unknown'')
                  (transition_group sha256 (ge_later ev) (ge_final ev) g ''rejected'' None
                    (Some (if retry_safe then ''claimed_action_interrupted'' else ''claimed_action_failed'')) (Some txt)
                    (st\<lparr>gs_prepared := gs_prepared st @ [(rid, retry_safe)]\<rparr>)) of
             (st', Inl y) \<Rightarrow> (st', Inl y)
           | (st', Inr _) \<Rightarrow> (st', Inl x)))"

definition reopenable :: "GroupRequestRecord \<Rightarrow> bool" where
  "reopenable g \<longleftrightarrow> gr_error_kind g = Some ''claimed_action_interrupted'' \<and> gr_submitted g = 0"

definition rejected_detail :: "GroupRequestRecord \<Rightarrow> string" where
  "rejected_detail g = (case gr_error_message g of Some m \<Rightarrow> if m = [] then ''group preparation failed'' else m | None \<Rightarrow> ''group preparation failed'')"

definition claim_error :: "string \<Rightarrow> gexn \<Rightarrow> gexn" where
  "claim_error rid x =
     (case x of
        RequestDurabilityUnknown _ \<Rightarrow> GroupRequestOutcomeUnknown (''request '' @ py_repr rid
          @ '' claim durability is unknown; inspect `dt request '' @ rid @ '' --json` before retrying'') None
      | OSError m \<Rightarrow> GroupRequestRejected (''request '' @ py_repr rid
          @ '' was not prepared because its durable claim could not be persisted: '' @ take 512 (join '' '' (words m))) None
      | _ \<Rightarrow> x)"

definition locked_claim :: "(string \<Rightarrow> string) \<Rightarrow> group_env \<Rightarrow> string \<Rightarrow> string \<Rightarrow> string \<Rightarrow> int \<Rightarrow> callback option
    \<Rightarrow> group_state \<Rightarrow> group_state \<times> (gexn + GroupRequestRecord)" where
  "locked_claim sha256 ev rid intent operation requested action =
     request_lock (ge_lock ev) rid (\<lambda>st.
       case claim_created sha256 (ge_now ev) (ge_save ev) rid intent operation requested st of
         (st1, Inl x) \<Rightarrow> (st1, Inl (claim_error rid x))
       | (st1, Inr (g, True)) \<Rightarrow> prepare_claimed sha256 ev rid action g st1
       | (st1, Inr (g, False)) \<Rightarrow>
           if gr_state g = ''rejected''
           then if \<not> reopenable g
                then (st1, Inl (GroupRequestRejected (''request '' @ py_repr rid @ '' was already rejected: '' @ rejected_detail g) (Some g)))
                else (case outcome_unknown (''request '' @ py_repr rid @ '' reopen durability is unknown; inspect `dt request ''
                              @ rid @ '' --json` before retrying'')
                            (transition_group sha256 (ge_now ev) (ge_save ev) g ''preparing'' None None None st1) of
                        (st2, Inl y) \<Rightarrow> (st2, Inl y)
                      | (st2, Inr g2) \<Rightarrow> prepare_claimed sha256 ev rid action g2 st2)
           else if action = None \<or> gr_state g \<in> {''prepared'', ''confirmed''} then (st1, Inr g)
           else (st1, Inl (GroupRequestOutcomeUnknown (''request '' @ py_repr rid @ '' preparation outcome is unknown; inspect `dt request ''
                              @ rid @ '' --json` before retrying'') (Some g))))"

definition with_current :: "(string \<Rightarrow> string) \<Rightarrow> string \<Rightarrow> string \<Rightarrow> (GroupRequestRecord \<Rightarrow> group_state \<Rightarrow> group_state \<times> (gexn + GroupRequestRecord))
    \<Rightarrow> group_state \<Rightarrow> group_state \<times> (gexn + GroupRequestRecord)" where
  "with_current sha256 rid intent body st =
     (case load_group sha256 rid st of
        Inl x \<Rightarrow> (st, Inl x)
      | Inr None \<Rightarrow> (st, Inl (GroupRequestError ''submission group claim disappeared''))
      | Inr (Some g) \<Rightarrow>
          if gr_intent_sha256 g \<noteq> intent
          then (st, Inl (GroupRequestConflict (''request '' @ py_repr rid @ '' already belongs to a different intent'')))
          else body g st)"

definition locked_record_job :: "(string \<Rightarrow> string) \<Rightarrow> group_env \<Rightarrow> string \<Rightarrow> string \<Rightarrow> int \<Rightarrow> string
    \<Rightarrow> group_state \<Rightarrow> group_state \<times> (gexn + GroupRequestRecord)" where
  "locked_record_job sha256 ev rid intent i job =
     request_lock (ge_lock ev) rid (with_current sha256 rid intent (\<lambda>g st.
       if gr_state g \<in> set GROUP_TERMINAL_STATES
       then if i > gr_submitted g
            then (st, Inl (GroupRequestError ''terminal submission group progress changed''))
            else (case confirmed_child sha256 rid i job st of
                    Inl x \<Rightarrow> (st, Inl x)
                  | Inr False \<Rightarrow> (st, Inl (GroupRequestError ''terminal submission group child changed''))
                  | Inr True \<Rightarrow> (st, Inr g))
       else record_job sha256 (ge_now ev) (ge_save ev) g i job st))"

definition locked_transition :: "(string \<Rightarrow> string) \<Rightarrow> group_env \<Rightarrow> string \<Rightarrow> string \<Rightarrow> string \<Rightarrow> int option \<Rightarrow> string option
    \<Rightarrow> string option \<Rightarrow> group_state \<Rightarrow> group_state \<times> (gexn + GroupRequestRecord)" where
  "locked_transition sha256 ev rid intent state exit kind message =
     request_lock (ge_lock ev) rid (with_current sha256 rid intent (\<lambda>g st.
       if gr_state g \<in> set GROUP_TERMINAL_STATES then (st, Inr g)
       else transition_group sha256 (ge_now ev) (ge_save ev) g state exit kind message st))"

end
