(* ===== verification/Group_Facts.thy ===== *)
theory Group_Facts
  imports Submission_Group Codec_Round_Trip
begin

text \<open>
  Facts about multi-job submissions (\<open>Submission_Group\<close>): what each locked operation can do to the
  receipt of its request, that the remote preparation is not repeated, that the recorded prefix
  only grows over confirmed children, and that children have identities of their own.
\<close>

section \<open>Decoding and publication\<close>

lemma group_of_json: "group_of (obj_items (group_json g)) = g"
  by (cases g) (simp add: group_of_def group_json_def json_get_def opt_of_def json_opt_def split: option.splits)

lemma check_group_Inr: "check_group expected g = Inr x \<Longrightarrow> x = g \<and> gr_request_id g = expected"
  unfolding check_group_def guard_ok by blast

lemma decode_group_Inr:
  assumes "decode_group rid raw = Inr g"
  obtains d where "raw = JObj d" "g = group_of d" "gr_request_id g = rid"
proof -
  obtain d where d: "raw = JObj d" using assms by (cases raw) (simp_all add: decode_group_def)
  have "\<exists>bad. any_of bad_timestamp [json_get d ''created_at'', json_get d ''updated_at''] = (Inr bad :: gexn + bool)
      \<and> check_group rid (group_of d) = Inr g"
    using assms [unfolded d decode_group_def json.case Let_def guard_ok bind_ok_Inr] by blast
  then have "g = group_of d" "gr_request_id g = rid" using check_group_Inr by blast+
  with d that show thesis by blast
qed

text \<open>A record that passes its own validation.\<close>

definition group_ok :: "GroupRequestRecord \<Rightarrow> bool" where
  "group_ok g \<longleftrightarrow> request_id_ok (gr_request_id g) \<and> decode_group (gr_request_id g) (group_json g) = Inr g"

definition put_group :: "(string \<Rightarrow> string) \<Rightarrow> GroupRequestRecord \<Rightarrow> group_state \<Rightarrow> group_state" where
  "put_group sha256 g st = st\<lparr>gs_groups := (gs_groups st)(sha256 (gr_request_id g) \<mapsto> Document (group_json g))\<rparr>"

lemma put_group_select [simp]:
  "gs_requests (put_group sha256 g st) = gs_requests st"
  "gs_prepared (put_group sha256 g st) = gs_prepared st"
  "gs_groups (put_group sha256 g st) = (gs_groups st)(sha256 (gr_request_id g) \<mapsto> Document (group_json g))"
  by (simp_all add: put_group_def)

lemma decode_own: "decode_group rid (group_json g) = Inr g' \<Longrightarrow> g' = g \<and> gr_request_id g = rid"
  using group_of_json [of g] by (auto elim!: decode_group_Inr simp: group_json_def)

lemma save_groupE:
  assumes "save_group sha256 io g st = (st', x)"
  obtains (unchanged) e where "st' = st" "x = Inl e"
  | (published) "group_ok g" "st' = put_group sha256 g st"
proof (cases "bind_ok (validate_request_id (gr_request_id g)) (\<lambda>rid. decode_group rid (group_json g))")
  case (Inl e)
  then show thesis using assms unchanged by (auto simp: save_group_def)
next
  case (Inr y)
  then have "request_id_ok (gr_request_id g)" and d: "decode_group (gr_request_id g) (group_json g) = Inr y"
    by (auto simp: bind_ok_Inr validate_request_id_def split: if_splits)
  then have ok: "group_ok g" using decode_own [OF d] by (simp add: group_ok_def)
  show thesis
    using assms unchanged published [OF ok] Inr by (cases io) (auto simp: save_group_def put_group_def Let_def)
qed

lemma saved_groupE:
  assumes "saved_group sha256 io g st = (st', x)"
  obtains (unchanged) e where "st' = st" "x = Inl e"
  | (published) "group_ok g" "st' = put_group sha256 g st" "x = Inr g \<or> (\<exists>e. x = Inl e)"
proof -
  obtain st1 y where s: "save_group sha256 io g st = (st1, y)" by (cases "save_group sha256 io g st")
  have r: "st' = st1" "x = (case y of Inl e \<Rightarrow> Inl e | Inr _ \<Rightarrow> Inr g)"
    using assms s by (auto simp: saved_group_def split: sum.splits)
  show thesis
    using s r that by (cases y) (auto elim!: save_groupE)
qed

lemma load_put: "group_ok g \<Longrightarrow> load_group sha256 (gr_request_id g) (put_group sha256 g st) = Inr (Some g)"
  by (simp add: load_group_def group_ok_def request_digest_def validate_request_id_def)

lemma load_group_slot:
  "gs_groups st (sha256 rid) = gs_groups st' (sha256 rid) \<Longrightarrow> load_group sha256 rid st = load_group sha256 rid st'"
  by (simp add: load_group_def)

lemma load_group_id: "load_group sha256 rid st = Inr (Some g) \<Longrightarrow> gr_request_id g = rid \<and> request_id_ok rid"
  by (auto simp: load_group_def bind_ok_Inr request_digest_def validate_request_id_def
      elim!: decode_group_Inr split: option.splits group_slot.splits if_splits)

section \<open>What an operation can do\<close>

text \<open>The parts of a group that its first claim fixes.\<close>

definition contract_of :: "GroupRequestRecord \<Rightarrow> string \<times> string \<times> string \<times> int \<times> time" where
  "contract_of g = (gr_request_id g, gr_intent_sha256 g, gr_operation g, gr_requested g, gr_created_at g)"

text \<open>The receipt that a claim opens: a new one, or a rejection whose interrupted preparation may be repeated.\<close>

definition opens :: "(string \<Rightarrow> string) \<Rightarrow> string \<Rightarrow> group_state \<Rightarrow> GroupRequestRecord \<Rightarrow> bool" where
  "opens sha256 rid st g0 \<longleftrightarrow> gr_request_id g0 = rid \<and> gr_state g0 = ''preparing'' \<and> gr_submitted g0 = 0 \<and> group_ok g0
     \<and> (load_group sha256 rid st = Inr None
        \<or> (\<exists>g. load_group sha256 rid st = Inr (Some g) \<and> gr_state g = ''rejected'' \<and> reopenable g \<and> contract_of g0 = contract_of g))"

definition log_run :: "string \<Rightarrow> bool \<Rightarrow> group_state \<Rightarrow> group_state" where
  "log_run rid b st = st\<lparr>gs_prepared := gs_prepared st @ [(rid, b)]\<rparr>"

lemma log_run_select [simp]:
  "gs_requests (log_run rid b st) = gs_requests st" "gs_groups (log_run rid b st) = gs_groups st"
  "gs_prepared (log_run rid b st) = gs_prepared st @ [(rid, b)]"
  by (simp_all add: log_run_def)

lemma request_lockE:
  assumes "request_lock refused rid body st = (st', x)"
  obtains (refused) "st' = st" | (ran) y where "request_id_ok rid" "body st = (st', y)" "x = map_error through_lock y"
  using assms by (auto simp: request_lock_def validate_request_id_def split: option.splits if_splits prod.splits)

lemma outcome_unknown_state: "fst (outcome_unknown m r) = fst r"
  by (auto simp: outcome_unknown_def split: prod.splits sum.splits)

lemma transition_groupE:
  assumes "transition_group sha256 now io g state exit kind message st = (st', x)"
  obtains (unchanged) e where "st' = st" "x = Inl e"
  | (moved) g' where "g' = g\<lparr>gr_state := state, gr_updated_at := now, gr_exit_code := (if state = ''confirmed'' then exit else None),
        gr_error_kind := kind, gr_error_message := bounded_message message\<rparr>"
      "group_ok g'" "st' = put_group sha256 g' st" "x = Inr g' \<or> (\<exists>e. x = Inl e)"
  using assms unfolding transition_group_def
  by (auto split: if_splits elim: saved_groupE)

lemma prepare_claimedE:
  assumes "prepare_claimed sha256 ev rid action g st = (st', x)"
  obtains (idle) "st' = st"
  | (unsettled) b where "st' = log_run rid b st"
  | (settled) b g' where "st' = put_group sha256 g' (log_run rid b st)" "group_ok g'" "contract_of g' = contract_of g"
      "gr_submitted g' = gr_submitted g" "gr_state g' = ''prepared'' \<or> gr_state g' = ''rejected'' \<and> (reopenable g' \<longrightarrow> b)"
proof -
  have settle: thesis
    if t: "transition_group sha256 now io g state None kind msg (log_run rid b st) = (st', y)"
      and k: "state = ''prepared'' \<or> state = ''rejected'' \<and> (kind = Some ''claimed_action_interrupted'' \<longrightarrow> b)"
    for now io state kind msg b y
    using t
  proof (cases rule: transition_groupE)
    case (moved g')
    then show ?thesis using settled [of g' b] k by (auto simp: contract_of_def reopenable_def)
  qed (rule unsettled)
  consider (none) "action = None" | (ret) "action = Some Returns" | (rs) e safe detail where "action = Some (Raises e safe detail)"
    by (metis callback.exhaust option.exhaust)
  then show thesis
  proof cases
    case none
    then show ?thesis using assms idle by (simp add: prepare_claimed_def)
  next
    case ret
    obtain st1 y where t: "transition_group sha256 (ge_later ev) (ge_final ev) g ''prepared'' None None None (log_run rid False st) = (st1, y)"
      by fastforce
    then have "st1 = st'"
      using assms outcome_unknown_state [of _ "(st1, y)"] by (simp add: ret prepare_claimed_def log_run_def) (metis fst_conv)
    then show ?thesis using settle [OF t [unfolded \<open>st1 = st'\<close>]] by simp
  next
    case rs
    let ?kind = "Some (if safe then ''claimed_action_interrupted'' else ''claimed_action_failed'')"
    obtain st1 y where t: "transition_group sha256 (ge_later ev) (ge_final ev) g ''rejected'' None ?kind (Some detail) (log_run rid safe st) = (st1, y)"
      by fastforce
    then have "st1 = st'"
      using assms outcome_unknown_state [of _ "(st1, y)"]
      by (auto simp: rs prepare_claimed_def log_run_def split: prod.splits sum.splits) (metis fst_conv)+
    then show ?thesis using settle [OF t [unfolded \<open>st1 = st'\<close>]] by auto
  qed
qed

lemma claim_createdE:
  assumes "claim_created sha256 now io rid intent operation requested st = (st', x)"
  obtains (failed) e where "st' = st" "x = Inl e"
  | (existing) g where "st' = st" "x = Inr (g, False)" "load_group sha256 rid st = Inr (Some g)"
      "gr_intent_sha256 g = intent" "gr_operation g = operation" "gr_requested g = requested"
  | (opened) g where "opens sha256 rid st g" "st' = put_group sha256 g st" "x = Inr (g, True) \<or> (\<exists>e. x = Inl e)"
proof (cases "load_request sha256 rid (gs_requests st) :: gexn + RequestRecord option")
  case (Inl e)
  then show thesis using assms failed by (auto simp: claim_created_def)
next
  case r: (Inr c)
  show thesis
  proof (cases "load_group sha256 rid st")
    case (Inl e)
    then show thesis using assms failed r by (auto simp: claim_created_def split: option.splits)
  next
    case l: (Inr old)
    show thesis
    proof (cases old)
      case (Some g)
      then show thesis using assms failed existing r l by (auto simp: claim_created_def split: option.splits if_splits)
    next
      case None
      let ?g = "\<lparr>gr_schema = GROUP_REQUEST_SCHEMA, gr_request_id = rid, gr_intent_sha256 = intent, gr_operation = operation,
                   gr_requested = requested, gr_submitted = 0, gr_state = ''preparing'', gr_created_at = now, gr_updated_at = now,
                   gr_exit_code = None, gr_error_kind = None, gr_error_message = None\<rparr>"
      obtain st1 y where s: "saved_group sha256 io ?g st = (st1, y)" by fastforce
      consider (bad) e where "st' = st" "x = Inl e"
        | (sv) "st' = st1" "x = (case y of Inl e \<Rightarrow> Inl e | Inr g' \<Rightarrow> Inr (g', True))"
        using assms r l None s
        by (auto simp: claim_created_def validate_request_id_def Let_def split: option.splits if_splits sum.splits)
      then show thesis
      proof cases
        case sv
        from s show thesis
        proof (cases rule: saved_groupE)
          case published
          then show thesis using sv opened [of ?g] l None by (auto simp: opens_def)
        qed (use sv failed in auto)
      qed (rule failed)
    qed
  qed
qed

text \<open>The three things a claim can leave behind.\<close>

lemma locked_claimE:
  assumes "locked_claim sha256 ev rid intent operation requested action st = (st', x)"
  obtains (unchanged) "st' = st"
  | (opened) g0 where "opens sha256 rid st g0" "st' = put_group sha256 g0 st"
  | (unsettled) g0 b where "opens sha256 rid st g0" "st' = log_run rid b (put_group sha256 g0 st)"
  | (settled) g0 b g' where "opens sha256 rid st g0" "st' = put_group sha256 g' (log_run rid b (put_group sha256 g0 st))"
      "group_ok g'" "contract_of g' = contract_of g0" "gr_submitted g' = 0"
      "gr_state g' = ''prepared'' \<or> gr_state g' = ''rejected'' \<and> (reopenable g' \<longrightarrow> b)"
proof -
  note unchangedI = unchanged and openedI = opened and unsettledI = unsettled and settledI = settled
  have prepare: thesis
    if "prepare_claimed sha256 ev rid action g0 (put_group sha256 g0 st) = (st', y)" and o: "opens sha256 rid st g0" for g0 y
    using that(1)
  proof (cases rule: prepare_claimedE)
    case settled
    then show ?thesis using settledI [OF o] o by (auto simp: opens_def)
  qed (use openedI [OF o] unsettledI [OF o] in auto)
  show thesis
    using assms unfolding locked_claim_def
  proof (cases rule: request_lockE)
    case (ran y)
    obtain st1 z where c: "claim_created sha256 (ge_now ev) (ge_save ev) rid intent operation requested st = (st1, z)" by fastforce
    from c show thesis
    proof (cases rule: claim_createdE)
      case (existing g)
      show thesis
      proof (cases "gr_state g = ''rejected'' \<and> reopenable g")
        case True
        obtain st2 t where m: "transition_group sha256 (ge_now ev) (ge_save ev) g ''preparing'' None None None st = (st2, t)" by fastforce
        show thesis
          using m
        proof (cases rule: transition_groupE)
          case (unchanged e)
          then show thesis using ran(2) c existing True m by (auto simp: outcome_unknown_def split: if_splits intro: unchangedI)
        next
          case (moved g0)
          have o: "opens sha256 rid st g0"
            using moved existing True load_group_id [OF existing(3)] by (auto simp: opens_def contract_of_def reopenable_def)
          then show thesis
            using ran(2) c existing True m moved prepare [OF _ o] openedI [OF o]
            by (auto simp: outcome_unknown_def split: if_splits)
        qed
      next
        case False
        then show thesis using ran(2) c existing by (auto split: if_splits intro: unchangedI)
      qed
    next
      case (opened g0)
      then show thesis using ran(2) c prepare [of g0 y] openedI by auto
    qed (use ran(2) c unchangedI in auto)
  qed (rule unchangedI)
qed

lemma locked_record_jobE:
  assumes "locked_record_job sha256 ev rid intent i job st = (st', x)"
  obtains (unchanged) "st' = st"
  | (recorded) g g' where "load_group sha256 rid st = Inr (Some g)" "gr_state g \<notin> set GROUP_TERMINAL_STATES"
      "confirmed_child sha256 rid (gr_submitted g + 1) job st = Inr True" "gr_submitted g + 1 \<le> gr_requested g"
      "group_ok g'" "contract_of g' = contract_of g" "gr_submitted g' = gr_submitted g + 1" "gr_error_kind g' = None"
      "st' = put_group sha256 g' st"
proof -
  have rec: thesis
    if r: "record_job sha256 now io g i job st = (st', y)" and l: "load_group sha256 rid st = Inr (Some g)" for now io g y
  proof (cases "gr_state g \<notin> set GROUP_TERMINAL_STATES \<and> i = gr_submitted g + 1 \<and> i \<le> gr_requested g
      \<and> confirmed_child sha256 rid i job st = Inr True")
    case True
    let ?g = "g\<lparr>gr_submitted := i, gr_state := (if gr_state g = ''prepared'' then ''prepared'' else ''preparing''),
               gr_updated_at := now, gr_exit_code := None, gr_error_kind := None, gr_error_message := None\<rparr>"
    have id: "gr_request_id g = rid" using load_group_id [OF l] by simp
    have "saved_group sha256 io ?g st = (st', y) \<or> st' = st" using r True id by (auto simp: record_job_def split: if_splits)
    then show thesis
    proof
      assume "saved_group sha256 io ?g st = (st', y)"
      then show thesis
      proof (cases rule: saved_groupE)
        case published
        then show thesis using recorded [OF l] True by (auto simp: contract_of_def)
      qed (rule unchanged)
    qed (rule unchanged)
  next
    case False
    have id: "gr_request_id g = rid" using load_group_id [OF l] by simp
    have "st' = st"
    proof (cases "confirmed_child sha256 rid i job st")
      case (Inr b)
      then show ?thesis using r False id by (cases b) (auto simp: record_job_def split: if_splits)
    qed (use r id in \<open>auto simp: record_job_def split: if_splits\<close>)
    then show thesis by (rule unchanged)
  qed
  show thesis
    using assms unfolding locked_record_job_def
  proof (cases rule: request_lockE)
    case (ran y)
    then show thesis
      using rec unchanged
      by (auto simp: with_current_def split: sum.splits option.splits if_splits bool.splits)
  qed (rule unchanged)
qed

lemma locked_transitionE:
  assumes "locked_transition sha256 ev rid intent state exit kind message st = (st', x)"
  obtains (unchanged) "st' = st"
  | (moved) g g' where "load_group sha256 rid st = Inr (Some g)" "gr_state g \<notin> set GROUP_TERMINAL_STATES"
      "group_ok g'" "contract_of g' = contract_of g" "gr_submitted g' = gr_submitted g" "gr_state g' = state"
      "st' = put_group sha256 g' st"
  using assms unfolding locked_transition_def
proof (cases rule: request_lockE)
  case (ran y)
  show thesis
  proof (cases "\<exists>g. load_group sha256 rid st = Inr (Some g) \<and> gr_intent_sha256 g = intent \<and> gr_state g \<notin> set GROUP_TERMINAL_STATES")
    case True
    then obtain g where g: "load_group sha256 rid st = Inr (Some g)" "gr_intent_sha256 g = intent" "gr_state g \<notin> set GROUP_TERMINAL_STATES"
      by blast
    with ran have "transition_group sha256 (ge_now ev) (ge_save ev) g state exit kind message st = (st', y)"
      by (simp add: with_current_def)
    then show thesis
    proof (cases rule: transition_groupE)
      case (moved g')
      then show thesis using that(2) [OF g(1,3)] by (auto simp: contract_of_def)
    qed (rule that(1))
  next
    case False
    then have "st' = st" using ran by (auto simp: with_current_def split: sum.splits option.splits if_splits)
    then show thesis by (rule that(1))
  qed
qed (rule that(1))

section \<open>Runs of one request\<close>

text \<open>The preparations of a request that were run, each with its \<open>retry_safe\<close> mark.\<close>

definition runs_of :: "string \<Rightarrow> group_state \<Rightarrow> bool list" where
  "runs_of rid st = map snd (filter (\<lambda>p. fst p = rid) (gs_prepared st))"

lemma runs_of_simps [simp]:
  "runs_of rid (put_group sha256 g st) = runs_of rid st" "runs_of rid (log_run rid b st) = runs_of rid st @ [b]"
  by (simp_all add: runs_of_def)

text \<open>
  What can happen to one request: any caller claims it, records a child or closes it (callers
  close with \<open>confirmed\<close> or \<open>uncertain\<close>), with every outcome of the outside world; or something
  else happens, which leaves the request's receipt and preparations alone and does not take back a
  confirmed child.
\<close>

inductive group_step :: "(string \<Rightarrow> string) \<Rightarrow> string \<Rightarrow> group_state \<Rightarrow> group_state \<Rightarrow> bool" for sha256 rid where
  claim_step: "locked_claim sha256 ev rid intent operation requested action st = (st', x) \<Longrightarrow> group_step sha256 rid st st'"
| record_step: "locked_record_job sha256 ev rid intent i job st = (st', x) \<Longrightarrow> group_step sha256 rid st st'"
| close_step: "locked_transition sha256 ev rid intent state exit kind message st = (st', x) \<Longrightarrow> state \<in> {''confirmed'', ''uncertain''}
    \<Longrightarrow> group_step sha256 rid st st'"
| other_step: "gs_groups st' (sha256 rid) = gs_groups st (sha256 rid) \<Longrightarrow> runs_of rid st' = runs_of rid st
    \<Longrightarrow> (\<And>i job. confirmed_child sha256 rid i job st = Inr True \<Longrightarrow> confirmed_child sha256 rid i job st' = Inr True)
    \<Longrightarrow> group_step sha256 rid st st'"

text \<open>The same step seen from the receipt: what it was, what it is, and what ran.\<close>

lemma opens_load:
  assumes "opens sha256 rid st g0"
  shows "gr_request_id g0 = rid" "group_ok g0" "load_group sha256 rid (put_group sha256 g0 st) = Inr (Some g0)"
    "load_group sha256 rid (log_run rid b (put_group sha256 g0 st)) = Inr (Some g0)"
  using assms load_put [of g0 sha256] load_group_slot [of "log_run rid b (put_group sha256 g0 st)" sha256 rid "put_group sha256 g0 st"]
  by (auto simp: opens_def)

lemma contract_id: "contract_of g' = contract_of g \<Longrightarrow> gr_request_id g' = gr_request_id g"
  by (simp add: contract_of_def)

text \<open>
  A repeated preparation can only follow preparations that were all interrupted retry-safely:
  \<open>may_repeat\<close> is what the receipt permits.
\<close>

definition may_repeat :: "(string \<Rightarrow> string) \<Rightarrow> string \<Rightarrow> group_state \<Rightarrow> bool" where
  "may_repeat sha256 rid st \<longleftrightarrow> load_group sha256 rid st = Inr None
     \<or> (\<exists>g. load_group sha256 rid st = Inr (Some g) \<and> gr_state g = ''rejected'' \<and> reopenable g)"

definition prepared_once :: "(string \<Rightarrow> string) \<Rightarrow> string \<Rightarrow> group_state \<Rightarrow> bool" where
  "prepared_once sha256 rid st \<longleftrightarrow> False \<notin> set (butlast (runs_of rid st))
     \<and> (may_repeat sha256 rid st \<longrightarrow> False \<notin> set (runs_of rid st))"

lemma opens_may_repeat: "opens sha256 rid st g0 \<Longrightarrow> may_repeat sha256 rid st"
  by (auto simp: opens_def may_repeat_def)

lemma group_step_prepared_once:
  assumes "group_step sha256 rid st st'" "prepared_once sha256 rid st"
  shows "prepared_once sha256 rid st'"
  using assms(1)
proof cases
  case (claim_step ev intent operation requested action x)
  have all: "False \<notin> set (runs_of rid st)" if "opens sha256 rid st g0" for g0
    using assms(2) opens_may_repeat [OF that] by (simp add: prepared_once_def)
  from claim_step show ?thesis
  proof (cases rule: locked_claimE)
    case unchanged
    then show ?thesis using assms(2) by simp
  next
    case (opened g0)
    then show ?thesis using all opens_load(3) [OF opened(1)] by (auto simp: prepared_once_def may_repeat_def dest: in_set_butlastD)
  next
    case (unsettled g0 b)
    have "\<not> may_repeat sha256 rid st'"
      using unsettled opens_load(4) [OF unsettled(1)] by (auto simp: may_repeat_def opens_def)
    then show ?thesis using all [OF unsettled(1)] unsettled(2) by (simp add: prepared_once_def)
  next
    case (settled g0 b g')
    have id: "gr_request_id g' = rid" using contract_id [OF settled(4)] opens_load(1) [OF settled(1)] by simp
    have "load_group sha256 rid st' = Inr (Some g')" using load_put [OF settled(3)] settled(2) id by simp
    then show ?thesis using all [OF settled(1)] settled(2,6) by (auto simp: prepared_once_def may_repeat_def)
  qed
next
  case (record_step ev intent i job x)
  then show ?thesis
  proof (cases rule: locked_record_jobE)
    case (recorded g g')
    have "load_group sha256 rid st' = Inr (Some g')"
      using load_put [OF recorded(5)] recorded(9) contract_id [OF recorded(6)] load_group_id [OF recorded(1)] by simp
    then show ?thesis using assms(2) recorded(8,9) by (simp add: prepared_once_def may_repeat_def reopenable_def)
  qed (use assms(2) in simp)
next
  case (close_step ev intent state exit kind message x)
  from close_step(1) show ?thesis
  proof (cases rule: locked_transitionE)
    case (moved g g')
    have "load_group sha256 rid st' = Inr (Some g')"
      using load_put [OF moved(3)] moved(7) contract_id [OF moved(4)] load_group_id [OF moved(1)] by simp
    then show ?thesis using assms(2) moved(6,7) close_step(2) by (auto simp: prepared_once_def may_repeat_def)
  qed (use assms(2) in simp)
next
  case other_step
  then show ?thesis using assms(2) load_group_slot [of st' sha256 rid st] by (simp add: prepared_once_def may_repeat_def)
qed

text \<open>
  C29. The remote preparation of a group is not repeated blindly: starting without a receipt, however
  often the request is claimed again by retries, whatever fails (the lock, the clock's reading,
  every publication, the callback itself) and whatever else happens in between, every preparation
  but the last was an interruption that its callback had marked as safe to retry.
\<close>

theorem preparation_not_repeated:
  assumes "(group_step sha256 rid)\<^sup>*\<^sup>* st st'" "load_group sha256 rid st = Inr None" "runs_of rid st = []"
  shows "False \<notin> set (butlast (runs_of rid st'))"
proof -
  have "prepared_once sha256 rid st" using assms(2,3) by (simp add: prepared_once_def)
  with assms(1) have "prepared_once sha256 rid st'"
    by (induction rule: rtranclp_induct) (auto intro: group_step_prepared_once)
  then show ?thesis by (simp add: prepared_once_def)
qed

section \<open>Progress\<close>

definition prefix_confirmed :: "(string \<Rightarrow> string) \<Rightarrow> string \<Rightarrow> GroupRequestRecord \<Rightarrow> group_state \<Rightarrow> bool" where
  "prefix_confirmed sha256 rid g st \<longleftrightarrow> (\<forall>i \<in> {1..gr_submitted g}. \<exists>job. confirmed_child sha256 rid i job st = Inr True)"

lemma confirmed_child_put [simp]:
  "confirmed_child sha256 rid i job (put_group sha256 g st) = confirmed_child sha256 rid i job st"
  "confirmed_child sha256 rid i job (log_run rid b st) = confirmed_child sha256 rid i job st"
  by (simp_all add: confirmed_child_def)

lemma group_ok_bounds:
  assumes "group_ok g"
  shows "0 \<le> gr_submitted g" "gr_submitted g \<le> gr_requested g" "gr_requested g \<le> 10000"
proof -
  obtain d where d: "group_json g = JObj d" by (simp add: group_json_def)
  have "check_group (gr_request_id g) (group_of d) = Inr g"
    using assms [unfolded group_ok_def d decode_group_def json.case Let_def guard_ok bind_ok_Inr] by blast
  moreover have "group_of d = g" using group_of_json [of g] d by simp
  ultimately have "\<not> (gr_requested g < 1 \<or> gr_requested g > 10000)" "\<not> (gr_submitted g < 0 \<or> gr_submitted g > gr_requested g)"
    unfolding check_group_def guard_ok by simp_all
  then show "0 \<le> gr_submitted g" "gr_submitted g \<le> gr_requested g" "gr_requested g \<le> 10000" by simp_all
qed

definition progressed :: "(string \<Rightarrow> string) \<Rightarrow> string \<Rightarrow> GroupRequestRecord \<Rightarrow> GroupRequestRecord \<Rightarrow> group_state \<Rightarrow> bool" where
  "progressed sha256 rid g g' st' \<longleftrightarrow> load_group sha256 rid st' = Inr (Some g') \<and> contract_of g' = contract_of g
     \<and> gr_submitted g \<le> gr_submitted g' \<and> gr_submitted g' \<le> gr_requested g \<and> prefix_confirmed sha256 rid g' st'
     \<and> (gr_state g = ''confirmed'' \<longrightarrow> g' = g)"

lemma progressedI:
  assumes "load_group sha256 rid st = Inr (Some g)" "group_ok g'" "st' = put_group sha256 g' st1" "gs_requests st1 = gs_requests st"
    "contract_of g' = contract_of g" "gr_submitted g \<le> gr_submitted g'" "gr_state g \<noteq> ''confirmed''"
    "prefix_confirmed sha256 rid g' st"
  shows "progressed sha256 rid g g' st'"
proof -
  have "gr_request_id g' = rid" using contract_id [OF assms(5)] load_group_id [OF assms(1)] by simp
  moreover have "gr_requested g' = gr_requested g" using assms(5) by (simp add: contract_of_def)
  moreover have "prefix_confirmed sha256 rid g' st'"
    using assms(3,4,8) by (simp add: prefix_confirmed_def confirmed_child_def)
  ultimately show ?thesis
    using load_put [OF assms(2)] assms(3,5-7) group_ok_bounds(2) [OF assms(2)] by (auto simp: progressed_def)
qed

lemma progressed_refl:
  "load_group sha256 rid st = Inr (Some g) \<Longrightarrow> prefix_confirmed sha256 rid g st \<Longrightarrow> gr_submitted g \<le> gr_requested g
   \<Longrightarrow> progressed sha256 rid g g st"
  by (simp add: progressed_def)

lemma terminal_states: "''confirmed'' \<in> set GROUP_TERMINAL_STATES" "''rejected'' \<in> set GROUP_TERMINAL_STATES"
  by code_simp+

lemma prefix_Suc:
  assumes "prefix_confirmed sha256 rid g st" "confirmed_child sha256 rid (gr_submitted g + 1) job st = Inr True"
    "gr_submitted g' = gr_submitted g + 1"
  shows "prefix_confirmed sha256 rid g' st"
  unfolding prefix_confirmed_def
proof
  fix i assume "i \<in> {1..gr_submitted g'}"
  then have "i \<in> {1..gr_submitted g} \<or> i = gr_submitted g + 1" using assms(3) by auto
  then show "\<exists>job. confirmed_child sha256 rid i job st = Inr True"
    using assms(1,2) by (auto simp: prefix_confirmed_def)
qed

lemma group_step_progressed:
  assumes "group_step sha256 rid st st'" "load_group sha256 rid st = Inr (Some g)" "prefix_confirmed sha256 rid g st"
    "gr_submitted g \<le> gr_requested g"
  shows "\<exists>g'. progressed sha256 rid g g' st'"
  using assms(1)
proof cases
  case (claim_step ev intent operation requested action x)
  have o: "contract_of g0 = contract_of g \<and> gr_state g \<noteq> ''confirmed'' \<and> gr_submitted g = 0" if "opens sha256 rid st g0" for g0
    using that assms(2) by (auto simp: opens_def reopenable_def)
  have pre: "prefix_confirmed sha256 rid g' st" if "gr_submitted g' = 0" for g'
    using that by (simp add: prefix_confirmed_def)
  from claim_step show ?thesis
  proof (cases rule: locked_claimE)
    case unchanged
    then show ?thesis using progressed_refl assms(2-) by blast
  next
    case (opened g0)
    then show ?thesis using progressedI [OF assms(2) opens_load(2) [OF opened(1)] opened(2)] o [OF opened(1)] pre by (auto simp: opens_def)
  next
    case (unsettled g0 b)
    have "progressed sha256 rid g g0 (put_group sha256 g0 st)"
      using progressedI [OF assms(2) opens_load(2) [OF unsettled(1)] refl] o [OF unsettled(1)] pre unsettled(1) by (auto simp: opens_def)
    then have "progressed sha256 rid g g0 st'"
      using opens_load(4) [OF unsettled(1)] unsettled(2) by (simp add: progressed_def prefix_confirmed_def)
    then show ?thesis by blast
  next
    case (settled g0 b g')
    have "progressed sha256 rid g g' st'"
      using o [OF settled(1)] settled pre by (intro progressedI [OF assms(2) settled(3) settled(2)]) auto
    then show ?thesis by blast
  qed
next
  case (record_step ev intent i job x)
  then show ?thesis
  proof (cases rule: locked_record_jobE)
    case (recorded g1 g')
    then have "g1 = g" using assms(2) by simp
    then have "progressed sha256 rid g g' st'"
      using recorded terminal_states prefix_Suc [OF assms(3)] by (intro progressedI [OF assms(2) recorded(5,9)]) auto
    then show ?thesis by blast
  qed (use progressed_refl assms(2-) in blast)
next
  case (close_step ev intent state exit kind message x)
  from close_step(1) show ?thesis
  proof (cases rule: locked_transitionE)
    case (moved g1 g')
    then have "g1 = g" using assms(2) by simp
    then have "progressed sha256 rid g g' st'"
      using moved terminal_states assms(3) by (intro progressedI [OF assms(2) moved(3,7)]) (auto simp: prefix_confirmed_def)
    then show ?thesis by blast
  qed (use progressed_refl assms(2-) in blast)
next
  case other_step
  have "prefix_confirmed sha256 rid g st'" using assms(3) other_step(3) unfolding prefix_confirmed_def by blast
  moreover have "load_group sha256 rid st' = Inr (Some g)" using load_group_slot [of st' sha256 rid st] other_step(1) assms(2) by simp
  ultimately show ?thesis using progressed_refl assms(4) by blast
qed

text \<open>
  C30. Group progress is a prefix of confirmed children that only grows. Along every run of claims,
  recordings, closings and other requests' work: the receipt keeps its identity, intent,
  operation, size and creation time; the count of submitted children never goes down and never
  exceeds the size; each counted child has a receipt that says it is confirmed; and a confirmed
  group is never changed again.
\<close>

theorem group_progress:
  assumes "(group_step sha256 rid)\<^sup>*\<^sup>* st st'" "load_group sha256 rid st = Inr (Some g)" "prefix_confirmed sha256 rid g st"
    "gr_submitted g \<le> gr_requested g"
  shows "\<exists>g'. load_group sha256 rid st' = Inr (Some g') \<and> contract_of g' = contract_of g
    \<and> gr_submitted g \<le> gr_submitted g' \<and> gr_submitted g' \<le> gr_requested g' \<and> prefix_confirmed sha256 rid g' st'
    \<and> (gr_state g = ''confirmed'' \<longrightarrow> g' = g)"
proof -
  have "\<exists>g'. progressed sha256 rid g g' st'"
    using assms(1)
  proof (induction rule: rtranclp_induct)
    case base
    then show ?case using progressed_refl assms(2-) by blast
  next
    case (step st1 st2)
    then obtain g1 where g1: "progressed sha256 rid g g1 st1" by blast
    then have "gr_requested g1 = gr_requested g" by (simp add: progressed_def contract_of_def)
    with g1 step(2) obtain g2 where "progressed sha256 rid g1 g2 st2"
      using group_step_progressed [of sha256 rid st1 st2 g1] by (auto simp: progressed_def)
    with g1 have "progressed sha256 rid g g2 st2" by (auto simp: progressed_def contract_of_def)
    then show ?case by blast
  qed
  then show ?thesis by (auto simp: progressed_def contract_of_def)
qed

section \<open>Children\<close>

lemma nat_of_digits_pad: "nat_of_digits (replicate k CHR ''0'' @ s) = nat_of_digits s"
proof -
  have z: "digit_val CHR ''0'' = 0" by code_simp
  have "foldl (\<lambda>n c. 10 * n + digit_val c) 0 (replicate k CHR ''0'') = 0" by (induction k) (simp_all add: z)
  then show ?thesis by (simp add: nat_of_digits_def)
qed

lemma zero_padded_inject: "zero_padded w m = zero_padded w n \<longleftrightarrow> m = n"
proof
  assume "zero_padded w m = zero_padded w n"
  then have "nat_of_digits (zero_padded w m) = nat_of_digits (zero_padded w n)" by simp
  then show "m = n" by (simp add: zero_padded_def nat_of_digits_pad nat_of_digits_show_nat)
qed simp

lemma show_nat_length: "n < 10 ^ k \<Longrightarrow> 0 < k \<Longrightarrow> length (show_nat n) \<le> k"
proof (induction n arbitrary: k rule: show_nat.induct)
  case (1 n)
  show ?case
  proof (cases "n < 10")
    case True
    then show ?thesis using 1 by (simp add: show_nat.simps [of n])
  next
    case False
    then obtain j where j: "k = Suc j" "0 < j" using 1(2,3) by (cases k; cases "k - 1") auto
    have "n div 10 < 10 ^ j" using 1(2) j by (simp add: less_mult_imp_div_less mult.commute)
    then show ?thesis using 1(1) [OF False, of j] j False by (simp add: show_nat.simps [of n])
  qed
qed

lemma zero_padded_text: "n < 10 ^ 6 \<Longrightarrow> length (zero_padded 6 n) = 6 \<and> (\<forall>c \<in> set (zero_padded 6 n). is_ascii_digit c)"
proof -
  assume "n < 10 ^ 6"
  then have "length (show_nat n) \<le> 6" by (rule show_nat_length) simp
  moreover have "is_ascii_digit CHR ''0''" by code_simp
  ultimately show ?thesis using show_nat_digits [of n] by (auto simp: zero_padded_def)
qed

text \<open>
  Children of groups have request identities of their own: the identity of child \<open>i\<close> of a group is
  itself a valid request identity, and two children have the same one only when they have the same
  index and their groups' digests agree on the first 40 hexadecimal digits.
\<close>

theorem item_request_ids_distinct:
  assumes "item_request_id sha256 rid i = Inr a" "item_request_id sha256 rid' j = Inr b"
    "is_hex 64 (sha256 rid)" "is_hex 64 (sha256 rid')" "i \<le> 10000"
  shows "request_id_ok a \<and> (a = b \<longleftrightarrow> take 40 (sha256 rid) = take 40 (sha256 rid') \<and> i = j)"
proof
  have a: "a = ''dtg:'' @ take 40 (sha256 rid) @ '':'' @ zero_padded 6 (nat i)" "1 \<le> i"
    and b: "b = ''dtg:'' @ take 40 (sha256 rid') @ '':'' @ zero_padded 6 (nat j)" "1 \<le> j"
    using assms(1,2) by (auto simp: item_request_id_def bind_ok_Inr split: if_splits)
  have len: "length (take 40 (sha256 rid)) = 40" "length (take 40 (sha256 rid')) = 40"
    using assms(3,4) by (simp_all add: is_hex_def)
  have "a = b \<longleftrightarrow> take 40 (sha256 rid) = take 40 (sha256 rid') \<and> zero_padded 6 (nat i) = zero_padded 6 (nat j)"
    unfolding a b using len by simp
  then show "a = b \<longleftrightarrow> take 40 (sha256 rid) = take 40 (sha256 rid') \<and> i = j"
    using a(2) b(2) by (simp add: zero_padded_inject nat_eq_iff)
  have "nat i < 10 ^ 6" using assms(5) by simp
  note pad = zero_padded_text [OF this]
  have digit: "request_id_char c" if "is_ascii_digit c" for c
    using that by (simp add: request_id_char_def is_ascii_alnum_def)
  have hex: "request_id_char c" if "is_hex_lower c" for c
    using that by (auto simp: request_id_char_def is_ascii_alnum_def is_hex_lower_def is_ascii_digit_def is_ascii_alpha_def is_ascii_lower_def)
  have "\<forall>c \<in> set (take 40 (sha256 rid)). request_id_char c"
    using assms(3) hex by (auto simp: is_hex_def dest!: in_set_takeD)
  moreover have "\<forall>c \<in> set ''dtg:''. request_id_char c" "is_ascii_alnum CHR ''d''" by code_simp+
  ultimately show "request_id_ok a"
    using pad digit len by (auto simp: request_id_ok_def a)
qed

lemma load_entriesD:
  assumes "load_entries sha256 load_job g st ns seen = Inr es" "\<And>jid e. load_job jid = Inr (Some e) \<Longrightarrow> job_id e = jid"
  shows "list_all2 (\<lambda>i e. \<exists>c. item_request_id sha256 (gr_request_id g) i = Inr c \<and> request_id e = Some c
            \<and> confirmed_child sha256 (gr_request_id g) i (job_id e) st = Inr True) ns es
    \<and> distinct (map job_id es) \<and> set (map job_id es) \<inter> set seen = {}"
  using assms(1)
proof (induction ns arbitrary: seen es)
  case (Cons i ns)
  obtain c where c: "item_request_id sha256 (gr_request_id g) i = Inr c"
    using Cons.prems by (auto simp: bind_ok_Inr)
  note p = Cons.prems [unfolded load_entries.simps c bind_ok_simps]
  obtain r where r: "load_request sha256 c (gs_requests st) = (Inr (Some r) :: gexn + RequestRecord option)"
  proof (cases "load_request sha256 c (gs_requests st) :: gexn + RequestRecord option")
    case (Inl x)
    then show thesis using p by (simp split: if_splits)
  next
    case (Inr child)
    then show thesis using p that by (cases child) (simp_all add: Let_def)
  qed
  obtain e where e: "load_job (rq_job_id r) = Inr (Some e)"
    using p unfolding r by (auto simp: Let_def bind_ok_Inr split: option.splits)
  have *: "request_id e = Some c" "rq_state r = ''confirmed''" "rq_job_id r \<notin> set seen"
    using p unfolding r by (auto simp: Let_def e split: if_splits)
  obtain es' where es': "load_entries sha256 load_job g st ns (rq_job_id r # seen) = Inr es'" "es = e # es'"
    using p unfolding r by (auto simp: Let_def e * bind_ok_Inr)
  have j: "job_id e = rq_job_id r" using assms(2) e by blast
  then show ?case using Cons.IH [OF es'(1)] es'(2) c r * by (auto simp: confirmed_child_def)
qed simp

text \<open>
  Resuming a group trusts nothing but agreeing records: when the entries of a group are loaded,
  there is exactly one registry row per counted child, in order; each row carries the request
  identity of its child, the child's receipt confirms exactly that job, and no job is counted
  twice.
\<close>

theorem resumed_entries_agree:
  assumes "load_entries_or_fail sha256 dc cfg w g st = Inr es"
  shows "list_all2 (\<lambda>i e. \<exists>c. item_request_id sha256 (gr_request_id g) i = Inr c \<and> request_id e = Some c
            \<and> confirmed_child sha256 (gr_request_id g) i (job_id e) st = Inr True) [1..gr_submitted g] es
    \<and> distinct (map job_id es)"
  using load_entriesD [OF assms [unfolded load_entries_or_fail_def] load_job_id] by simp

section \<open>A failed preparation\<close>

lemma group_fields: "map fst (obj_items (group_json g)) = GROUP_FIELDS"
  by (simp add: group_json_def GROUP_FIELDS_def)

lemma decode_group_json:
  assumes "check_group rid g = Inr g" "0 < gr_created_at g" "0 < gr_updated_at g" "gr_exit_code g = None"
  shows "decode_group rid (group_json g) = Inr g"
proof -
  obtain d where d: "group_json g = JObj d" by (simp add: group_json_def)
  have names: "map fst d = GROUP_FIELDS" and rec: "group_of d = g" using group_fields [of g] group_of_json [of g] d by simp_all
  have gets: "json_get d ''schema'' = JStr (gr_schema g)" "json_get d ''request_id'' = JStr (gr_request_id g)"
    "json_get d ''intent_sha256'' = JStr (gr_intent_sha256 g)" "json_get d ''operation'' = JStr (gr_operation g)"
    "json_get d ''requested'' = JInt (gr_requested g)" "json_get d ''submitted'' = JInt (gr_submitted g)"
    "json_get d ''state'' = JStr (gr_state g)" "json_get d ''created_at'' = JFloat (Fin (gr_created_at g))"
    "json_get d ''updated_at'' = JFloat (Fin (gr_updated_at g))" "json_get d ''exit_code'' = JNull"
    "json_get d ''error_kind'' = json_opt JStr (gr_error_kind g)" "json_get d ''error_message'' = json_opt JStr (gr_error_message g)"
    using d assms(4) by (auto simp: group_json_def json_get_def json_opt_def)
  have ts: "any_of bad_timestamp [JFloat (Fin (gr_created_at g)), JFloat (Fin (gr_updated_at g))] = (Inr False :: gexn + bool)"
    using assms(2,3) by (simp add: bad_timestamp_def)
  have opt: "\<not> (json_opt JStr x \<noteq> JNull \<and> \<not> is_JStr (json_opt JStr x))" for x by (cases x) (simp_all add: json_opt_def)
  show ?thesis
    unfolding d decode_group_def json.case Let_def names gets
    using opt [of "gr_error_kind g"] opt [of "gr_error_message g"] by (simp add: gets ts rec assms(1))
qed

text \<open>The receipt of a claim, and what a failing callback leaves.\<close>

definition claimed_group :: "string \<Rightarrow> string \<Rightarrow> string \<Rightarrow> int \<Rightarrow> time \<Rightarrow> GroupRequestRecord" where
  "claimed_group rid intent operation requested now = \<lparr>gr_schema = GROUP_REQUEST_SCHEMA, gr_request_id = rid, gr_intent_sha256 = intent,
     gr_operation = operation, gr_requested = requested, gr_submitted = 0, gr_state = ''preparing'', gr_created_at = now,
     gr_updated_at = now, gr_exit_code = None, gr_error_kind = None, gr_error_message = None\<rparr>"

definition with_state :: "GroupRequestRecord \<Rightarrow> string \<Rightarrow> time \<Rightarrow> string option \<Rightarrow> string option \<Rightarrow> GroupRequestRecord" where
  "with_state g state now kind message = g\<lparr>gr_state := state, gr_updated_at := now, gr_exit_code := None, gr_error_kind := kind,
     gr_error_message := bounded_message message\<rparr>"

text \<open>The parameters of a claim that its validation accepts, and an undisturbed environment.\<close>

definition claim_ok :: "string \<Rightarrow> string \<Rightarrow> string \<Rightarrow> int \<Rightarrow> bool" where
  "claim_ok rid intent operation requested \<longleftrightarrow> request_id_ok rid \<and> is_hex 64 intent \<and> operation \<in> set GROUP_OPERATIONS
     \<and> 1 \<le> requested \<and> requested \<le> 10000"

definition quiet :: "group_env \<Rightarrow> bool" where
  "quiet ev \<longleftrightarrow> ge_lock ev = None \<and> ge_save ev = SaveOk \<and> ge_final ev = SaveOk \<and> 0 < ge_now ev \<and> 0 < ge_later ev"

lemma bounded_message_length: "bounded_message m = Some s \<Longrightarrow> length s \<le> 512"
  by (auto simp: bounded_message_def split: option.splits if_splits)

lemma group_states: "''preparing'' \<in> set GROUP_REQUEST_STATES" "''prepared'' \<in> set GROUP_REQUEST_STATES" "''rejected'' \<in> set GROUP_REQUEST_STATES"
  by code_simp+

lemma failure_kinds: "group_kind_ok ''claimed_action_interrupted''" "group_kind_ok ''claimed_action_failed''"
  by code_simp+

lemma claimed_group_ok: "claim_ok rid intent operation requested \<Longrightarrow> 0 < now \<Longrightarrow> group_ok (claimed_group rid intent operation requested now)"
  unfolding group_ok_def claim_ok_def
  by (intro conjI decode_group_json) (simp_all add: claimed_group_def check_group_def group_states)

lemma with_state_ok:
  assumes "claim_ok rid intent operation requested" "0 < now" "0 < later"
    "state = ''preparing'' \<or> state = ''prepared'' \<and> kind = None \<and> message = None
     \<or> state = ''rejected'' \<and> kind \<in> {Some ''claimed_action_interrupted'', Some ''claimed_action_failed''}"
    "kind = None \<or> state = ''rejected''"
  shows "group_ok (with_state (with_state (claimed_group rid intent operation requested now) s0 t0 k0 m0) state later kind message)"
    "group_ok (with_state (claimed_group rid intent operation requested now) state later kind message)"
proof -
  have m: "\<not> (\<exists>s. bounded_message message = Some s \<and> 512 < length s)" using bounded_message_length [of message] by fastforce
  have e: "bounded_message None = None" by (simp add: bounded_message_def)
  have "group_ok g" if g: "g = claimed_group rid intent operation requested now \<lparr>gr_state := state, gr_updated_at := later,
      gr_error_kind := kind, gr_error_message := bounded_message message\<rparr>" for g
  proof -
    consider "state = ''preparing''" "kind = None" | "state = ''prepared''" "kind = None" "message = None"
      | "state = ''rejected''" "kind = Some ''claimed_action_interrupted''" | "state = ''rejected''" "kind = Some ''claimed_action_failed''"
      using assms(4,5) by auto
    then have "check_group rid g = Inr g"
      by cases (use assms(1) m in \<open>simp_all add: g e claim_ok_def claimed_group_def check_group_def group_states failure_kinds\<close>)
    then show ?thesis
      using assms(1-3) unfolding group_ok_def by (simp add: g claimed_group_def decode_group_json claim_ok_def)
  qed
  then show "group_ok (with_state (with_state (claimed_group rid intent operation requested now) s0 t0 k0 m0) state later kind message)"
    "group_ok (with_state (claimed_group rid intent operation requested now) state later kind message)"
    by (simp_all add: with_state_def claimed_group_def)
qed

lemma saved_ok: "group_ok g \<Longrightarrow> saved_group sha256 SaveOk g st = (put_group sha256 g st, Inr g)"
  by (simp add: saved_group_def save_group_def group_ok_def validate_request_id_def put_group_def)

lemma transition_ok:
  "group_ok (with_state g state now kind message) \<Longrightarrow> state \<in> set GROUP_REQUEST_STATES \<Longrightarrow> state \<noteq> ''confirmed''
   \<Longrightarrow> transition_group sha256 now SaveOk g state exit kind message st
     = (put_group sha256 (with_state g state now kind message) st, Inr (with_state g state now kind message))"
  by (simp add: transition_group_def saved_ok with_state_def)

lemma first_claim:
  assumes "claim_ok rid intent operation requested" "0 < now" "load_request sha256 rid (gs_requests st) = (Inr None :: gexn + RequestRecord option)"
    "load_group sha256 rid st = Inr None"
  shows "claim_created sha256 now SaveOk rid intent operation requested st
    = (put_group sha256 (claimed_group rid intent operation requested now) st, Inr (claimed_group rid intent operation requested now, True))"
  using assms saved_ok [OF claimed_group_ok [OF assms(1,2)], of sha256 st]
  by (simp add: claim_created_def claim_ok_def validate_request_id_def claimed_group_def)

definition failed_group :: "group_env \<Rightarrow> bool \<Rightarrow> string \<Rightarrow> GroupRequestRecord \<Rightarrow> GroupRequestRecord" where
  "failed_group ev safe detail g = with_state g ''rejected'' (ge_later ev)
     (Some (if safe then ''claimed_action_interrupted'' else ''claimed_action_failed'')) (Some detail)"

lemma failed_claim:
  assumes "claim_ok rid intent operation requested" "quiet ev" "load_request sha256 rid (gs_requests st) = (Inr None :: gexn + RequestRecord option)"
    "load_group sha256 rid st = Inr None"
  defines "g0 \<equiv> claimed_group rid intent operation requested (ge_now ev)"
  shows "locked_claim sha256 ev rid intent operation requested (Some (Raises x safe detail)) st
    = (put_group sha256 (failed_group ev safe detail g0) (log_run rid safe (put_group sha256 g0 st)), Inl (through_lock x))"
proof -
  have q: "ge_lock ev = None" "ge_save ev = SaveOk" "ge_final ev = SaveOk" "0 < ge_now ev" "0 < ge_later ev"
    using assms(2) by (simp_all add: quiet_def)
  have ok: "group_ok (failed_group ev safe detail g0)"
    unfolding failed_group_def g0_def by (rule with_state_ok(2) [OF assms(1) q(4,5)]) auto
  have "prepare_claimed sha256 ev rid (Some (Raises x safe detail)) g0 (put_group sha256 g0 st)
    = (put_group sha256 (failed_group ev safe detail g0) (log_run rid safe (put_group sha256 g0 st)), Inl x)"
    using transition_ok [OF ok [unfolded failed_group_def] group_states(3)]
    by (simp add: prepare_claimed_def q outcome_unknown_def failed_group_def log_run_def)
  then show ?thesis
    using assms(1) first_claim [OF assms(1) q(4) assms(3,4)]
    by (simp add: locked_claim_def request_lock_def q claim_ok_def validate_request_id_def g0_def)
qed

lemma failed_load:
  assumes "claim_ok rid intent operation requested" "quiet ev" "g = failed_group ev safe detail (claimed_group rid intent operation requested (ge_now ev))"
  shows "load_group sha256 rid (put_group sha256 g st) = Inr (Some g)"
proof -
  have "group_ok g"
    using assms(2) unfolding assms(3) failed_group_def quiet_def by (intro with_state_ok(2) [OF assms(1)]) auto
  moreover have "gr_request_id g = rid" by (simp add: assms(3) failed_group_def with_state_def claimed_group_def)
  ultimately show ?thesis using load_put by blast
qed

lemma retried_claim:
  assumes "claim_ok rid intent operation requested" "quiet ev" "quiet ev'"
    "load_request sha256 rid (gs_requests st) = (Inr None :: gexn + RequestRecord option)"
    "load_group sha256 rid st = Inr (Some (failed_group ev True detail (claimed_group rid intent operation requested (ge_now ev))))"
  shows "\<exists>g g0. locked_claim sha256 ev' rid intent operation requested (Some Returns) st
    = (put_group sha256 g (log_run rid False (put_group sha256 g0 st)), Inr g) \<and> gr_state g = ''prepared'' \<and> opens sha256 rid st g0"
proof -
  define f where "f = failed_group ev True detail (claimed_group rid intent operation requested (ge_now ev))"
  define g0 where "g0 = with_state f ''preparing'' (ge_now ev') None None"
  define g where "g = with_state g0 ''prepared'' (ge_later ev') None None"
  have q: "ge_lock ev' = None" "ge_save ev' = SaveOk" "ge_final ev' = SaveOk" "0 < ge_now ev'" "0 < ge_later ev'" "0 < ge_now ev"
    using assms(2,3) by (simp_all add: quiet_def)
  have ok0: "group_ok g0"
    unfolding g0_def f_def failed_group_def by (rule with_state_ok(1) [OF assms(1) q(6,4)]) auto
  have twice: "with_state (with_state (with_state h s1 t1 k1 m1) s2 t2 k2 m2) s3 t3 k3 m3 = with_state (with_state h s1 t1 k1 m1) s3 t3 k3 m3"
    for h s1 t1 k1 m1 s2 t2 k2 m2 s3 t3 k3 m3
    by (simp add: with_state_def)
  have ok: "group_ok g"
    unfolding g_def g0_def f_def failed_group_def twice by (rule with_state_ok(1) [OF assms(1) q(6,5)]) auto
  have f: "gr_state f = ''rejected''" "reopenable f" "gr_intent_sha256 f = intent" "gr_operation f = operation" "gr_requested f = requested"
    "contract_of g0 = contract_of f" "gr_request_id f = rid" "gr_submitted f = 0"
    by (simp_all add: f_def g0_def failed_group_def with_state_def claimed_group_def reopenable_def contract_of_def)
  have o: "opens sha256 rid st g0"
    using assms(5) ok0 f by (auto simp: opens_def f_def [symmetric] g0_def with_state_def)
  have "claim_created sha256 (ge_now ev') SaveOk rid intent operation requested st = (st, Inr (f, False))"
    using assms(4,5) f by (simp add: claim_created_def f_def [symmetric])
  moreover have "transition_group sha256 (ge_now ev') SaveOk f ''preparing'' None None None st = (put_group sha256 g0 st, Inr g0)"
    using transition_ok [OF ok0 [unfolded g0_def] group_states(1)] by (simp add: g0_def)
  moreover have "prepare_claimed sha256 ev' rid (Some Returns) g0 (put_group sha256 g0 st)
      = (put_group sha256 g (log_run rid False (put_group sha256 g0 st)), Inr g)"
    using transition_ok [OF ok [unfolded g_def] group_states(2)]
    by (simp add: prepare_claimed_def q outcome_unknown_def g_def log_run_def)
  ultimately have "locked_claim sha256 ev' rid intent operation requested (Some Returns) st
      = (put_group sha256 g (log_run rid False (put_group sha256 g0 st)), Inr g)"
    using assms(1) f by (simp add: locked_claim_def request_lock_def q claim_ok_def validate_request_id_def outcome_unknown_def)
  moreover have "gr_state g = ''prepared''" by (simp add: g_def with_state_def)
  ultimately show ?thesis using o by blast
qed


section \<open>Concrete instances\<close>

definition zeros64 :: string where "zeros64 = replicate 64 CHR ''0''"

definition no_groups :: group_state where
  "no_groups = \<lparr>gs_requests = (\<lambda>_. None), gs_groups = (\<lambda>_. None), gs_prepared = []\<rparr>"

definition calm :: group_env where
  "calm = \<lparr>ge_lock = None, ge_now = 5, ge_save = SaveOk, ge_later = 6, ge_final = SaveOk\<rparr>"

lemma zeros64_hex: "is_hex 64 zeros64"
proof -
  have "is_hex_lower CHR ''0''" by code_simp
  then show ?thesis by (simp add: zeros64_def is_hex_def)
qed

lemma g1_ok: "claim_ok ''g1'' zeros64 ''batch'' 3" "request_id_ok ''g1''"
proof -
  show id: "request_id_ok ''g1''" by code_simp
  have "''batch'' \<in> set GROUP_OPERATIONS" by code_simp
  with id show "claim_ok ''g1'' zeros64 ''batch'' 3" by (simp add: claim_ok_def zeros64_hex)
qed

lemma calm_quiet: "quiet calm" by (simp add: quiet_def calm_def)

lemma no_groups_load:
  "load_request (\<lambda>_. zeros64) ''g1'' (gs_requests no_groups) = (Inr None :: gexn + RequestRecord option)"
  "load_group (\<lambda>_. zeros64) ''g1'' no_groups = Inr None" "runs_of ''g1'' no_groups = []"
  using g1_ok(2) by (simp_all add: no_groups_def load_request_def load_group_def request_digest_def validate_request_id_def runs_of_def)


text \<open>A preparation is interrupted retry-safely, and the retry completes it.\<close>

theorem preparation_not_repeated_witness:
  "\<exists>st'. (group_step (\<lambda>_. zeros64) ''g1'')\<^sup>*\<^sup>* no_groups st' \<and> runs_of ''g1'' st' = [True, False]
     \<and> False \<notin> set (butlast (runs_of ''g1'' st'))"
proof -
  let ?sha = "\<lambda>_ :: string. zeros64" and ?g0 = "claimed_group ''g1'' zeros64 ''batch'' 3 (ge_now calm)"
  let ?f = "failed_group calm True ''dropped'' ?g0"
  let ?st = "put_group ?sha ?f (log_run ''g1'' True (put_group ?sha ?g0 no_groups))"
  have "group_step ?sha ''g1'' no_groups ?st"
    by (rule claim_step [OF failed_claim [OF g1_ok(1) calm_quiet no_groups_load(1,2)]])
  moreover obtain g g0 where "locked_claim ?sha calm ''g1'' zeros64 ''batch'' 3 (Some Returns) ?st
      = (put_group ?sha g (log_run ''g1'' False (put_group ?sha g0 ?st)), Inr g)"
    using retried_claim [OF g1_ok(1) calm_quiet calm_quiet, of ?sha ?st] failed_load [OF g1_ok(1) calm_quiet refl] no_groups_load(1)
    by fastforce
  from claim_step [OF this] have "group_step ?sha ''g1'' ?st (put_group ?sha g (log_run ''g1'' False (put_group ?sha g0 ?st)))" .
  ultimately have run: "(group_step ?sha ''g1'')\<^sup>*\<^sup>* no_groups (put_group ?sha g (log_run ''g1'' False (put_group ?sha g0 ?st)))"
    by (meson converse_rtranclp_into_rtranclp r_into_rtranclp)
  with preparation_not_repeated [OF run no_groups_load(2,3)] no_groups_load(3) show ?thesis by auto
qed

theorem group_progress_witness:
  "\<exists>g'. load_group (\<lambda>_. zeros64) ''g1'' (fst (locked_claim (\<lambda>_. zeros64) calm ''g1'' zeros64 ''batch'' 3 (Some Returns)
           (put_group (\<lambda>_. zeros64) (claimed_group ''g1'' zeros64 ''batch'' 3 4) no_groups))) = Inr (Some g')
     \<and> gr_requested g' = 3 \<and> gr_created_at g' = 4 \<and> gr_submitted g' \<le> 3"
proof -
  let ?sha = "\<lambda>_ :: string. zeros64" and ?g0 = "claimed_group ''g1'' zeros64 ''batch'' 3 4"
  let ?st = "put_group ?sha ?g0 no_groups"
  have g0: "gr_request_id ?g0 = ''g1''" "gr_submitted ?g0 = 0" "gr_requested ?g0 = 3" by (simp_all add: claimed_group_def)
  have l: "load_group ?sha ''g1'' ?st = Inr (Some ?g0)" using load_put [OF claimed_group_ok [OF g1_ok(1), of 4], of ?sha no_groups] g0(1) by simp
  obtain st' x where c: "locked_claim ?sha calm ''g1'' zeros64 ''batch'' 3 (Some Returns) ?st = (st', x)" by fastforce
  then have run: "(group_step ?sha ''g1'')\<^sup>*\<^sup>* ?st st'" using claim_step by blast
  have "prefix_confirmed ?sha ''g1'' ?g0 ?st" by (simp add: prefix_confirmed_def g0)
  then obtain g' where "load_group ?sha ''g1'' st' = Inr (Some g')" "contract_of g' = contract_of ?g0" "gr_submitted g' \<le> gr_requested g'"
    using group_progress [OF run l] g0 by auto
  then show ?thesis using c by (auto simp: contract_of_def claimed_group_def)
qed

theorem item_request_ids_distinct_witness:
  "\<exists>a b. item_request_id (\<lambda>_. zeros64) ''g1'' 1 = Inr a \<and> item_request_id (\<lambda>_. zeros64) ''g1'' 2 = Inr b \<and> request_id_ok a \<and> a \<noteq> b"
proof -
  obtain a b where *: "item_request_id (\<lambda>_. zeros64) ''g1'' 1 = Inr a" "item_request_id (\<lambda>_. zeros64) ''g1'' 2 = Inr b"
    using g1_ok(2) by (auto simp: item_request_id_def validate_request_id_def)
  then show ?thesis using item_request_ids_distinct [OF *] zeros64_hex by simp
qed

end
