(* ===== verification/Link_Metrics.thy ===== *)
theory Link_Metrics
  imports Route_Health
begin

text \<open>
  Throughput memory per edge (\<open>src/dt/link_metrics.py\<close>): one private file per edge with a smoothed
  rate, how a transfer is folded into it, and the rate that route ranking may act on.

  Files are the slots of \<open>Route_Health\<close>. A publication may fail before the new file is in place or
  only when its directory is synced. Rates and times are rationals; a reading of the clock may
  be any float. Exceptions: the module's own error, and the overflow of converting an integer.
\<close>

section \<open>Samples\<close>

definition LINK_SCHEMA_VERSION :: string where "LINK_SCHEMA_VERSION = ''dt_link_metrics_v1''"
definition CONTROL_LINK_SCOPE :: string where "CONTROL_LINK_SCOPE = ''control''"
definition MIN_SAMPLE_BYTES :: int where "MIN_SAMPLE_BYTES = 2 ^ 20"
definition MIN_SAMPLE_SECONDS :: rat where "MIN_SAMPLE_SECONDS = 1 / 4"
definition FAST_SAMPLE_FLOOR_BYTES :: int where "FAST_SAMPLE_FLOOR_BYTES = 32 * 2 ^ 20"
definition SMOOTHING_DOWN :: rat where "SMOOTHING_DOWN = 3 / 10"
definition SMOOTHING_UP :: rat where "SMOOTHING_UP = 1 / 2"
definition SLOW_EVIDENCE_TTL_S :: rat where "SLOW_EVIDENCE_TTL_S = 900"
definition ORIGINS :: "string list" where "ORIGINS = [''transfer'', ''probe'']"
definition MAX_BPS :: rat where "MAX_BPS = 10 ^ 12"
definition MAX_SAMPLE_BYTES :: int where "MAX_SAMPLE_BYTES = 2 ^ 100"
definition UNMEASURED_BUCKET :: nat where "UNMEASURED_BUCKET = 2"

datatype link_exn = LinkMetricsError string | LinkOverflow string

record LinkSample =
  ls_schema_version :: string
  ls_key_digest :: string
  ls_smoothed_bps :: rat
  ls_last_bps :: rat
  ls_last_bytes :: int
  ls_origin :: string
  ls_sampled_at :: pyfloat

definition site_link_scope :: "string \<Rightarrow> string" where "site_link_scope nm = ''site:'' @ nm"

definition link_key :: "(string \<Rightarrow> string) \<Rightarrow> string \<Rightarrow> string \<Rightarrow> string \<Rightarrow> string" where
  "link_key sha256 scope source destination =
     sha256 (dumps_compact (\<lambda>_. []) (JList [JStr scope, JStr source, JStr destination]))"

definition sample_fields :: "string list" where
  "sample_fields = [''schema_version'', ''key_digest'', ''smoothed_bps'', ''last_bps'', ''last_bytes'', ''origin'', ''sampled_at'']"

fun sample_numbers :: "(string, json) dict \<Rightarrow> string list \<Rightarrow> link_exn + rat list" where
  "sample_numbers d [] = Inr []"
| "sample_numbers d (nm # nms) =
     (let v = json_get d nm; bad = Inl (LinkMetricsError (''link metrics '' @ nm @ '' is invalid'')) in
      if \<not> is_number v then bad
      else bind_ok (map_error LinkOverflow (finite_float v)) (\<lambda>fin.
        if \<not> fin \<or> \<not> (0 \<le> num_of v \<and> num_of v \<le> max MAX_BPS (10 ^ 11)) then bad
        else bind_ok (sample_numbers d nms) (\<lambda>xs. Inr (num_of v # xs))))"

definition validate_sample :: "json \<Rightarrow> string \<Rightarrow> link_exn + LinkSample" where
  "validate_sample raw expected =
     (case raw of
        JObj d \<Rightarrow>
          let origin = json_get d ''origin''; bytes = json_get d ''last_bytes'' in
          if set (keys d) \<noteq> set sample_fields then Inl (LinkMetricsError ''link metrics state has an invalid schema'')
          else if json_get d ''schema_version'' \<noteq> JStr LINK_SCHEMA_VERSION
          then Inl (LinkMetricsError ''link metrics state has an unsupported version'')
          else if json_get d ''key_digest'' \<noteq> JStr expected
          then Inl (LinkMetricsError ''link metrics state key does not match its path'')
          else if \<not> is_JStr origin \<or> str_of origin \<notin> set ORIGINS
          then Inl (LinkMetricsError ''link metrics origin is invalid'')
          else if \<not> is_JInt bytes \<or> int_of bytes < 0 \<or> int_of bytes > MAX_SAMPLE_BYTES
          then Inl (LinkMetricsError ''link metrics byte count is invalid'')
          else bind_ok (sample_numbers d [''smoothed_bps'', ''last_bps'', ''sampled_at'']) (\<lambda>xs. Inr
            \<lparr>ls_schema_version = LINK_SCHEMA_VERSION, ls_key_digest = expected, ls_smoothed_bps = xs ! 0, ls_last_bps = xs ! 1,
             ls_last_bytes = int_of bytes, ls_origin = str_of origin, ls_sampled_at = Fin (xs ! 2)\<rparr>)
      | _ \<Rightarrow> Inl (LinkMetricsError ''link metrics state has an invalid schema''))"

definition sample_json :: "LinkSample \<Rightarrow> json" where
  "sample_json s = JObj [
     (''key_digest'', JStr (ls_key_digest s)), (''last_bps'', JFloat (Fin (ls_last_bps s))), (''last_bytes'', JInt (ls_last_bytes s)),
     (''origin'', JStr (ls_origin s)), (''sampled_at'', JFloat (ls_sampled_at s)), (''schema_version'', JStr (ls_schema_version s)),
     (''smoothed_bps'', JFloat (Fin (ls_smoothed_bps s)))]"

section \<open>Files\<close>

record link_env =
  le_lock :: check
  le_clock :: pyfloat
  le_io :: write_io
  le_float_repr :: "rat \<Rightarrow> string"

definition read_sample :: "circuits \<Rightarrow> string \<Rightarrow> link_exn + LinkSample option" where
  "read_sample st key =
     (case st key of
        None \<Rightarrow> Inr None
      | Some UnsafeFile \<Rightarrow> Inl (LinkMetricsError ''link metrics state is unsafe'')
      | Some OversizedFile \<Rightarrow> Inl (LinkMetricsError ''link metrics state is not a bounded file'')
      | Some MalformedFile \<Rightarrow> Inl (LinkMetricsError ''link metrics state is malformed'')
      | Some (StateFile raw) \<Rightarrow> bind_ok (validate_sample raw key) (\<lambda>s. Inr (Some s)))"

definition published :: "LinkSample \<Rightarrow> slot" where
  "published s = (case ls_sampled_at s of Fin _ \<Rightarrow> StateFile (sample_json s) | _ \<Rightarrow> MalformedFile)"

definition write_sample :: "link_env \<Rightarrow> string \<Rightarrow> LinkSample \<Rightarrow> circuits \<Rightarrow> circuits \<times> (link_exn + unit)" where
  "write_sample ev key s st =
     (if MAX_STATE_BYTES < length (dumps_compact (le_float_repr ev) (sample_json s)) + 1
      then (st, Inl (LinkMetricsError ''link metrics state exceeds its size limit''))
      else case le_io ev of
        NotWritten \<Rightarrow> (st, Inl (LinkMetricsError ''link metrics state cannot be published''))
      | Unsynced \<Rightarrow> (st(key \<mapsto> published s), Inl (LinkMetricsError ''link metrics state cannot be published''))
      | Written \<Rightarrow> (st(key \<mapsto> published s), Inr ()))"

definition link_locked :: "link_env \<Rightarrow> (circuits \<Rightarrow> circuits \<times> (link_exn + 'a)) \<Rightarrow> circuits \<Rightarrow> circuits \<times> (link_exn + 'a)" where
  "link_locked ev body st = (case le_lock ev of Some m \<Rightarrow> (st, Inl (LinkMetricsError m)) | None \<Rightarrow> body st)"

section \<open>Operations\<close>

definition link_sample :: "link_env \<Rightarrow> string \<Rightarrow> circuits \<Rightarrow> circuits \<times> (link_exn + LinkSample option)" where
  "link_sample ev key = link_locked ev (\<lambda>st. (st, read_sample st key))"

text \<open>The window over which a transfer is measured, if it teaches anything.\<close>

definition sample_window :: "int \<Rightarrow> pyfloat \<Rightarrow> rat option" where
  "sample_window bytes elapsed =
     (case elapsed of
        Fin t \<Rightarrow>
          if bytes < MIN_SAMPLE_BYTES \<or> bytes > MAX_SAMPLE_BYTES \<or> t < 0 then None
          else if t < MIN_SAMPLE_SECONDS
          then if bytes < FAST_SAMPLE_FLOOR_BYTES then None else Some MIN_SAMPLE_SECONDS
          else Some t
      | _ \<Rightarrow> None)"

definition smooth :: "rat option \<Rightarrow> rat \<Rightarrow> rat" where
  "smooth prior observed =
     (case prior of
        None \<Rightarrow> observed
      | Some p \<Rightarrow>
          let weight = (if observed \<ge> p then SMOOTHING_UP else SMOOTHING_DOWN) in
          weight * observed + (1 - weight) * p)"

definition record_sample :: "link_env \<Rightarrow> string \<Rightarrow> int \<Rightarrow> pyfloat \<Rightarrow> string \<Rightarrow> circuits \<Rightarrow> circuits \<times> (link_exn + LinkSample option)" where
  "record_sample ev key bytes elapsed origin st =
     (if origin \<notin> set ORIGINS then (st, Inl (LinkMetricsError (''invalid link metrics origin '' @ py_repr origin)))
      else case sample_window bytes elapsed of
        None \<Rightarrow> (st, Inr None)
      | Some window \<Rightarrow>
          let observed = min MAX_BPS (of_int bytes / window) in
          link_locked ev (\<lambda>st.
            case (case read_sample st key of Inl (LinkMetricsError _) \<Rightarrow> Inr None | r \<Rightarrow> r) of
              Inl x \<Rightarrow> (st, Inl x)
            | Inr prior \<Rightarrow>
                let s = \<lparr>ls_schema_version = LINK_SCHEMA_VERSION, ls_key_digest = key,
                         ls_smoothed_bps = min MAX_BPS (smooth (map_option ls_smoothed_bps prior) observed), ls_last_bps = observed,
                         ls_last_bytes = bytes, ls_origin = origin, ls_sampled_at = le_clock ev\<rparr> in
                (case write_sample ev key s st of
                   (st', Inl x) \<Rightarrow> (st', Inl x)
                 | (st', Inr _) \<Rightarrow> (st', Inr (Some s)))) st)"

section \<open>Ranking\<close>

definition throughput_bucket :: "rat option \<Rightarrow> nat" where
  "throughput_bucket bps =
     (case bps of
        None \<Rightarrow> UNMEASURED_BUCKET
      | Some b \<Rightarrow>
          if b \<le> 0 then UNMEASURED_BUCKET
          else let mib = b / 2 ^ 20 in
            if mib \<ge> 100 then 0 else if mib \<ge> 30 then 1 else if mib \<ge> 10 then 2 else if mib \<ge> 3 then 3 else if mib \<ge> 1 then 4 else 5)"

text \<open>Comparisons with a sample's time, which a successful reading makes finite.\<close>

definition age_s :: "rat \<Rightarrow> rat \<Rightarrow> rat" where "age_s now sampled = max 0 (now - sampled)"

definition effective_throughput_bps :: "LinkSample option \<Rightarrow> rat \<Rightarrow> rat option" where
  "effective_throughput_bps smp now =
     (case smp of
        None \<Rightarrow> None
      | Some s \<Rightarrow>
          (case ls_sampled_at s of
             Fin t \<Rightarrow>
               if now < t then None
               else if UNMEASURED_BUCKET < throughput_bucket (Some (ls_smoothed_bps s)) \<and> SLOW_EVIDENCE_TTL_S < age_s now t then None
               else Some (ls_smoothed_bps s)
           | PosInf \<Rightarrow> None
           | NegInf \<Rightarrow> if UNMEASURED_BUCKET < throughput_bucket (Some (ls_smoothed_bps s)) then None else Some (ls_smoothed_bps s)
           | NaN \<Rightarrow> Some (ls_smoothed_bps s)))"

end
