(* ===== verification/Link_Facts.thy ===== *)
theory Link_Facts
  imports Link_Metrics Route_Facts
begin

text \<open>
  Facts about the throughput memory (\<open>Link_Metrics\<close>): a recorded sample can be read back and damage
  is repaired, evidence is weighed between the old rate and the new one and converges, and slow
  evidence expires. The contract of a private file per edge is the locale \<open>edge_store\<close>, which both
  the throughput memory and the route circuits provide.
\<close>

section \<open>Files per edge\<close>

locale edge_store =
  fixes read_edge :: "circuits \<Rightarrow> string \<Rightarrow> 'e + 's option"
    and render :: "'s \<Rightarrow> slot"
    and fits :: "string \<Rightarrow> 's \<Rightarrow> bool"
  assumes read_published: "fits key s \<Longrightarrow> read_edge (st(key \<mapsto> render s)) key = Inr (Some s)"
    and read_local: "st key = st' key \<Longrightarrow> read_edge st key = read_edge st' key"
begin

lemma other_edges: "key \<noteq> key' \<Longrightarrow> read_edge (st(key \<mapsto> render s)) key' = read_edge st key'"
  by (rule read_local) simp

lemma last_publication_wins:
  assumes "\<forall>(k, s) \<in> set ws. fits k s"
  shows "read_edge (fold (\<lambda>(k, s) st. st(k \<mapsto> render s)) ws st) key
    = (case map_of (rev ws) key of None \<Rightarrow> read_edge st key | Some s \<Rightarrow> Inr (Some s))"
  using assms
proof (induction ws arbitrary: st)
  case (Cons w ws)
  obtain k s where w: "w = (k, s)" by fastforce
  have prems: "\<forall>(k, s) \<in> set ws. fits k s" using Cons.prems by simp
  have one: "read_edge (st(k \<mapsto> render s)) key = (if k = key then Inr (Some s) else read_edge st key)"
    using Cons.prems w read_published other_edges by auto
  have found: "map_of (rev (w # ws)) key = (case map_of (rev ws) key of None \<Rightarrow> if k = key then Some s else None | Some x \<Rightarrow> Some x)"
    by (auto simp: w map_add_def split: option.split)
  have rest: "read_edge (fold (\<lambda>(k, s) st. st(k \<mapsto> render s)) (w # ws) st) key
      = (case map_of (rev ws) key of None \<Rightarrow> read_edge (st(k \<mapsto> render s)) key | Some s \<Rightarrow> Inr (Some s))"
    using Cons.IH [OF prems, of "st(k \<mapsto> render s)"] by (simp only: w fold.simps comp_apply case_prod_conv)
  show ?case unfolding rest found one by (simp split: option.split)
qed simp

end

interpretation circuit_files: edge_store read_circuit "\<lambda>s. StateFile (state_json s)" wf_state
  by unfold_locales (simp_all add: read_written, simp add: read_circuit_def)

section \<open>Samples\<close>

definition sample_ok :: "string \<Rightarrow> LinkSample \<Rightarrow> bool" where
  "sample_ok key s \<longleftrightarrow> ls_schema_version s = LINK_SCHEMA_VERSION \<and> ls_key_digest s = key \<and> ls_origin s \<in> set ORIGINS
     \<and> 0 \<le> ls_last_bytes s \<and> ls_last_bytes s \<le> MAX_SAMPLE_BYTES \<and> 0 \<le> ls_smoothed_bps s \<and> ls_smoothed_bps s \<le> MAX_BPS
     \<and> 0 \<le> ls_last_bps s \<and> ls_last_bps s \<le> MAX_BPS \<and> (\<exists>t. ls_sampled_at s = Fin t \<and> 0 \<le> t \<and> t \<le> MAX_BPS)"

lemma max_bps: "max MAX_BPS 100000000000 = MAX_BPS"
  by (simp add: MAX_BPS_def)

lemma sample_names: "map fst (obj_items (sample_json s)) = [''key_digest'', ''last_bps'', ''last_bytes'', ''origin'', ''sampled_at'', ''schema_version'', ''smoothed_bps'']"
  by (simp add: sample_json_def)

lemma sample_names_set:
  "set [''key_digest'', ''last_bps'', ''last_bytes'', ''origin'', ''sampled_at'', ''schema_version'', ''smoothed_bps''] = set sample_fields"
  by code_simp

lemma validate_sample_json:
  assumes "sample_ok key s"
  shows "validate_sample (sample_json s) key = Inr s"
proof -
  obtain d where d: "sample_json s = JObj d" by (simp add: sample_json_def)
  obtain t where t: "ls_sampled_at s = Fin t" "0 \<le> t" "t \<le> MAX_BPS" using assms by (auto simp: sample_ok_def)
  have names: "set (map fst d) = set sample_fields" using sample_names [of s] sample_names_set d by simp
  have gets: "json_get d ''origin'' = JStr (ls_origin s)" "json_get d ''last_bytes'' = JInt (ls_last_bytes s)"
    "json_get d ''schema_version'' = JStr (ls_schema_version s)" "json_get d ''key_digest'' = JStr (ls_key_digest s)"
    "json_get d ''smoothed_bps'' = JFloat (Fin (ls_smoothed_bps s))" "json_get d ''last_bps'' = JFloat (Fin (ls_last_bps s))"
    "json_get d ''sampled_at'' = JFloat (Fin t)"
    using d t by (auto simp: sample_json_def json_get_def)
  have nums: "sample_numbers d [''smoothed_bps'', ''last_bps'', ''sampled_at''] = Inr [ls_smoothed_bps s, ls_last_bps s, t]"
    using assms t by (simp add: gets sample_ok_def max_bps)
  show ?thesis
    unfolding d validate_sample_def json.case Let_def names gets nums
    using assms t by (simp add: sample_ok_def)
qed

lemma sample_numbers_Inr:
  "sample_numbers d nms = Inr xs \<Longrightarrow> length xs = length nms \<and> (\<forall>x \<in> set xs. 0 \<le> x \<and> x \<le> MAX_BPS)"
  by (induction nms arbitrary: xs) (auto simp: Let_def bind_ok_Inr max_bps split: if_splits)

lemma validate_sample_ok: "validate_sample raw key = Inr s \<Longrightarrow> sample_ok key s"
proof -
  assume a: "validate_sample raw key = Inr s"
  obtain d where d: "raw = JObj d" using a by (cases raw) (simp_all add: validate_sample_def)
  note ok = a [unfolded d validate_sample_def json.case Let_def guard_ok bind_ok_Inr]
  then obtain xs where xs: "sample_numbers d [''smoothed_bps'', ''last_bps'', ''sampled_at''] = Inr xs" by blast
  have "length xs = 3" "\<forall>x \<in> set xs. 0 \<le> x \<and> x \<le> MAX_BPS" using sample_numbers_Inr [OF xs] by simp_all
  then have "\<exists>a b c. xs = [a, b, c] \<and> 0 \<le> a \<and> a \<le> MAX_BPS \<and> 0 \<le> b \<and> b \<le> MAX_BPS \<and> 0 \<le> c \<and> c \<le> MAX_BPS"
    by (auto simp: length_Suc_conv numeral_3_eq_3)
  with ok xs show ?thesis by (auto simp: sample_ok_def)
qed

lemma read_sample_ok: "read_sample st key = Inr (Some s) \<Longrightarrow> sample_ok key s"
  using validate_sample_ok by (auto simp: read_sample_def bind_ok_Inr split: option.splits slot.splits)

interpretation link_files: edge_store read_sample published sample_ok
proof
  show "read_sample (st(key \<mapsto> published s)) key = Inr (Some s)" if "sample_ok key s" for key s st
    using that validate_sample_json [OF that] by (auto simp: read_sample_def published_def sample_ok_def)
  show "read_sample st key = read_sample st' key" if "st key = st' key" for st st' :: circuits and key
    using that by (simp add: read_sample_def)
qed


section \<open>Recording\<close>

lemma smooth_between: "min p observed \<le> smooth (Some p) observed" "smooth (Some p) observed \<le> max p observed"
  by (auto simp: smooth_def SMOOTHING_UP_def SMOOTHING_DOWN_def Let_def min_def max_def field_simps)

lemma sample_window_pos: "sample_window bytes elapsed = Some t \<Longrightarrow> 0 < t \<and> 0 \<le> bytes \<and> bytes \<le> MAX_SAMPLE_BYTES"
  by (auto simp: sample_window_def MIN_SAMPLE_SECONDS_def MIN_SAMPLE_BYTES_def split: pyfloat.splits if_splits)

text \<open>The sample that an accepted transfer writes.\<close>

definition new_sample :: "link_env \<Rightarrow> string \<Rightarrow> int \<Rightarrow> rat \<Rightarrow> string \<Rightarrow> LinkSample option \<Rightarrow> LinkSample" where
  "new_sample ev key bytes window origin prior =
     (let observed = min MAX_BPS (of_int bytes / window) in
      \<lparr>ls_schema_version = LINK_SCHEMA_VERSION, ls_key_digest = key,
       ls_smoothed_bps = min MAX_BPS (smooth (map_option ls_smoothed_bps prior) observed), ls_last_bps = observed,
       ls_last_bytes = bytes, ls_origin = origin, ls_sampled_at = le_clock ev\<rparr>)"

lemma new_sample_ok:
  assumes "sample_window bytes elapsed = Some window" "origin \<in> set ORIGINS" "pred_option (sample_ok key) prior"
    "le_clock ev = Fin t" "0 \<le> t" "t \<le> MAX_BPS"
  shows "sample_ok key (new_sample ev key bytes window origin prior)"
proof -
  note w = sample_window_pos [OF assms(1)]
  define observed where "observed = min MAX_BPS (of_int bytes / window)"
  have o: "0 \<le> observed" "observed \<le> MAX_BPS" using w by (simp_all add: observed_def MAX_BPS_def)
  have "0 \<le> smooth (map_option ls_smoothed_bps prior) observed"
  proof (cases prior)
    case (Some s)
    then have "0 \<le> ls_smoothed_bps s" using assms(3) by (simp add: sample_ok_def)
    then show ?thesis using Some smooth_between(1) [of "ls_smoothed_bps s" observed] o(1) by (simp add: min_def split: if_splits)
  qed (simp add: smooth_def o)
  then show ?thesis
    using o w assms(2,4-) by (simp add: sample_ok_def new_sample_def Let_def observed_def [symmetric])
qed

lemma record_sample_cases:
  assumes "record_sample ev key bytes elapsed origin st = (st', r)"
  obtains (kept) "st' = st" "\<And>s. r \<noteq> Inr (Some s)"
  | (replaced) window prior where "sample_window bytes elapsed = Some window" "origin \<in> set ORIGINS"
      "read_sample st key = Inr prior \<or> prior = None \<and> (\<exists>m. read_sample st key = Inl (LinkMetricsError m))"
      "st' = st(key \<mapsto> published (new_sample ev key bytes window origin prior))"
      "r = Inr (Some (new_sample ev key bytes window origin prior)) \<or> (\<exists>x. r = Inl x)"
proof (cases "origin \<in> set ORIGINS")
  case True
  show thesis
  proof (cases "sample_window bytes elapsed")
    case None
    then show thesis using assms True kept by (auto simp: record_sample_def)
  next
    case w: (Some window)
    show thesis
    proof (cases "le_lock ev")
      case (Some m)
      then show thesis using assms True w kept by (auto simp: record_sample_def link_locked_def Let_def)
    next
      case None
      define prior' where "prior' = (case read_sample st key of Inl (LinkMetricsError _) \<Rightarrow> Inr None | r \<Rightarrow> r)"
      show thesis
      proof (cases prior')
        case (Inl x)
        then show thesis
          using assms True w None kept by (auto simp: record_sample_def link_locked_def Let_def prior'_def [symmetric])
      next
        case (Inr prior)
        let ?s = "new_sample ev key bytes window origin prior"
        have src: "read_sample st key = Inr prior \<or> prior = None \<and> (\<exists>m. read_sample st key = Inl (LinkMetricsError m))"
          using Inr by (auto simp: prior'_def split: sum.splits link_exn.splits)
        obtain st1 y where ws: "write_sample ev key ?s st = (st1, y)" by fastforce
        then have r: "st' = st1" "r = (case y of Inl x \<Rightarrow> Inl x | Inr _ \<Rightarrow> Inr (Some ?s))"
          using assms True w None Inr
          by (auto simp: record_sample_def link_locked_def Let_def prior'_def [symmetric] new_sample_def split: sum.splits)
        have "(st1 = st \<and> (\<exists>x. y = Inl x)) \<or> st1 = st(key \<mapsto> published ?s)"
          using ws by (auto simp: write_sample_def split: if_splits write_io.splits)
        then show thesis
        proof
          assume "st1 = st \<and> (\<exists>x. y = Inl x)"
          then show thesis using r kept by auto
        next
          assume "st1 = st(key \<mapsto> published ?s)"
          then show thesis using r replaced [OF w True src] by (cases y) auto
        qed
      qed
    qed
  qed
qed (use assms kept in \<open>auto simp: record_sample_def\<close>)

text \<open>
  Throughput evidence survives: whenever recording a transfer changes the edge's file, also when
  it then reports an error, the file reads back as a valid sample of that transfer; an unreadable
  file is replaced the same way, so damage never blocks new evidence; no other edge's file is
  touched; and the smoothed rate lies between the old rate and the observed one.
\<close>

theorem recorded_sample_reads_back:
  assumes "record_sample ev key bytes elapsed origin st = (st', r)" "st' \<noteq> st \<or> (\<exists>s. r = Inr (Some s))"
    "le_clock ev = Fin t" "0 \<le> t" "t \<le> MAX_BPS"
  shows "\<exists>s. read_sample st' key = Inr (Some s) \<and> ls_last_bytes s = bytes \<and> ls_origin s = origin \<and> ls_sampled_at s = Fin t
    \<and> (r = Inr (Some s) \<or> (\<exists>x. r = Inl x)) \<and> (\<forall>other. other \<noteq> key \<longrightarrow> read_sample st' other = read_sample st other)
    \<and> (case read_sample st key of
         Inr (Some p) \<Rightarrow> min (ls_smoothed_bps p) (ls_last_bps s) \<le> ls_smoothed_bps s \<and> ls_smoothed_bps s \<le> max (ls_smoothed_bps p) (ls_last_bps s)
       | _ \<Rightarrow> ls_smoothed_bps s = ls_last_bps s)"
  using assms(1)
proof (cases rule: record_sample_cases)
  case kept
  then show ?thesis using assms(2) by blast
next
  case (replaced window prior)
  let ?s = "new_sample ev key bytes window origin prior"
  have "pred_option (sample_ok key) prior" using replaced(3) read_sample_ok by (cases prior) auto
  note ok = new_sample_ok [OF replaced(1,2) this assms(3-)]
  have "read_sample st' key = Inr (Some ?s)" unfolding replaced(4) by (rule link_files.read_published [OF ok])
  moreover have "\<forall>other. other \<noteq> key \<longrightarrow> read_sample st' other = read_sample st other"
    unfolding replaced(4) using link_files.other_edges by metis
  moreover have "case read_sample st key of
         Inr (Some p) \<Rightarrow> min (ls_smoothed_bps p) (ls_last_bps ?s) \<le> ls_smoothed_bps ?s \<and> ls_smoothed_bps ?s \<le> max (ls_smoothed_bps p) (ls_last_bps ?s)
       | _ \<Rightarrow> ls_smoothed_bps ?s = ls_last_bps ?s"
  proof (cases prior)
    case None
    then show ?thesis using replaced(3) by (auto simp: new_sample_def smooth_def Let_def)
  next
    case (Some p)
    then have r: "read_sample st key = Inr (Some p)" using replaced(3) by simp
    have "ls_smoothed_bps p \<le> MAX_BPS" using read_sample_ok [OF r] by (simp add: sample_ok_def)
    then have "ls_smoothed_bps ?s = smooth (Some (ls_smoothed_bps p)) (ls_last_bps ?s)"
      using smooth_between(2) [of "ls_smoothed_bps p" "ls_last_bps ?s"] by (simp add: new_sample_def Some Let_def max_def split: if_splits)
    then show ?thesis using r smooth_between [of "ls_smoothed_bps p" "ls_last_bps ?s"] by simp
  qed
  ultimately show ?thesis
    using replaced(5) assms(3) by (intro exI [of _ ?s]) (simp add: new_sample_def Let_def)
qed


section \<open>Weighing evidence\<close>

lemma smooth_step:
  "p \<le> v \<Longrightarrow> v - smooth (Some p) v = 1 / 2 * (v - p)" "v \<le> p \<Longrightarrow> smooth (Some p) v - v = 7 / 10 * (p - v)"
  by (auto simp: smooth_def SMOOTHING_UP_def SMOOTHING_DOWN_def Let_def field_simps)

text \<open>
  Repeated evidence converges, good news faster than bad: when an edge keeps delivering the same
  rate, the distance of the smoothed rate from it halves with each transfer if the edge had looked
  slower, and shrinks by three tenths if it had looked faster.
\<close>

theorem repeated_evidence_converges:
  "(p \<le> v \<longrightarrow> v - ((\<lambda>x. smooth (Some x) v) ^^ n) p = (1 / 2) ^ n * (v - p))
   \<and> (v \<le> p \<longrightarrow> ((\<lambda>x. smooth (Some x) v) ^^ n) p - v = (7 / 10) ^ n * (p - v))"
proof (induction n)
  case (Suc n)
  let ?x = "((\<lambda>x. smooth (Some x) v) ^^ n) p"
  show ?case
  proof (intro conjI impI)
    assume le: "p \<le> v"
    then have ih: "v - ?x = (1 / 2) ^ n * (v - p)" using Suc by simp
    moreover have "0 \<le> (1 / 2) ^ n * (v - p)" using le by simp
    ultimately have "?x \<le> v" by linarith
    then show "v - ((\<lambda>x. smooth (Some x) v) ^^ Suc n) p = (1 / 2) ^ Suc n * (v - p)"
      using smooth_step(1) [of ?x v] ih by (simp only: funpow.simps comp_apply power_Suc mult.assoc)
  next
    assume le: "v \<le> p"
    then have ih: "?x - v = (7 / 10) ^ n * (p - v)" using Suc by simp
    moreover have "0 \<le> (7 / 10) ^ n * (p - v)" using le by simp
    ultimately have "v \<le> ?x" by linarith
    then show "((\<lambda>x. smooth (Some x) v) ^^ Suc n) p - v = (7 / 10) ^ Suc n * (p - v)"
      using smooth_step(2) [of v ?x] ih by (simp only: funpow.simps comp_apply power_Suc mult.assoc)
  qed
qed simp

lemma unmeasured: "throughput_bucket None = UNMEASURED_BUCKET"
  by (simp add: throughput_bucket_def)

text \<open>
  Slow evidence expires, other evidence counts: of a sample that can be read, ranking uses the
  smoothed rate from the moment it was taken, except that 900 seconds later a rate that would rank
  the edge below an unmeasured one no longer counts, so that the edge ranks as unmeasured again.
\<close>

theorem slow_evidence_expires:
  assumes "read_sample st key = Inr (Some s)" "ls_sampled_at s = Fin t" "t \<le> now"
  shows "(now \<le> t + 900 \<longrightarrow> effective_throughput_bps (Some s) now = Some (ls_smoothed_bps s))
    \<and> (t + 900 < now \<longrightarrow> throughput_bucket (effective_throughput_bps (Some s) now) = min UNMEASURED_BUCKET (throughput_bucket (Some (ls_smoothed_bps s))))"
  using assms by (auto simp: effective_throughput_bps_def age_s_def SLOW_EVIDENCE_TTL_S_def unmeasured min_def)

section \<open>Concrete instances\<close>

definition calm_link :: "rat \<Rightarrow> link_env" where
  "calm_link t = \<lparr>le_lock = None, le_clock = Fin t, le_io = Written, le_float_repr = (\<lambda>_. ''0.0'')\<rparr>"

definition first_sample :: LinkSample where
  "first_sample = \<lparr>ls_schema_version = LINK_SCHEMA_VERSION, ls_key_digest = ''k'', ls_smoothed_bps = 1048576, ls_last_bps = 1048576,
     ls_last_bytes = 1048576, ls_origin = ''transfer'', ls_sampled_at = Fin 100\<rparr>"

text \<open>One mebibyte in one second over an edge whose file was damaged.\<close>

definition damaged_link :: circuits where "damaged_link = (\<lambda>_. None)(''k'' \<mapsto> MalformedFile)"

lemma first_small: "length (dumps_compact (\<lambda>_. ''0.0'') (sample_json first_sample)) + 1 \<le> MAX_STATE_BYTES"
proof -
  let ?n = "\<lambda>x. length (dumps_str x)"
  have names: "?n ''key_digest'' \<le> 62" "?n ''last_bps'' \<le> 50" "?n ''last_bytes'' \<le> 62" "?n ''origin'' \<le> 38" "?n ''sampled_at'' \<le> 62"
    "?n ''schema_version'' \<le> 86" "?n ''smoothed_bps'' \<le> 74" "?n ''k'' \<le> 8" "?n ''transfer'' \<le> 50" "?n ''dt_link_metrics_v1'' \<le> 110"
    by (rule order_trans [OF length_dumps_str], simp)+
  have i: "length (show_int 1048576) = 7" by (simp add: show_int_def show_nat.simps)
  show ?thesis
    using names i by (simp add: sample_json_def first_sample_def LINK_SCHEMA_VERSION_def MAX_STATE_BYTES_def)
qed

lemma first_recorded:
  "record_sample (calm_link 100) ''k'' 1048576 (Fin 1) ''transfer'' damaged_link = (damaged_link(''k'' \<mapsto> published first_sample), Inr (Some first_sample))"
proof -
  have "''transfer'' \<in> set ORIGINS" by code_simp
  moreover have "sample_window 1048576 (Fin 1) = Some 1"
    by (simp add: sample_window_def MIN_SAMPLE_BYTES_def MAX_SAMPLE_BYTES_def MIN_SAMPLE_SECONDS_def)
  moreover have "read_sample damaged_link ''k'' = Inl (LinkMetricsError ''link metrics state is malformed'')"
    by (simp add: read_sample_def damaged_link_def)
  moreover have "\<not> MAX_STATE_BYTES < length (dumps_compact (\<lambda>_. ''0.0'') (sample_json first_sample)) + 1"
    using first_small by simp
  moreover have "min MAX_BPS (rat_of_int 1048576 / 1) = 1048576" by (simp add: MAX_BPS_def)
  ultimately show ?thesis
    by (simp add: record_sample_def link_locked_def calm_link_def Let_def smooth_def write_sample_def first_sample_def MAX_BPS_def)
qed

theorem recorded_sample_reads_back_witness:
  "\<exists>s. read_sample (damaged_link(''k'' \<mapsto> published first_sample)) ''k'' = Inr (Some s) \<and> ls_last_bytes s = 1048576
     \<and> read_sample (damaged_link(''k'' \<mapsto> published first_sample)) ''j'' = Inr None"
proof -
  have c: "le_clock (calm_link 100) = Fin 100" "(0 :: rat) \<le> 100" "100 \<le> MAX_BPS" by (simp_all add: calm_link_def MAX_BPS_def)
  have "read_sample damaged_link ''j'' = Inr None" by (simp add: read_sample_def damaged_link_def)
  with recorded_sample_reads_back [OF first_recorded _ c] show ?thesis by fastforce
qed

theorem repeated_evidence_converges_witness: "10 - ((\<lambda>x. smooth (Some x) 10) ^^ 3) 2 = 1"
  using repeated_evidence_converges [of 2 10 3] by (simp add: power_divide)

theorem slow_evidence_expires_witness:
  "effective_throughput_bps (Some first_sample) 1000 = Some 1048576 \<and> throughput_bucket (effective_throughput_bps (Some first_sample) 1001) = 2"
proof -
  have "sample_ok ''k'' first_sample"
  proof -
    have "''transfer'' \<in> set ORIGINS" by code_simp
    then show ?thesis by (simp add: sample_ok_def first_sample_def MAX_SAMPLE_BYTES_def MAX_BPS_def)
  qed
  from link_files.read_published [OF this, of damaged_link]
  have r: "read_sample (damaged_link(''k'' \<mapsto> published first_sample)) ''k'' = Inr (Some first_sample)" .
  have f: "ls_sampled_at first_sample = Fin 100" "ls_smoothed_bps first_sample = 1048576" by (simp_all add: first_sample_def)
  from slow_evidence_expires [OF r f(1), of 1000] slow_evidence_expires [OF r f(1), of 1001] show ?thesis
    by (simp add: f throughput_bucket_def UNMEASURED_BUCKET_def)
qed

end
