(* ===== verification/Matrix.thy ===== *)
theory Matrix
  imports Submission_Group
begin

text \<open>
  Declarative unit matrices (\<open>src/dt/matrix.py\<close>): validation of a spec, its deterministic expansion
  into ordered units, command templates, and the status of a submitted matrix.

  The YAML and JSON readers are outside the development: \<open>yaml\<close> is what they return, with the
  source spelling of floats as text (\<open>RawScalar\<close> is a \<open>str\<close>) and mappings whose keys are distinct and
  hashable. \<open>YFloat\<close> and \<open>YOther\<close> carry the \<open>repr\<close> of a value.
\<close>

section \<open>Documents and errors\<close>

datatype ykey = KStr string | KText string

datatype yaml = YNull | YBool bool | YInt int | YFloat pyfloat string | YStr string | YOther string
  | YList "yaml list" | YMap "(ykey \<times> yaml) list"

text \<open>\<open>KText\<close> is a key that is no string, by its \<open>repr\<close>.\<close>

fun key_repr :: "ykey \<Rightarrow> string" where
  "key_repr (KStr s) = py_repr s" | "key_repr (KText r) = r"

datatype matrix_exn = MatrixSpecError string | MatrixOverflow string

definition MATRIX_OPERATION :: string where "MATRIX_OPERATION = ''matrix''"
definition MATRIX_MAX_UNITS :: nat where "MATRIX_MAX_UNITS = 1000"
definition MATRIX_MAX_COMMAND_BYTES :: nat where "MATRIX_MAX_COMMAND_BYTES = 1024 * 1024"
definition MATRIX_MAX_SPEC_BYTES :: nat where "MATRIX_MAX_SPEC_BYTES = 1024 * 1024"
definition MAX_VALUE_CHARS :: nat where "MAX_VALUE_CHARS = 120"

definition MATRIX_UNIT_STATES :: "string list" where
  "MATRIX_UNIT_STATES = [''queued'', ''running'', ''success'', ''failed'', ''missing'']"

definition SPEC_FIELDS :: "string list" where
  "SPEC_FIELDS = [''name_prefix'', ''request_id'', ''project'', ''defaults'', ''axes'', ''include'', ''exclude'', ''command'', ''unit'',
     ''node'', ''artifacts'']"

definition UNIT_OPTION_FIELDS :: "string list" where "UNIT_OPTION_FIELDS = [''gpus'', ''max_hours'']"

text \<open>\<open>[A-Za-z_][A-Za-z0-9_]{0,63}\<close>.\<close>

definition axis_name_ok :: "string \<Rightarrow> bool" where
  "axis_name_ok s \<longleftrightarrow> s \<noteq> [] \<and> length s \<le> 64 \<and> (is_ascii_alpha (hd s) \<or> hd s = CHR ''_'')
     \<and> (\<forall>c \<in> set s. is_ascii_alnum c \<or> c = CHR ''_'')"

definition axis_name_error :: string where
  "axis_name_error = ''axis names must be identifiers: letters, digits, and _ (max 64 characters, not starting with a digit)''"

text \<open>\<open>f"{n:,}"\<close>.\<close>

fun grouped :: "nat \<Rightarrow> string" where
  "grouped n = (if n < 1000 then show_nat n else grouped (n div 1000) @ '','' @ zero_padded 3 (n mod 1000))"

declare grouped.simps [simp del]

record MatrixUnit =
  mu_index :: nat
  mu_key :: string
  mu_name :: string
  mu_values :: "(string \<times> string) list"
  mu_command :: string
  mu_gpus :: int
  mu_max_hours :: "rat option"

record MatrixSpec =
  ms_request_id :: string
  ms_name_prefix :: string
  ms_project :: "string option"
  ms_node :: "string option"
  ms_artifacts :: "string list"
  ms_command_template :: string
  ms_units :: "MatrixUnit list"

section \<open>Fields\<close>

definition scalar_text :: "string \<Rightarrow> yaml \<Rightarrow> matrix_exn + string" where
  "scalar_text label v =
     (case v of
        YBool b \<Rightarrow> Inr (if b then ''true'' else ''false'')
      | _ \<Rightarrow>
     bind_ok (case v of
        YStr s \<Rightarrow> Inr s
      | YInt i \<Rightarrow> Inr (show_int i)
      | YFloat _ r \<Rightarrow> Inr r
      | _ \<Rightarrow> Inl (MatrixSpecError (label @ '' must be a string, number, or boolean''))) (\<lambda>s.
        if strip s = [] then Inl (MatrixSpecError (label @ '' must not be empty''))
        else if MAX_VALUE_CHARS < length s
        then Inl (MatrixSpecError (label @ '' is longer than '' @ show_nat MAX_VALUE_CHARS @ '' characters''))
        else if \<exists>c \<in> set s. code c < 32 \<or> code c = 127
        then Inl (MatrixSpecError (label @ '' must not contain control characters''))
        else Inr s))"

definition as_int_field :: "string \<Rightarrow> yaml \<Rightarrow> matrix_exn + int" where
  "as_int_field label v =
     (let bad = Inl (MatrixSpecError (label @ '' must be an integer'')) in
      case v of
        YInt i \<Rightarrow> Inr i
      | YStr s \<Rightarrow> (case py_int (strip s) of None \<Rightarrow> bad | Some i \<Rightarrow> Inr i)
      | _ \<Rightarrow> bad)"

definition as_float_field :: "string \<Rightarrow> yaml \<Rightarrow> matrix_exn + rat" where
  "as_float_field label v =
     (let bad = Inl (MatrixSpecError (label @ '' must be a number'')) in
      bind_ok (case v of
          YInt i \<Rightarrow> if \<bar>i\<bar> < float_limit then Inr (Fin (of_int i)) else Inl (MatrixOverflow overflow_msg)
        | YFloat x _ \<Rightarrow> Inr x
        | YStr s \<Rightarrow> (case py_float (strip s) of None \<Rightarrow> bad | Some x \<Rightarrow> Inr x)
        | _ \<Rightarrow> bad) (\<lambda>x.
        case x of Fin q \<Rightarrow> Inr q | _ \<Rightarrow> Inl (MatrixSpecError (label @ '' must be finite''))))"

definition field_of :: "(string, yaml) dict \<Rightarrow> string \<Rightarrow> yaml" where
  "field_of raw nm = (case map_of raw nm of None \<Rightarrow> YNull | Some v \<Rightarrow> v)"

definition optional_text :: "(string, yaml) dict \<Rightarrow> string \<Rightarrow> matrix_exn + string option" where
  "optional_text raw nm =
     (case field_of raw nm of
        YNull \<Rightarrow> Inr None
      | YStr s \<Rightarrow> if strip s = [] then Inl (MatrixSpecError (''matrix field '' @ py_repr nm @ '' must be a non-empty string'')) else Inr (Some (strip s))
      | _ \<Rightarrow> Inl (MatrixSpecError (''matrix field '' @ py_repr nm @ '' must be a non-empty string'')))"

type_synonym shape = "int \<times> rat option"

fun merge_options :: "string \<Rightarrow> (ykey \<times> yaml) list \<Rightarrow> shape \<Rightarrow> matrix_exn + shape" where
  "merge_options label [] base = Inr base"
| "merge_options label ((k, v) # rest) (cards, hours) =
     (if k = KStr ''gpus''
      then bind_ok (as_int_field (label @ '' gpus'') v) (\<lambda>n.
             if n < 0 then Inl (MatrixSpecError (label @ '' gpus must be non-negative''))
             else merge_options label rest (n, hours))
      else if k = KStr ''max_hours''
      then bind_ok (as_float_field (label @ '' max_hours'') v) (\<lambda>h.
             if h \<le> 0 then Inl (MatrixSpecError (label @ '' max_hours must be positive''))
             else merge_options label rest (cards, Some h))
      else Inl (MatrixSpecError (label @ '' field '' @ key_repr k @ '' is not supported (supported: '' @ join '', '' (sort UNIT_OPTION_FIELDS) @ '')'')))"

definition unit_options :: "string \<Rightarrow> yaml \<Rightarrow> shape \<Rightarrow> matrix_exn + shape" where
  "unit_options label raw base =
     (case raw of
        YNull \<Rightarrow> Inr base
      | YMap kvs \<Rightarrow> merge_options label kvs base
      | _ \<Rightarrow> Inl (MatrixSpecError (label @ '' must be a mapping'')))"

section \<open>Axes and selectors\<close>

fun axis_texts :: "string \<Rightarrow> nat \<Rightarrow> string list \<Rightarrow> yaml list \<Rightarrow> matrix_exn + string list" where
  "axis_texts nm position rendered [] = Inr rendered"
| "axis_texts nm position rendered (v # vs) =
     bind_ok (scalar_text (''axis '' @ py_repr nm @ '' value '' @ show_nat position) v) (\<lambda>s.
       if s \<in> set rendered then Inl (MatrixSpecError (''axis '' @ py_repr nm @ '' repeats the value '' @ py_repr s))
       else axis_texts nm (position + 1) (rendered @ [s]) vs)"

type_synonym axes = "(string \<times> string list) list"

fun axis_entries :: "(ykey \<times> yaml) list \<Rightarrow> matrix_exn + axes" where
  "axis_entries [] = Inr []"
| "axis_entries ((k, v) # rest) =
     (case k of
        KText _ \<Rightarrow> Inl (MatrixSpecError axis_name_error)
      | KStr nm \<Rightarrow>
          if \<not> axis_name_ok nm then Inl (MatrixSpecError axis_name_error)
          else
            (case v of
               YList (w # ws) \<Rightarrow>
                 bind_ok (axis_texts nm 1 [] (w # ws)) (\<lambda>texts.
                 bind_ok (axis_entries rest) (\<lambda>others. Inr ((nm, texts) # others)))
             | _ \<Rightarrow> Inl (MatrixSpecError (''axis '' @ py_repr nm @ '' must be a non-empty list of values''))))"

definition axis_values :: "yaml \<Rightarrow> matrix_exn + axes" where
  "axis_values raw =
     (case raw of
        YNull \<Rightarrow> Inr []
      | YMap kvs \<Rightarrow> axis_entries kvs
      | _ \<Rightarrow> Inl (MatrixSpecError (''matrix field '' @ py_repr ''axes'' @ '' must be a mapping of value lists'')))"

type_synonym assignment = "(string \<times> string) list"

fun selector_values :: "string \<Rightarrow> string list \<Rightarrow> (ykey \<times> yaml) list \<Rightarrow> matrix_exn + assignment" where
  "selector_values label allowed [] = Inr []"
| "selector_values label allowed ((k, v) # rest) =
     (let unknown = Inl (MatrixSpecError (label @ '' names unknown axis '' @ key_repr k @ '' (known axes: ''
            @ (if allowed = [] then ''none'' else join '', '' (sort (remdups allowed))) @ '')'')) in
      case k of
        KText _ \<Rightarrow> unknown
      | KStr nm \<Rightarrow>
          if nm \<notin> set allowed then unknown
          else bind_ok (scalar_text (label @ '' value for '' @ py_repr nm) v) (\<lambda>s.
               bind_ok (selector_values label allowed rest) (\<lambda>others. Inr ((nm, s) # others))))"

definition selector_entry :: "string \<Rightarrow> string list \<Rightarrow> bool \<Rightarrow> yaml \<Rightarrow> matrix_exn + assignment" where
  "selector_entry label allowed require_complete entry =
     (case entry of
        YMap (kv # kvs) \<Rightarrow>
          bind_ok (selector_values label allowed (kv # kvs)) (\<lambda>rendered.
            if require_complete \<and> set (keys rendered) \<noteq> set allowed
            then Inl (MatrixSpecError (label @ '' must set every axis (missing: ''
                   @ join '', '' (sort (filter (\<lambda>a. a \<notin> set (keys rendered)) (remdups allowed))) @ '')''))
            else Inr rendered)
      | _ \<Rightarrow> Inl (MatrixSpecError (label @ '' must be a non-empty mapping'')))"

fun selector_list :: "string \<Rightarrow> string list \<Rightarrow> bool \<Rightarrow> nat \<Rightarrow> yaml list \<Rightarrow> matrix_exn + assignment list" where
  "selector_list fld allowed require_complete position [] = Inr []"
| "selector_list fld allowed require_complete position (entry # rest) =
     bind_ok (selector_entry (fld @ '' entry '' @ show_nat position) allowed require_complete entry) (\<lambda>e.
     bind_ok (selector_list fld allowed require_complete (position + 1) rest) (\<lambda>es. Inr (e # es)))"

definition selector_units :: "yaml \<Rightarrow> string \<Rightarrow> string list \<Rightarrow> bool \<Rightarrow> matrix_exn + assignment list" where
  "selector_units raw fld allowed require_complete =
     (case raw of
        YNull \<Rightarrow> Inr []
      | YList es \<Rightarrow> selector_list fld allowed require_complete 1 es
      | _ \<Rightarrow> Inl (MatrixSpecError (''matrix field '' @ py_repr fld @ '' must be a list of mappings'')))"

section \<open>Command templates\<close>

text \<open>
  \<open>string.Formatter().parse\<close>: literal text, doubled braces, and replacement fields with an
  optional conversion and format specification. A fragment is its literal text and, when a field
  follows it, the field's name, specification and conversion.
\<close>

definition is_brace :: "char \<Rightarrow> bool" where "is_brace c \<longleftrightarrow> c = CHR ''{'' \<or> c = CHR ''}''"

text \<open>
  The name of a field, the character that ended it, and the rest of the template; between
  \<open>[\<close> and \<open>]\<close> nothing ends it.
\<close>

fun scan_name :: "bool \<Rightarrow> string \<Rightarrow> string + string \<times> char option \<times> string" where
  "scan_name bracket [] = Inr ([], None, [])"
| "scan_name bracket (c # r) =
     (if \<not> bracket \<and> c = CHR ''{'' then Inl (''unexpected '' @ py_repr ''{'' @ '' in field name'')
      else if \<not> bracket \<and> (c = CHR ''}'' \<or> c = CHR '':'' \<or> c = CHR ''!'') then Inr ([], Some c, r)
      else bind_ok (scan_name (if bracket then c \<noteq> CHR '']'' else c = CHR ''['') r) (\<lambda>(nm, stop, rest). Inr (c # nm, stop, rest)))"

text \<open>The specification up to the brace that closes \<open>depth\<close> open ones.\<close>

fun scan_spec :: "nat \<Rightarrow> string \<Rightarrow> string + string \<times> string" where
  "scan_spec depth [] = Inl (''unmatched '' @ py_repr ''{'' @ '' in format spec'')"
| "scan_spec depth (c # r) =
     (if c = CHR ''}'' \<and> depth = 1 then Inr ([], r)
      else bind_ok (scan_spec (if c = CHR ''{'' then depth + 1 else if c = CHR ''}'' then depth - 1 else depth) r)
             (\<lambda>(spec, rest). Inr (c # spec, rest)))"

type_synonym format_field = "string \<times> string \<times> char option"

definition scan_field :: "string \<Rightarrow> string + format_field \<times> string" where
  "scan_field s =
     bind_ok (scan_name False s) (\<lambda>(nm, stop, r).
       case stop of
         None \<Rightarrow> Inl (''expected '' @ py_repr ''}'' @ '' before end of string'')
       | Some t \<Rightarrow>
           if t = CHR ''}'' then Inr ((nm, [], None), r)
           else if t = CHR '':'' then bind_ok (scan_spec 1 r) (\<lambda>(spec, rest). Inr ((nm, spec, None), rest))
           else
             (case r of
                [] \<Rightarrow> Inl ''end of string while looking for conversion specifier''
              | [cv] \<Rightarrow> Inl (''unmatched '' @ py_repr ''{'' @ '' in format spec'')
              | cv # d # rest \<Rightarrow>
                  if d = CHR ''}'' then Inr ((nm, [], Some cv), rest)
                  else if d \<noteq> CHR '':'' then Inl (''expected '' @ py_repr '':'' @ '' after conversion specifier'')
                  else bind_ok (scan_spec 1 rest) (\<lambda>(spec, rest'). Inr ((nm, spec, Some cv), rest'))))"

lemma scan_name_rest: "scan_name b s = Inr (nm, stop, r) \<Longrightarrow> length r \<le> length s"
  by (induction s arbitrary: b nm) (fastforce simp: bind_ok_Inr split: if_splits)+

lemma scan_spec_rest: "scan_spec d s = Inr (spec, r) \<Longrightarrow> length r \<le> length s"
  by (induction s arbitrary: d spec) (fastforce simp: bind_ok_Inr split: if_splits)+

lemma scan_field_rest: "scan_field s = Inr (f, r) \<Longrightarrow> length r \<le> length s"
  unfolding scan_field_def
  by (fastforce simp: bind_ok_Inr dest!: scan_name_rest scan_spec_rest split: option.splits if_splits list.splits)

lemma bind_ok_cong [fundef_cong]: "r = r' \<Longrightarrow> (\<And>x. r' = Inr x \<Longrightarrow> f x = g x) \<Longrightarrow> bind_ok r f = bind_ok r' g"
  by (cases r') simp_all

lemma brace_length: "dropWhile p s = c # r \<Longrightarrow> length r < length s"
  using length_dropWhile_le [of p s] by simp

function format_parse :: "string \<Rightarrow> string + (string \<times> format_field option) list" where
  "format_parse s =
     (let literal = takeWhile (\<lambda>c. \<not> is_brace c) s in
      case dropWhile (\<lambda>c. \<not> is_brace c) s of
        [] \<Rightarrow> Inr (if s = [] then [] else [(literal, None)])
      | c # r \<Rightarrow>
          if r = [] then Inl (''Single '' @ py_repr [c] @ '' encountered in format string'')
          else if hd r = c then bind_ok (format_parse (tl r)) (\<lambda>fs. Inr ((literal @ [c], None) # fs))
          else if c = CHR ''}'' then Inl (''Single '' @ py_repr [c] @ '' encountered in format string'')
          else bind_ok (scan_field r) (\<lambda>(fld, rest). bind_ok (format_parse rest) (\<lambda>fs. Inr ((literal, Some fld) # fs))))"
  by pat_completeness auto
termination
  by (relation "measure length") (auto dest!: brace_length scan_field_rest)

declare format_parse.simps [simp del]

definition placeholder_error :: string where
  "placeholder_error = ''command template placeholders must be plain axis names like {lr}; positional, format-spec, and conversion placeholders are not supported''"

fun render_fragments :: "assignment \<Rightarrow> (string \<times> format_field option) list \<Rightarrow> matrix_exn + string" where
  "render_fragments asg [] = Inr []"
| "render_fragments asg ((literal, fld) # rest) =
     bind_ok (case fld of
         None \<Rightarrow> Inr []
       | Some (nm, spec, cv) \<Rightarrow>
           if nm = [] \<or> spec \<noteq> [] \<or> cv \<noteq> None then Inl (MatrixSpecError placeholder_error)
           else (case map_of asg nm of
                   None \<Rightarrow> Inl (MatrixSpecError (''command template references unknown axis '' @ py_repr nm @ '' (known axes: ''
                     @ (if asg = [] then ''none'' else join '', '' (sort (keys asg))) @ '')''))
                 | Some v \<Rightarrow> Inr v)) (\<lambda>v.
     bind_ok (render_fragments asg rest) (\<lambda>tail. Inr (literal @ v @ tail)))"

definition render_command :: "string \<Rightarrow> assignment \<Rightarrow> matrix_exn + string" where
  "render_command template asg =
     bind_ok (map_error (\<lambda>m. MatrixSpecError (''command template is invalid: '' @ m)) (format_parse template)) (\<lambda>fs.
     bind_ok (render_fragments asg fs) (\<lambda>joined.
       if strip joined = [] then Inl (MatrixSpecError ''command template rendered an empty command'') else Inr (strip joined)))"

definition unit_key :: "assignment \<Rightarrow> string" where
  "unit_key asg = join '','' (map (\<lambda>nm. nm @ ''='' @ the (map_of asg nm)) (sort (keys asg)))"

section \<open>Expansion\<close>

text \<open>\<open>all(values.get(name) == text for name, text in entry.items())\<close>.\<close>

definition selects :: "assignment \<Rightarrow> assignment \<Rightarrow> bool" where
  "selects entry asg \<longleftrightarrow> (\<forall>(nm, s) \<in> set entry. map_of asg nm = Some s)"

text \<open>The product over the sorted axis names, without the excluded units.\<close>

definition grid :: "axes \<Rightarrow> assignment list \<Rightarrow> assignment list" where
  "grid axes exclude =
     (let names = sort (keys axes) in
      if names = [] then []
      else filter (\<lambda>asg. \<not> (\<exists>entry \<in> set exclude. selects entry asg))
             (map (zip names) (product_lists (map (\<lambda>nm. the (map_of axes nm)) names))))"

fun keyed_units :: "(string \<times> assignment) list \<Rightarrow> assignment list \<Rightarrow> matrix_exn + (string \<times> assignment) list" where
  "keyed_units keyed [] = Inr keyed"
| "keyed_units keyed (asg # rest) =
     (if unit_key asg \<in> set (keys keyed) then Inl (MatrixSpecError (''matrix expands duplicate unit key '' @ py_repr (unit_key asg)))
      else keyed_units (keyed @ [(unit_key asg, asg)]) rest)"

type_synonym rule = "assignment \<times> yaml"

fun apply_rules :: "rule list \<Rightarrow> assignment \<Rightarrow> shape \<Rightarrow> matrix_exn + shape" where
  "apply_rules [] asg base = Inr base"
| "apply_rules ((match, overrides) # rules) asg base =
     (if selects match asg then bind_ok (unit_options ''unit overrides'' overrides base) (apply_rules rules asg)
      else apply_rules rules asg base)"

definition build_unit :: "(string \<Rightarrow> string) \<Rightarrow> string \<Rightarrow> string \<Rightarrow> rule list \<Rightarrow> shape \<Rightarrow> nat \<Rightarrow> string \<times> assignment \<Rightarrow> matrix_exn + MatrixUnit" where
  "build_unit sha256 pfx template rules base i kv =
     (case kv of (key, asg) \<Rightarrow>
        bind_ok (apply_rules rules asg base) (\<lambda>(cards, hours).
        bind_ok (render_command template asg) (\<lambda>command. Inr
          \<lparr>mu_index = i, mu_key = key, mu_name = sanitize_name sha256 (pfx @ ''-'' @ key), mu_values = sort_key fst asg,
           mu_command = command, mu_gpus = cards, mu_max_hours = hours\<rparr>)))"

fun build_units :: "(string \<Rightarrow> string) \<Rightarrow> string \<Rightarrow> string \<Rightarrow> rule list \<Rightarrow> shape \<Rightarrow> nat \<Rightarrow> (string \<times> assignment) list
    \<Rightarrow> matrix_exn + MatrixUnit list" where
  "build_units sha256 pfx template rules base i [] = Inr []"
| "build_units sha256 pfx template rules base i (kv # rest) =
     bind_ok (build_unit sha256 pfx template rules base i kv) (\<lambda>u.
     bind_ok (build_units sha256 pfx template rules base (i + 1) rest) (\<lambda>us. Inr (u # us)))"

definition command_bytes :: "MatrixUnit list \<Rightarrow> nat" where
  "command_bytes us = sum_list (map (\<lambda>u. utf8_len (mu_command u)) us)"

definition expand :: "(string \<Rightarrow> string) \<Rightarrow> string \<Rightarrow> string \<Rightarrow> rule list \<Rightarrow> shape \<Rightarrow> axes \<Rightarrow> assignment list \<Rightarrow> assignment list
    \<Rightarrow> matrix_exn + MatrixUnit list" where
  "expand sha256 pfx template rules base axes exclude include =
     (let combos = grid axes exclude @ include in
      if combos = [] then Inl (MatrixSpecError ''matrix spec expanded to zero units'')
      else if MATRIX_MAX_UNITS < length combos
      then Inl (MatrixSpecError (''matrix expands to '' @ grouped (length combos) @ '' units; maximum is '' @ grouped MATRIX_MAX_UNITS))
      else
        bind_ok (keyed_units [] combos) (\<lambda>keyed.
        bind_ok (build_units sha256 pfx template rules base 1 (sort_key fst keyed)) (\<lambda>units.
          if MATRIX_MAX_COMMAND_BYTES < command_bytes units
          then Inl (MatrixSpecError (''matrix command text is '' @ grouped (command_bytes units) @ '' bytes; maximum is ''
                 @ grouped MATRIX_MAX_COMMAND_BYTES))
          else Inr units)))"

section \<open>Specs\<close>

text \<open>\<open>reader\<close> stands for the strict YAML reader and its JSON fallback: a document, or the message of the refusal.\<close>

fun string_keys :: "(ykey \<times> yaml) list \<Rightarrow> matrix_exn + (string, yaml) dict" where
  "string_keys [] = Inr []"
| "string_keys ((k, v) # rest) =
     (case k of
        KText _ \<Rightarrow> Inl (MatrixSpecError ''matrix spec field names must be strings'')
      | KStr nm \<Rightarrow> bind_ok (string_keys rest) (\<lambda>d. Inr ((nm, v) # d)))"

definition parse_spec_text :: "(string \<Rightarrow> string + yaml) \<Rightarrow> string \<Rightarrow> matrix_exn + (string, yaml) dict" where
  "parse_spec_text reader source =
     (if MATRIX_MAX_SPEC_BYTES < utf8_len source
      then Inl (MatrixSpecError (''matrix spec exceeds the '' @ grouped MATRIX_MAX_SPEC_BYTES @ ''-byte limit''))
      else bind_ok (map_error MatrixSpecError (reader source)) (\<lambda>document.
        case document of
          YMap kvs \<Rightarrow> string_keys kvs
        | _ \<Rightarrow> Inl (MatrixSpecError ''matrix spec must be a mapping of fields'')))"

definition artifact_paths :: "yaml \<Rightarrow> string option \<Rightarrow> matrix_exn + string list" where
  "artifact_paths raw nd =
     bind_ok (case raw of
         YNull \<Rightarrow> Inr []
       | YList vs \<Rightarrow>
           if \<forall>v \<in> set vs. \<exists>s. v = YStr s \<and> strip s \<noteq> []
           then Inr (map (\<lambda>v. case v of YStr s \<Rightarrow> strip s | _ \<Rightarrow> []) vs)
           else Inl (MatrixSpecError (''matrix field '' @ py_repr ''artifacts'' @ '' must be a list of non-empty paths''))
       | _ \<Rightarrow> Inl (MatrixSpecError (''matrix field '' @ py_repr ''artifacts'' @ '' must be a list of non-empty paths''))) (\<lambda>paths.
       if paths \<noteq> [] \<and> nd = None
       then Inl (MatrixSpecError (''matrix field '' @ py_repr ''artifacts'' @ '' requires a pinned '' @ py_repr ''node''
              @ ''; artifact destinations cannot follow queue-time placement''))
       else Inr paths)"

text \<open>Without axes, the first \<open>include\<close> unit names them.\<close>

fun text_keys :: "(ykey \<times> yaml) list \<Rightarrow> string list" where
  "text_keys [] = []"
| "text_keys ((k, v) # rest) = (case k of KStr nm \<Rightarrow> nm # text_keys rest | KText _ \<Rightarrow> text_keys rest)"

definition include_axes :: "axes \<Rightarrow> yaml \<Rightarrow> matrix_exn + string list" where
  "include_axes axes raw =
     (if axes \<noteq> [] then Inr (keys axes)
      else
        let names = (case raw of YList (YMap kvs # _) \<Rightarrow> text_keys kvs | _ \<Rightarrow> []) in
        if names = [] then Inl (MatrixSpecError (''matrix spec needs '' @ py_repr ''axes'' @ '' or at least one '' @ py_repr ''include'' @ '' unit''))
        else if \<exists>nm \<in> set names. \<not> axis_name_ok nm then Inl (MatrixSpecError axis_name_error)
        else Inr names)"

fun unit_rules :: "string list \<Rightarrow> nat \<Rightarrow> yaml list \<Rightarrow> matrix_exn + rule list" where
  "unit_rules allowed position [] = Inr []"
| "unit_rules allowed position (r # rest) =
     (let label = ''unit rule '' @ show_nat position;
          bad = Inl (MatrixSpecError (label @ '' must be a mapping with exactly '' @ py_repr ''match'' @ '' and '' @ py_repr ''overrides'')) in
      case r of
        YMap kvs \<Rightarrow>
          if set (keys kvs) \<noteq> {KStr ''match'', KStr ''overrides''} then bad
          else
            bind_ok (selector_entry (label @ '' match entry 1'') allowed False (the (map_of kvs (KStr ''match'')))) (\<lambda>m.
            bind_ok (unit_rules allowed (position + 1) rest) (\<lambda>rules.
              Inr ((m, the (map_of kvs (KStr ''overrides''))) # rules)))
      | _ \<Rightarrow> bad)"

definition rule_list :: "string list \<Rightarrow> yaml \<Rightarrow> matrix_exn + rule list" where
  "rule_list allowed raw =
     (case raw of
        YNull \<Rightarrow> Inr []
      | YList rs \<Rightarrow> unit_rules allowed 1 rs
      | _ \<Rightarrow> Inl (MatrixSpecError (''matrix field '' @ py_repr ''unit'' @ '' must be a list of mappings'')))"

definition spec_request_id :: "(string, yaml) dict \<Rightarrow> matrix_exn + string" where
  "spec_request_id raw =
     (case field_of raw ''request_id'' of
        YStr s \<Rightarrow>
          (case (validate_request_id s :: gexn + string) of
             Inl (InvalidRequestId m) \<Rightarrow> Inl (MatrixSpecError (''matrix field '' @ py_repr ''request_id'' @ '' is invalid: '' @ m))
           | _ \<Rightarrow> Inr s)
      | _ \<Rightarrow> Inl (MatrixSpecError (''matrix field '' @ py_repr ''request_id'' @ '' is required'')))"

definition spec_template :: "(string, yaml) dict \<Rightarrow> matrix_exn + string" where
  "spec_template raw =
     (let bad = Inl (MatrixSpecError (''matrix field '' @ py_repr ''command'' @ '' is required'')) in
      case field_of raw ''command'' of YStr s \<Rightarrow> if strip s = [] then bad else Inr s | _ \<Rightarrow> bad)"

definition load_spec :: "(string \<Rightarrow> string) \<Rightarrow> (string \<Rightarrow> string + yaml) \<Rightarrow> string \<Rightarrow> matrix_exn + MatrixSpec" where
  "load_spec sha256 reader source =
     bind_ok (parse_spec_text reader source) (\<lambda>raw.
     let unknown = filter (\<lambda>nm. nm \<notin> set SPEC_FIELDS) (keys raw) in
     if unknown \<noteq> [] then Inl (MatrixSpecError (''matrix spec has unsupported fields: '' @ join '', '' (sort unknown)))
     else
     bind_ok (spec_request_id raw) (\<lambda>rid.
     bind_ok (spec_template raw) (\<lambda>template.
     bind_ok (optional_text raw ''name_prefix'') (\<lambda>prefix_text.
     let pfx = sanitize_name sha256 (case prefix_text of None \<Rightarrow> MATRIX_OPERATION | Some p \<Rightarrow> p) in
     bind_ok (optional_text raw ''project'') (\<lambda>prj.
     bind_ok (optional_text raw ''node'') (\<lambda>nd.
     bind_ok (artifact_paths (field_of raw ''artifacts'') nd) (\<lambda>paths.
     bind_ok (unit_options ''matrix defaults'' (field_of raw ''defaults'') (1, None)) (\<lambda>base.
     bind_ok (axis_values (field_of raw ''axes'')) (\<lambda>axes.
     let grid_size = (if axes = [] then 0 else prod_list (map (\<lambda>a. length (snd a)) axes)) in
     if MATRIX_MAX_UNITS < grid_size
     then Inl (MatrixSpecError (''axes expand to '' @ grouped grid_size @ '' units; maximum is '' @ grouped MATRIX_MAX_UNITS))
     else
     bind_ok (include_axes axes (field_of raw ''include'')) (\<lambda>allowed.
     bind_ok (selector_units (field_of raw ''include'') ''include'' allowed True) (\<lambda>include.
     bind_ok (selector_units (field_of raw ''exclude'') ''exclude'' (keys axes) False) (\<lambda>exclude.
     bind_ok (rule_list allowed (field_of raw ''unit'')) (\<lambda>rules.
     bind_ok (expand sha256 pfx template rules base axes exclude include) (\<lambda>units. Inr
       \<lparr>ms_request_id = rid, ms_name_prefix = pfx, ms_project = prj, ms_node = nd, ms_artifacts = paths,
        ms_command_template = template, ms_units = units\<rparr>))))))))))))))"

section \<open>Documents\<close>

definition json_hours :: "rat option \<Rightarrow> json" where
  "json_hours h = json_opt (\<lambda>q. JFloat (Fin q)) h"

text \<open>The contract whose canonical rendering is hashed for the group claim (\<open>digest\<close>).\<close>

definition intent_payload :: "string \<Rightarrow> string option \<Rightarrow> MatrixSpec \<Rightarrow> json" where
  "intent_payload ctr manifest spec = JObj [
     (''schema'', JStr GROUP_REQUEST_SCHEMA), (''operation'', JStr MATRIX_OPERATION), (''center'', JStr ctr),
     (''name_prefix'', JStr (ms_name_prefix spec)), (''project'', json_opt JStr (ms_project spec)),
     (''node'', json_opt JStr (ms_node spec)), (''artifacts'', JList (map JStr (ms_artifacts spec))),
     (''artifact_manifest'', json_opt JStr manifest), (''command_template'', JStr (ms_command_template spec)),
     (''units'', JList (map (\<lambda>u. JObj [(''key'', JStr (mu_key u)), (''name'', JStr (mu_name u)), (''command'', JStr (mu_command u)),
        (''gpus'', JInt (mu_gpus u)), (''max_hours'', json_hours (mu_max_hours u))]) (ms_units spec)))]"

definition matrix_intent :: "(json \<Rightarrow> string) \<Rightarrow> string \<Rightarrow> string option \<Rightarrow> MatrixSpec \<Rightarrow> string" where
  "matrix_intent digest ctr manifest spec = digest (intent_payload ctr manifest spec)"

definition unit_row :: "string option \<Rightarrow> MatrixUnit \<Rightarrow> (string, json) dict" where
  "unit_row nd u = [(''index'', JInt (int (mu_index u))), (''unit_key'', JStr (mu_key u)), (''name'', JStr (mu_name u)),
     (''values'', JObj (map (\<lambda>(a, v). (a, JStr v)) (mu_values u))), (''command'', JStr (mu_command u)), (''gpus'', JInt (mu_gpus u)),
     (''max_hours'', json_hours (mu_max_hours u)), (''node'', json_opt JStr nd)]"

definition plan_payload :: "MatrixSpec \<Rightarrow> json" where
  "plan_payload spec = JObj [
     (''schema_version'', JStr ''dt_matrix_plan_v1''), (''request_id'', JStr (ms_request_id spec)),
     (''name_prefix'', JStr (ms_name_prefix spec)), (''project'', json_opt JStr (ms_project spec)),
     (''node'', json_opt JStr (ms_node spec)), (''artifacts'', JList (map JStr (ms_artifacts spec))),
     (''command_template'', JStr (ms_command_template spec)), (''requested'', JInt (int (length (ms_units spec)))),
     (''units'', JList (map (\<lambda>u. JObj (unit_row (ms_node spec) u)) (ms_units spec)))]"

text \<open>\<open>row["node"] = ...\<close> overwrites in place; the other fields are appended.\<close>

definition receipt_row :: "string option \<Rightarrow> JobEntry list \<Rightarrow> nat \<Rightarrow> MatrixUnit \<Rightarrow> json" where
  "receipt_row nd entries resumed u =
     (let e = (if mu_index u \<le> length entries then Some (entries ! (mu_index u - 1)) else None);
          row = unit_row nd u @ [(''job_id'', json_opt (\<lambda>e. JStr (job_id e)) e), (''status'', json_opt (\<lambda>e. JStr (status e)) e)];
          placed = (case e of
              None \<Rightarrow> row
            | Some e \<Rightarrow> AList.update ''node'' (if node e \<noteq> ''-'' then JStr (node e) else json_opt JStr nd) row) in
      JObj (placed @ [(''resumed'', JBool (mu_index u \<le> resumed))]))"

definition receipt_status :: "json option \<Rightarrow> JobEntry list \<Rightarrow> string" where
  "receipt_status error entries =
     (case error of
        None \<Rightarrow> ''submitted''
      | Some e \<Rightarrow>
          if entries \<noteq> [] then ''partial''
          else if is_JObj e \<and> json_get (obj_items e) ''kind'' = JStr ''matrix_submission_interrupted'' then ''unknown''
          else ''failed'')"

definition optional_field :: "string \<Rightarrow> json option \<Rightarrow> (string, json) dict" where
  "optional_field nm v = (case v of None \<Rightarrow> [] | Some x \<Rightarrow> [(nm, x)])"

definition run_receipt :: "MatrixSpec \<Rightarrow> JobEntry list \<Rightarrow> nat \<Rightarrow> json option \<Rightarrow> int \<Rightarrow> bool \<Rightarrow> string option \<Rightarrow> json option
    \<Rightarrow> bool option \<Rightarrow> json" where
  "run_receipt spec entries resumed error exit replay manifest sync started = JObj ([
     (''schema_version'', JStr ''dt_matrix_v1''), (''status'', JStr (receipt_status error entries)),
     (''request_id'', JStr (ms_request_id spec)), (''name_prefix'', JStr (ms_name_prefix spec)),
     (''project'', if entries \<noteq> [] then JStr (project (hd entries)) else json_opt JStr (ms_project spec)),
     (''node'', json_opt JStr (ms_node spec)), (''requested'', JInt (int (length (ms_units spec)))),
     (''submitted'', JInt (int (length entries))),
     (''running'', JInt (int (count_if (\<lambda>e. status e = ''running'') entries))),
     (''queued'', JInt (int (count_if (\<lambda>e. status e = ''queued'') entries))),
     (''idempotent_replay'', JBool replay),
     (''units'', JList (map (receipt_row (ms_node spec) entries resumed) (ms_units spec))),
     (''next_commands'', JObj [
        (''status'', JList (map JStr [''dt'', ''matrix'', ''status'', ms_request_id spec, ''--json''])),
        (''request'', JList (map JStr [''dt'', ''request'', ms_request_id spec, ''--json'']))]),
     (''exit_code'', JInt exit)]
     @ optional_field ''artifact_manifest'' (map_option JStr manifest) @ optional_field ''artifact_sync'' sync
     @ optional_field ''agent_started'' (map_option JBool started) @ optional_field ''error'' error)"

section \<open>Status\<close>

definition unit_state :: "RequestRecord option \<Rightarrow> JobEntry option \<Rightarrow> string" where
  "unit_state child e =
     (case child of
        None \<Rightarrow> ''missing''
      | Some r \<Rightarrow>
          if rq_state r = ''rejected'' then ''failed''
          else if rq_state r \<noteq> ''confirmed'' then ''missing''
          else
            (case e of
               None \<Rightarrow> ''missing''
             | Some e \<Rightarrow>
                 if status e \<in> {''queued'', ''running''} then status e
                 else if effective_result_state e = Some ''success'' then ''success'' else ''failed''))"

record unit_status =
  us_index :: int
  us_request_id :: string
  us_child :: "RequestRecord option"
  us_state :: string
  us_entry :: "JobEntry option"

fun unit_statuses :: "(string \<Rightarrow> string) \<Rightarrow> (string \<Rightarrow> string + JobEntry option) \<Rightarrow> string \<Rightarrow> requests \<Rightarrow> int list \<Rightarrow> gexn + unit_status list" where
  "unit_statuses sha256 load_job rid rs [] = Inr []"
| "unit_statuses sha256 load_job rid rs (i # indices) =
     bind_ok (item_request_id sha256 rid i) (\<lambda>child_id.
     bind_ok (load_request sha256 child_id rs) (\<lambda>child.
     bind_ok (case child of None \<Rightarrow> Inr None | Some r \<Rightarrow> map_error RegistryError (load_job (rq_job_id r))) (\<lambda>e.
     bind_ok (unit_statuses sha256 load_job rid rs indices) (\<lambda>us. Inr
       (\<lparr>us_index = i, us_request_id = child_id, us_child = child, us_state = unit_state child e, us_entry = e\<rparr> # us)))))"

definition status_row :: "unit_status \<Rightarrow> json" where
  "status_row u = JObj [
     (''index'', JInt (us_index u)), (''request_id'', JStr (us_request_id u)),
     (''record_state'', json_opt (\<lambda>r. JStr (rq_state r)) (us_child u)), (''job_id'', json_opt (\<lambda>r. JStr (rq_job_id r)) (us_child u)),
     (''unit_state'', JStr (us_state u)), (''name'', json_opt (\<lambda>e. JStr (name e)) (us_entry u)),
     (''status'', json_opt (\<lambda>e. JStr (status e)) (us_entry u)),
     (''exit_code'', case us_entry u of None \<Rightarrow> JNull | Some e \<Rightarrow> json_opt JInt (exit_code e)),
     (''node'', json_opt (\<lambda>e. JStr (node e)) (us_entry u)),
     (''reason'', case us_entry u of None \<Rightarrow> JNull | Some e \<Rightarrow> json_opt JStr (reason e))]"

definition state_counts :: "unit_status list \<Rightarrow> (string, nat) dict" where
  "state_counts us = map (\<lambda>st. (st, count_if (\<lambda>u. us_state u = st) us)) MATRIX_UNIT_STATES"

definition status_payload :: "(string \<Rightarrow> string) \<Rightarrow> decoding \<Rightarrow> HeadConfig \<Rightarrow> 'r world \<Rightarrow> requests \<Rightarrow> GroupRequestRecord \<Rightarrow> gexn + json" where
  "status_payload sha256 dc cfg w rs g =
     bind_ok (unit_statuses sha256 (\<lambda>job. load dc cfg job w) (gr_request_id g) rs [1..gr_requested g]) (\<lambda>us. Inr (JObj [
       (''schema_version'', JStr ''dt_matrix_status_v1''), (''request_id'', JStr (gr_request_id g)), (''operation'', JStr (gr_operation g)),
       (''state'', JStr (gr_state g)), (''requested'', JInt (gr_requested g)), (''submitted'', JInt (gr_submitted g)),
       (''exit_code'', json_opt JInt (gr_exit_code g)), (''error_kind'', json_opt JStr (gr_error_kind g)),
       (''error_message'', json_opt JStr (gr_error_message g)),
       (''counts'', JObj (map (\<lambda>(st, n). (st, JInt (int n))) (state_counts us))),
       (''units'', JList (map status_row us)),
       (''retry_with_same_request_id'', JBool (gr_state g \<notin> set GROUP_TERMINAL_STATES))]))"

end
