(* ===== verification/Matrix_Facts.thy ===== *)
theory Matrix_Facts
  imports Matrix
begin

text \<open>
  Facts about matrices (\<open>Matrix\<close>): the expansion is exactly the grid without its exclusions plus the
  included units, in strict key order and independent of the order in which the spec lists them;
  command templates put values in place of their axes and keep every other character; and the
  status of a matrix accounts for every unit.
\<close>

section \<open>Expansion\<close>

lemma keyed_units_Inr:
  "keyed_units keyed combos = Inr k \<longleftrightarrow>
     k = keyed @ map (\<lambda>asg. (unit_key asg, asg)) combos \<and> distinct (map unit_key combos)
     \<and> set (map unit_key combos) \<inter> set (keys keyed) = {}"
  by (induction combos arbitrary: keyed) auto

lemma build_units_nth:
  "build_units sha256 pfx template rules base i kvs = Inr us \<longleftrightarrow>
     length us = length kvs \<and> (\<forall>j < length kvs. build_unit sha256 pfx template rules base (i + j) (kvs ! j) = Inr (us ! j))"
proof (induction kvs arbitrary: i us)
  case (Cons kv kvs)
  show ?case
  proof (cases us)
    case (Cons u us')
    have "(\<forall>j < Suc (length kvs). build_unit sha256 pfx template rules base (i + j) ((kv # kvs) ! j) = Inr ((u # us') ! j))
      \<longleftrightarrow> build_unit sha256 pfx template rules base i kv = Inr u
        \<and> (\<forall>j < length kvs. build_unit sha256 pfx template rules base (Suc i + j) (kvs ! j) = Inr (us' ! j))"
      by (simp add: All_less_Suc2)
    then show ?thesis using Cons Cons.IH [of "Suc i" us'] by (auto simp: bind_ok_Inr)
  qed (auto simp: bind_ok_Inr)
qed auto


lemma expand_Inr:
  assumes "expand sha256 pfx template rules base axes exclude include = Inr us"
  defines "combos \<equiv> grid axes exclude @ include"
  defines "kvs \<equiv> sort_key fst (map (\<lambda>asg. (unit_key asg, asg)) combos)"
  shows "combos \<noteq> []" "length combos \<le> MATRIX_MAX_UNITS" "distinct (map unit_key combos)" "command_bytes us \<le> MATRIX_MAX_COMMAND_BYTES"
    "length us = length combos"
    "j < length us \<Longrightarrow> build_unit sha256 pfx template rules base (1 + j) (kvs ! j) = Inr (us ! j)"
  using assms(1) unfolding expand_def Let_def combos_def [symmetric] kvs_def
  by (auto simp: bind_ok_Inr keyed_units_Inr build_units_nth split: if_splits)

lemma build_unit_Inr:
  "build_unit sha256 pfx template rules base i (key, asg) = Inr u \<Longrightarrow>
     mu_index u = i \<and> mu_key u = key \<and> mu_values u = sort_key fst asg \<and> mu_name u = sanitize_name sha256 (pfx @ ''-'' @ key)
     \<and> render_command template asg = Inr (mu_command u) \<and> apply_rules rules asg base = Inr (mu_gpus u, mu_max_hours u)"
  by (auto simp: build_unit_def bind_ok_Inr)

text \<open>The units of an expansion, described without its algorithm.\<close>

definition unit_of :: "(string \<Rightarrow> string) \<Rightarrow> string \<Rightarrow> string \<Rightarrow> rule list \<Rightarrow> shape \<Rightarrow> MatrixUnit \<Rightarrow> assignment \<Rightarrow> bool" where
  "unit_of sha256 pfx template rules base u asg \<longleftrightarrow>
     mu_key u = unit_key asg \<and> mu_values u = sort_key fst asg \<and> mu_name u = sanitize_name sha256 (pfx @ ''-'' @ unit_key asg)
     \<and> render_command template asg = Inr (mu_command u) \<and> apply_rules rules asg base = Inr (mu_gpus u, mu_max_hours u)"

lemma expand_units:
  assumes "expand sha256 pfx template rules base axes exclude include = Inr us"
  shows "sorted_wrt (<) (map mu_key us)" "map mu_index us = [1..<Suc (length us)]"
    "list_all2 (unit_of sha256 pfx template rules base) us (map snd (sort_key fst (map (\<lambda>asg. (unit_key asg, asg)) (grid axes exclude @ include))))"
proof -
  define combos where "combos = grid axes exclude @ include"
  define kvs where "kvs = sort_key fst (map (\<lambda>asg. (unit_key asg, asg)) combos)"
  note e = expand_Inr [OF assms, folded combos_def, folded kvs_def]
  have pairs: "\<forall>kv \<in> set kvs. fst kv = unit_key (snd kv)" by (simp add: kvs_def)
  have sorted: "sorted (map fst kvs)" by (simp add: kvs_def)
  have "mset (map fst kvs) = mset (map unit_key combos)" by (simp add: kvs_def image_mset.compositionality comp_def)
  then have dist: "distinct (map fst kvs)" using e(3) mset_eq_imp_distinct_iff by blast
  have len: "length kvs = length us" using e(5) by (simp add: kvs_def)
  have unit: "mu_index (us ! j) = 1 + j" "mu_key (us ! j) = fst (kvs ! j)" "unit_of sha256 pfx template rules base (us ! j) (snd (kvs ! j))"
    if "j < length us" for j
  proof -
    have key: "fst (kvs ! j) = unit_key (snd (kvs ! j))" using pairs that len by (metis nth_mem)
    have "build_unit sha256 pfx template rules base (1 + j) (fst (kvs ! j), snd (kvs ! j)) = Inr (us ! j)"
      using e(6) [OF that] by simp
    from build_unit_Inr [OF this] key
    show "mu_index (us ! j) = 1 + j" "mu_key (us ! j) = fst (kvs ! j)" "unit_of sha256 pfx template rules base (us ! j) (snd (kvs ! j))"
      by (simp_all add: unit_of_def)
  qed
  have keys: "map mu_key us = map fst kvs" using unit(2) len by (auto intro!: nth_equalityI)
  show "sorted_wrt (<) (map mu_key us)" unfolding keys using sorted dist by (simp add: strict_sorted_iff)
  show "map mu_index us = [1..<Suc (length us)]" using unit(1) by (auto intro!: nth_equalityI simp del: upt_Suc)
  show "list_all2 (unit_of sha256 pfx template rules base) us (map snd (sort_key fst (map (\<lambda>asg. (unit_key asg, asg)) (grid axes exclude @ include))))"
    using unit(3) len unfolding combos_def [symmetric] kvs_def [symmetric] by (auto simp: list_all2_conv_all_nth)
qed


section \<open>Order does not matter\<close>

lemma product_lists_mset:
  "list_all2 (\<lambda>xs ys. mset xs = mset ys) xss yss \<Longrightarrow> mset (product_lists xss) = mset (product_lists yss)"
proof (induction rule: list_all2_induct)
  case (Cons xs xss ys yss)
  have "mset (product_lists (zs # zss)) = (\<Sum>z\<in>#mset zs. image_mset (Cons z) (mset (product_lists zss)))" for zs :: "'a list" and zss
    by (induction zs) simp_all
  then show ?case using Cons by simp
qed simp

lemma inj_pairs: "distinct (map f xs) \<Longrightarrow> inj_on fst (set (map (\<lambda>x. (f x, x)) xs))"
  by (auto simp: distinct_map inj_on_def)

text \<open>The same axes, listed in another order, each with its values in another order.\<close>

definition same_axes :: "axes \<Rightarrow> axes \<Rightarrow> bool" where
  "same_axes axes axes' \<longleftrightarrow> mset (keys axes) = mset (keys axes')
     \<and> (\<forall>nm \<in> set (keys axes). mset (the (map_of axes nm)) = mset (the (map_of axes' nm)))"

lemma grid_mset:
  assumes "same_axes axes axes'" "set exclude = set exclude'"
  shows "mset (grid axes exclude) = mset (grid axes' exclude')"
proof -
  have names: "sort (keys axes) = sort (keys axes')" using assms(1) by (simp add: same_axes_def properties_for_sort)
  let ?of = "\<lambda>a. product_lists (map (\<lambda>nm. the (map_of a nm)) (sort (keys axes)))"
  have "mset (?of axes) = mset (?of axes')"
    using assms(1) by (intro product_lists_mset) (simp add: list_all2_map1 list_all2_map2 list_all2_same same_axes_def)
  then have "mset (filter P (map f (?of axes))) = mset (filter P (map f (?of axes')))" for P :: "assignment \<Rightarrow> bool" and f
    by simp
  then show ?thesis using names assms(2) by (simp add: grid_def Let_def)
qed

text \<open>
  The numbering of units does not depend on how the spec is written down: listing the axes, the
  values of an axis, the exclusions or the included units in any other order gives the same units
  with the same indices, so a request identity keeps mapping each unit to the same child.
\<close>

theorem expansion_order_irrelevant:
  assumes "expand sha256 pfx template rules base axes exclude include = Inr us"
    "same_axes axes axes'" "set exclude = set exclude'" "mset include = mset include'"
  shows "expand sha256 pfx template rules base axes' exclude' include' = Inr us"
proof -
  define c c' where "c = grid axes exclude @ include" and "c' = grid axes' exclude' @ include'"
  let ?k = "map (\<lambda>asg. (unit_key asg, asg))"
  have m: "mset c = mset c'" using grid_mset [OF assms(2,3)] assms(4) by (simp add: c_def c'_def)
  note e = expand_Inr [OF assms(1), folded c_def]
  have len: "length c' = length c" using m by (metis size_mset)
  have d: "distinct (map unit_key c')" using e(3) m by (metis mset_map mset_eq_imp_distinct_iff)
  have inj: "inj_on fst (set (?k c'))" using d by (rule inj_pairs)
  have "mset (?k c') = mset (sort_key fst (?k c))" using m by simp
  then have kvs: "sort_key fst (?k c') = sort_key fst (?k c)" by (rule sort_key_inj_key_eq [OF _ inj]) simp
  have "build_units sha256 pfx template rules base 1 (sort_key fst (?k c')) = Inr us"
    unfolding kvs using e(5,6) by (simp add: build_units_nth)
  moreover have "keyed_units [] c' = Inr (?k c')" using d by (simp add: keyed_units_Inr)
  moreover have "c' \<noteq> []" "\<not> MATRIX_MAX_UNITS < length c'" "\<not> MATRIX_MAX_COMMAND_BYTES < command_bytes us"
    using e(1,2,4) len by auto
  ultimately show ?thesis unfolding expand_def Let_def c'_def [symmetric] by simp
qed


section \<open>Templates\<close>

text \<open>A template, written from pieces of literal text, each followed by at most one axis; braces in literal text are doubled.\<close>

type_synonym piece = "string \<times> string option"

definition escape :: "string \<Rightarrow> string" where
  "escape s = concat (map (\<lambda>c. if is_brace c then [c, c] else [c]) s)"

definition template_of :: "piece list \<Rightarrow> string" where
  "template_of ps = concat (map (\<lambda>(literal, axis). escape literal
     @ (case axis of None \<Rightarrow> [] | Some nm \<Rightarrow> ''{'' @ nm @ ''}'')) ps)"

definition filled :: "assignment \<Rightarrow> piece list \<Rightarrow> string" where
  "filled asg ps = concat (map (\<lambda>(literal, axis). literal
     @ (case axis of None \<Rightarrow> [] | Some nm \<Rightarrow> the (map_of asg nm))) ps)"

definition renders :: "assignment \<Rightarrow> string \<Rightarrow> string \<Rightarrow> bool" where
  "renders asg template out \<longleftrightarrow> (\<exists>fs. format_parse template = Inr fs \<and> render_fragments asg fs = Inr out)"

lemma renders_Nil: "renders asg [] []"
  by (simp add: renders_def format_parse.simps)

lemma renders_brace: "is_brace c \<Longrightarrow> renders asg t out \<Longrightarrow> renders asg (c # c # t) (c # out)"
  by (auto simp: renders_def format_parse.simps [of "c # c # t"])

lemma format_parse_nonempty: "format_parse t = Inr fs \<Longrightarrow> t \<noteq> [] \<Longrightarrow> fs \<noteq> []"
  by (subst (asm) format_parse.simps) (auto simp: Let_def bind_ok_Inr split: list.splits if_splits)

lemma format_parse_plain:
  assumes "\<not> is_brace c" "format_parse t = Inr (f # fs)"
  shows "format_parse (c # t) = Inr ((c # fst f, snd f) # fs)"
proof (cases "dropWhile (\<lambda>c. \<not> is_brace c) t")
  case Nil
  note parsed = assms(2) [unfolded format_parse.simps [of t] Nil Let_def list.case]
  have "dropWhile (\<lambda>c. \<not> is_brace c) (c # t) = []" using assms(1) Nil by simp
  note parse = format_parse.simps [of "c # t", unfolded this Let_def list.case]
  show ?thesis unfolding parse using parsed assms(1) by (auto split: if_splits)
next
  case (Cons d r)
  note parsed = assms(2) [unfolded format_parse.simps [of t] Cons Let_def list.case]
  have "dropWhile (\<lambda>c. \<not> is_brace c) (c # t) = d # r" using assms(1) Cons by simp
  note parse = format_parse.simps [of "c # t", unfolded this Let_def list.case]
  show ?thesis unfolding parse using parsed assms(1) by (auto simp: bind_ok_Inr split: if_splits)
qed

lemma renders_plain:
  assumes "\<not> is_brace c" "renders asg t out"
  shows "renders asg (c # t) (c # out)"
proof (cases "t = []")
  case True
  then have "out = []" using assms(2) by (auto simp: renders_def format_parse.simps)
  then show ?thesis using assms(1) True by (auto simp: renders_def format_parse.simps [of "[c]"])
next
  case False
  obtain fs where fs: "format_parse t = Inr fs" "render_fragments asg fs = Inr out" using assms(2) by (auto simp: renders_def)
  then obtain f fs' where f: "fs = f # fs'" using format_parse_nonempty [OF fs(1) False] by (cases fs) auto
  have "render_fragments asg ((c # fst f, snd f) # fs') = Inr (c # out)"
    using fs(2) f by (cases f) (auto simp: bind_ok_Inr)
  then show ?thesis using format_parse_plain [OF assms(1) fs(1) [unfolded f]] unfolding renders_def by blast
qed

lemma renders_escape: "renders asg t out \<Longrightarrow> renders asg (escape s @ t) (s @ out)"
  by (induction s) (auto simp: escape_def renders_brace renders_plain)

lemma axis_chars:
  assumes "axis_name_ok nm" "c \<in> set nm"
  shows "c \<noteq> CHR ''{''" "c \<noteq> CHR ''}''" "c \<noteq> CHR '':''" "c \<noteq> CHR ''!''" "c \<noteq> CHR ''[''"
proof -
  have "is_ascii_alnum c \<or> c = CHR ''_''" using assms by (simp add: axis_name_ok_def)
  moreover have "\<not> is_ascii_alnum CHR ''{''" "\<not> is_ascii_alnum CHR ''}''" "\<not> is_ascii_alnum CHR '':''"
    "\<not> is_ascii_alnum CHR ''!''" "\<not> is_ascii_alnum CHR ''[''" by code_simp+
  ultimately show "c \<noteq> CHR ''{''" "c \<noteq> CHR ''}''" "c \<noteq> CHR '':''" "c \<noteq> CHR ''!''" "c \<noteq> CHR ''[''" by auto
qed

lemma scan_name_plain:
  "\<forall>c \<in> set nm. c \<notin> {CHR ''{'', CHR ''}'', CHR '':'', CHR ''!'', CHR ''[''} \<Longrightarrow>
   scan_name False (nm @ CHR ''}'' # t) = Inr (nm, Some CHR ''}'', t)"
  by (induction nm) auto

lemma renders_axis:
  assumes "axis_name_ok nm" "map_of asg nm = Some v" "renders asg t out"
  shows "renders asg (''{'' @ nm @ ''}'' @ t) (v @ out)"
proof -
  obtain fs where fs: "format_parse t = Inr fs" "render_fragments asg fs = Inr out" using assms(3) by (auto simp: renders_def)
  have ne: "nm \<noteq> []" using assms(1) by (simp add: axis_name_ok_def)
  have "scan_field (nm @ CHR ''}'' # t) = Inr ((nm, [], None), t)"
    using scan_name_plain [of nm t] axis_chars [OF assms(1)] by (simp add: scan_field_def)
  moreover have "hd (nm @ CHR ''}'' # t) \<noteq> CHR ''{''" using ne axis_chars(1) [OF assms(1)] by simp
  ultimately have "format_parse (CHR ''{'' # nm @ CHR ''}'' # t) = Inr (([], Some (nm, [], None)) # fs)"
    using fs(1) by (subst format_parse.simps) (simp add: is_brace_def)
  then show ?thesis using fs(2) assms(2) ne by (auto simp: renders_def)
qed

text \<open>
  C33. Rendering a command changes nothing but the placeholders: for a template written from any
  literal text, braces doubled, and any axes, the rendered command is the literal text with each
  axis replaced by the source spelling of its value, stripped of outer white space.
\<close>

theorem render_command_exact:
  assumes "\<forall>nm \<in> {nm. \<exists>l. (l, Some nm) \<in> set ps}. axis_name_ok nm \<and> nm \<in> set (keys asg)" "strip (filled asg ps) \<noteq> []"
  shows "render_command (template_of ps) asg = Inr (strip (filled asg ps))"
proof -
  have "renders asg (template_of ps) (filled asg ps)"
    using assms(1)
  proof (induction ps)
    case Nil
    then show ?case by (simp add: template_of_def filled_def renders_Nil)
  next
    case (Cons p ps)
    have IH: "renders asg (template_of ps) (filled asg ps)" using Cons by auto
    obtain l a where p: "p = (l, a)" by fastforce
    show ?case
    proof (cases a)
      case None
      then show ?thesis using renders_escape [OF IH, of l] p by (simp add: template_of_def filled_def)
    next
      case (Some nm)
      then have "axis_name_ok nm" "nm \<in> set (keys asg)" using Cons.prems p by auto
      moreover from this(2) obtain v where v: "map_of asg nm = Some v" by (metis map_of_eq_None_iff not_Some_eq set_map)
      ultimately have "renders asg (''{'' @ nm @ ''}'' @ template_of ps) (v @ filled asg ps)" using renders_axis IH by blast
      from renders_escape [OF this, of l] show ?thesis using p Some v by (simp add: template_of_def filled_def)
    qed
  qed
  then show ?thesis using assms(2) by (auto simp: renders_def render_command_def)
qed


section \<open>Status\<close>

lemma unit_state_known: "unit_state child e \<in> set MATRIX_UNIT_STATES"
  by (auto simp: unit_state_def MATRIX_UNIT_STATES_def split: option.splits)

lemma unit_statuses_Inr:
  "unit_statuses sha256 load_job rid rs ns = Inr us \<Longrightarrow>
     map us_index us = ns \<and> (\<forall>u \<in> set us. us_state u \<in> set MATRIX_UNIT_STATES)"
  by (induction ns arbitrary: us) (auto simp: bind_ok_Inr unit_state_known)

lemma sum_counts:
  assumes "distinct sts" "\<forall>u \<in> set us. f u \<in> set sts"
  shows "sum_list (map (\<lambda>st. int (count_if (\<lambda>u. f u = st) us)) sts) = int (length us)"
proof -
  have "(\<Sum>st \<in> set sts. int (count_if (\<lambda>u. f u = st) us)) = int (length us)"
    using assms(2)
  proof (induction us)
    case (Cons u us)
    have "(\<Sum>st \<in> set sts. int (count_if (\<lambda>u. f u = st) (u # us)))
        = (\<Sum>st \<in> set sts. int (count_if (\<lambda>u. f u = st) us) + (if f u = st then 1 else 0))"
      by (rule sum.cong) simp_all
    then show ?case using Cons by (simp add: sum.distrib)
  qed simp
  then show ?thesis using assms(1) by (simp add: sum_list_distinct_conv_sum_set)
qed

text \<open>
  The status of a matrix accounts for every unit: it has one row per requested unit, in index
  order; the count of each unit state is the number of rows in that state; and the counts add
  up to the number of requested units.
\<close>

theorem status_accounts_for_units:
  assumes "status_payload sha256 dc cfg w rs g = Inr doc" "0 \<le> gr_requested g"
  shows "map (\<lambda>row. json_get (obj_items row) ''index'') (list_items (json_get (obj_items doc) ''units'')) = map JInt [1..gr_requested g]
    \<and> obj_items (json_get (obj_items doc) ''counts'')
        = map (\<lambda>st. (st, JInt (int (count_if (\<lambda>row. json_get (obj_items row) ''unit_state'' = JStr st)
            (list_items (json_get (obj_items doc) ''units'')))))) MATRIX_UNIT_STATES
    \<and> sum_list (map (int_of \<circ> snd) (obj_items (json_get (obj_items doc) ''counts''))) = gr_requested g"
proof -
  obtain us where us: "unit_statuses sha256 (\<lambda>job. load dc cfg job w) (gr_request_id g) rs [1..gr_requested g] = Inr us"
    and units: "json_get (obj_items doc) ''units'' = JList (map status_row us)"
    and counts: "json_get (obj_items doc) ''counts'' = JObj (map (\<lambda>(st, n). (st, JInt (int n))) (state_counts us))"
    using assms(1) by (auto simp: status_payload_def bind_ok_Inr json_get_def)
  note u = unit_statuses_Inr [OF us]
  have len: "int (length us) = gr_requested g" using arg_cong [OF conjunct1 [OF u], of length] assms(2) by simp
  have rows: "json_get (obj_items (status_row v)) ''index'' = JInt (us_index v)"
    "json_get (obj_items (status_row v)) ''unit_state'' = JStr (us_state v)" for v
    by (simp_all add: status_row_def json_get_def)
  have states: "distinct MATRIX_UNIT_STATES" by code_simp
  have "map (\<lambda>row. json_get (obj_items row) ''index'') (map status_row us) = map JInt (map us_index us)" by (simp add: rows)
  moreover have "count_if (\<lambda>row. json_get (obj_items row) ''unit_state'' = JStr st) (map status_row us) = count_if (\<lambda>v. us_state v = st) us" for st
    by (simp add: count_if_def rows filter_map comp_def)
  moreover have "sum_list (map (\<lambda>st. int (count_if (\<lambda>v. us_state v = st) us)) MATRIX_UNIT_STATES) = int (length us)"
    by (rule sum_counts [OF states conjunct2 [OF u]])
  ultimately show ?thesis
    unfolding units counts list_items.simps obj_items.simps using u len
    by (simp add: state_counts_def comp_def)
qed



section \<open>Concrete instances\<close>

definition lab_axes :: axes where "lab_axes = [(''lr'', [''3e-4'', ''1e-3'']), (''seed'', [''7''])]"

definition lab_template :: string where "lab_template = ''train --lr {lr} --seed {seed}''"

definition lab_unit :: "nat \<Rightarrow> string \<Rightarrow> MatrixUnit" where
  "lab_unit i lr = \<lparr>mu_index = i, mu_key = ''lr='' @ lr @ '',seed=7'', mu_name = ''sweep-lr-'' @ lr @ ''-seed-7'',
     mu_values = [(''lr'', lr), (''seed'', ''7'')], mu_command = ''train --lr '' @ lr @ '' --seed 7'', mu_gpus = 1, mu_max_hours = None\<rparr>"

lemma lab_expands:
  "expand (\<lambda>s. s) ''sweep'' lab_template [] (1, None) lab_axes [] [] = Inr [lab_unit 1 ''1e-3'', lab_unit 2 ''3e-4'']"
proof -
  let ?a = "[(''lr'', ''3e-4''), (''seed'', ''7'')]" and ?b = "[(''lr'', ''1e-3''), (''seed'', ''7'')]"
  let ?kvs = "[(''lr=3e-4,seed=7'', ?a), (''lr=1e-3,seed=7'', ?b)]"
  have g: "grid lab_axes [] = [?a, ?b]" by code_simp
  have k: "keyed_units [] [?a, ?b] = Inr ?kvs" by code_simp
  have s: "sort_key fst ?kvs = [(''lr=1e-3,seed=7'', ?b), (''lr=3e-4,seed=7'', ?a)]" by code_simp
  have b: "build_units (\<lambda>s. s) ''sweep'' lab_template [] (1, None) 1 [(''lr=1e-3,seed=7'', ?b), (''lr=3e-4,seed=7'', ?a)]
      = Inr [lab_unit 1 ''1e-3'', lab_unit 2 ''3e-4'']" by code_simp
  have "command_bytes [lab_unit 1 ''1e-3'', lab_unit 2 ''3e-4''] = 48" by code_simp
  then have c: "\<not> MATRIX_MAX_COMMAND_BYTES < command_bytes [lab_unit 1 ''1e-3'', lab_unit 2 ''3e-4'']"
    by (simp add: MATRIX_MAX_COMMAND_BYTES_def)
  show ?thesis
    unfolding expand_def Let_def g append_Nil2 k bind_ok_simps s b using c by (simp add: MATRIX_MAX_UNITS_def)
qed


text \<open>The same grid, written with its axes and values the other way round.\<close>

theorem expansion_order_irrelevant_witness:
  "expand (\<lambda>s. s) ''sweep'' lab_template [] (1, None) [(''seed'', [''7'']), (''lr'', [''1e-3'', ''3e-4''])] [] []
     = Inr [lab_unit 1 ''1e-3'', lab_unit 2 ''3e-4'']"
  by (rule expansion_order_irrelevant [OF lab_expands]) (auto simp: same_axes_def lab_axes_def)

theorem render_command_exact_witness: "render_command ''echo {{}} {lr}'' [(''lr'', ''1e-3'')] = Inr ''echo {} 1e-3''"
proof -
  let ?ps = "[(''echo {} '', Some ''lr'')]"
  have ok: "\<forall>nm \<in> {nm. \<exists>l. (l, Some nm) \<in> set ?ps}. axis_name_ok nm \<and> nm \<in> set (keys [(''lr'', ''1e-3'')])"
  proof -
    have "axis_name_ok ''lr''" by code_simp
    then show ?thesis by simp
  qed
  have f: "strip (filled [(''lr'', ''1e-3'')] ?ps) = ''echo {} 1e-3''" "template_of ?ps = ''echo {{}} {lr}''" by code_simp+
  from render_command_exact [OF ok] show ?thesis unfolding f by simp
qed

text \<open>A group of two units of which nothing was submitted yet.\<close>

theorem status_accounts_for_units_witness:
  "\<forall>dc cfg w. \<exists>doc. status_payload (\<lambda>s. s) dc cfg w (\<lambda>_. None) \<lparr>gr_schema = GROUP_REQUEST_SCHEMA, gr_request_id = ''m1'',
     gr_intent_sha256 = [], gr_operation = MATRIX_OPERATION, gr_requested = 2, gr_submitted = 0, gr_state = ''preparing'', gr_created_at = 1,
     gr_updated_at = 1, gr_exit_code = None, gr_error_kind = None, gr_error_message = None\<rparr> = Inr doc
   \<and> sum_list (map (int_of \<circ> snd) (obj_items (json_get (obj_items doc) ''counts''))) = 2"
proof (intro allI)
  fix dc cfg and w :: "'r world"
  let ?g = "\<lparr>gr_schema = GROUP_REQUEST_SCHEMA, gr_request_id = ''m1'',
     gr_intent_sha256 = [], gr_operation = MATRIX_OPERATION, gr_requested = 2, gr_submitted = 0, gr_state = ''preparing'', gr_created_at = 1,
     gr_updated_at = 1, gr_exit_code = None, gr_error_kind = None, gr_error_message = None\<rparr>"
  have id: "request_id_ok ''m1''" by code_simp
  have child: "request_id_ok (''dtg:m1:'' @ zero_padded 6 1)" "request_id_ok (''dtg:m1:'' @ zero_padded 6 2)" by code_simp+
  have two: "[1..2 :: int] = [1, 2]" by (simp add: upto_rec1)
  obtain doc where doc: "status_payload (\<lambda>s. s) dc cfg w (\<lambda>_. None) ?g = Inr doc"
    using id child by (simp add: status_payload_def two item_request_id_def validate_request_id_def load_request_def request_digest_def)
  have r: "0 \<le> gr_requested ?g" by simp
  have "sum_list (map (int_of \<circ> snd) (obj_items (json_get (obj_items doc) ''counts''))) = gr_requested ?g"
    using status_accounts_for_units [OF doc r] by blast
  with doc show "\<exists>doc. status_payload (\<lambda>s. s) dc cfg w (\<lambda>_. None) ?g = Inr doc
      \<and> sum_list (map (int_of \<circ> snd) (obj_items (json_get (obj_items doc) ''counts''))) = 2"
    by (intro exI [of _ doc] conjI) simp_all
qed

end
