(* ===== verification/Agent_Tick.thy ===== *)
theory Agent_Tick
  imports Queue_View Job_Status
begin

text \<open>
  One poll tick of the resident agent (\<open>src/dt/agent.py\<close>): harvest finished dispatches, reconcile
  active jobs, resubmit retries, and walk the queue in FIFO order.

  What a tick calls beyond the registry is its environment: the status probes, the saves, the
  launch of one queued job (\<open>dispatch_queued\<close>, which may change the world and the row it was
  given, and returns an outcome or raises), the resubmission of a retry (\<open>submit_fork\<close>), and the
  dispatch threads that have finished. Everything stated about a tick holds for whatever these
  do. A tick reads the wall clock and the monotonic clock once. Log lines and notifications are
  not modelled; the memory that suppresses repeated log lines is.
\<close>

section \<open>Backoff\<close>

definition RETRY_SUBMITS_PER_TICK :: nat where "RETRY_SUBMITS_PER_TICK = 4"
definition BLOCKED_BACKOFF_BASE_S :: rat where "BLOCKED_BACKOFF_BASE_S = 5"
definition BLOCKED_BACKOFF_CAP_S :: rat where "BLOCKED_BACKOFF_CAP_S = 300"
definition DISPATCH_WORKERS :: int where "DISPATCH_WORKERS = 4"

definition REPORTED_DISPATCH_OUTCOMES :: "string list" where
  "REPORTED_DISPATCH_OUTCOMES = [''started'', ''finished'', ''failed'', ''skipped'', ''killed'', ''cancel-failed'']"

type_synonym backoff = "(string, nat \<times> rat) dict"
type_synonym blocked_log = "(string, string) dict"

definition bump_blocked_backoff :: "rat \<Rightarrow> string \<Rightarrow> backoff option \<Rightarrow> backoff option" where
  "bump_blocked_backoff monotonic jid blocked =
     (case blocked of
        None \<Rightarrow> None
      | Some d \<Rightarrow>
          let retries = fst (dict_get d jid (0, 0)); exponent = min retries 16;
              delay = min BLOCKED_BACKOFF_CAP_S (BLOCKED_BACKOFF_BASE_S * 2 ^ exponent) in
          Some (AList.update jid (min (retries + 1) 16, monotonic + delay) d))"

record memory =
  mem_backoff :: "backoff option"
  mem_blocked_log :: "blocked_log option"

definition remember :: "string \<Rightarrow> string \<Rightarrow> memory \<Rightarrow> memory" where
  "remember jid detail m = m\<lparr>mem_blocked_log := map_option (AList.update jid detail) (mem_blocked_log m)\<rparr>"

definition forget_log :: "string \<Rightarrow> memory \<Rightarrow> memory" where
  "forget_log jid m = m\<lparr>mem_blocked_log := map_option (AList.delete jid) (mem_blocked_log m)\<rparr>"

definition forget_backoff :: "string \<Rightarrow> memory \<Rightarrow> memory" where
  "forget_backoff jid m = m\<lparr>mem_backoff := map_option (AList.delete jid) (mem_backoff m)\<rparr>"

definition bump :: "rat \<Rightarrow> string \<Rightarrow> memory \<Rightarrow> memory" where
  "bump monotonic jid m = m\<lparr>mem_backoff := bump_blocked_backoff monotonic jid (mem_backoff m)\<rparr>"

definition or_text :: "string option \<Rightarrow> string \<Rightarrow> string" where
  "or_text x dflt = (case x of None \<Rightarrow> dflt | Some s \<Rightarrow> if s = [] then dflt else s)"

definition note_dispatch_outcome :: "rat \<Rightarrow> string \<Rightarrow> string \<Rightarrow> string option \<Rightarrow> memory \<Rightarrow> memory" where
  "note_dispatch_outcome monotonic jid outcome detail m =
     (if outcome = ''raised'' then bump monotonic jid (remember jid (or_text detail ''unknown error'') m)
      else
        let m1 = (if outcome \<notin> {''blocked'', ''unreachable'', ''waiting''} then forget_log jid m else m);
            m2 = (if outcome \<notin> {''blocked'', ''unreachable''} then forget_backoff jid m1 else m1) in
        if outcome \<in> set REPORTED_DISPATCH_OUTCOMES then m2
        else if outcome \<in> {''blocked'', ''unreachable''}
        then bump monotonic jid (remember jid (or_text detail ''reason unavailable'') m2)
        else if outcome = ''waiting'' then remember jid (or_text detail ''reason unavailable'') m2
        else m2)"

section \<open>The dispatch pool\<close>

record InflightDispatch =
  if_entry :: JobEntry
  if_pin_node :: "string option"

record DispatchPool =
  pl_workers :: int
  pl_inflight :: "(string, InflightDispatch) dict"

definition new_pool :: "int \<Rightarrow> DispatchPool" where
  "new_pool workers = \<lparr>pl_workers = max 1 workers, pl_inflight = []\<rparr>"

definition inflight :: "string \<Rightarrow> DispatchPool \<Rightarrow> InflightDispatch option" where
  "inflight jid pool = map_of (pl_inflight pool) jid"

definition saturated :: "DispatchPool \<Rightarrow> bool" where
  "saturated pool \<longleftrightarrow> pl_workers pool \<le> int (length (pl_inflight pool))"

definition pool_submit :: "JobEntry \<Rightarrow> DispatchPool \<Rightarrow> DispatchPool" where
  "pool_submit e pool = pool\<lparr>pl_inflight := AList.update (job_id e) \<lparr>if_entry = e, if_pin_node = pin_node e\<rparr> (pl_inflight pool)\<rparr>"

text \<open>\<open>finished\<close>: the row and the outcome of a thread that is done; \<open>Inl\<close> is the text of an exception.\<close>

type_synonym finished = "string \<Rightarrow> (JobEntry \<times> (string + string \<times> string option)) option"

definition harvest :: "finished \<Rightarrow> DispatchPool \<Rightarrow> (JobEntry \<times> string \<times> string option) list \<times> DispatchPool" where
  "harvest fin pool =
     (map (\<lambda>(jid, item). case fin jid of
              Some (e, Inl m) \<Rightarrow> (e, ''raised'', Some m)
            | Some (e, Inr (outcome, detail)) \<Rightarrow> (e, outcome, detail)
            | None \<Rightarrow> (if_entry item, ''raised'', None))
        (filter (\<lambda>p. fin (fst p) \<noteq> None) (pl_inflight pool)),
      pool\<lparr>pl_inflight := filter (\<lambda>p. fin (fst p) = None) (pl_inflight pool)\<rparr>)"

section \<open>The environment of a tick\<close>

record 'r tick_env =
  te_now :: time
  te_monotonic :: rat
  te_index_io :: bool
  te_probe :: probing
  te_saving :: "'r saving"
  te_fork :: "JobEntry \<Rightarrow> 'r world \<Rightarrow> 'r world \<times> (string + JobEntry)"
  te_dispatch :: "JobEntry \<Rightarrow> string list \<Rightarrow> 'r world \<Rightarrow> 'r world \<times> JobEntry \<times> (string + string \<times> string option)"
  te_finished :: finished

text \<open>The row of a job in the snapshot of the tick, which the callee mutated.\<close>

definition replace_row :: "string \<Rightarrow> JobEntry \<Rightarrow> JobEntry list \<Rightarrow> JobEntry list" where
  "replace_row jid e rows = map (\<lambda>x. if job_id x = jid then e else x) rows"

section \<open>Reconciliation\<close>

definition recheck_candidate :: "time \<Rightarrow> JobEntry \<Rightarrow> bool" where
  "recheck_candidate now e \<longleftrightarrow> status e = ''running''
     \<or> status e = ''lost'' \<and> (case finished_at e of None \<Rightarrow> False | Some t \<Rightarrow> now - t \<le> LOST_RECHECK_S)"

definition reconcile_jobs :: "'r tick_env \<Rightarrow> HeadConfig \<Rightarrow> JobEntry list \<Rightarrow> 'r world \<Rightarrow> JobEntry list \<times> 'r world" where
  "reconcile_jobs ev cfg entries w =
     (let candidates = filter (recheck_candidate (te_now ev)) entries in
      if candidates = [] then (entries, w)
      else
        let rf = refresh_statuses (te_probe ev) (te_saving ev) cfg (te_now ev) candidates w in
        if rf_raised rf \<noteq> None then (entries, rf_world rf)
        else (map (\<lambda>e. if job_id e \<in> set (map job_id candidates) then dict_get (rf_refreshed rf) (job_id e) e else e) entries,
              rf_world rf))"

section \<open>Retries\<close>

text \<open>The \<open>retried_by\<close> marker, written under the job lock unless a marker is already there.\<close>

definition mark_retried :: "'r tick_env \<Rightarrow> HeadConfig \<Rightarrow> string \<Rightarrow> string \<Rightarrow> 'r world \<Rightarrow> 'r world" where
  "mark_retried ev cfg jid replacement w =
     (if \<not> valid_job_id jid then w
      else case load (sv_decoding (te_saving ev)) cfg jid w of
        Inr (Some current) \<Rightarrow>
          if retried_by current = None then fst (save (te_saving ev) cfg (current\<lparr>retried_by := Some replacement\<rparr>) w) else w
      | _ \<Rightarrow> w)"

text \<open>
  The loop over the rows: \<open>submitted\<close> counts the resubmissions of this tick, \<open>rows\<close> is the snapshot. A
  fenced row is read afresh from the registry, so the marker is then set on that copy only.
\<close>

fun submit_retries :: "'r tick_env \<Rightarrow> HeadConfig \<Rightarrow> JobEntry list \<Rightarrow> nat \<Rightarrow> JobEntry list \<Rightarrow> 'r world
    \<Rightarrow> nat \<times> JobEntry list \<times> 'r world" where
  "submit_retries ev cfg [] submitted rows w = (submitted, rows, w)"
| "submit_retries ev cfg (snap # rest) submitted rows w =
     (let (w1, fenced) =
        (if retry_pending_fence snap
         then (case finalize_dependency_terminal (te_saving ev) cfg (te_now ev) (job_id snap) w of
                 (w', Inr (Some e)) \<Rightarrow> (w', Some (e, False))
               | (w', _) \<Rightarrow> (w', None))
         else (w, Some (snap, True))) in
      case fenced of
        None \<Rightarrow> submit_retries ev cfg rest submitted rows w1
      | Some (e, shared) \<Rightarrow>
          if retry_blocked_reason e \<noteq> None then submit_retries ev cfg rest submitted rows w1
          else if RETRY_SUBMITS_PER_TICK \<le> submitted then (submitted, rows, w1)
          else
            (case te_fork ev e w1 of
               (w2, Inl _) \<Rightarrow> submit_retries ev cfg rest submitted rows w2
             | (w2, Inr replacement) \<Rightarrow>
                 let w3 = mark_retried ev cfg (job_id e) (job_id replacement) w2;
                     rows' = (if shared then replace_row (job_id e) (e\<lparr>retried_by := Some (job_id replacement)\<rparr>) rows else rows) in
                 submit_retries ev cfg rest (submitted + 1) rows' w3))"

section \<open>The queue walk\<close>

record 'r walk =
  wk_world :: "'r world"
  wk_rows :: "JobEntry list"
  wk_running :: int
  wk_memory :: memory
  wk_pool :: "DispatchPool option"
  wk_busy_pins :: "string list"
  wk_unpinned_gpu_wait :: bool
  wk_inflight_nodes :: "string list"
  wk_results :: "(string \<times> string) list"
  wk_attempts :: "(JobEntry \<times> string list) list"

text \<open>\<open>wk_attempts\<close> is the trace of the launches the tick asked for, each with the nodes it reserved for earlier work.\<close>

definition add_result :: "string \<Rightarrow> string \<Rightarrow> 'r walk \<Rightarrow> 'r walk" where
  "add_result jid outcome s = s\<lparr>wk_results := wk_results s @ [(jid, outcome)]\<rparr>"

definition capped :: "time \<Rightarrow> HeadConfig \<Rightarrow> 'r walk \<Rightarrow> JobEntry \<Rightarrow> bool" where
  "capped now cfg s e \<longleftrightarrow>
     (case cf_max_my_jobs cfg of None \<Rightarrow> False | Some cap \<Rightarrow> cap \<le> wk_running s - (if occupies_quota now e then 1 else 0))"

definition being_dispatched :: "'r walk \<Rightarrow> JobEntry \<Rightarrow> bool" where
  "being_dispatched s e \<longleftrightarrow> (case wk_pool s of None \<Rightarrow> False | Some pool \<Rightarrow> inflight (job_id e) pool \<noteq> None)"

definition or_node :: "string option \<Rightarrow> string option \<Rightarrow> string option" where
  "or_node x y = (case x of None \<Rightarrow> y | Some s \<Rightarrow> if s = [] then y else Some s)"

definition pass_inflight :: "JobEntry \<Rightarrow> 'r walk \<Rightarrow> 'r walk" where
  "pass_inflight e s =
     (let s1 = add_result (job_id e) ''dispatching'' s in
      case or_node (dispatch_node e) (pin_node e) of
        Some nd \<Rightarrow> s1\<lparr>wk_inflight_nodes := List.insert nd (wk_inflight_nodes s1)\<rparr>
      | None \<Rightarrow> if gpus_requested e > 0 then s1\<lparr>wk_unpinned_gpu_wait := True\<rparr> else s1)"

text \<open>GPU work that earlier work of this tick keeps waiting.\<close>

definition held :: "'r walk \<Rightarrow> JobEntry \<Rightarrow> bool" where
  "held s e \<longleftrightarrow> gpus_requested e > 0
     \<and> (wk_unpinned_gpu_wait s \<or> (\<exists>nd. pin_node e = Some nd \<and> nd \<in> set (wk_busy_pins s)))"

definition backing_off :: "rat \<Rightarrow> 'r walk \<Rightarrow> JobEntry \<Rightarrow> bool" where
  "backing_off monotonic s e \<longleftrightarrow>
     (case mem_backoff (wk_memory s) of
        None \<Rightarrow> False
      | Some d \<Rightarrow> (case map_of d (job_id e) of None \<Rightarrow> False | Some (_, deadline) \<Rightarrow> monotonic < deadline))"

definition reserved_for_earlier :: "'r walk \<Rightarrow> JobEntry \<Rightarrow> string list" where
  "reserved_for_earlier s e =
     (if pin_node e = None \<and> gpus_requested e > 0 then List.union (wk_busy_pins s) (wk_inflight_nodes s) else [])"

definition submit_to_pool :: "DispatchPool \<Rightarrow> JobEntry \<Rightarrow> 'r walk \<Rightarrow> 'r walk" where
  "submit_to_pool pool e s =
     (if (\<exists>nd. pin_node e = Some nd \<and> nd \<in> set (wk_inflight_nodes s)) \<or> saturated pool
      then add_result (job_id e) ''busy'' s
      else
        let s1 = (add_result (job_id e) ''dispatching'' s)
                   \<lparr>wk_pool := Some (pool_submit e pool), wk_attempts := wk_attempts s @ [(e, reserved_for_earlier s e)]\<rparr> in
        case pin_node e of
          Some nd \<Rightarrow> s1\<lparr>wk_inflight_nodes := List.insert nd (wk_inflight_nodes s1)\<rparr>
        | None \<Rightarrow> if gpus_requested e > 0 then s1\<lparr>wk_unpinned_gpu_wait := True\<rparr> else s1)"

definition dispatch_inline :: "'r tick_env \<Rightarrow> HeadConfig \<Rightarrow> RegistryDamage list \<Rightarrow> JobEntry \<Rightarrow> 'r walk \<Rightarrow> 'r walk" where
  "dispatch_inline ev cfg damage e s =
     (let reserved = reserved_for_earlier s e; (w, e', result) = te_dispatch ev e reserved (wk_world s);
          s1 = s\<lparr>wk_world := w, wk_rows := replace_row (job_id e) e' (wk_rows s),
                 wk_attempts := wk_attempts s @ [(e, reserved)]\<rparr> in
      case result of
        Inl m \<Rightarrow>
          add_result (job_id e) ''blocked''
            (s1\<lparr>wk_memory := note_dispatch_outcome (te_monotonic ev) (job_id e) ''raised'' (Some m) (wk_memory s1)\<rparr>)
      | Inr (outcome, detail) \<Rightarrow>
          let s2 = add_result (job_id e) outcome s1;
              s3 = (if outcome \<in> set REPORTED_DISPATCH_OUTCOMES
                    then s2\<lparr>wk_running := fst (fst (quota_occupancy (te_index_io ev) (sv_decoding (te_saving ev)) cfg (Some (wk_rows s2))
                           damage (te_now ev) (wk_world s2)))\<rparr>
                    else s2);
              s4 = s3\<lparr>wk_memory := note_dispatch_outcome (te_monotonic ev) (job_id e) outcome detail (wk_memory s3)\<rparr> in
          if outcome = ''busy'' \<and> gpus_requested e' > 0
          then case pin_node e' of
            None \<Rightarrow> s4\<lparr>wk_unpinned_gpu_wait := True\<rparr>
          | Some nd \<Rightarrow> s4\<lparr>wk_busy_pins := List.insert nd (wk_busy_pins s4)\<rparr>
          else s4)"

definition visit :: "'r tick_env \<Rightarrow> HeadConfig \<Rightarrow> RegistryDamage list \<Rightarrow> JobEntry \<Rightarrow> 'r walk \<Rightarrow> 'r walk" where
  "visit ev cfg damage e s =
     (if being_dispatched s e then pass_inflight e s
      else if held s e then add_result (job_id e) ''busy'' s
      else if backing_off (te_monotonic ev) s e then add_result (job_id e) ''blocked'' s
      else case wk_pool s of
        Some pool \<Rightarrow> submit_to_pool pool e s
      | None \<Rightarrow> dispatch_inline ev cfg damage e s)"

fun walk_queue :: "'r tick_env \<Rightarrow> HeadConfig \<Rightarrow> RegistryDamage list \<Rightarrow> JobEntry list \<Rightarrow> 'r walk \<Rightarrow> 'r walk" where
  "walk_queue ev cfg damage [] s = s"
| "walk_queue ev cfg damage (e # rest) s =
     (if capped (te_now ev) cfg s e then add_result (job_id e) ''capped'' s
      else walk_queue ev cfg damage rest (visit ev cfg damage e s))"

section \<open>A tick\<close>

definition harvest_pool :: "'r tick_env \<Rightarrow> DispatchPool option \<Rightarrow> memory \<Rightarrow> DispatchPool option \<times> memory" where
  "harvest_pool ev pool m =
     (case pool of
        None \<Rightarrow> (None, m)
      | Some p \<Rightarrow>
          let (outcomes, p') = harvest (te_finished ev) p in
          (Some p', fold (\<lambda>(e, outcome, detail). note_dispatch_outcome (te_monotonic ev) (job_id e) outcome detail) outcomes m))"

definition prune_memory :: "string list \<Rightarrow> DispatchPool option \<Rightarrow> memory \<Rightarrow> memory" where
  "prune_memory queued pool m =
     (let kept = (\<lambda>jid. jid \<in> set queued \<or> (case pool of None \<Rightarrow> False | Some p \<Rightarrow> inflight jid p \<noteq> None)) in
      m\<lparr>mem_backoff := map_option (filter (\<lambda>p. kept (fst p))) (mem_backoff m),
        mem_blocked_log := map_option (filter (\<lambda>p. kept (fst p))) (mem_blocked_log m)\<rparr>)"

definition running_ids :: "JobEntry list \<Rightarrow> string set" where
  "running_ids rows = set (map job_id (filter (\<lambda>e. status e = ''running'') rows))"

text \<open>
  What a tick does before the walk: the queue in FIFO order, the damage the registry scan reported, and
  the state the walk starts from.
\<close>

definition tick_start :: "'r tick_env \<Rightarrow> HeadConfig \<Rightarrow> memory \<Rightarrow> DispatchPool option \<Rightarrow> 'r world
    \<Rightarrow> JobEntry list \<times> RegistryDamage list \<times> 'r walk" where
  "tick_start ev cfg m pool w =
     (let (pool1, m1) = harvest_pool ev pool m;
          ((active, damage), w1) = active_entries (te_index_io ev) (sv_decoding (te_saving ev)) cfg (te_now ev) True w;
          (entries, w2) = reconcile_jobs ev cfg active w1;
          m2 = (if running_ids active - running_ids entries \<noteq> {} then m1\<lparr>mem_backoff := map_option (\<lambda>_. []) (mem_backoff m1)\<rparr> else m1);
          (_, rows, w3) = submit_retries ev cfg entries 0 entries w2;
          queue = sort_key created_at (filter (\<lambda>e. status e = ''queued'') rows);
          ((occupancy, _), w4) = quota_occupancy (te_index_io ev) (sv_decoding (te_saving ev)) cfg (Some rows) damage (te_now ev) w3 in
      (queue, damage,
       \<lparr>wk_world = w4, wk_rows = rows, wk_running = occupancy, wk_memory = m2, wk_pool = pool1, wk_busy_pins = [],
        wk_unpinned_gpu_wait = False, wk_inflight_nodes = [], wk_results = [], wk_attempts = []\<rparr>))"

definition process_once_with_snapshot :: "'r tick_env \<Rightarrow> HeadConfig \<Rightarrow> memory \<Rightarrow> DispatchPool option \<Rightarrow> 'r world \<Rightarrow> 'r walk" where
  "process_once_with_snapshot ev cfg m pool w =
     (case tick_start ev cfg m pool w of (queue, damage, start) \<Rightarrow>
        let s = walk_queue ev cfg damage queue start in
        s\<lparr>wk_memory := prune_memory (map job_id queue) (wk_pool s) (wk_memory s)\<rparr>)"

definition process_once :: "'r tick_env \<Rightarrow> HeadConfig \<Rightarrow> 'r world \<Rightarrow> (string \<times> string) list" where
  "process_once ev cfg w = wk_results (process_once_with_snapshot ev cfg \<lparr>mem_backoff = None, mem_blocked_log = None\<rparr> None w)"

end
