(* ===== verification/Agent_Facts.thy ===== *)
theory Agent_Facts
  imports Agent_Tick
begin

text \<open>
  Facts about a tick of the agent: FIFO order where jobs compete, no job held without a cause, the
  bounds of the dispatch pool, and the backoff of blocked jobs.
\<close>

section \<open>The walk as a run of visits\<close>

text \<open>The state when the walk reaches position \<open>k\<close>, had nothing stopped it before.\<close>

definition reached :: "'r tick_env \<Rightarrow> HeadConfig \<Rightarrow> RegistryDamage list \<Rightarrow> JobEntry list \<Rightarrow> 'r walk \<Rightarrow> nat \<Rightarrow> 'r walk" where
  "reached ev cfg damage queue s k = fold (visit ev cfg damage) (take k queue) s"

lemma reached_0 [simp]: "reached ev cfg damage queue s 0 = s"
  by (simp add: reached_def)

lemma reached_Suc:
  "k < length queue \<Longrightarrow> reached ev cfg damage queue s (Suc k) = visit ev cfg damage (queue ! k) (reached ev cfg damage queue s k)"
  by (simp add: reached_def take_Suc_conv_app_nth)

lemma reached_Cons:
  "reached ev cfg damage (e # queue) s (Suc k) = reached ev cfg damage queue (visit ev cfg damage e s) k"
  by (simp add: reached_def)

text \<open>The walk visits a prefix of the queue and stops, if at all, at the first job the quota caps.\<close>

lemma walk_visits:
  "\<exists>n \<le> length queue.
     (if n < length queue
      then walk_queue ev cfg damage queue s = add_result (job_id (queue ! n)) ''capped'' (reached ev cfg damage queue s n)
         \<and> capped (te_now ev) cfg (reached ev cfg damage queue s n) (queue ! n)
      else walk_queue ev cfg damage queue s = reached ev cfg damage queue s n)"
proof (induction queue arbitrary: s)
  case Nil
  then show ?case by simp
next
  case (Cons e queue)
  show ?case
  proof (cases "capped (te_now ev) cfg s e")
    case True
    then show ?thesis by (intro exI [of _ 0]) simp
  next
    case False
    obtain n where "n \<le> length queue"
      "if n < length queue
       then walk_queue ev cfg damage queue (visit ev cfg damage e s)
              = add_result (job_id (queue ! n)) ''capped'' (reached ev cfg damage queue (visit ev cfg damage e s) n)
          \<and> capped (te_now ev) cfg (reached ev cfg damage queue (visit ev cfg damage e s) n) (queue ! n)
       else walk_queue ev cfg damage queue (visit ev cfg damage e s) = reached ev cfg damage queue (visit ev cfg damage e s) n"
      using Cons.IH by blast
    with False show ?thesis by (intro exI [of _ "Suc n"]) (simp add: reached_Cons)
  qed
qed

section \<open>One visit\<close>

lemmas visit_defs = visit_def pass_inflight_def submit_to_pool_def dispatch_inline_def add_result_def Let_def

text \<open>The outcome a visit reports, and whether it asked for a launch.\<close>

lemma visit_result:
  "\<exists>oc. wk_results (visit ev cfg damage e s) = wk_results s @ [(job_id e, oc)]"
  unfolding visit_defs by (auto split: option.splits prod.splits sum.splits)

lemma visit_attempts:
  "wk_attempts (visit ev cfg damage e s) = wk_attempts s
   \<or> wk_attempts (visit ev cfg damage e s) = wk_attempts s @ [(e, reserved_for_earlier s e)]"
  unfolding visit_defs by (auto split: option.splits prod.splits sum.splits)

lemma visit_attempted:
  assumes "wk_attempts (visit ev cfg damage e s) \<noteq> wk_attempts s"
  shows "\<not> being_dispatched s e \<and> \<not> held s e \<and> \<not> backing_off (te_monotonic ev) s e
    \<and> (\<forall>pool. wk_pool s = Some pool \<longrightarrow> \<not> saturated pool \<and> (\<forall>nd \<in> set (wk_inflight_nodes s). pin_node e \<noteq> Some nd))"
  using assms unfolding visit_defs by (auto split: option.splits prod.splits sum.splits if_splits)

lemma visit_pool_kept: "wk_pool (visit ev cfg damage e s) = None \<longleftrightarrow> wk_pool s = None"
  unfolding visit_defs by (auto split: option.splits prod.splits sum.splits)

section \<open>The run of visits\<close>

lemma reached_results:
  assumes "k \<le> length queue"
  shows "length (wk_results (reached ev cfg damage queue s k)) = length (wk_results s) + k"
  using assms
proof (induction k)
  case (Suc k)
  then show ?case
    using visit_result [of ev cfg damage "queue ! k" "reached ev cfg damage queue s k"] by (auto simp: reached_Suc)
qed simp

text \<open>What is reported at a position stays reported.\<close>

lemma reached_results_grow:
  assumes "k \<le> n" "n \<le> length queue"
  shows "\<exists>rs. wk_results (reached ev cfg damage queue s n) = wk_results (reached ev cfg damage queue s k) @ rs"
  using assms
proof (induction n)
  case (Suc n)
  then show ?case
    using visit_result [of ev cfg damage "queue ! n" "reached ev cfg damage queue s n"]
    by (cases "k = Suc n") (auto simp: reached_Suc)
qed simp

lemma reached_result_at:
  assumes "k < n" "n \<le> length queue" "wk_results s = []"
  shows "\<exists>oc. wk_results (reached ev cfg damage queue s n) ! k = (job_id (queue ! k), oc)
    \<and> wk_results (reached ev cfg damage queue s (Suc k)) = wk_results (reached ev cfg damage queue s k) @ [(job_id (queue ! k), oc)]"
proof -
  obtain oc where oc: "wk_results (reached ev cfg damage queue s (Suc k))
      = wk_results (reached ev cfg damage queue s k) @ [(job_id (queue ! k), oc)]"
    using assms visit_result [of ev cfg damage "queue ! k" "reached ev cfg damage queue s k"] by (auto simp: reached_Suc)
  moreover obtain rs where "wk_results (reached ev cfg damage queue s n) = wk_results (reached ev cfg damage queue s (Suc k)) @ rs"
    using reached_results_grow [of "Suc k" n queue ev cfg damage s] assms by auto
  moreover have "length (wk_results (reached ev cfg damage queue s k)) = k"
    using reached_results [of k queue ev cfg damage s] assms by simp
  ultimately show ?thesis by (auto simp: nth_append)
qed

lemma reached_attempt:
  assumes "(e, reserved) \<in> set (wk_attempts (reached ev cfg damage queue s n))" "n \<le> length queue" "wk_attempts s = []"
  shows "\<exists>k < n. e = queue ! k \<and> reserved = reserved_for_earlier (reached ev cfg damage queue s k) e
    \<and> wk_attempts (reached ev cfg damage queue s (Suc k)) \<noteq> wk_attempts (reached ev cfg damage queue s k)"
  using assms
proof (induction n)
  case (Suc n)
  let ?t = "reached ev cfg damage queue s n"
  from Suc.prems consider "(e, reserved) \<in> set (wk_attempts ?t)"
    | "(e, reserved) = (queue ! n, reserved_for_earlier ?t (queue ! n))"
      "wk_attempts (visit ev cfg damage (queue ! n) ?t) = wk_attempts ?t @ [(queue ! n, reserved_for_earlier ?t (queue ! n))]"
    using visit_attempts [of ev cfg damage "queue ! n" ?t] by (auto simp: reached_Suc)
  then show ?case
  proof cases
    case 1
    then show ?thesis using Suc by (metis Suc_leD less_SucI)
  next
    case 2
    then show ?thesis using Suc.prems by (intro exI [of _ n]) (simp add: reached_Suc)
  qed
qed simp

section \<open>FIFO order\<close>

text \<open>Placement never changes what a job asks for.\<close>

definition keeps_request :: "'r tick_env \<Rightarrow> bool" where
  "keeps_request ev \<longleftrightarrow> (\<forall>e reserved w. case te_dispatch ev e reserved w of (_, e', _) \<Rightarrow>
     gpus_requested e' = gpus_requested e \<and> pin_node e' = pin_node e)"

text \<open>Waiting or launching GPU work \<open>x\<close> keeps later GPU work from taking its cards.\<close>

definition guards :: "JobEntry \<Rightarrow> 'r walk \<Rightarrow> bool" where
  "guards x s \<longleftrightarrow> wk_unpinned_gpu_wait s
     \<or> (\<exists>pool. wk_pool s = Some pool \<and> saturated pool)
     \<or> (\<exists>nd. (pin_node x = Some nd \<or> dispatch_node x = Some nd)
         \<and> (nd \<in> set (wk_busy_pins s) \<or> wk_pool s \<noteq> None \<and> nd \<in> set (wk_inflight_nodes s)))"

lemma or_node_cases: "or_node x y = Some nd \<Longrightarrow> x = Some nd \<or> y = Some nd"
  by (auto simp: or_node_def split: option.splits if_splits)

lemma visit_guards:
  assumes keeps: "keeps_request ev" and gpu: "gpus_requested x > 0"
    and res: "wk_results (visit ev cfg damage x s) = wk_results s @ [(job_id x, oc)]"
    and oc: "oc = ''busy'' \<or> oc = ''dispatching'' \<and> wk_pool s \<noteq> None"
  shows "guards x (visit ev cfg damage x s)"
proof -
  consider (flight) "being_dispatched s x" | (held) "\<not> being_dispatched s x" "held s x"
    | (backoff) "\<not> being_dispatched s x" "\<not> held s x" "backing_off (te_monotonic ev) s x"
    | (go) "\<not> being_dispatched s x" "\<not> held s x" "\<not> backing_off (te_monotonic ev) s x" by blast
  then show ?thesis
  proof cases
    case flight
    then have "wk_pool s \<noteq> None" by (auto simp: being_dispatched_def split: option.splits)
    with flight gpu show ?thesis
      by (cases "or_node (dispatch_node x) (pin_node x)")
        (auto simp: visit_def pass_inflight_def add_result_def guards_def Let_def dest: or_node_cases)
  next
    case held
    then show ?thesis by (auto simp: visit_def add_result_def guards_def held_def)
  next
    case backoff
    then show ?thesis using res oc by (auto simp: visit_def add_result_def)
  next
    case go
    show ?thesis
    proof (cases "wk_pool s")
      case None
      obtain w x' r where d: "te_dispatch ev x (reserved_for_earlier s x) (wk_world s) = (w, x', r)"
        by (metis prod_cases3)
      then have "gpus_requested x' = gpus_requested x" "pin_node x' = pin_node x"
        using keeps unfolding keeps_request_def by (metis (mono_tags, lifting) case_prod_conv)+
      then show ?thesis using go res oc gpu d None
        by (auto simp: visit_def dispatch_inline_def add_result_def guards_def Let_def split: sum.splits option.splits if_splits)
    next
      case (Some pool)
      then show ?thesis using go res oc gpu
        by (auto simp: visit_def submit_to_pool_def add_result_def guards_def Let_def split: option.splits if_splits)
    qed
  qed
qed

text \<open>What a visit has learnt about waiting work is kept by the later ones.\<close>

lemma visit_keeps_wait: "wk_unpinned_gpu_wait s \<Longrightarrow> wk_unpinned_gpu_wait (visit ev cfg damage e s)"
  unfolding visit_defs by (auto split: option.splits prod.splits sum.splits)

lemma visit_keeps_pins: "nd \<in> set (wk_busy_pins s) \<Longrightarrow> nd \<in> set (wk_busy_pins (visit ev cfg damage e s))"
  unfolding visit_defs by (auto split: option.splits prod.splits sum.splits)

lemma visit_keeps_nodes: "nd \<in> set (wk_inflight_nodes s) \<Longrightarrow> nd \<in> set (wk_inflight_nodes (visit ev cfg damage e s))"
  unfolding visit_defs by (auto split: option.splits prod.splits sum.splits)

lemma visit_keeps_saturated:
  "wk_pool s = Some pool \<Longrightarrow> saturated pool \<Longrightarrow> wk_pool (visit ev cfg damage e s) = Some pool"
  unfolding visit_defs by (auto split: option.splits)

lemma guards_step: "guards x s \<Longrightarrow> guards x (visit ev cfg damage e s)"
  unfolding guards_def using visit_keeps_wait visit_keeps_pins visit_keeps_nodes visit_keeps_saturated visit_pool_kept by metis

lemma guards_reached:
  assumes "k \<le> n" "n \<le> length queue" "guards x (reached ev cfg damage queue s k)"
  shows "guards x (reached ev cfg damage queue s n)"
  using assms
proof (induction n)
  case (Suc n)
  then show ?case by (cases "k = Suc n") (auto simp: reached_Suc intro: guards_step)
qed simp

lemma guarded_attempt:
  assumes "guards x s" "gpus_requested y > 0" "wk_attempts (visit ev cfg damage y s) \<noteq> wk_attempts s"
  shows "\<exists>nd. (pin_node x = Some nd \<or> dispatch_node x = Some nd) \<and> pin_node y \<noteq> Some nd
    \<and> (pin_node y = None \<longrightarrow> nd \<in> set (reserved_for_earlier s y))"
  using visit_attempted [OF assms(3)] assms(1,2)
  by (auto simp: guards_def held_def reserved_for_earlier_def)

lemma walk_fifo:
  assumes keeps: "keeps_request ev" and start: "wk_results s = []" "wk_attempts s = []" and distinct: "distinct queue"
    and order: "i < j" "j < n" "n \<le> length queue"
    and x: "wk_results (reached ev cfg damage queue s n) ! i = (job_id (queue ! i), oc)" "gpus_requested (queue ! i) > 0"
      "oc = ''busy'' \<or> oc = ''dispatching'' \<and> wk_pool s \<noteq> None"
    and y: "(queue ! j, reserved) \<in> set (wk_attempts (reached ev cfg damage queue s n))" "gpus_requested (queue ! j) > 0"
  shows "\<exists>nd. (pin_node (queue ! i) = Some nd \<or> dispatch_node (queue ! i) = Some nd) \<and> pin_node (queue ! j) \<noteq> Some nd
    \<and> (pin_node (queue ! j) = None \<longrightarrow> nd \<in> set reserved)"
proof -
  let ?r = "reached ev cfg damage queue s"
  have pool: "wk_pool (?r k) = None \<longleftrightarrow> wk_pool s = None" if "k \<le> length queue" for k
    using that by (induction k) (simp_all add: reached_Suc visit_pool_kept)
  have "wk_results (visit ev cfg damage (queue ! i) (?r i)) = wk_results (?r i) @ [(job_id (queue ! i), oc)]"
    using reached_result_at [of i n queue s ev cfg damage] order start x(1) by (auto simp: reached_Suc)
  then have "guards (queue ! i) (?r (Suc i))"
    using visit_guards [OF keeps x(2), of cfg damage "?r i" oc] x(3) pool [of i] order by (simp add: reached_Suc)
  then have guard: "guards (queue ! i) (?r j)"
    using guards_reached [of "Suc i" j queue] order by simp
  obtain k where k: "k < n" "queue ! j = queue ! k" "reserved = reserved_for_earlier (?r k) (queue ! j)"
    "wk_attempts (?r (Suc k)) \<noteq> wk_attempts (?r k)"
    using reached_attempt [OF y(1)] order start by auto
  have "k = j" using k distinct order by (simp add: nth_eq_iff_index_eq)
  then have "wk_attempts (visit ev cfg damage (queue ! j) (?r j)) \<noteq> wk_attempts (?r j)"
    using k(4) order reached_Suc [of j queue ev cfg damage s] by simp
  from guarded_attempt [OF guard y(2) this] show ?thesis
    unfolding k(3) \<open>k = j\<close> .
qed

lemma tick_start_queue:
  assumes "tick_start ev cfg m pool w = (queue, damage, s)"
  shows "sorted (map created_at queue) \<and> (\<forall>e \<in> set queue. status e = ''queued'')
    \<and> wk_results s = [] \<and> wk_attempts s = [] \<and> wk_busy_pins s = [] \<and> \<not> wk_unpinned_gpu_wait s \<and> wk_inflight_nodes s = []
    \<and> (wk_pool s = None \<longleftrightarrow> pool = None)"
  using assms unfolding tick_start_def Let_def
  by (auto simp: harvest_pool_def split: prod.splits option.splits)

text \<open>The walk ends at the job the quota caps, if it caps one.\<close>

lemma walk_ends:
  assumes "walk_queue ev cfg damage queue start = s"
  obtains n where "n \<le> length queue" "wk_attempts s = wk_attempts (reached ev cfg damage queue start n)"
    "wk_pool s = wk_pool (reached ev cfg damage queue start n)"
    "wk_results s = wk_results (reached ev cfg damage queue start n)
       @ (if n < length queue then [(job_id (queue ! n), ''capped'')] else [])"
proof -
  obtain n where n: "n \<le> length queue"
     "if n < length queue
      then walk_queue ev cfg damage queue start = add_result (job_id (queue ! n)) ''capped'' (reached ev cfg damage queue start n)
         \<and> capped (te_now ev) cfg (reached ev cfg damage queue start n) (queue ! n)
      else walk_queue ev cfg damage queue start = reached ev cfg damage queue start n"
    using walk_visits [of queue ev cfg damage start] by blast
  then show ?thesis using assms by (intro that [of n]; cases "n < length queue") (auto simp add: add_result_def)
qed

lemma tick_is_walk:
  "tick_start ev cfg m pool w = (queue, damage, start) \<Longrightarrow>
   wk_pool (process_once_with_snapshot ev cfg m pool w) = wk_pool (walk_queue ev cfg damage queue start)
   \<and> wk_results (process_once_with_snapshot ev cfg m pool w) = wk_results (walk_queue ev cfg damage queue start)
   \<and> wk_attempts (process_once_with_snapshot ev cfg m pool w) = wk_attempts (walk_queue ev cfg damage queue start)"
  by (simp add: process_once_with_snapshot_def Let_def)

text \<open>
  C34. The walk of a tick never lets a later GPU job take capacity that an earlier GPU job of the queue
  waits for or is being launched on. If position \<open>i\<close> was reported busy (or, with a dispatch pool,
  dispatching) and the launch of a later position \<open>j\<close> was still asked for, then the earlier job has a
  target node, the later job is not pinned to it, and an unpinned later job was launched with that
  node reserved. The hypothesis on the launcher is that placing a job does not change its card count
  and its pin; the walk starts with nothing reported, as \<open>tick_start\<close> leaves it.
\<close>

theorem walk_respects_fifo:
  assumes "walk_queue ev cfg damage queue start = s" "wk_results start = []" "wk_attempts start = []"
    and "keeps_request ev" "distinct queue" "i < j" "j < length queue"
    and "wk_results s ! i = (job_id (queue ! i), oc)" "oc = ''busy'' \<or> oc = ''dispatching'' \<and> wk_pool start \<noteq> None"
    and "gpus_requested (queue ! i) > 0" "gpus_requested (queue ! j) > 0" "(queue ! j, reserved) \<in> set (wk_attempts s)"
  shows "\<exists>nd. (pin_node (queue ! i) = Some nd \<or> dispatch_node (queue ! i) = Some nd) \<and> pin_node (queue ! j) \<noteq> Some nd
    \<and> (pin_node (queue ! j) = None \<longrightarrow> nd \<in> set reserved)"
proof -
  let ?r = "reached ev cfg damage queue start"
  obtain n where n: "n \<le> length queue" "wk_attempts s = wk_attempts (?r n)"
    "wk_results s = wk_results (?r n) @ (if n < length queue then [(job_id (queue ! n), ''capped'')] else [])"
    using walk_ends [OF assms(1)] by metis
  obtain k where k: "k < n" "queue ! j = queue ! k"
    using reached_attempt [of "queue ! j" reserved ev cfg damage queue start n] assms n by auto
  then have "j < n" using assms n by (simp add: nth_eq_iff_index_eq)
  moreover have "wk_results (?r n) ! i = (job_id (queue ! i), oc)"
    using n(3) assms(2,6,8) \<open>j < n\<close> reached_results [OF n(1), of ev cfg damage start] by (auto simp: nth_append)
  ultimately show ?thesis
    using walk_fifo [of ev start queue i j n cfg damage oc reserved] assms n by auto
qed

section \<open>No job waits without a cause\<close>

lemma keeps_requestD:
  "keeps_request ev \<Longrightarrow> te_dispatch ev e reserved w = (w', e', r) \<Longrightarrow> gpus_requested e' = gpus_requested e \<and> pin_node e' = pin_node e"
  unfolding keeps_request_def by (metis (mono_tags, lifting) case_prod_conv)

text \<open>Without a pool, a job is passed over only because it is held or backs off.\<close>

lemma visit_passed_over:
  assumes "wk_pool s = None" "wk_attempts (visit ev cfg damage e s) = wk_attempts s"
  shows "held s e \<and> wk_results (visit ev cfg damage e s) = wk_results s @ [(job_id e, ''busy'')]
    \<or> \<not> held s e \<and> backing_off (te_monotonic ev) s e \<and> wk_results (visit ev cfg damage e s) = wk_results s @ [(job_id e, ''blocked'')]"
  using assms unfolding visit_defs
  by (auto simp: being_dispatched_def split: option.splits prod.splits sum.splits if_splits)

lemma visit_new_wait:
  assumes "keeps_request ev" "wk_pool s = None" "wk_unpinned_gpu_wait (visit ev cfg damage e s)" "\<not> wk_unpinned_gpu_wait s"
  shows "wk_results (visit ev cfg damage e s) = wk_results s @ [(job_id e, ''busy'')] \<and> gpus_requested e > 0 \<and> pin_node e = None"
  using assms unfolding visit_defs
  by (auto simp: being_dispatched_def dest: keeps_requestD split: option.splits prod.splits sum.splits if_splits)

lemma visit_new_pin:
  assumes "keeps_request ev" "wk_pool s = None" "nd \<in> set (wk_busy_pins (visit ev cfg damage e s))" "nd \<notin> set (wk_busy_pins s)"
  shows "wk_results (visit ev cfg damage e s) = wk_results s @ [(job_id e, ''busy'')] \<and> gpus_requested e > 0 \<and> pin_node e = Some nd"
  using assms unfolding visit_defs
  by (auto simp: being_dispatched_def dest: keeps_requestD split: option.splits prod.splits sum.splits if_splits)

text \<open>The backoff of a job changes only when the job itself is visited.\<close>

lemma bump_backoff_other:
  "job_id e \<noteq> jid \<Longrightarrow> backing_off t (s\<lparr>wk_memory := bump monotonic jid m\<rparr>) e = backing_off t (s\<lparr>wk_memory := m\<rparr>) e"
  by (auto simp: backing_off_def bump_def bump_blocked_backoff_def Let_def update_conv' split: option.splits)

lemma remember_backoff [simp]:
  "mem_backoff (remember jid d m) = mem_backoff m" "mem_backoff (forget_log jid m) = mem_backoff m"
  by (simp_all add: remember_def forget_log_def)

lemma backing_off_memory:
  "backing_off t s e = backing_off t s' e" if "mem_backoff (wk_memory s) = mem_backoff (wk_memory s')"
  using that by (simp add: backing_off_def)

lemma note_backoff_other:
  assumes "job_id e \<noteq> jid"
  shows "backing_off t (s\<lparr>wk_memory := note_dispatch_outcome monotonic jid oc detail (wk_memory s)\<rparr>) e = backing_off t s e"
proof -
  have forget: "backing_off t (s\<lparr>wk_memory := forget_backoff jid m\<rparr>) e = backing_off t (s\<lparr>wk_memory := m\<rparr>) e" for m
    using assms by (auto simp: backing_off_def forget_backoff_def delete_conv' split: option.splits)
  have same: "backing_off t (s\<lparr>wk_memory := remember jid d m\<rparr>) e = backing_off t (s\<lparr>wk_memory := m\<rparr>) e"
    "backing_off t (s\<lparr>wk_memory := forget_log jid m\<rparr>) e = backing_off t (s\<lparr>wk_memory := m\<rparr>) e" for d m
    by (rule backing_off_memory, simp)+
  show ?thesis
    by (simp add: note_dispatch_outcome_def Let_def bump_backoff_other [OF assms] forget same)
qed

lemma visit_backoff_other:
  assumes "job_id e \<noteq> job_id x"
  shows "backing_off t (visit ev cfg damage x s) e = backing_off t s e"
proof -
  have memory: "backing_off t s' e = backing_off t s e"
    if "wk_memory s' = wk_memory s \<or> (\<exists>oc d. wk_memory s' = note_dispatch_outcome (te_monotonic ev) (job_id x) oc d (wk_memory s))" for s'
    using that note_backoff_other [OF assms, where t = t and s = s] by (auto simp: backing_off_def)
  show ?thesis
    by (rule memory) (auto simp: visit_defs split: option.splits prod.splits sum.splits)
qed

lemma reached_attempts_grow:
  assumes "k \<le> n" "n \<le> length queue"
  shows "\<exists>as. wk_attempts (reached ev cfg damage queue s n) = wk_attempts (reached ev cfg damage queue s k) @ as"
  using assms
proof (induction n)
  case (Suc n)
  then show ?case using visit_attempts [of ev cfg damage "queue ! n" "reached ev cfg damage queue s n"]
    by (cases "k = Suc n") (auto simp: reached_Suc)
qed simp

lemma reached_pool_none: "k \<le> length queue \<Longrightarrow> wk_pool (reached ev cfg damage queue s k) = None \<longleftrightarrow> wk_pool s = None"
  by (induction k) (simp_all add: reached_Suc visit_pool_kept)

lemma reached_backoff:
  assumes "distinct (map job_id queue)" "k < length queue" "n \<le> k"
  shows "backing_off t (reached ev cfg damage queue s n) (queue ! k) = backing_off t s (queue ! k)"
  using assms(3)
proof (induction n)
  case (Suc n)
  then have "job_id (queue ! k) \<noteq> job_id (queue ! n)"
    using assms nth_eq_iff_index_eq [of "map job_id queue" k n] by simp
  then show ?case using Suc assms(2) by (simp add: reached_Suc visit_backoff_other)
qed simp

text \<open>Whatever keeps later work waiting is an earlier GPU job this tick found no cards for.\<close>

definition busy_before :: "JobEntry list \<Rightarrow> (string \<times> string) list \<Rightarrow> nat \<Rightarrow> string option \<Rightarrow> bool" where
  "busy_before queue results k pin \<longleftrightarrow>
     (\<exists>i < k. results ! i = (job_id (queue ! i), ''busy'') \<and> gpus_requested (queue ! i) > 0 \<and> pin_node (queue ! i) = pin)"

lemma busy_before_append: "k \<le> length rs \<Longrightarrow> busy_before queue (rs @ rs') k pin = busy_before queue rs k pin"
  unfolding busy_before_def by (intro iff_exI) (auto simp: nth_append)

lemma waits_have_causes:
  assumes keeps: "keeps_request ev" and start: "wk_pool s = None" "wk_results s = []" "wk_busy_pins s = []" "\<not> wk_unpinned_gpu_wait s"
  shows "k \<le> length queue \<Longrightarrow>
    (wk_unpinned_gpu_wait (reached ev cfg damage queue s k) \<longrightarrow> busy_before queue (wk_results (reached ev cfg damage queue s k)) k None)
    \<and> (\<forall>nd \<in> set (wk_busy_pins (reached ev cfg damage queue s k)).
         busy_before queue (wk_results (reached ev cfg damage queue s k)) k (Some nd))"
proof (induction k)
  case 0
  then show ?case using start by simp
next
  case (Suc k)
  let ?r = "reached ev cfg damage queue s"
  have len: "length (wk_results (?r k)) = k" using Suc.prems start by (simp add: reached_results)
  obtain oc where oc: "wk_results (?r (Suc k)) = wk_results (?r k) @ [(job_id (queue ! k), oc)]"
    using visit_result [of ev cfg damage "queue ! k" "?r k"] Suc.prems by (auto simp: reached_Suc)
  have old: "busy_before queue (wk_results (?r (Suc k))) (Suc k) pin" if "busy_before queue (wk_results (?r k)) k pin" for pin
    using that len by (auto simp: oc busy_before_def nth_append)
  have new: "busy_before queue (wk_results (?r (Suc k))) (Suc k) pin"
    if "oc = ''busy''" "gpus_requested (queue ! k) > 0" "pin_node (queue ! k) = pin" for pin
    using that len unfolding busy_before_def oc by (intro exI [of _ k]) (simp add: nth_append)
  have pool: "wk_pool (?r k) = None" using Suc.prems start by (simp add: reached_pool_none)
  have step: "?r (Suc k) = visit ev cfg damage (queue ! k) (?r k)" using Suc.prems by (simp add: reached_Suc)
  show ?case
  proof (intro conjI impI ballI)
    assume "wk_unpinned_gpu_wait (?r (Suc k))"
    then show "busy_before queue (wk_results (?r (Suc k))) (Suc k) None"
      using visit_new_wait [OF keeps pool, of cfg damage "queue ! k"] old new oc Suc step by (metis append1_eq_conv Pair_inject Suc_leD)
  next
    fix nd assume "nd \<in> set (wk_busy_pins (?r (Suc k)))"
    then show "busy_before queue (wk_results (?r (Suc k))) (Suc k) (Some nd)"
      using visit_new_pin [OF keeps pool, of nd cfg damage "queue ! k"] old new oc Suc step by (metis append1_eq_conv Pair_inject Suc_leD)
  qed
qed


section \<open>The dispatch pool over many ticks\<close>

definition pool_ok :: "int \<Rightarrow> DispatchPool \<Rightarrow> bool" where
  "pool_ok workers pool \<longleftrightarrow> pl_workers pool = workers \<and> int (length (pl_inflight pool)) \<le> workers \<and> distinct (keys (pl_inflight pool))"

lemma pool_ok_new: "pool_ok (max 1 workers) (new_pool workers)"
  by (simp add: pool_ok_def new_pool_def)

lemma pool_ok_harvest:
  assumes "pool_ok n pool"
  shows "pool_ok n (snd (harvest fin pool))"
proof -
  have "int (length (filter (\<lambda>p. fin (fst p) = None) (pl_inflight pool))) \<le> n"
    using assms by (intro order.trans [OF of_nat_mono [OF length_filter_le]]) (simp add: pool_ok_def)
  then show ?thesis using assms by (auto simp: pool_ok_def harvest_def intro: distinct_map_filter)
qed

lemma update_absent: "k \<notin> set (keys d) \<Longrightarrow> AList.update k v d = d @ [(k, v)]"
  by (induction d) auto

lemma pool_ok_submit:
  assumes "pool_ok n pool" "\<not> saturated pool" "inflight (job_id e) pool = None"
  shows "pool_ok n (pool_submit e pool)"
proof -
  have "AList.update (job_id e) v (pl_inflight pool) = pl_inflight pool @ [(job_id e, v)]" for v
    using assms(3) by (simp add: inflight_def map_of_eq_None_iff update_absent)
  then show ?thesis
    using assms by (auto simp: pool_ok_def pool_submit_def saturated_def inflight_def map_of_eq_None_iff)
qed

lemma visit_pool:
  "wk_pool (visit ev cfg damage e s) = wk_pool s
   \<or> (\<exists>pool. wk_pool s = Some pool \<and> \<not> saturated pool \<and> inflight (job_id e) pool = None
        \<and> wk_pool (visit ev cfg damage e s) = Some (pool_submit e pool))"
proof (cases "wk_pool s")
  case None
  then show ?thesis using visit_pool_kept [of ev cfg damage e s] by simp
next
  case (Some pool)
  then show ?thesis
    unfolding visit_def pass_inflight_def submit_to_pool_def add_result_def Let_def
    by (auto simp: being_dispatched_def split: option.splits)
qed

lemma pool_ok_visit:
  assumes "\<forall>pool. wk_pool s = Some pool \<longrightarrow> pool_ok n pool" "wk_pool (visit ev cfg damage e s) = Some pool"
  shows "pool_ok n pool"
  using assms visit_pool [of ev cfg damage e s] pool_ok_submit by (metis option.inject)

lemma pool_ok_reached:
  assumes "\<forall>pool. wk_pool s = Some pool \<longrightarrow> pool_ok n pool"
  shows "k \<le> length queue \<Longrightarrow> \<forall>pool. wk_pool (reached ev cfg damage queue s k) = Some pool \<longrightarrow> pool_ok n pool"
proof (induction k)
  case (Suc k)
  then have "\<forall>pool. wk_pool (reached ev cfg damage queue s k) = Some pool \<longrightarrow> pool_ok n pool" by simp
  from pool_ok_visit [OF this] Suc.prems show ?case unfolding reached_Suc [OF Suc_le_lessD [OF Suc.prems]] by blast
qed (simp add: assms)

lemma pool_ok_tick:
  assumes "pool_ok n pool" "wk_pool (process_once_with_snapshot ev cfg m (Some pool) w) = Some pool'"
  shows "pool_ok n pool'"
proof -
  obtain queue damage start where start: "tick_start ev cfg m (Some pool) w = (queue, damage, start)" by (metis prod_cases3)
  then have "wk_pool start = Some (snd (harvest (te_finished ev) pool))"
    unfolding tick_start_def Let_def by (auto simp: harvest_pool_def split: prod.splits)
  then show ?thesis
    using walk_ends [OF refl, where ev = ev and cfg = cfg and damage = damage and queue = queue and start = start] tick_is_walk [OF start] pool_ok_harvest [OF assms(1)] pool_ok_reached [of start n _ queue ev cfg damage] assms(2)
    by (metis option.inject)
qed

text \<open>Ticks in a row, each with its own environment and the registry it finds.\<close>

fun ticks :: "HeadConfig \<Rightarrow> ('r tick_env \<times> 'r world) list \<Rightarrow> memory \<Rightarrow> DispatchPool \<Rightarrow> memory \<times> DispatchPool" where
  "ticks cfg [] m pool = (m, pool)"
| "ticks cfg ((ev, w) # rest) m pool =
     (let s = process_once_with_snapshot ev cfg m (Some pool) w in ticks cfg rest (wk_memory s) (the (wk_pool s)))"

lemma pool_kept: "wk_pool (process_once_with_snapshot ev cfg m (Some pool) w) \<noteq> None"
proof -
  obtain queue damage start where start: "tick_start ev cfg m (Some pool) w = (queue, damage, start)" by (metis prod_cases3)
  obtain n where "n \<le> length queue" "wk_pool (process_once_with_snapshot ev cfg m (Some pool) w) = wk_pool (reached ev cfg damage queue start n)"
    using walk_ends [OF refl, where ev = ev and cfg = cfg and damage = damage and queue = queue and start = start] tick_is_walk [OF start] by metis
  then show ?thesis using tick_start_queue [OF start] by (simp add: reached_pool_none)
qed

lemma ticks_pool_ok: "pool_ok n pool \<Longrightarrow> pool_ok n (snd (ticks cfg trace m pool))"
proof (induction trace arbitrary: m pool)
  case (Cons evw trace)
  obtain ev w where evw: "evw = (ev, w)" by fastforce
  obtain pool' where "wk_pool (process_once_with_snapshot ev cfg m (Some pool) w) = Some pool'" using pool_kept by fast
  moreover from this Cons.prems have "pool_ok n pool'" by (rule pool_ok_tick [rotated])
  ultimately show ?case using Cons.IH by (simp add: evw Let_def)
qed simp

text \<open>
  However many ticks the agent runs on a fresh dispatch pool, and whatever its threads, probes and
  registry do in between, no more dispatches are in flight than the pool has workers, and no job is
  dispatched by two threads at once.
\<close>

theorem pool_bounded:
  "int (length (pl_inflight (snd (ticks cfg trace m (new_pool workers))))) \<le> max 1 workers
   \<and> distinct (map fst (pl_inflight (snd (ticks cfg trace m (new_pool workers)))))"
  using ticks_pool_ok [OF pool_ok_new, of workers cfg trace m] by (simp add: pool_ok_def)

section \<open>Backoff\<close>

definition failures :: "string \<Rightarrow> (rat \<times> string \<times> string option) list \<Rightarrow> memory \<Rightarrow> memory" where
  "failures jid outcomes m = fold (\<lambda>(t, oc, detail). note_dispatch_outcome t jid oc detail) outcomes m"

lemma note_failure:
  assumes "oc \<in> {''blocked'', ''unreachable'', ''raised''}"
  shows "mem_backoff (note_dispatch_outcome t jid oc detail m) = bump_blocked_backoff t jid (mem_backoff m)"
  using assms by (auto simp: note_dispatch_outcome_def Let_def bump_def REPORTED_DISPATCH_OUTCOMES_def)

lemma backoff_step:
  "bump_blocked_backoff t jid (Some d) = Some d' \<Longrightarrow> fst (dict_get d jid (0, 0)) = min n 16
   \<Longrightarrow> map_of d' jid = Some (min (Suc n) 16, t + min 300 (5 * 2 ^ n))"
proof -
  assume d': "bump_blocked_backoff t jid (Some d) = Some d'" and n: "fst (dict_get d jid (0, 0)) = min n 16"
  have "min (300::rat) (5 * 2 ^ min (min n 16) 16) = min 300 (5 * 2 ^ n)"
  proof (cases "n \<le> 16")
    case False
    then have "(2::rat) ^ 16 \<le> 2 ^ n" by (intro power_increasing) auto
    then show ?thesis using False by (simp add: min_def)
  qed (simp add: min_def)
  moreover have "min (min n 16 + 1) 16 = min (Suc n) 16" by auto
  ultimately show ?thesis
    using d' n by (auto simp: bump_blocked_backoff_def Let_def BLOCKED_BACKOFF_CAP_S_def BLOCKED_BACKOFF_BASE_S_def update_conv')
qed

text \<open>
  C36. The backoff of a job that keeps failing to start is the exponential one, saturating at five
  minutes: after \<open>n\<close> failed attempts in a row (blocked, unreachable or raised) the next one is due
  \<open>min 300 (5 * 2 ^ (n - 1))\<close> seconds after the last, although the stored counter stops at 16; any other
  outcome makes the job due at once.
\<close>

theorem backoff_exponential:
  assumes "mem_backoff m = Some d" "map_of d jid = None"
    and "outcomes \<noteq> []" "\<forall>(t, oc, detail) \<in> set outcomes. oc \<in> {''blocked'', ''unreachable'', ''raised''}"
  shows "\<exists>d'. mem_backoff (failures jid outcomes m) = Some d'
    \<and> map_of d' jid = Some (min (length outcomes) 16, fst (last outcomes) + min 300 (5 * 2 ^ (length outcomes - 1)))
    \<and> (\<forall>t oc detail. oc \<notin> {''blocked'', ''unreachable'', ''raised''} \<longrightarrow>
         \<not> backing_off t (s\<lparr>wk_memory := note_dispatch_outcome t (job_id e) oc detail (failures jid outcomes m)\<rparr>) e)"
proof -
  have "\<exists>d'. mem_backoff (failures jid outcomes m) = Some d'
    \<and> map_of d' jid = Some (min (length outcomes) 16, fst (last outcomes) + min 300 (5 * 2 ^ (length outcomes - 1)))"
    using assms(3,4)
  proof (induction outcomes rule: rev_induct)
    case (snoc x xs)
    obtain t oc detail where x: "x = (t, oc, detail)" by (metis prod_cases3)
    have "\<exists>d0. mem_backoff (failures jid xs m) = Some d0 \<and> fst (dict_get d0 jid (0, 0)) = min (length xs) 16"
      using snoc assms(1,2) by (cases "xs = []") (auto simp: failures_def dict_get_def)
    then obtain d0 where d0: "mem_backoff (failures jid xs m) = Some d0" "fst (dict_get d0 jid (0, 0)) = min (length xs) 16" by blast
    then obtain d' where d': "bump_blocked_backoff t jid (Some d0) = Some d'" by (simp add: bump_blocked_backoff_def Let_def)
    have "mem_backoff (failures jid (xs @ [x]) m) = Some d'"
      using snoc.prems d0 d' by (simp add: failures_def x note_failure)
    then show ?case using backoff_step [OF d' d0(2)] by (simp add: x)
  qed simp
  moreover have "\<not> backing_off t (s\<lparr>wk_memory := note_dispatch_outcome t (job_id e) oc detail m'\<rparr>) e"
    if "oc \<notin> {''blocked'', ''unreachable'', ''raised''}" for t oc detail m'
    using that by (auto simp: backing_off_def note_dispatch_outcome_def Let_def forget_backoff_def delete_conv' split: option.splits)
  ultimately show ?thesis by blast
qed

section \<open>Concrete instances\<close>

text \<open>A launcher that finds no cards for pinned work and leaves other work waiting for a dependency.\<close>

definition stub_env :: "unit tick_env" where
  "stub_env = \<lparr>te_now = 9, te_monotonic = 100, te_index_io = True, te_probe = (\<lambda>_ _. ([], Raised ''timed out'' ''OSError'')), te_saving = quiet_saving,
     te_fork = (\<lambda>e w. (w, Inl ''no fork'')),
     te_dispatch = (\<lambda>e reserved w. (w, e, Inr (if pin_node e = None then ''waiting'' else ''busy'', None))),
     te_finished = (\<lambda>_. None)\<rparr>"

abbreviation pinned :: "string \<Rightarrow> string \<Rightarrow> time \<Rightarrow> JobEntry" where
  "pinned jid nd t \<equiv> (queued_job jid t 1)\<lparr>pin_node := Some nd\<rparr>"

definition stub_queue :: "JobEntry list" where
  "stub_queue = [pinned ''a'' ''n1'' 1, queued_job ''b'' 2 1, pinned ''c'' ''n1'' 3]"

definition stub_start :: "DispatchPool option \<Rightarrow> unit walk" where
  "stub_start pool = \<lparr>wk_world = flat_world, wk_rows = stub_queue, wk_running = 0,
     wk_memory = \<lparr>mem_backoff = Some [], mem_blocked_log = Some []\<rparr>, wk_pool = pool, wk_busy_pins = [],
     wk_unpinned_gpu_wait = False, wk_inflight_nodes = [], wk_results = [], wk_attempts = []\<rparr>"

definition stub_config :: HeadConfig where
  "stub_config = sample_config\<lparr>cf_max_my_jobs := None\<rparr>"

lemma stub_keeps: "keeps_request stub_env"
  by (simp add: keeps_request_def stub_env_def)

lemmas stub_defs = stub_env_def stub_config_def stub_queue_def stub_start_def queued_job_def make_entry_def

lemma stub_walk:
  "wk_results (walk_queue stub_env stub_config [] stub_queue (stub_start None)) = [(''a'', ''busy''), (''b'', ''waiting''), (''c'', ''busy'')]
   \<and> wk_attempts (walk_queue stub_env stub_config [] stub_queue (stub_start None)) = [(stub_queue ! 0, []), (stub_queue ! 1, [''n1''])]"
  by (simp add: stub_defs capped_def visit_def being_dispatched_def held_def backing_off_def dispatch_inline_def add_result_def
      reserved_for_earlier_def REPORTED_DISPATCH_OUTCOMES_def note_dispatch_outcome_def forget_log_def forget_backoff_def
      remember_def or_text_def Let_def List.insert_def List.union_def)

theorem walk_respects_fifo_witness:
  "\<exists>nd. (pin_node (stub_queue ! 0) = Some nd \<or> dispatch_node (stub_queue ! 0) = Some nd) \<and> pin_node (stub_queue ! 1) \<noteq> Some nd
     \<and> nd \<in> set [''n1'']"
proof -
  have "distinct stub_queue" "pin_node (stub_queue ! 1) = None" "length stub_queue = 3"
    "gpus_requested (stub_queue ! 0) > 0" "gpus_requested (stub_queue ! 1) > 0" "job_id (stub_queue ! 0) = ''a''"
    by (simp_all add: stub_defs)
  then show ?thesis
    using walk_respects_fifo [OF refl _ _ stub_keeps, where queue = stub_queue and start = "stub_start None" and i = 0
        and j = 1 and cfg = stub_config and damage = "[]" and oc = "''busy''" and reserved = "[''n1'']"] stub_walk
    by (simp add: stub_start_def)
qed


theorem backoff_exponential_witness:
  "\<exists>d'. mem_backoff (failures ''a'' [(10, ''blocked'', None), (20, ''raised'', Some ''x''), (40, ''unreachable'', None)]
          \<lparr>mem_backoff = Some [], mem_blocked_log = None\<rparr>) = Some d'
     \<and> map_of d' ''a'' = Some (3, 60)"
  using backoff_exponential [of "\<lparr>mem_backoff = Some [], mem_blocked_log = None\<rparr>" "[]" "''a''"
      "[(10, ''blocked'', None), (20, ''raised'', Some ''x''), (40, ''unreachable'', None)]" "queued_job ''a'' 1 1" "stub_start None"]
  by auto

text \<open>
  The pool can hold two dispatches pinned to one node: an older job whose backoff has just ended is
  visited before the newer one that is still in flight there.
\<close>

theorem two_dispatches_on_one_node:
  "map (\<lambda>p. if_pin_node (snd p)) (pl_inflight (the (wk_pool (walk_queue stub_env stub_config [] stub_queue
      (stub_start (Some (pool_submit (pinned ''c'' ''n1'' 3) (new_pool 4))))))))
   = [Some ''n1'', Some ''n1'', None]"
  by (simp add: stub_defs capped_def visit_def being_dispatched_def held_def backing_off_def submit_to_pool_def pass_inflight_def
      add_result_def new_pool_def pool_submit_def inflight_def saturated_def or_node_def Let_def List.insert_def)

end
