(* ===== verification/Run_Spec.thy ===== *)
theory Run_Spec
  imports Submission_Intent Layout Custom_Env
begin

text \<open>
  Submission specs (\<open>src/dt/dispatch/__init__.py\<close>): the spec of one submission, its validation, and
  the specs derived from registry rows for reruns, exact forks, automatic retries, environment reuse
  and inherited caches.

  Fields whose type the dataclass fixes have that type here; \<open>rs_max_hours\<close> is any float, since the
  command line can pass an infinity or a NaN. \<open>ConfigError\<close> is the refusal the callers report;
  \<open>SplitError\<close> is the \<open>ValueError\<close> of \<open>shlex.split\<close> on a recorded command line.
\<close>

datatype spec_exn = ConfigError string | SplitError string

record RunSpec =
  rs_name :: string
  rs_gpus :: int
  rs_cmd :: "string list"
  rs_gpu_isolation :: string
  rs_project :: "string option"
  rs_node :: "string option"
  rs_exclude_nodes :: "string list option"
  rs_require_path :: "string option"
  rs_require_disk_gib :: "int option"
  rs_max_hours :: "pyfloat option"
  rs_min_vram_mib :: "int option"
  rs_max_vram_mib :: "int option"
  rs_max_job_memory_mib :: "int option"
  rs_setup :: "string option"
  rs_setup_inputs :: "string list option"
  rs_extras :: "string list option"
  rs_env_mode :: string
  rs_env_hash_override :: "string option"
  rs_env_source_job :: "string option"
  rs_custom_env :: "(string, string) dict"
  rs_dispatch_token :: "string option"
  rs_forked_from :: "string option"
  rs_after_success :: "string option"
  rs_after_complete :: "string option"
  rs_after_result :: "string option"
  rs_after_result_states :: "string list"
  rs_request_id :: "string option"
  rs_rerun_of :: "string option"
  rs_rerun_source_snapshot_sha256 :: "string option"
  rs_retry_limit :: int
  rs_retry_on :: "string option"
  rs_retry_count :: int
  rs_retry_of :: "string option"
  rs_artifact_manifest :: "string option"
  rs_artifact_targets :: "(string, string) dict option"
  rs_cache_source_job :: "string option"
  rs_cache_source_job_dir :: "string option"
  rs_cache_source_path :: "string option"
  rs_cache_env :: "string option"
  rs_cache_source_env_hash :: "string option"
  rs_cache_source_snapshot_sha256 :: "string option"
  rs_cache_mode :: "string option"
  rs_payload_sha256 :: "string option"

text \<open>\<open>RunSpec(name=..., gpus=..., cmd=...)\<close> with every other field at its default.\<close>

definition make_spec :: "string \<Rightarrow> int \<Rightarrow> string list \<Rightarrow> RunSpec" where
  "make_spec nm cards command = \<lparr>rs_name = nm, rs_gpus = cards, rs_cmd = command, rs_gpu_isolation = ''advisory'', rs_project = None,
     rs_node = None, rs_exclude_nodes = None, rs_require_path = None, rs_require_disk_gib = None, rs_max_hours = None,
     rs_min_vram_mib = None, rs_max_vram_mib = None, rs_max_job_memory_mib = None, rs_setup = None, rs_setup_inputs = None,
     rs_extras = None, rs_env_mode = ''sync'', rs_env_hash_override = None, rs_env_source_job = None, rs_custom_env = [],
     rs_dispatch_token = None, rs_forked_from = None, rs_after_success = None, rs_after_complete = None, rs_after_result = None,
     rs_after_result_states = [], rs_request_id = None, rs_rerun_of = None, rs_rerun_source_snapshot_sha256 = None,
     rs_retry_limit = 0, rs_retry_on = None, rs_retry_count = 0, rs_retry_of = None, rs_artifact_manifest = None,
     rs_artifact_targets = None, rs_cache_source_job = None, rs_cache_source_job_dir = None, rs_cache_source_path = None,
     rs_cache_env = None, rs_cache_source_env_hash = None, rs_cache_source_snapshot_sha256 = None, rs_cache_mode = None,
     rs_payload_sha256 = None\<rparr>"

section \<open>Command lines\<close>

text \<open>\<open>shlex.join\<close>.\<close>

definition shlex_join :: "string list \<Rightarrow> string" where
  "shlex_join command = join '' '' (map shlex_quote command)"

text \<open>
  \<open>shlex.split\<close> (POSIX rules, no comments): the state of the scanner is what is left to do for the
  current word; \<open>word\<close> is \<open>None\<close> between words, so that a quoted empty word counts.
\<close>

datatype shlex_state = Word | Quoted char | Escaped "char option"

definition shlex_space :: "char \<Rightarrow> bool" where
  "shlex_space c \<longleftrightarrow> c \<in> {CHR '' '', CHR 0x09, cr, nl}"

definition grow :: "string option \<Rightarrow> string \<Rightarrow> string option" where
  "grow word s = Some ((case word of None \<Rightarrow> [] | Some w \<Rightarrow> w) @ s)"

fun shlex_scan :: "shlex_state \<Rightarrow> string option \<Rightarrow> string \<Rightarrow> spec_exn + string list" where
  "shlex_scan Word word [] = Inr (case word of None \<Rightarrow> [] | Some w \<Rightarrow> [w])"
| "shlex_scan (Quoted q) word [] = Inl (SplitError ''No closing quotation'')"
| "shlex_scan (Escaped st) word [] = Inl (SplitError ''No escaped character'')"
| "shlex_scan Word word (c # s) =
     (if shlex_space c
      then bind_ok (shlex_scan Word None s) (\<lambda>ws. Inr (case word of None \<Rightarrow> ws | Some w \<Rightarrow> w # ws))
      else if c = CHR 0x5C then shlex_scan (Escaped None) word s
      else if c = CHR 0x27 \<or> c = CHR 0x22 then shlex_scan (Quoted c) (grow word []) s
      else shlex_scan Word (grow word [c]) s)"
| "shlex_scan (Quoted q) word (c # s) =
     (if c = q then shlex_scan Word word s
      else if c = CHR 0x5C \<and> q = CHR 0x22 then shlex_scan (Escaped (Some q)) word s
      else shlex_scan (Quoted q) (grow word [c]) s)"
| "shlex_scan (Escaped st) word (c # s) =
     (case st of
        None \<Rightarrow> shlex_scan Word (grow word [c]) s
      | Some q \<Rightarrow> shlex_scan (Quoted q) (grow word (if c \<noteq> CHR 0x5C \<and> c \<noteq> q then [CHR 0x5C, c] else [c])) s)"

definition shlex_split :: "string \<Rightarrow> spec_exn + string list" where
  "shlex_split line = shlex_scan Word None line"

section \<open>Workspace links\<close>

definition ARTIFACT_TARGET_MAX_PATH_CHARS :: nat where "ARTIFACT_TARGET_MAX_PATH_CHARS = 1024"

definition artifact_target_path_error :: "string \<Rightarrow> string \<Rightarrow> check" where
  "artifact_target_path_error side path =
     (let problem = (\<lambda>what. ''artifact target '' @ side @ what) in
      first_of [
        raise_when (path = [] \<or> strip path = []) (problem '' must be a non-empty relative path''),
        raise_when (ARTIFACT_TARGET_MAX_PATH_CHARS < length path)
          (problem ('' is longer than '' @ show_nat ARTIFACT_TARGET_MAX_PATH_CHARS @ '' characters'')),
        raise_when (path \<noteq> strip path) (problem '' must not start or end with whitespace''),
        raise_when (\<exists>c \<in> set path. code c < 32 \<or> code c = 127) (problem '' must not contain control characters''),
        raise_when (CHR 0x5C \<in> set path) (problem '' must use forward slashes''),
        raise_when (startswith path ''/'' \<or> startswith path ''~'') (problem '' must be a relative path''),
        raise_when (contains ''..'' path) (problem ('' must not contain '' @ py_repr ''..'')),
        raise_when (\<exists>part \<in> set (split_on CHR ''/'' path). part \<in> {[], ''.''})
          (problem ('' must be a normalized relative path without empty or '' @ py_repr ''.'' @ '' components'')),
        raise_when (hd (split_on CHR ''/'' path) = ''.dt'') (problem '' must not enter the private .dt tree'')])"

definition targets_overlap :: "string \<Rightarrow> string \<Rightarrow> bool" where
  "targets_overlap existing target \<longleftrightarrow>
     existing = target \<or> startswith target (existing @ ''/'') \<or> startswith existing (target @ ''/'')"

fun check_targets :: "(string, string) dict \<Rightarrow> (string \<times> string) list \<Rightarrow> spec_exn + (string, string) dict" where
  "check_targets validated [] = Inr validated"
| "check_targets validated ((target, src) # rest) =
     (case artifact_target_path_error ''path'' target of
        Some problem \<Rightarrow> Inl (ConfigError (problem @ '': '' @ py_repr target))
      | None \<Rightarrow>
          (case artifact_target_path_error ''source'' src of
             Some problem \<Rightarrow> Inl (ConfigError (problem @ '': '' @ py_repr src))
           | None \<Rightarrow>
               (case List.find (\<lambda>existing. targets_overlap existing target) (keys validated) of
                  Some existing \<Rightarrow> Inl (ConfigError (''artifact targets '' @ py_repr existing @ '' and '' @ py_repr target
                    @ '' overlap; each workspace link must be independent''))
                | None \<Rightarrow> check_targets (validated @ [(target, src)]) rest)))"

definition validate_artifact_targets :: "(string, string) dict \<Rightarrow> spec_exn + (string, string) dict" where
  "validate_artifact_targets targets = check_targets [] (sort_key fst targets)"

section \<open>Cache reuse\<close>

text \<open>\<open>[A-Za-z0-9_-]+\<close>, \<open>[A-Za-z0-9._/-]+\<close>, \<open>[A-Za-z_][A-Za-z0-9_]*\<close>; \<open>x or ""\<close>.\<close>

definition safe_identity :: "string \<Rightarrow> bool" where
  "safe_identity s \<longleftrightarrow> s \<noteq> [] \<and> (\<forall>c \<in> set s. is_ascii_alnum c \<or> c \<in> set ''_-'')"

definition safe_path_text :: "string \<Rightarrow> bool" where
  "safe_path_text s \<longleftrightarrow> s \<noteq> [] \<and> (\<forall>c \<in> set s. is_ascii_alnum c \<or> c \<in> set ''._/-'')"

definition env_identifier :: "string \<Rightarrow> bool" where
  "env_identifier s \<longleftrightarrow> s \<noteq> [] \<and> (is_ascii_alpha (hd s) \<or> hd s = CHR ''_'') \<and> (\<forall>c \<in> set s. is_ascii_alnum c \<or> c = CHR ''_'')"

definition text_or_empty :: "string option \<Rightarrow> string" where
  "text_or_empty x = (case x of None \<Rightarrow> [] | Some s \<Rightarrow> s)"

text \<open>\<open>PurePosixPath(s).as_posix()\<close>.\<close>

definition as_posix :: "string \<Rightarrow> string" where
  "as_posix s =
     (let parts = posix_parts s in
      if parts = [] then ''.''
      else if is_absolute s then hd parts @ join ''/'' (tl parts) else join ''/'' parts)"

definition cache_values :: "RunSpec \<Rightarrow> string option list" where
  "cache_values spec = [rs_cache_source_job spec, rs_cache_source_job_dir spec, rs_cache_source_path spec, rs_cache_env spec,
     rs_cache_source_env_hash spec, rs_cache_source_snapshot_sha256 spec]"

definition RESERVED_CACHE_ENVS :: "string list" where
  "RESERVED_CACHE_ENVS = [''HOME'', ''PATH'', ''PYTHONPATH'', ''VIRTUAL_ENV'', ''UV_PROJECT_ENVIRONMENT'', ''CUDA_VISIBLE_DEVICES'']"

definition cache_source_dir :: "string \<Rightarrow> spec_exn + string" where
  "cache_source_dir source =
     (let unsafe = Inl (ConfigError ''cache source job directory is unsafe'') in
      if startswith source ''~/'' \<or> startswith source ''/''
      then (case normalize_node_root source of Inl _ \<Rightarrow> unsafe | Inr dir \<Rightarrow> Inr dir)
      else if is_absolute source \<or> ''..'' \<in> set (posix_parts source) \<or> posix_parts source = [] \<or> \<not> safe_path_text (as_posix source)
      then unsafe else Inr (as_posix source))"

definition cache_checks :: "RunSpec \<Rightarrow> check" where
  "cache_checks spec =
     (let relative = text_or_empty (rs_cache_source_path spec); parts = posix_parts relative; env = text_or_empty (rs_cache_env spec) in
      first_of [
        raise_when (is_absolute relative \<or> length parts < 2 \<or> hd parts \<noteq> ''outputs'' \<or> ''..'' \<in> set parts \<or> \<not> safe_path_text (as_posix relative))
          (''reuse-cache must be a directory below the source job'' @ [CHR 0x27] @ ''s outputs/''),
        raise_when (\<not> env_identifier env) ''cache-env must be a valid environment variable name'',
        raise_when (env \<in> set RESERVED_CACHE_ENVS \<or> startswith env ''DT_'' \<and> env \<noteq> ''DT_REUSED_CACHE_DIR'')
          (''cache-env '' @ py_repr env @ '' is reserved''),
        raise_when (\<not> is_hex 12 (text_or_empty (rs_cache_source_env_hash spec))) ''cache source environment identity is invalid'',
        raise_when (\<not> is_hex 64 (text_or_empty (rs_cache_source_snapshot_sha256 spec))) ''cache source snapshot identity is invalid'',
        raise_when (rs_cache_mode spec \<notin> {None, Some ''shared'', Some ''clone''}) ''cache mode must be shared or clone''])"

definition refuse :: "check \<Rightarrow> spec_exn + unit" where
  "refuse c = (case c of None \<Rightarrow> Inr () | Some m \<Rightarrow> Inl (ConfigError m))"

definition validate_cache_reuse_contract :: "RunSpec \<Rightarrow> spec_exn + RunSpec" where
  "validate_cache_reuse_contract spec =
     bind_ok (refuse (first_of [
         raise_when (\<exists>v \<in> set (cache_values spec). v = None \<or> v = Some []) ''cache reuse contract is incomplete'',
         raise_when (\<not> safe_identity (text_or_empty (rs_forked_from spec))) ''cache reuse requires safe fork provenance'',
         raise_when (\<not> safe_identity (text_or_empty (rs_cache_source_job spec))) ''cache source job identity is unsafe''])) (\<lambda>_.
     bind_ok (cache_source_dir (text_or_empty (rs_cache_source_job_dir spec))) (\<lambda>dir.
     bind_ok (refuse (cache_checks spec)) (\<lambda>_. Inr
       (spec\<lparr>rs_cache_mode := Some (case rs_cache_mode spec of None \<Rightarrow> ''shared'' | Some m \<Rightarrow> m),
             rs_cache_source_job_dir := Some dir,
             rs_cache_source_path := Some (as_posix (text_or_empty (rs_cache_source_path spec)))\<rparr>))))"

section \<open>Validation\<close>

definition bad_positive_option :: "int option \<Rightarrow> bool" where
  "bad_positive_option v = (case v of None \<Rightarrow> False | Some n \<Rightarrow> n \<le> 0)"

definition bad_text :: "(string \<Rightarrow> bool) \<Rightarrow> string option \<Rightarrow> bool" where
  "bad_text ok v = (case v of None \<Rightarrow> False | Some s \<Rightarrow> \<not> ok s)"

definition placement_checks :: "RunSpec \<Rightarrow> check" where
  "placement_checks spec = first_of [
     raise_when (rs_gpus spec < 0) ''gpus must be non-negative'',
     (case rs_exclude_nodes spec of
        None \<Rightarrow> None
      | Some excluded \<Rightarrow> first_of [
          raise_when (\<exists>nm \<in> set excluded. \<not> is_config_id (JStr nm)) ''excluded node names must be configuration identifiers'',
          (case rs_node spec of
             None \<Rightarrow> None
           | Some nd \<Rightarrow> raise_when (nd \<in> set excluded) (''--node '' @ nd @ '' and --exclude-node '' @ nd @ '' contradict each other''))]),
     raise_when (bad_text (is_hex 32) (rs_dispatch_token spec)) ''dispatch token is unsafe'',
     raise_when (rs_gpu_isolation spec \<noteq> ''advisory'')
       ''gpu_isolation must be advisory; this DT build has no physical GPU device-isolation backend'']"

definition bad_hours :: "pyfloat option \<Rightarrow> bool" where
  "bad_hours h = (case h of None \<Rightarrow> False | Some (Fin q) \<Rightarrow> q \<le> 0 | Some _ \<Rightarrow> True)"

definition limit_checks :: "RunSpec \<Rightarrow> check" where
  "limit_checks spec = first_of [
     raise_when (bad_positive_option (rs_require_disk_gib spec)) ''require_disk_gib must be a positive integer'',
     raise_when (bad_hours (rs_max_hours spec)) ''max_hours must be a finite positive number'',
     raise_when (bad_positive_option (rs_min_vram_mib spec)) ''min_vram_mib must be a positive integer'',
     raise_when (rs_min_vram_mib spec \<noteq> None \<and> rs_gpus spec = 0) ''min_vram_mib requires at least one GPU'',
     raise_when (bad_positive_option (rs_max_vram_mib spec)) ''max_vram_mib must be a positive integer'',
     raise_when (rs_max_vram_mib spec \<noteq> None \<and> rs_gpus spec = 0) ''max_vram_mib requires at least one GPU'',
     raise_when (bad_positive_option (rs_max_job_memory_mib spec)) ''max_job_memory_mib must be a positive integer'',
     raise_when (bad_text (is_hex 64) (rs_payload_sha256 spec)) ''payload_sha256 must be 64 lowercase hex characters'',
     raise_when (bad_text (is_hex 64) (rs_artifact_manifest spec)) ''artifact_manifest must be a lowercase SHA-256 digest'']"

definition retry_range :: "string \<Rightarrow> int \<Rightarrow> check" where
  "retry_range label ordinal =
     raise_when (\<not> (0 \<le> ordinal \<and> ordinal \<le> MAX_RETRY_LIMIT)) (label @ '' must be an integer between 0 and '' @ show_int MAX_RETRY_LIMIT)"

definition lineage_checks :: "RunSpec \<Rightarrow> check" where
  "lineage_checks spec = first_of [
     raise_when (bad_text safe_identity (rs_rerun_of spec)) ''rerun_of must be a safe job identity'',
     retry_range ''retry'' (rs_retry_limit spec),
     retry_range ''retry ordinal'' (rs_retry_count spec),
     raise_when (bad_text (\<lambda>m. m \<in> set RETRY_ON_MODES) (rs_retry_on spec)) ''retry_on must be one of: infra, always'',
     raise_when (rs_retry_on spec \<noteq> None \<and> rs_retry_limit spec = 0) ''retry_on requires a positive --retry budget'',
     raise_when (bad_text safe_identity (rs_retry_of spec)) ''retry_of must be a safe job identity'',
     raise_when (bad_text safe_identity (rs_after_success spec)) ''after_success must be a safe job identity'',
     raise_when (bad_text safe_identity (rs_after_complete spec)) ''after_complete must be a safe job identity'',
     raise_when (bad_text safe_identity (rs_after_result spec)) ''after_result must be a safe job identity'',
     raise_when (1 < length (filter (\<lambda>v. v \<noteq> None) [rs_after_success spec, rs_after_complete spec, rs_after_result spec]))
       ''dependency policies are mutually exclusive'',
     (if rs_after_result spec \<noteq> None
      then first_of [
        raise_when (rs_after_result_states spec = []) ''after_result requires at least one result state'',
        raise_when (\<exists>st \<in> set (rs_after_result_states spec). st \<notin> set RESULT_STATES)
          (''unknown dependency result state(s): ''
             @ join '', '' (sort (remdups (filter (\<lambda>st. st \<notin> set RESULT_STATES) (rs_after_result_states spec)))))]
      else raise_when (rs_after_result_states spec \<noteq> []) ''result states require after_result'')]"

definition environment_checks :: "RunSpec \<Rightarrow> check" where
  "environment_checks spec = first_of [
     raise_when (rs_env_mode spec \<notin> {''sync'', ''reuse''}) ''environment mode must be sync or reuse'',
     (if rs_env_mode spec = ''reuse''
      then first_of [
        raise_when (\<not> is_hex 12 (text_or_empty (rs_env_hash_override spec))) ''environment reuse requires a valid 12-hex identity'',
        raise_when (\<not> safe_identity (text_or_empty (rs_env_source_job spec))) ''environment reuse requires a safe source job identity'',
        raise_when (rs_node spec = None) ''environment reuse requires an explicit source node'']
      else raise_when (rs_env_hash_override spec \<noteq> None \<or> rs_env_source_job spec \<noteq> None) ''environment override requires reuse mode''),
     (case rs_rerun_source_snapshot_sha256 spec of
        None \<Rightarrow> None
      | Some sha \<Rightarrow> first_of [
          raise_when (rs_rerun_of spec = None) ''rerun source snapshot requires rerun_of lineage'',
          raise_when (\<not> is_hex 64 sha) ''rerun_source_snapshot_sha256 must be 64 lowercase hex characters''])]"

definition sorted_states :: "RunSpec \<Rightarrow> string list" where
  "sorted_states spec = (if rs_after_result spec \<noteq> None then sort (remdups (rs_after_result_states spec)) else rs_after_result_states spec)"

definition spec_targets :: "RunSpec \<Rightarrow> spec_exn + (string, string) dict option" where
  "spec_targets spec =
     (case rs_artifact_targets spec of
        None \<Rightarrow> Inr None
      | Some targets \<Rightarrow>
          if targets = [] then Inr (Some [])
          else if rs_artifact_manifest spec = None
          then Inl (ConfigError ''artifact targets require an artifact manifest: the links must point at verified content'')
          else bind_ok (validate_artifact_targets targets) (\<lambda>t. Inr (Some t)))"

definition spec_request :: "RunSpec \<Rightarrow> check" where
  "spec_request spec =
     (case rs_request_id spec of
        None \<Rightarrow> None
      | Some rid \<Rightarrow> (case (validate_request_id rid :: unit exn + string) of Inl (InvalidRequestId m) \<Rightarrow> Some m | _ \<Rightarrow> None))"

definition validate_run_spec :: "RunSpec \<Rightarrow> spec_exn + RunSpec" where
  "validate_run_spec spec =
     bind_ok (refuse (raise_when (rs_cmd spec = [] \<or> (\<forall>part \<in> set (rs_cmd spec). strip part = [])) ''command must not be empty'')) (\<lambda>_.
     bind_ok (map_error ConfigError (validate_env (json_of_env (rs_custom_env spec)))) (\<lambda>env.
     bind_ok (refuse (first_of [placement_checks spec, limit_checks spec])) (\<lambda>_.
     bind_ok (spec_targets spec) (\<lambda>targets.
     bind_ok (refuse (first_of [lineage_checks spec, spec_request spec, environment_checks spec])) (\<lambda>_.
     let spec1 = spec\<lparr>rs_custom_env := env, rs_artifact_targets := targets, rs_after_result_states := sorted_states spec\<rparr> in
     if \<exists>v \<in> set (cache_values spec1). v \<noteq> None then validate_cache_reuse_contract spec1
     else if rs_cache_mode spec1 \<noteq> None then Inl (ConfigError ''cache mode requires a complete cache source contract'')
     else Inr spec1)))))"

definition rerun_snapshot_changed_of :: "RunSpec \<Rightarrow> string option \<Rightarrow> bool option" where
  "rerun_snapshot_changed_of spec sha =
     (case (rs_rerun_source_snapshot_sha256 spec, sha) of (Some a, Some b) \<Rightarrow> Some (a \<noteq> b) | _ \<Rightarrow> None)"

section \<open>Specs derived from rows\<close>

definition truthy_list :: "'a list option \<Rightarrow> 'a list option" where
  "truthy_list x = (case x of None \<Rightarrow> None | Some xs \<Rightarrow> if xs = [] then None else Some xs)"

definition resource_spec :: "JobEntry \<Rightarrow> string \<Rightarrow> string list \<Rightarrow> RunSpec" where
  "resource_spec e nm command = (make_spec nm (gpus_requested e) command)
     \<lparr>rs_project := Some (project e), rs_require_path := require_path e,
      rs_require_disk_gib := (if require_disk_gib e = Some 0 then None else require_disk_gib e),
      rs_max_hours := map_option Fin (max_hours e), rs_min_vram_mib := min_vram_mib e, rs_max_vram_mib := max_vram_mib e,
      rs_max_job_memory_mib := max_job_memory_mib e, rs_setup := setup_cmd e, rs_setup_inputs := setup_inputs e,
      rs_exclude_nodes := exclude_nodes e, rs_extras := truthy_list (Some (extras e)), rs_custom_env := custom_env e,
      rs_artifact_targets := truthy_list (artifact_targets e)\<rparr>"

definition name_or :: "string option \<Rightarrow> string \<Rightarrow> string" where
  "name_or nm dflt = (case nm of None \<Rightarrow> dflt | Some s \<Rightarrow> if s = [] then dflt else s)"

definition spec_from_entry :: "JobEntry \<Rightarrow> string option \<Rightarrow> spec_exn + RunSpec" where
  "spec_from_entry e nm =
     bind_ok (shlex_split (cmd e)) (\<lambda>command. Inr ((resource_spec e (name_or nm (name e)) command)
       \<lparr>rs_node := pin_node e, rs_after_success := after_success e, rs_after_complete := after_complete e,
        rs_after_result := after_result e, rs_after_result_states := after_result_states e, rs_rerun_of := Some (job_id e),
        rs_rerun_source_snapshot_sha256 := snapshot_sha256 e, rs_artifact_manifest := artifact_manifest e\<rparr>))"

definition normalize_cache_reuse_path :: "string \<Rightarrow> string" where
  "normalize_cache_reuse_path path =
     (if \<not> is_absolute path \<and> posix_parts path \<noteq> [] \<and> hd (posix_parts path) \<noteq> ''outputs''
      then as_posix (''outputs/'' @ path) else as_posix path)"

definition COLD_FORK_PREFIX :: string where
  "COLD_FORK_PREFIX = ''cache_dir='' @ [CHR 0x22] @ ''$DT_JOB_DIR/outputs/.cache/dt-cold'' @ [CHR 0x22] @ ''; mkdir -p '' @ [CHR 0x22]
     @ ''$cache_dir'' @ [CHR 0x22] @ ''; export ''"

definition COLD_FORK_SUFFIX :: string where
  "COLD_FORK_SUFFIX = ''='' @ [CHR 0x22] @ ''$cache_dir'' @ [CHR 0x22] @ ''; exec '' @ [CHR 0x22] @ ''$@'' @ [CHR 0x22]"

definition unwrap_dt_cold_fork :: "string list \<Rightarrow> string list" where
  "unwrap_dt_cold_fork command =
     (if length command < 5 \<or> take 2 command \<noteq> [''bash'', ''-c''] \<or> command ! 3 \<noteq> ''dt-cold-fork'' then command
      else
        let script = command ! 2; body = drop (length COLD_FORK_PREFIX) script;
            env = take (length body - length COLD_FORK_SUFFIX) body in
        if \<not> startswith script COLD_FORK_PREFIX \<or> \<not> endswith script COLD_FORK_SUFFIX then command
        else if \<not> env_identifier env then command
        else drop 4 command)"

definition fork_spec_from_entry :: "JobEntry \<Rightarrow> string option \<Rightarrow> string list option \<Rightarrow> string option \<Rightarrow> string option \<Rightarrow> string
    \<Rightarrow> string option \<Rightarrow> spec_exn + RunSpec" where
  "fork_spec_from_entry e nm command reuse_cache clone_cache env manifest =
     (let reuse = text_or_empty reuse_cache; clone = text_or_empty clone_cache in
      if reuse \<noteq> [] \<and> clone \<noteq> [] then Inl (ConfigError ''use either reuse_cache or clone_cache, not both'')
      else
        let requested = (if clone \<noteq> [] then clone else reuse); cached = requested \<noteq> [];
            when_cached = (\<lambda>v. if cached then v else None) in
        bind_ok (case truthy_list command of Some c \<Rightarrow> Inr c | None \<Rightarrow> shlex_split (cmd e)) (\<lambda>parsed.
        let fork_command = (if cached \<and> command = None then unwrap_dt_cold_fork parsed else parsed) in
        Inr ((resource_spec e (name_or nm (name e @ ''-fork'')) fork_command)
          \<lparr>rs_node := (if node e \<noteq> ''-'' then Some (node e) else pin_node e),
           rs_artifact_manifest := (case manifest of None \<Rightarrow> artifact_manifest e | Some s \<Rightarrow> if s = [] then artifact_manifest e else Some s),
           rs_forked_from := Some (job_id e), rs_cache_source_job := when_cached (Some (job_id e)),
           rs_cache_source_job_dir := when_cached (Some (job_dir e)),
           rs_cache_source_path := when_cached (Some (normalize_cache_reuse_path requested)),
           rs_cache_env := when_cached (Some env), rs_cache_source_env_hash := when_cached (env_hash e),
           rs_cache_source_snapshot_sha256 := when_cached (snapshot_sha256 e),
           rs_cache_mode := (if clone \<noteq> [] then Some ''clone'' else if reuse \<noteq> [] then Some ''shared'' else None)\<rparr>)))"

definition plain_fork :: "JobEntry \<Rightarrow> string option \<Rightarrow> string list option \<Rightarrow> string option \<Rightarrow> spec_exn + RunSpec" where
  "plain_fork e nm command manifest = fork_spec_from_entry e nm command None None ''DT_REUSED_CACHE_DIR'' manifest"

definition retry_spec_from_entry :: "JobEntry \<Rightarrow> spec_exn + RunSpec" where
  "retry_spec_from_entry e =
     (let ordinal = retry_count e + 1 in
      bind_ok (plain_fork e (Some (name e)) None None) (\<lambda>spec. Inr
        (spec\<lparr>rs_node := pin_node e, rs_request_id := Some (job_id e @ '':retry:'' @ show_int ordinal), rs_retry_limit := retry_limit e,
              rs_retry_on := retry_on e, rs_retry_count := ordinal, rs_retry_of := Some (job_id e)\<rparr>)))"

definition environment_reuse_spec_from_entry :: "JobEntry \<Rightarrow> string list \<Rightarrow> string option \<Rightarrow> int \<Rightarrow> string option \<Rightarrow> spec_exn + RunSpec" where
  "environment_reuse_spec_from_entry e command nm cards rid =
     bind_ok (refuse (first_of [
         raise_when (node e = ''-'' \<or> status e = ''queued'') ''environment source job has not started on a node'',
         raise_when (\<not> is_hex 12 (text_or_empty (env_hash e))) ''environment source job has no reproducible environment'',
         raise_when (text_or_empty (snapshot_sha256 e) = []) ''environment source job has no exact snapshot identity''])) (\<lambda>_.
     bind_ok (plain_fork e (Some (name_or nm (name e @ ''-exec''))) (Some command) None) (\<lambda>spec. Inr
       (spec\<lparr>rs_gpus := cards, rs_min_vram_mib := (if cards = 0 then None else rs_min_vram_mib spec),
             rs_max_vram_mib := (if cards = 0 then None else rs_max_vram_mib spec), rs_env_mode := ''reuse'',
             rs_env_hash_override := env_hash e, rs_env_source_job := Some (job_id e), rs_request_id := rid\<rparr>)))"

definition inherited_cache_checks :: "JobEntry \<Rightarrow> JobEntry \<Rightarrow> check" where
  "inherited_cache_checks e src = first_of [
     raise_when (cache_source_job e \<noteq> Some (job_id src)) ''recorded cache source does not match the resolved source job'',
     raise_when (text_or_empty (cache_source_path e) = [] \<or> text_or_empty (cache_env e) = []) ''source job has incomplete cache provenance'',
     raise_when (cache_source_job_dir e \<noteq> Some (job_dir src)) ''recorded cache source directory does not match source job'',
     raise_when (cache_source_env_hash e \<noteq> env_hash src) ''recorded cache source environment does not match source job'',
     raise_when (text_or_empty (snapshot_sha256 e) = [] \<or> snapshot_sha256 e \<noteq> snapshot_sha256 src)
       ''cache source snapshot does not match the requested fork'',
     raise_when (text_or_empty (env_hash e) = [] \<or> env_hash e \<noteq> env_hash src) ''cache source environment does not match the requested fork'',
     raise_when (node e = ''-'' \<or> node e \<noteq> node src) ''cache source node does not match the requested fork'',
     raise_when (project e \<noteq> project src) ''cache source project does not match the requested fork'']"

definition inherited_cache_fork_spec_from_entry :: "JobEntry \<Rightarrow> JobEntry \<Rightarrow> string option \<Rightarrow> string list option \<Rightarrow> string option
    \<Rightarrow> spec_exn + RunSpec" where
  "inherited_cache_fork_spec_from_entry e src nm command manifest =
     bind_ok (refuse (inherited_cache_checks e src)) (\<lambda>_.
     bind_ok (plain_fork e nm command manifest) (\<lambda>spec. Inr
       (spec\<lparr>rs_node := Some (node src), rs_forked_from := Some (job_id e), rs_cache_source_job := Some (job_id src),
             rs_cache_source_job_dir := Some (job_dir src), rs_cache_source_path := cache_source_path e, rs_cache_env := cache_env e,
             rs_cache_source_env_hash := env_hash src, rs_cache_source_snapshot_sha256 := snapshot_sha256 src,
             rs_cache_mode := Some (name_or (cache_mode e) ''shared'')\<rparr>)))"

end
