(* ===== verification/Spec_Facts.thy ===== *)
theory Spec_Facts
  imports Run_Spec Group_Facts
begin

text \<open>
  Facts about submission specs: a recorded command line is replayed word by word, accepted workspace
  links stay inside the workspace and are independent, and automatic retries end.
\<close>

section \<open>Command lines\<close>

lemma grow_Some [simp]: "grow (Some w) s = Some (w @ s)" "grow None s = Some s"
  by (simp_all add: grow_def)

lemma safe_char_plain:
  "shell_safe_char c \<Longrightarrow> \<not> shlex_space c \<and> c \<noteq> CHR 0x5C \<and> c \<noteq> CHR 0x27 \<and> c \<noteq> CHR 0x22"
  by (auto simp: shell_safe_char_def shlex_space_def is_ascii_alnum_def is_ascii_alpha_def is_ascii_upper_def is_ascii_lower_def
      is_ascii_digit_def code_def)

lemma shlex_scan_safe:
  "\<forall>c \<in> set s. shell_safe_char c \<Longrightarrow> shlex_scan Word (Some w) (s @ t) = shlex_scan Word (Some (w @ s)) t"
  by (induction s arbitrary: w) (simp_all add: safe_char_plain)

lemma shlex_scan_quoted:
  "shlex_scan (Quoted CHR 0x27) (Some w) (concat (map quote_char s) @ CHR 0x27 # t) = shlex_scan Word (Some (w @ s)) t"
  by (induction s arbitrary: w) (simp_all add: quote_char_def shlex_space_def)

lemma shlex_scan_quote: "shlex_scan Word None (shlex_quote s @ t) = shlex_scan Word (Some s) t"
proof (cases "s = [] \<or> \<not> (\<forall>c \<in> set s. shell_safe_char c)")
  case True
  then show ?thesis using shlex_scan_quoted [of "[]" s t] by (auto simp: shlex_quote_def shlex_space_def)
next
  case False
  then obtain c r where s: "s = c # r" by (cases s) auto
  with False show ?thesis using shlex_scan_safe [of r "[c]" t] safe_char_plain [of c] by (simp add: shlex_quote_def)
qed

lemma shlex_split_join: "shlex_split (shlex_join command) = Inr command"
proof (induction command)
  case Nil
  then show ?case by (simp add: shlex_split_def shlex_join_def)
next
  case (Cons s command)
  show ?case
  proof (cases "command = []")
    case True
    then show ?thesis using shlex_scan_quote [of s "[]"] by (simp add: shlex_split_def shlex_join_def)
  next
    case False
    then have "shlex_join (s # command) = shlex_quote s @ CHR '' '' # shlex_join command" by (simp add: shlex_join_def join_Cons)
    with Cons show ?thesis by (simp add: shlex_split_def shlex_scan_quote shlex_space_def)
  qed
qed


section \<open>Workspace links\<close>

lemma prefix_components:
  "prefix (split_on c a) (split_on c b) \<longleftrightarrow> a = b \<or> startswith b (a @ [c])"
proof
  assume "prefix (split_on c a) (split_on c b)"
  then obtain ws where ws: "split_on c b = split_on c a @ ws" by (auto simp: prefix_def)
  show "a = b \<or> startswith b (a @ [c])"
  proof (cases "ws = []")
    case True
    then show ?thesis using ws join_split_on [of c a] join_split_on [of c b] by simp
  next
    case False
    have "join [c] (xs @ ws) = join [c] xs @ c # join [c] ws" if "xs \<noteq> []" for xs
      using that False by (induction xs rule: list_nonempty_induct) (simp_all add: join_Cons)
    then have "b = a @ c # join [c] ws" using ws join_split_on [of c a] join_split_on [of c b] by simp
    then show ?thesis by (simp add: startswith_prefix)
  qed
next
  assume "a = b \<or> startswith b (a @ [c])"
  then show "prefix (split_on c a) (split_on c b)"
    by (auto simp: startswith_prefix prefix_def split_on_append)
qed

lemma targets_overlap_components:
  "targets_overlap a b \<longleftrightarrow> prefix (split_on CHR ''/'' a) (split_on CHR ''/'' b) \<or> prefix (split_on CHR ''/'' b) (split_on CHR ''/'' a)"
  by (auto simp: targets_overlap_def prefix_components)

text \<open>A path of plain components below the directory it is joined to, outside the private tree.\<close>

definition contained_path :: "string \<Rightarrow> bool" where
  "contained_path path \<longleftrightarrow>
     (let parts = split_on CHR ''/'' path in (\<forall>p \<in> set parts. p \<noteq> [] \<and> p \<noteq> ''.'' \<and> p \<noteq> ''..'') \<and> hd parts \<noteq> ''.dt'')"

lemma contains_sublist: "contains p s \<longleftrightarrow> sublist p s"
  by (induction s) (simp_all add: startswith_prefix sublist_Cons_right)

lemma sublist_join: "p \<in> set ws \<Longrightarrow> sublist p (join sep ws)"
proof (induction ws)
  case (Cons w ws)
  show ?case
  proof (cases "ws = []")
    case True
    with Cons show ?thesis by simp
  next
    case False
    with Cons show ?thesis unfolding join_Cons [OF False]
      by (auto intro: sublist_order.order.trans [of p "join sep ws"] simp flip: append_assoc)
  qed
qed simp

lemma component_infix: "p \<in> set (split_on c s) \<Longrightarrow> contains p s"
  using sublist_join [of p "split_on c s" "[c]"] by (simp add: contains_sublist join_split_on)

lemma target_path_contained: "artifact_target_path_error side path = None \<Longrightarrow> contained_path path"
  using component_infix [of "''..''" "CHR ''/''" path]
  by (auto simp: artifact_target_path_error_def contained_path_def Let_def)

lemma check_targets_sound:
  "check_targets validated targets = Inr result \<Longrightarrow>
   result = validated @ targets \<and> (\<forall>(t, s) \<in> set targets. contained_path t \<and> contained_path s)
   \<and> sorted_wrt (\<lambda>a b. \<not> targets_overlap (fst a) (fst b)) targets
   \<and> (\<forall>v \<in> set validated. \<forall>t \<in> set targets. \<not> targets_overlap (fst v) (fst t))"
proof (induction validated targets rule: check_targets.induct)
  case (2 validated target src rest)
  then show ?case
    by (auto dest: target_path_contained simp: find_None_iff split: option.splits)
qed simp

text \<open>
  Accepted workspace links are safe and independent: the validated links are the declared ones in
  target order, every target and source is a relative path of plain components outside the private
  \<open>.dt\<close> tree (so that joining it to a root never leaves the root), and no link lies at or below another.
\<close>

theorem artifact_targets_independent:
  assumes "validate_artifact_targets targets = Inr validated"
  shows "validated = sort_key fst targets \<and> (\<forall>(t, s) \<in> set targets. contained_path t \<and> contained_path s)
    \<and> (\<forall>i j. i < j \<and> j < length validated \<longrightarrow>
         \<not> prefix (split_on CHR ''/'' (fst (validated ! i))) (split_on CHR ''/'' (fst (validated ! j)))
         \<and> \<not> prefix (split_on CHR ''/'' (fst (validated ! j))) (split_on CHR ''/'' (fst (validated ! i))))"
  using check_targets_sound [of "[]" "sort_key fst targets" validated] assms
  by (auto simp: validate_artifact_targets_def targets_overlap_components sorted_wrt_iff_nth_less)

section \<open>Automatic retries\<close>

text \<open>
  \<open>e'\<close> is a row of the resubmission of \<open>e\<close>: the agent only retries a retryable row, and submission
  copies the retry budget, mode, ordinal and lineage of the spec into the new row.
\<close>

definition retried_as :: "JobEntry \<Rightarrow> JobEntry \<Rightarrow> bool" where
  "retried_as e e' \<longleftrightarrow> retry_blocked_reason e = None
     \<and> (\<exists>spec. retry_spec_from_entry e = Inr spec \<and> retry_limit e' = rs_retry_limit spec \<and> retry_count e' = rs_retry_count spec
          \<and> retry_on e' = rs_retry_on spec \<and> retry_of e' = rs_retry_of spec)"

lemma retry_spec_ordinal:
  "retry_spec_from_entry e = Inr spec \<Longrightarrow>
   rs_retry_limit spec = retry_limit e \<and> rs_retry_count spec = retry_count e + 1 \<and> rs_retry_of spec = Some (job_id e)
   \<and> rs_request_id spec = Some (job_id e @ '':retry:'' @ show_int (retry_count e + 1)) \<and> rs_node spec = pin_node e"
  by (auto simp: retry_spec_from_entry_def Let_def bind_ok_Inr)

lemma retried_as_budget: "retried_as e e' \<Longrightarrow> retry_limit e' = retry_limit e \<and> retry_count e' = retry_count e + 1 \<and> retry_count e < retry_limit e"
  by (auto simp: retried_as_def retryable_iff dest: retry_spec_ordinal)

lemma retry_chain_length:
  "es \<noteq> [] \<Longrightarrow> successively retried_as es \<Longrightarrow> 0 \<le> retry_count (hd es) \<Longrightarrow>
   int (length es) \<le> max 0 (retry_limit (hd es) - retry_count (hd es)) + 1"
proof (induction es rule: induct_list012)
  case (3 x y zs)
  then have "retried_as x y" "int (length (y # zs)) \<le> max 0 (retry_limit y - retry_count y) + 1"
    using retried_as_budget [of x y] by auto
  with retried_as_budget [of x y] show ?case by simp
qed simp_all

text \<open>
  C40. Automatic retries terminate. No job is retried forever: the relation between an attempt and its
  resubmission is well founded, and a chain of attempts that starts with a first attempt has at most
  \<open>retry_limit\<close> resubmissions, whatever the attempts fail of.
\<close>

theorem retries_terminate:
  "wfp (\<lambda>e' e. retried_as e e')
   \<and> (\<forall>es. es \<noteq> [] \<and> successively retried_as es \<and> retry_count (hd es) = 0 \<longrightarrow> int (length es) - 1 \<le> max 0 (retry_limit (hd es)))"
proof
  have "wf {(e', e). retried_as e e'}"
    by (rule wf_subset [OF wf_measure [of "\<lambda>e. nat (retry_limit e - retry_count e)"]])
      (auto dest!: retried_as_budget)
  then show "wfp (\<lambda>e' e. retried_as e e')" by (simp add: wfp_def)
next
  show "\<forall>es. es \<noteq> [] \<and> successively retried_as es \<and> retry_count (hd es) = 0 \<longrightarrow> int (length es) - 1 \<le> max 0 (retry_limit (hd es))"
  proof (intro allI impI, elim conjE)
    fix es assume "es \<noteq> []" "successively retried_as es" "retry_count (hd es) = 0"
    with retry_chain_length [of es] show "int (length es) - 1 \<le> max 0 (retry_limit (hd es))" by simp
  qed
qed

text \<open>The request a retry is submitted under.\<close>

lemma job_id_no_colon: "valid_job_id j \<Longrightarrow> CHR '':'' \<notin> set j"
  by (auto simp: valid_job_id_def name_char_def is_ascii_alnum_def is_ascii_alpha_def is_ascii_upper_def is_ascii_lower_def
      is_ascii_digit_def code_def)

lemma retry_id_injective:
  assumes "valid_job_id j" "valid_job_id j'" "0 \<le> n" "0 \<le> n'" "j @ '':retry:'' @ show_int n = j' @ '':retry:'' @ show_int n'"
  shows "j = j' \<and> n = n'"
proof -
  have first: "split_on CHR '':'' (x @ '':retry:'' @ r) = x # split_on CHR '':'' (''retry:'' @ r)" if "valid_job_id x" for x r
    using split_on_append [of "CHR '':''" x "''retry:'' @ r"] split_on_id [OF job_id_no_colon [OF that]] by simp
  have "j = j'" using first [OF assms(1)] first [OF assms(2)] assms(5) by (metis list.inject)
  with assms(5) have "show_int n = show_int n'" by simp
  then have "show_nat (nat n) = show_nat (nat n')" using assms(3,4) by (simp add: show_int_def)
  then show ?thesis using \<open>j = j'\<close> assms(3,4) py_int_show_nat by (metis int_nat_eq option.inject)
qed

lemma name_char_request: "name_char c \<Longrightarrow> request_id_char c"
  by (auto simp: name_char_def request_id_char_def)

lemma minted_id_bounds:
  assumes "length stamp = 13" "length token = 16" "\<forall>c \<in> set stamp \<union> set token. name_char c" "\<forall>c \<in> set (sha nm). is_hex_lower c"
  shows "length (new_job_id sha stamp token nm) \<le> 95" "\<forall>c \<in> set (new_job_id sha stamp token nm). name_char c"
  using assms sanitize_name_ok [of sha nm, OF assms(4)] by (auto simp: new_job_id_def MAX_SAFE_NAME_LENGTH_def)

text \<open>
  Every automatic retry has a request identity of its own that the receipts accept. For rows whose
  identity is a minted one (time stamp, sanitized name, random suffix) and whose budget is not spent,
  the derived request id is a valid one, and two retries share it only if they are the same attempt of
  the same job; so a restarted agent replays its own resubmission and never another.
\<close>

theorem retry_requests_identify:
  assumes "job_id e = new_job_id sha stamp token nm" "length stamp = 13" "length token = 16" "is_ascii_digit (hd stamp)"
    and "\<forall>c \<in> set stamp \<union> set token. name_char c" "\<forall>c \<in> set (sha nm). is_hex_lower c"
    and "0 \<le> retry_count e" "retry_count e < MAX_RETRY_LIMIT" "retry_spec_from_entry e = Inr spec"
    and "valid_job_id (job_id e')" "0 \<le> retry_count e'" "retry_spec_from_entry e' = Inr spec'"
  shows "(\<exists>rid. rs_request_id spec = Some rid \<and> request_id_ok rid)
    \<and> (rs_request_id spec = rs_request_id spec' \<longrightarrow> job_id e = job_id e' \<and> retry_count e = retry_count e')"
proof
  note id = minted_id_bounds [of stamp token sha nm, OF assms(2,3,5,6)]
  let ?n = "show_int (retry_count e + 1)"
  have digits: "\<forall>c \<in> set ?n. is_ascii_digit c" and len: "length ?n \<le> 2"
    using assms(7,8) show_nat_digits show_nat_length [of "nat (retry_count e + 1)" 2] by (auto simp: show_int_def MAX_RETRY_LIMIT_def)
  have "is_ascii_alnum (hd (job_id e))" "job_id e \<noteq> []"
    using assms(1,2,4) by (cases stamp; auto simp: new_job_id_def is_ascii_alnum_def)+
  moreover have "\<forall>c \<in> set (job_id e @ '':retry:'' @ ?n). request_id_char c"
    using id(2) digits assms(1) name_char_request
    by (auto simp: request_id_char_def is_ascii_alnum_def is_ascii_alpha_def is_ascii_lower_def code_def)
  ultimately have "request_id_ok (job_id e @ '':retry:'' @ ?n)"
    using id(1) len assms(1) by (simp add: request_id_ok_def)
  then show "\<exists>rid. rs_request_id spec = Some rid \<and> request_id_ok rid" using retry_spec_ordinal [OF assms(9)] by blast
  have "valid_job_id (job_id e)" using id assms(1) \<open>job_id e \<noteq> []\<close> by (simp add: valid_job_id_def MAX_JOB_ID_LENGTH_def Suc_le_eq)
  then show "rs_request_id spec = rs_request_id spec' \<longrightarrow> job_id e = job_id e' \<and> retry_count e = retry_count e'"
    using retry_id_injective [of "job_id e" "job_id e'" "retry_count e + 1" "retry_count e' + 1"] assms(7,10,11)
      retry_spec_ordinal [OF assms(9)] retry_spec_ordinal [OF assms(12)] by auto
qed

section \<open>Concrete instances\<close>

definition failed_job :: JobEntry where
  "failed_job = (make_entry 1 ''20250101-0900_run_0123456789abcdef'' ''run'' ''c'' ''p'' ''n1'' False ''d'' ''s''
      (shlex_join [''echo'', ''a b'', [], [CHR 0x27]]))
    \<lparr>status := ''failed'', result_state := Some ''infra_failure'', retry_limit := 2\<rparr>"


theorem artifact_targets_independent_witness:
  "contained_path ''data/train'' \<and> contained_path ''sets/v1''
   \<and> \<not> prefix (split_on CHR ''/'' ''data/test'') (split_on CHR ''/'' ''data/train'')"
proof -
  have v: "validate_artifact_targets [(''data/train'', ''sets/v1''), (''data/test'', ''sets/v2'')]
      = Inr [(''data/test'', ''sets/v2''), (''data/train'', ''sets/v1'')]"
    by code_simp
  show ?thesis using artifact_targets_independent [OF v] by force
qed

lemma failed_job_retry: "\<exists>spec. retry_spec_from_entry failed_job = Inr spec"
  by (simp add: failed_job_def make_entry_def retry_spec_from_entry_def plain_fork_def fork_spec_from_entry_def shlex_split_join
      text_or_empty_def truthy_list_def Let_def)

theorem retry_requests_identify_witness:
  "\<exists>spec rid. retry_spec_from_entry failed_job = Inr spec \<and> rs_request_id spec = Some rid \<and> request_id_ok rid"
proof -
  obtain spec where spec: "retry_spec_from_entry failed_job = Inr spec" using failed_job_retry by blast
  have id: "job_id failed_job = new_job_id (\<lambda>_. []) ''20250101-0900'' ''0123456789abcdef'' ''run''"
    by (simp add: failed_job_def make_entry_def) code_simp
  have "\<forall>c \<in> set ''20250101-0900'' \<union> set ''0123456789abcdef''. name_char c" "valid_job_id (job_id failed_job)"
    "is_ascii_digit (hd ''20250101-0900'')" "0 \<le> retry_count failed_job" "retry_count failed_job < MAX_RETRY_LIMIT"
    by code_simp+
  then show ?thesis using retry_requests_identify [OF id, of spec failed_job spec] spec by simp
qed

theorem retries_terminate_witness:
  "int (length [failed_job, failed_job\<lparr>retry_count := 1, retry_of := Some (job_id failed_job)\<rparr>]) - 1 \<le> max 0 (retry_limit failed_job)"
proof -
  have "retry_blocked_reason failed_job = None" "retry_limit failed_job = 2" "retry_count failed_job = 0" "retry_on failed_job = None"
    by code_simp+
  moreover from this have "retried_as failed_job (failed_job\<lparr>retry_count := 1, retry_of := Some (job_id failed_job)\<rparr>)"
    using failed_job_retry by (auto simp: retried_as_def retry_spec_from_entry_def Let_def bind_ok_Inr)
  ultimately show ?thesis using retries_terminate by (metis (no_types, lifting) list.discI list.sel(1) successively.simps(2,3))
qed

end
