(* ===== verification/Gpu_Probe.thy ===== *)
theory Gpu_Probe
  imports Py_Json
begin

text \<open>
  Node probes (\<open>src/dt/probe.py\<close>): the inventory of cards and compute processes of one node, its
  host resources, and the error sections, parsed from the output of the probe program. The program
  itself, its transport and the cache of probe results are not modelled.

  An \<open>int\<close> on text that \<open>isdigit\<close> accepts but \<open>int\<close> does not (superscripts) raises a \<open>ValueError\<close>
  nobody catches; the parser then returns \<open>Inl\<close>.
\<close>

section \<open>Data\<close>

record Gpu =
  gp_index :: int
  gp_uuid :: string
  gp_mem_used :: int
  gp_mem_total :: int
  gp_util :: int
  gp_procs :: nat
  gp_leased :: bool
  gp_lease_owner :: "string option"
  gp_free :: bool
  gp_users :: "string list"
  gp_temperature :: "int option"
  gp_resident_procs :: nat
  gp_resident_mib :: int
  gp_residents :: "string list"

record SystemStats =
  sy_cpu_cores :: int
  sy_cpu_load1 :: rat
  sy_mem_used_mib :: int
  sy_mem_total_mib :: int
  sy_disk_free_gib :: rat
  sy_disk_total_gib :: rat
  sy_io_pressure :: "rat option"

record NodeStatus =
  ns_node :: string
  ns_gpus :: "Gpu list"
  ns_system :: "SystemStats option"
  ns_error :: "string option"
  ns_gpu_inventory_error :: "string option"
  ns_unreachable :: bool
  ns_stale :: bool

definition free_gpus :: "NodeStatus \<Rightarrow> Gpu list" where
  "free_gpus st = filter gp_free (ns_gpus st)"

definition GPU_ERROR :: string where "GPU_ERROR = ''---DT-GPU-ERROR---''"
definition APP_ERROR :: string where "APP_ERROR = ''---DT-APP-ERROR---''"
definition SEP :: string where "SEP = ''---DT---''"
definition SYS_SEP :: string where "SYS_SEP = ''---DT-SYS---''"

text \<open>\<open>[A-Za-z0-9_.:@+-]{1,128}\<close> and the same without the colon.\<close>

definition lease_owner_ok :: "string \<Rightarrow> bool" where
  "lease_owner_ok s \<longleftrightarrow> 1 \<le> length s \<and> length s \<le> 128 \<and> (\<forall>c \<in> set s. is_ascii_alnum c \<or> c \<in> set ''_.:@+-'')"

definition process_user_ok :: "string \<Rightarrow> bool" where
  "process_user_ok s \<longleftrightarrow> 1 \<le> length s \<and> length s \<le> 128 \<and> (\<forall>c \<in> set s. is_ascii_alnum c \<or> c \<in> set ''_.@+-'')"

definition BUILTIN_GPU_RESIDENT_PROCESSES :: "string list" where
  "BUILTIN_GPU_RESIDENT_PROCESSES = [''nvidia-cuda-mps-server'', ''nvidia-cuda-mps-control'']"

definition COMM_MAX_LEN :: nat where "COMM_MAX_LEN = 15"

definition resident_process_names :: "string list \<Rightarrow> string list" where
  "resident_process_names resident =
     (let names = resident @ BUILTIN_GPU_RESIDENT_PROCESSES in names @ map (take COMM_MAX_LEN) names)"

section \<open>Text\<close>

text \<open>\<open>s.partition(sep)\<close>: what precedes the first separator, whether there is one, what follows it.\<close>

fun partition_at :: "string \<Rightarrow> string \<Rightarrow> string \<times> bool \<times> string" where
  "partition_at sep [] = ([], False, [])"
| "partition_at sep (c # s) =
     (if startswith (c # s) sep then ([], True, drop (length sep) (c # s))
      else case partition_at sep s of (a, found, b) \<Rightarrow> (c # a, found, b))"

text \<open>\<open>s.split(c, n)\<close>.\<close>

definition split_max :: "char \<Rightarrow> nat \<Rightarrow> string \<Rightarrow> string list" where
  "split_max c n s =
     (let ws = split_on c s in if length ws \<le> n then ws else take n ws @ [join [c] (drop n ws)])"

text \<open>\<open>s.isdigit()\<close> on code points below 256: the superscripts two, three and one are digits too.\<close>

definition isdigit :: "string \<Rightarrow> bool" where
  "isdigit s \<longleftrightarrow> s \<noteq> [] \<and> (\<forall>c \<in> set s. is_ascii_digit c \<or> code c \<in> {178, 179, 185})"

definition probe_fields :: "string \<Rightarrow> string list" where
  "probe_fields line = map strip (split_on CHR '','' line)"

definition probe_lines :: "string \<Rightarrow> string list" where
  "probe_lines part = splitlines (strip part)"

section \<open>Cards\<close>

text \<open>Temperature, lease bit and lease owner: the optional fields of a row.\<close>

definition card_extras :: "string list \<Rightarrow> int option \<times> bool \<times> string option" where
  "card_extras parts =
     (if length parts \<in> {7, 8}
      then (py_int (parts ! 5), parts ! 6 = ''1'',
            if length parts = 8 \<and> parts ! 6 = ''1'' \<and> parts ! 7 \<noteq> [] then Some (parts ! 7) else None)
      else if length parts = 6
      then (if parts ! 5 \<in> {''0'', ''1''} then (None, parts ! 5 = ''1'', None) else (py_int (parts ! 5), False, None))
      else (None, False, None))"

definition parse_card :: "string list \<Rightarrow> Gpu option" where
  "parse_card parts =
     (if length parts \<notin> {5, 6, 7, 8} then None
      else case (py_int (parts ! 0), py_int (parts ! 2), py_int (parts ! 3), py_int (parts ! 4)) of
        (Some idx, Some used, Some total_mib, Some util) \<Rightarrow>
          if idx < 0 \<or> used < 0 \<or> total_mib \<le> 0 \<or> total_mib < used \<or> \<not> (0 \<le> util \<and> util \<le> 100) \<or> parts ! 1 = [] \<or> 256 < length (parts ! 1)
          then None
          else
            (case card_extras parts of (temperature, leased, owner) \<Rightarrow> Some
               \<lparr>gp_index = idx, gp_uuid = parts ! 1, gp_mem_used = used, gp_mem_total = total_mib, gp_util = util, gp_procs = 0,
                gp_leased = leased, gp_lease_owner = (case owner of None \<Rightarrow> None | Some s \<Rightarrow> if lease_owner_ok s then Some s else None),
                gp_free = False, gp_users = [],
                gp_temperature = (case temperature of None \<Rightarrow> None | Some t \<Rightarrow> if - 100 \<le> t \<and> t \<le> 1000 then Some t else None),
                gp_resident_procs = 0, gp_resident_mib = 0, gp_residents = []\<rparr>)
      | _ \<Rightarrow> None)"

type_synonym cards = "(string, Gpu) dict"

fun read_cards :: "string list \<Rightarrow> cards \<Rightarrow> nat \<Rightarrow> cards \<times> nat" where
  "read_cards [] found malformed = (found, malformed)"
| "read_cards (line # rest) found malformed =
     (case parse_card (map strip (split_max CHR '','' 7 line)) of
        None \<Rightarrow> read_cards rest found (malformed + 1)
      | Some g \<Rightarrow>
          if gp_uuid g \<in> set (keys found) \<or> gp_index g \<in> gp_index ` set (values found) then read_cards rest found (malformed + 1)
          else read_cards rest (found @ [(gp_uuid g, g)]) malformed)"

section \<open>Processes\<close>

definition append_new :: "'a \<Rightarrow> 'a list \<Rightarrow> 'a list" where
  "append_new x xs = (if x \<in> set xs then xs else xs @ [x])"

definition on_card :: "string \<Rightarrow> (Gpu \<Rightarrow> Gpu) \<Rightarrow> cards \<Rightarrow> cards" where
  "on_card uuid f found = map (\<lambda>(u, g). (u, if u = uuid then f g else g)) found"

definition count_process :: "string \<Rightarrow> Gpu \<Rightarrow> Gpu" where
  "count_process user g = g\<lparr>gp_procs := gp_procs g + 1, gp_users := append_new user (gp_users g)\<rparr>"

definition count_resident :: "string \<Rightarrow> int \<Rightarrow> Gpu \<Rightarrow> Gpu" where
  "count_resident comm mib g =
     g\<lparr>gp_resident_procs := gp_resident_procs g + 1, gp_resident_mib := gp_resident_mib g + mib,
       gp_residents := append_new comm (gp_residents g)\<rparr>"

definition nth_or :: "string list \<Rightarrow> nat \<Rightarrow> string" where
  "nth_or parts i = (if i < length parts then parts ! i else [])"

definition is_resident :: "string list \<Rightarrow> string list \<Rightarrow> bool" where
  "is_resident names parts \<longleftrightarrow> nth_or parts 3 \<noteq> [] \<and> nth_or parts 3 \<in> set names"

definition row_user :: "string list \<Rightarrow> string" where
  "row_user parts =
     (let candidate = (if nth_or parts 2 = [] then ''?'' else nth_or parts 2) in
      if candidate = ''?'' \<or> process_user_ok candidate then candidate else ''?'')"

fun read_processes :: "string list \<Rightarrow> string list list \<Rightarrow> cards \<Rightarrow> (string \<times> string) list \<Rightarrow> string + cards" where
  "read_processes names [] found seen = Inr found"
| "read_processes names (parts # rest) found seen =
     (let uuid = parts ! 0; pid = nth_or parts 1 in
      if uuid \<notin> set (keys found) then read_processes names rest found seen
      else if length parts < 2 then read_processes names rest (on_card uuid (count_process ''?'') found) seen
      else if pid \<noteq> [] \<and> (uuid, pid) \<in> set seen then read_processes names rest found seen
      else
        let seen' = (if pid \<noteq> [] then (uuid, pid) # seen else seen) in
        if is_resident names parts
        then
          (if isdigit (nth_or parts 4)
           then (case py_int (nth_or parts 4) of
                   None \<Rightarrow> Inl (''invalid literal for int() with base 10: '' @ py_repr (nth_or parts 4))
                 | Some mib \<Rightarrow> read_processes names rest (on_card uuid (count_resident (nth_or parts 3) mib) found) seen')
           else read_processes names rest (on_card uuid (count_resident (nth_or parts 3) 0) found) seen')
        else read_processes names rest (on_card uuid (count_process (row_user parts)) found) seen')"

definition settle_card :: "int \<Rightarrow> Gpu \<Rightarrow> Gpu" where
  "settle_card threshold g =
     g\<lparr>gp_free := gp_procs g = 0 \<and> max 0 (gp_mem_used g - gp_resident_mib g) < threshold \<and> \<not> gp_leased g,
       gp_users := (if gp_leased g then append_new ''dt-lease'' (gp_users g) else gp_users g)\<rparr>"

definition inventory_error :: "nat \<Rightarrow> string option" where
  "inventory_error malformed =
     (if malformed = 0 then None
      else Some (''GPU inventory incomplete: '' @ show_nat malformed @ '' malformed '' @ (if malformed = 1 then ''row'' else ''rows'')
             @ '' not schedulable''))"

definition probe_sections :: "string \<Rightarrow> string \<times> string" where
  "probe_sections output =
     (case partition_at SEP output of (gpu_part, _, remainder) \<Rightarrow> (gpu_part, fst (partition_at SYS_SEP remainder)))"

definition parse_probe_inventory :: "string \<Rightarrow> int \<Rightarrow> string list \<Rightarrow> string + Gpu list \<times> string option" where
  "parse_probe_inventory output threshold resident =
     (case probe_sections output of (gpu_part, app_part) \<Rightarrow>
        case read_cards (probe_lines gpu_part) [] 0 of (found, malformed) \<Rightarrow>
          bind_ok (read_processes (resident_process_names resident) (map probe_fields (probe_lines app_part)) found []) (\<lambda>counted.
            Inr (map (settle_card threshold) (sort_key gp_index (values counted)), inventory_error malformed)))"

definition parse_probe_output :: "string \<Rightarrow> int \<Rightarrow> string list \<Rightarrow> string + Gpu list" where
  "parse_probe_output output threshold resident = bind_ok (parse_probe_inventory output threshold resident) (\<lambda>r. Inr (fst r))"

section \<open>Host resources and errors\<close>

definition kib_gib :: "int \<Rightarrow> rat" where
  "kib_gib k = max 0 (of_int k / of_int (1024 ^ 2))"

definition system_of :: "string list \<Rightarrow> SystemStats option" where
  "system_of parts =
     (case (py_int (parts ! 0), py_float (parts ! 1), py_int (parts ! 2), py_int (parts ! 3), py_int (parts ! 4), py_int (parts ! 5),
            py_float (parts ! 6)) of
        (Some cores, Some (Fin load1), Some mem_total, Some mem_avail, Some disk_total, Some disk_avail, Some (Fin io)) \<Rightarrow>
          if cores \<le> 0 \<or> load1 < 0 \<or> mem_total \<le> 0 \<or> \<not> (0 \<le> mem_avail \<and> mem_avail \<le> mem_total)
            \<or> disk_total \<le> 0 \<or> \<not> (0 \<le> disk_avail \<and> disk_avail \<le> disk_total)
          then None
          else Some \<lparr>sy_cpu_cores = cores, sy_cpu_load1 = load1, sy_mem_used_mib = max 0 ((mem_total - mem_avail) div 1024),
                 sy_mem_total_mib = max 0 (mem_total div 1024), sy_disk_free_gib = kib_gib disk_avail, sy_disk_total_gib = kib_gib disk_total,
                 sy_io_pressure = (if io < 0 then None else Some io)\<rparr>
      | _ \<Rightarrow> None)"

definition parse_system_output :: "string \<Rightarrow> SystemStats option" where
  "parse_system_output output =
     (case partition_at SYS_SEP output of (_, marker, system_part) \<Rightarrow>
        if \<not> marker then None
        else
          let rows = filter (\<lambda>l. l \<noteq> []) (map strip (splitlines system_part)) in
          if rows = [] then None
          else let parts = probe_fields (last rows) in if length parts \<noteq> 7 then None else system_of parts)"

definition section_error :: "string \<Rightarrow> string \<Rightarrow> string \<Rightarrow> string option" where
  "section_error section_text marker label =
     (if \<not> contains marker section_text then None
      else
        let detail = splitlines (strip (snd (snd (partition_at marker section_text)))) in
        Some (if detail = [] then label else label @ '': '' @ last detail))"

definition parse_probe_error :: "string \<Rightarrow> string option" where
  "parse_probe_error output =
     (case probe_sections output of (gpu_part, app_part) \<Rightarrow>
        case section_error gpu_part GPU_ERROR ''GPU query failed'' of
          Some m \<Rightarrow> Some m
        | None \<Rightarrow> section_error app_part APP_ERROR ''GPU process query failed'')"

end
