(* ===== verification/Placement.thy ===== *)
theory Placement
  imports Gpu_Probe Run_Spec
begin

text \<open>
  Placement (\<open>src/dt/dispatch/__init__.py\<close>): which nodes a submission may go to, in which order, and
  the reasons reported for the others.
\<close>

section \<open>Cards and disks that fit\<close>

text \<open>The configuration of a node with its transfer cost.\<close>

record PlacedNode = Node +
  nd_transfer_cost :: rat

definition GPU_PULSE_MEMORY_MIB :: int where "GPU_PULSE_MEMORY_MIB = 512"

definition JOB_SPECIFIC :: "string list" where
  "JOB_SPECIFIC = [''path-missing'', ''disk-full'', ''node-unfit'', ''cache-missing'', ''resource-mismatch'', ''artifact-unverified'']"

definition eligible_free_gpus :: "NodeStatus \<Rightarrow> RunSpec \<Rightarrow> Gpu list" where
  "eligible_free_gpus st spec =
     (if rs_gpus spec > 0 \<and> ns_gpu_inventory_error st \<noteq> None then []
      else case rs_min_vram_mib spec of
        None \<Rightarrow> free_gpus st
      | Some minimum \<Rightarrow> filter (\<lambda>g. minimum \<le> gp_mem_total g) (free_gpus st))"

definition status_of :: "NodeStatus list \<Rightarrow> string \<Rightarrow> NodeStatus option" where
  "status_of statuses nd = List.find (\<lambda>s. ns_node s = nd) statuses"

definition pin_is_busy :: "NodeStatus list \<Rightarrow> RunSpec \<Rightarrow> bool" where
  "pin_is_busy statuses spec =
     (case rs_node spec of
        None \<Rightarrow> False
      | Some nd \<Rightarrow>
          nd \<noteq> [] \<and> rs_gpus spec > 0
          \<and> (case status_of statuses nd of
               None \<Rightarrow> False
             | Some st \<Rightarrow> ns_error st = None \<and> int (length (eligible_free_gpus st spec)) < rs_gpus spec))"

text \<open>\<open>f"{x:.1f}"\<close> of a number with this exact value.\<close>

definition round_half_even :: "rat \<Rightarrow> int" where
  "round_half_even q =
     (let f = \<lfloor>q\<rfloor>; r = q - of_int f in if r < 1 / 2 \<or> r = 1 / 2 \<and> even f then f else f + 1)"

definition fixed1 :: "rat \<Rightarrow> string" where
  "fixed1 q =
     (let n = nat (round_half_even (10 * \<bar>q\<bar>)) in
      (if q < 0 then ''-'' else []) @ show_nat (n div 10) @ ''.'' @ show_nat (n mod 10))"

definition disk_rejection_reason :: "NodeStatus \<Rightarrow> RunSpec \<Rightarrow> string option" where
  "disk_rejection_reason st spec =
     (case (rs_require_disk_gib spec, ns_error st, ns_system st) of
        (Some required, None, Some sys) \<Rightarrow>
          if of_int required \<le> sy_disk_free_gib sys then None
          else Some (''disk-full: '' @ fixed1 (sy_disk_free_gib sys) @ '' GiB free < '' @ show_int required @ '' GiB required'')
      | _ \<Rightarrow> None)"

definition inventory_rejection_reason :: "NodeStatus \<Rightarrow> RunSpec \<Rightarrow> string option" where
  "inventory_rejection_reason st spec =
     (let tot = length (ns_gpus st) in
      if ns_gpu_inventory_error st \<noteq> None \<or> rs_gpus spec \<le> int tot then None
      else Some (''resource-mismatch: requests '' @ show_int (rs_gpus spec) @ '' GPUs but node exposes '' @ show_nat tot))"

definition minimum_vram_rejection_reason :: "NodeStatus \<Rightarrow> RunSpec \<Rightarrow> string option" where
  "minimum_vram_rejection_reason st spec =
     (case rs_min_vram_mib spec of
        None \<Rightarrow> None
      | Some minimum \<Rightarrow>
          if rs_gpus spec = 0 \<or> ns_error st \<noteq> None \<or> ns_gpu_inventory_error st \<noteq> None then None
          else
            let capable = count_if (\<lambda>g. minimum \<le> gp_mem_total g) (ns_gpus st) in
            if rs_gpus spec \<le> int capable then None
            else Some (''resource-mismatch: requests '' @ show_int (rs_gpus spec) @ '' GPUs with at least '' @ show_int minimum
                   @ '' MiB each but node exposes '' @ show_nat capable))"

section \<open>Reasons\<close>

definition card_owner :: "Gpu \<Rightarrow> string" where
  "card_owner g =
     (if gp_leased g \<and> text_or_empty (gp_lease_owner g) \<noteq> [] then text_or_empty (gp_lease_owner g)
      else if gp_users g \<noteq> [] then join ''/'' (gp_users g)
      else if gp_leased g then ''dt-lease''
      else if gp_procs g \<noteq> 0 then ''?''
      else ''VRAM-in-use'')"

definition card_activity :: "Gpu \<Rightarrow> string" where
  "card_activity g =
     (if gp_leased g \<and> gp_procs g = 0 \<and> gp_util g = 0
      then (if GPU_PULSE_MEMORY_MIB \<le> gp_mem_used g then ''pulse'' else ''init'')
      else ''util'' @ show_int (gp_util g) @ ''%'')"

definition busy_card :: "Gpu \<Rightarrow> string" where
  "busy_card g = ''gpu'' @ show_int (gp_index g) @ '' '' @ card_owner g @ '' '' @ fixed1 (of_int (gp_mem_used g) / 1024) @ ''/''
     @ fixed1 (of_int (gp_mem_total g) / 1024) @ ''GiB '' @ card_activity g"

definition remove_prefix :: "string \<Rightarrow> string \<Rightarrow> string" where
  "remove_prefix p s = (if startswith s p then drop (length p) s else s)"

definition capacity_reason :: "NodeStatus \<Rightarrow> int \<Rightarrow> int option \<Rightarrow> string" where
  "capacity_reason st wanted minimum =
     (let fitting = (case minimum of None \<Rightarrow> free_gpus st | Some m \<Rightarrow> filter (\<lambda>g. m \<le> gp_mem_total g) (free_gpus st));
          base = show_nat (length fitting) @ '' free < '' @ show_int wanted @ '' wanted'';
          minima = (case minimum of None \<Rightarrow> [] | Some m \<Rightarrow> [''minimum: '' @ show_int m @ '' MiB/GPU'']);
          inventory = (case ns_gpu_inventory_error st of
              None \<Rightarrow> []
            | Some err \<Rightarrow> if err = [] then [] else [''inventory: '' @ remove_prefix ''GPU inventory incomplete: '' err]);
          details = map busy_card (filter (\<lambda>g. \<not> gp_free g) (ns_gpus st));
          busy = (if details = [] then [] else [''busy: '' @ join '', '' details]);
          undersized = (case minimum of
              None \<Rightarrow> []
            | Some m \<Rightarrow> map (\<lambda>g. ''gpu'' @ show_int (gp_index g) @ ''='' @ show_int (gp_mem_total g) @ ''MiB'')
                          (filter (\<lambda>g. gp_mem_total g < m) (ns_gpus st)));
          small = (if undersized = [] then [] else [''undersized: '' @ join '', '' undersized]) in
      join ''; '' ([base] @ minima @ inventory @ busy @ small))"

definition or_reason :: "string option \<Rightarrow> string \<Rightarrow> string" where
  "or_reason x rest = (case x of None \<Rightarrow> rest | Some s \<Rightarrow> if s = [] then rest else s)"

definition probe_rejection_reason :: "NodeStatus \<Rightarrow> RunSpec \<Rightarrow> string" where
  "probe_rejection_reason st spec =
     or_reason (ns_error st) (or_reason (disk_rejection_reason st spec) (or_reason (inventory_rejection_reason st spec)
       (or_reason (minimum_vram_rejection_reason st spec) (capacity_reason st (rs_gpus spec) (rs_min_vram_mib spec)))))"

definition drained_probe_reasons :: "HeadConfig \<Rightarrow> RunSpec \<Rightarrow> (string, string) dict \<Rightarrow> (string, string) dict" where
  "drained_probe_reasons cfg spec reasons =
     fold (\<lambda>nd rs. if nd_drained nd \<and> (rs_node spec = None \<or> rs_node spec = Some (nd_name nd))
                   then AList.update (nd_name nd) ''drained: maintenance (nodes[].drained)'' rs else rs)
       (cf_nodes cfg) reasons"

definition job_succeeded :: "JobEntry \<Rightarrow> bool" where
  "job_succeeded e \<longleftrightarrow> status e = ''finished'' \<and> exit_code e = Some 0 \<and> effective_result_state e = Some ''success''"

definition blocked_not_busy :: "(string, string) dict \<Rightarrow> bool" where
  "blocked_not_busy tried \<longleftrightarrow> tried \<noteq> [] \<and> (\<forall>r \<in> set (values tried). \<exists>p \<in> set JOB_SPECIFIC. startswith r p)"

definition waiting_unreachable_reason :: "(string, string) dict \<Rightarrow> string" where
  "waiting_unreachable_reason reasons =
     ''waiting: '' @ join ''; '' (map (\<lambda>(nd, r). nd @ '' unreachable: '' @ r) reasons)"

definition waiting_reason :: "string \<Rightarrow> (string, string) dict \<Rightarrow> string" where
  "waiting_reason what reasons =
     (let detail = join ''; '' (map (\<lambda>(nd, r). nd @ '': '' @ r) reasons) in
      if detail = [] then ''waiting: '' @ what else ''waiting: '' @ what @ '' ('' @ detail @ '')'')"

definition waiting_capacity_reason :: "(string, string) dict \<Rightarrow> string" where
  "waiting_capacity_reason = waiting_reason ''no free capacity''"

definition waiting_placement_failure_reason :: "(string, string) dict \<Rightarrow> string" where
  "waiting_placement_failure_reason = waiting_reason ''placement attempt failed''"

section \<open>Candidates\<close>

definition nodes_by_name :: "PlacedNode list \<Rightarrow> (string, PlacedNode) dict" where
  "nodes_by_name nodes = dict_of (map (\<lambda>n. (nd_name n, n)) nodes)"

definition usable :: "(string, PlacedNode) dict \<Rightarrow> RunSpec \<Rightarrow> string list \<Rightarrow> NodeStatus \<Rightarrow> bool" where
  "usable by_name spec reserved s \<longleftrightarrow> ns_error s = None \<and> disk_rejection_reason s spec = None
     \<and> (case map_of by_name (ns_node s) of None \<Rightarrow> False | Some nd \<Rightarrow> \<not> nd_drained nd)
     \<and> ns_node s \<notin> set reserved \<and> ns_node s \<notin> set (case rs_exclude_nodes spec of None \<Rightarrow> [] | Some xs \<Rightarrow> xs)"

definition cpu_load :: "NodeStatus \<Rightarrow> rat" where
  "cpu_load s = (case ns_system s of None \<Rightarrow> 1 | Some sys \<Rightarrow> sy_cpu_load1 sys / of_int (max 1 (sy_cpu_cores sys)))"

definition reach_cost :: "(string, PlacedNode) dict \<Rightarrow> NodeStatus \<Rightarrow> rat" where
  "reach_cost by_name s = (let nd = the (map_of by_name (ns_node s)) in if nd_local nd then 0 else nd_transfer_cost nd)"

definition cpu_rank :: "(string, PlacedNode) dict \<Rightarrow> NodeStatus \<Rightarrow> rat \<times> rat \<times> nat" where
  "cpu_rank by_name s = (reach_cost by_name s, cpu_load s, length (free_gpus s))"

text \<open>\<open>reverse=True\<close> keeps the order of equal rows, as sorting by the negated key does.\<close>

definition gpu_rank :: "RunSpec \<Rightarrow> NodeStatus \<Rightarrow> int \<times> int" where
  "gpu_rank spec s = (- int (length (eligible_free_gpus s spec)), - int (length (free_gpus s)))"

definition fits :: "RunSpec \<Rightarrow> int \<Rightarrow> NodeStatus \<Rightarrow> bool" where
  "fits spec reserve s \<longleftrightarrow> rs_gpus spec \<le> int (length (eligible_free_gpus s spec)) \<and> reserve \<le> int (length (free_gpus s)) - rs_gpus spec"

definition pick_candidates :: "NodeStatus list \<Rightarrow> PlacedNode list \<Rightarrow> RunSpec \<Rightarrow> int \<Rightarrow> string list \<Rightarrow> spec_exn + PlacedNode list" where
  "pick_candidates statuses nodes spec reserve reserved =
     (let by_name = nodes_by_name nodes; pin = text_or_empty (rs_node spec) in
      if pin \<noteq> []
      then case map_of by_name pin of
             None \<Rightarrow> Inl (ConfigError (''unknown node '' @ py_repr pin @ ''; configured: ['' @ join '', '' (map py_repr (keys by_name)) @ '']''))
           | Some nd \<Rightarrow>
               if nd_drained nd then Inr []
               else (case status_of statuses pin of
                       Some st \<Rightarrow> if disk_rejection_reason st spec \<noteq> None then Inr [] else Inr [nd]
                     | None \<Rightarrow> Inr [nd])
      else
        let ss = filter (usable by_name spec reserved) statuses; place = (\<lambda>s. the (map_of by_name (ns_node s))) in
        Inr (map place (if rs_gpus spec = 0 then sort_key (cpu_rank by_name) ss else filter (fits spec reserve) (sort_key (gpu_rank spec) ss))))"

end
