(* ===== verification/Gpu_Facts.thy ===== *)
theory Gpu_Facts
  imports Gpu_Probe
begin

text \<open>
  Facts about parsed node probes: the cards are a well-formed inventory, and a card that any
  foreign process, lease or memory use is reported for is never free.
\<close>

section \<open>Cards\<close>

lemma keys_on_card [simp]: "keys (on_card u f found) = keys found"
  by (simp add: on_card_def case_prod_beta comp_def)

lemma map_of_on_card: "map_of (on_card u f found) v = (if v = u then map_option f (map_of found u) else map_of found v)"
  by (induction found) (auto simp: on_card_def)

definition card_ok :: "Gpu \<Rightarrow> bool" where
  "card_ok g \<longleftrightarrow> 0 \<le> gp_index g \<and> 0 \<le> gp_mem_used g \<and> gp_mem_used g \<le> gp_mem_total g \<and> 0 < gp_mem_total g
     \<and> 0 \<le> gp_util g \<and> gp_util g \<le> 100 \<and> gp_uuid g \<noteq> [] \<and> length (gp_uuid g) \<le> 256"

text \<open>Each card under its own identity, no two with the same index.\<close>

definition cards_ok :: "cards \<Rightarrow> bool" where
  "cards_ok found \<longleftrightarrow> wf_dict found \<and> distinct (map gp_index (values found)) \<and> (\<forall>(u, g) \<in> set found. u = gp_uuid g \<and> card_ok g)"

lemma parse_card_ok:
  assumes "parse_card parts = Some g"
  shows "card_ok g \<and> gp_procs g = 0"
proof -
  obtain temperature leased owner where "card_extras parts = (temperature, leased, owner)" by (metis prod_cases3)
  moreover obtain idx used total_mib util where "py_int (parts ! 0) = Some idx" "py_int (parts ! 2) = Some used"
    "py_int (parts ! 3) = Some total_mib" "py_int (parts ! 4) = Some util"
    using assms unfolding parse_card_def
    by (cases "py_int (parts ! 0)"; cases "py_int (parts ! 2)"; cases "py_int (parts ! 3)"; cases "py_int (parts ! 4)") (simp_all split: if_splits)
  ultimately show ?thesis using assms unfolding parse_card_def by (simp add: card_ok_def split: if_splits) (auto simp: not_less not_le)
qed

lemma cards_ok_snoc:
  assumes "cards_ok found" "card_ok g" "gp_uuid g \<notin> set (keys found)" "gp_index g \<notin> gp_index ` set (values found)"
  shows "cards_ok (found @ [(gp_uuid g, g)])"
  using assms by (auto simp: cards_ok_def)

lemma read_cards_ok: "cards_ok found \<Longrightarrow> read_cards rows found malformed = (found', malformed') \<Longrightarrow> cards_ok found'"
  by (induction rows found malformed rule: read_cards.induct)
    (auto simp: cards_ok_snoc parse_card_ok split: option.splits if_splits)

lemma cards_ok_on_card:
  assumes "cards_ok found" "\<And>g. gp_index (f g) = gp_index g \<and> gp_uuid (f g) = gp_uuid g \<and> (card_ok g \<longrightarrow> card_ok (f g))"
  shows "cards_ok (on_card u f found)"
proof -
  have "map gp_index (values (on_card u f found)) = map gp_index (values found)"
    using assms(2) by (auto simp: on_card_def)
  moreover have "\<forall>(v, g) \<in> set (on_card u f found). v = gp_uuid g \<and> card_ok g"
    using assms by (auto simp: cards_ok_def on_card_def)
  ultimately show ?thesis using assms(1) unfolding cards_ok_def keys_on_card by simp
qed

lemma count_process_card: "gp_index (count_process c g) = gp_index g \<and> gp_uuid (count_process c g) = gp_uuid g \<and> (card_ok g \<longrightarrow> card_ok (count_process c g))"
  by (simp add: count_process_def card_ok_def)

lemma count_resident_card: "gp_index (count_resident c m g) = gp_index g \<and> gp_uuid (count_resident c m g) = gp_uuid g \<and> (card_ok g \<longrightarrow> card_ok (count_resident c m g))"
  by (simp add: count_resident_def card_ok_def)

lemma read_processes_ok:
  "read_processes names rows found seen = Inr found' \<Longrightarrow> cards_ok found \<Longrightarrow> cards_ok found'"
  by (induction names rows found seen rule: read_processes.induct)
    (auto simp: Let_def cards_ok_on_card [OF _ count_process_card] cards_ok_on_card [OF _ count_resident_card]
      split: if_splits option.splits)

section \<open>Processes\<close>

text \<open>
  The rows that may leave a card free: a resident process, or a repetition of the process of such a row.
\<close>

definition harmless :: "string list \<Rightarrow> string list list \<Rightarrow> (string \<times> string) list \<Rightarrow> string \<Rightarrow> string list \<Rightarrow> bool" where
  "harmless names rows seen u parts \<longleftrightarrow> 2 \<le> length parts
     \<and> (is_resident names parts
        \<or> parts ! 1 \<noteq> [] \<and> ((u, parts ! 1) \<in> set seen
             \<or> (\<exists>r \<in> set rows. 2 \<le> length r \<and> r ! 0 = u \<and> r ! 1 = parts ! 1 \<and> is_resident names r)))"

lemma read_processes_idle:
  assumes "read_processes names rows found seen = Inr found'" "map_of found' u = Some g'" "gp_procs g' = 0"
  shows "(\<exists>g. map_of found u = Some g \<and> gp_procs g = 0) \<and> (\<forall>parts \<in> set rows. parts ! 0 = u \<longrightarrow> harmless names rows seen u parts)"
  using assms
proof (induction rows arbitrary: found seen)
  case (Cons parts rest)
  note step = Cons.prems(1)
  have mono: "harmless names rest seen' u r \<Longrightarrow> harmless names (parts # rest) seen u r"
    if "seen' = seen \<or> (2 \<le> length parts \<and> is_resident names parts \<and> seen' = (parts ! 0, parts ! 1) # seen)" for seen' r
    using that by (auto simp: harmless_def)
  consider (absent) "parts ! 0 \<notin> set (keys found)" | (short) "parts ! 0 \<in> set (keys found)" "length parts < 2"
    | (seen) "parts ! 0 \<in> set (keys found)" "\<not> length parts < 2" "nth_or parts 1 \<noteq> []" "(parts ! 0, nth_or parts 1) \<in> set seen"
    | (resident) "parts ! 0 \<in> set (keys found)" "\<not> length parts < 2" "nth_or parts 1 = [] \<or> (parts ! 0, nth_or parts 1) \<notin> set seen"
        "is_resident names parts"
    | (foreign) "parts ! 0 \<in> set (keys found)" "\<not> length parts < 2" "nth_or parts 1 = [] \<or> (parts ! 0, nth_or parts 1) \<notin> set seen"
        "\<not> is_resident names parts" by blast
  then show ?case
  proof cases
    case absent
    then have "(\<exists>g. map_of found u = Some g \<and> gp_procs g = 0) \<and> (\<forall>r \<in> set rest. r ! 0 = u \<longrightarrow> harmless names rest seen u r)"
      using Cons.IH Cons.prems by (simp add: Let_def)
    moreover from this absent have "parts ! 0 \<noteq> u" by (metis map_of_eq_None_iff option.distinct(1) image_eqI set_map)
    ultimately show ?thesis using mono [of seen] by auto
  next
    case short
    then have "(\<exists>g. map_of (on_card (parts ! 0) (count_process ''?'') found) u = Some g \<and> gp_procs g = 0)
        \<and> (\<forall>r \<in> set rest. r ! 0 = u \<longrightarrow> harmless names rest seen u r)"
      using Cons.IH Cons.prems by (simp add: Let_def)
    then show ?thesis using mono [of seen] by (auto simp: map_of_on_card count_process_def split: if_splits)
  next
    case seen
    then have "(\<exists>g. map_of found u = Some g \<and> gp_procs g = 0) \<and> (\<forall>r \<in> set rest. r ! 0 = u \<longrightarrow> harmless names rest seen u r)"
      using Cons.IH Cons.prems by (simp add: Let_def)
    then show ?thesis using mono [of seen] seen by (auto simp: harmless_def nth_or_def)
  next
    case resident
    define seen' where "seen' = (if nth_or parts 1 \<noteq> [] then (parts ! 0, nth_or parts 1) # seen else seen)"
    obtain mib where mib: "read_processes names rest (on_card (parts ! 0) (count_resident (nth_or parts 3) mib) found) seen' = Inr found'"
      using step resident unfolding read_processes.simps(2) Let_def seen'_def by (auto split: if_splits option.splits)
    have "(\<exists>g. map_of (on_card (parts ! 0) (count_resident (nth_or parts 3) mib) found) u = Some g \<and> gp_procs g = 0)
        \<and> (\<forall>r \<in> set rest. r ! 0 = u \<longrightarrow> harmless names rest seen' u r)"
      using Cons.IH [OF mib] Cons.prems by simp
    then show ?thesis using mono [of seen'] resident
      by (auto simp: map_of_on_card count_resident_def harmless_def seen'_def nth_or_def split: if_splits)
  next
    case foreign
    define seen' where "seen' = (if nth_or parts 1 \<noteq> [] then (parts ! 0, nth_or parts 1) # seen else seen)"
    have "read_processes names rest (on_card (parts ! 0) (count_process (row_user parts)) found) seen' = Inr found'"
      using step foreign unfolding read_processes.simps(2) Let_def seen'_def by (auto split: if_splits)
    from Cons.IH [OF this] Cons.prems
    have later: "\<exists>g. map_of (on_card (parts ! 0) (count_process (row_user parts)) found) u = Some g \<and> gp_procs g = 0"
      "\<forall>r \<in> set rest. r ! 0 = u \<longrightarrow> harmless names rest seen' u r" by simp_all
    then have "u \<noteq> parts ! 0" by (auto simp: map_of_on_card count_process_def)
    then show ?thesis using later by (auto simp: map_of_on_card harmless_def seen'_def split: if_splits)
  qed
qed simp

section \<open>The parsed inventory\<close>

lemma parse_probe_inventoryD:
  assumes "parse_probe_inventory output threshold resident = Inr (found_gpus, err)" "probe_sections output = (gpu_part, app_part)"
  obtains found malformed counted where "read_cards (probe_lines gpu_part) [] 0 = (found, malformed)"
    "read_processes (resident_process_names resident) (map probe_fields (probe_lines app_part)) found [] = Inr counted"
    "cards_ok counted" "found_gpus = map (settle_card threshold) (sort_key gp_index (values counted))" "err = inventory_error malformed"
proof -
  obtain found malformed where read: "read_cards (probe_lines gpu_part) [] 0 = (found, malformed)" by fastforce
  obtain counted where counted: "read_processes (resident_process_names resident) (map probe_fields (probe_lines app_part)) found [] = Inr counted"
    "found_gpus = map (settle_card threshold) (sort_key gp_index (values counted))" "err = inventory_error malformed"
    using assms read by (auto simp: parse_probe_inventory_def bind_ok_Inr)
  have "cards_ok []" by (simp add: cards_ok_def)
  then have "cards_ok counted" using read_cards_ok [OF _ read] read_processes_ok [OF counted(1)] by blast
  with read counted that show ?thesis by blast
qed

lemma settle_card_keeps [simp]:
  "gp_index (settle_card n g) = gp_index g" "gp_uuid (settle_card n g) = gp_uuid g" "card_ok (settle_card n g) = card_ok g"
  by (simp_all add: settle_card_def card_ok_def)

text \<open>
  Every inventory the probe parser returns is well formed: the cards come in strictly increasing
  index order, no two share a UUID, and each has a usable size, a memory use within it and a
  utilisation between 0 and 100, whatever text the node sent.
\<close>

theorem inventory_well_formed:
  assumes "parse_probe_inventory output threshold resident = Inr (found_gpus, err)"
  shows "sorted_wrt (<) (map gp_index found_gpus) \<and> distinct (map gp_uuid found_gpus) \<and> (\<forall>g \<in> set found_gpus. card_ok g)"
proof -
  obtain gpu_part app_part where "probe_sections output = (gpu_part, app_part)" by fastforce
  from parse_probe_inventoryD [OF assms this] obtain counted where counted: "cards_ok counted"
    "found_gpus = map (settle_card threshold) (sort_key gp_index (values counted))" by metis
  let ?sorted = "sort_key gp_index (values counted)"
  have "distinct (map gp_index (values counted))" "map gp_uuid (values counted) = keys counted" "wf_dict counted"
    using counted(1) by (auto simp: cards_ok_def)
  then have "distinct (map gp_index ?sorted)" "distinct (map gp_uuid ?sorted)"
    by (metis distinct_map distinct_sort set_sort)+
  then have "sorted_wrt (<) (map gp_index ?sorted)" by (simp add: strict_sorted_iff)
  moreover have "\<forall>g \<in> set ?sorted. card_ok g" using counted(1) by (auto simp: cards_ok_def)
  ultimately show ?thesis using \<open>distinct (map gp_uuid ?sorted)\<close> by (simp add: counted(2) comp_def)
qed

text \<open>
  C37. No occupied card is offered: a card the parser reports free is not leased, holds less memory
  outside its resident processes than the threshold, and every process row that names it is a
  resident process or repeats the process identity of one. In particular a row without a process
  identity makes its card busy.
\<close>

theorem free_card_unoccupied:
  assumes "parse_probe_inventory output threshold resident = Inr (found_gpus, err)" "probe_sections output = (gpu_part, app_part)"
    and "g \<in> set found_gpus" "gp_free g"
  shows "\<not> gp_leased g \<and> gp_mem_used g - gp_resident_mib g < threshold
    \<and> (\<forall>line \<in> set (probe_lines app_part). probe_fields line ! 0 = gp_uuid g \<longrightarrow>
         harmless (resident_process_names resident) (map probe_fields (probe_lines app_part)) [] (gp_uuid g) (probe_fields line))"
proof -
  from parse_probe_inventoryD [OF assms(1,2)] obtain found counted where counted: "cards_ok counted"
    "read_processes (resident_process_names resident) (map probe_fields (probe_lines app_part)) found [] = Inr counted"
    "found_gpus = map (settle_card threshold) (sort_key gp_index (values counted))" by metis
  then obtain u h where h: "(u, h) \<in> set counted" "g = settle_card threshold h" using assms(3) by auto
  with counted(1) have u: "map_of counted (gp_uuid g) = Some h" by (auto simp: cards_ok_def)
  have idle: "gp_procs h = 0" "\<not> gp_leased g" "gp_mem_used g - gp_resident_mib g < threshold"
    using h(2) assms(4) by (auto simp: settle_card_def)
  from read_processes_idle [OF counted(2) u idle(1)] idle show ?thesis by auto
qed

section \<open>Concrete instances\<close>

definition sample_probe :: string where
  "sample_probe = ''0,a,1,9,0'' @ [nl] @ ''1,b,1,9,0'' @ [nl] @ SEP @ [nl] @ ''b,7,u'' @ [nl]
     @ ''a,8,r,mps'' @ [nl] @ SYS_SEP @ [nl]"

lemma sample_probe_sections: "probe_sections sample_probe
   = (''0,a,1,9,0'' @ [nl] @ ''1,b,1,9,0'' @ [nl],
      [nl] @ ''b,7,u'' @ [nl] @ ''a,8,r,mps'' @ [nl])"
  by code_simp

lemma sample_inventory:
  "\<exists>a b. parse_probe_inventory sample_probe 5 [''mps''] = Inr ([a, b], None) \<and> gp_free a \<and> gp_uuid a = ''a'' \<and> gp_index a = 0"
proof -
  have "map_sum id (\<lambda>(gs, err). (map (\<lambda>g. (gp_free g, gp_uuid g, gp_index g)) gs, err)) (parse_probe_inventory sample_probe 5 [''mps''])
      = Inr ([(True, ''a'', 0), (False, ''b'', 1)], None)"
    by code_simp
  then show ?thesis by (cases "parse_probe_inventory sample_probe 5 [''mps'']") auto
qed

theorem inventory_well_formed_witness:
  "\<exists>a b. parse_probe_inventory sample_probe 5 [''mps''] = Inr ([a, b], None) \<and> card_ok a \<and> gp_index a < gp_index b"
proof -
  obtain a b where "parse_probe_inventory sample_probe 5 [''mps''] = Inr ([a, b], None)" using sample_inventory by blast
  with inventory_well_formed [OF this] show ?thesis by auto
qed

theorem free_card_unoccupied_witness:
  "harmless (resident_process_names [''mps'']) [probe_fields ''b,7,u'', probe_fields ''a,8,r,mps''] []
     ''a'' (probe_fields ''a,8,r,mps'')"
proof -
  obtain a b where inv: "parse_probe_inventory sample_probe 5 [''mps''] = Inr ([a, b], None)" "gp_free a" "gp_uuid a = ''a''"
    using sample_inventory by blast
  have "probe_lines ([nl] @ ''b,7,u'' @ [nl] @ ''a,8,r,mps'' @ [nl])
      = [''b,7,u'', ''a,8,r,mps'']"
    "probe_fields ''a,8,r,mps'' ! 0 = ''a''"
    by code_simp+
  then show ?thesis using free_card_unoccupied [OF inv(1) sample_probe_sections _ inv(2)] inv(3) by simp
qed

end
