(* ===== verification/Placement_Facts.thy ===== *)
theory Placement_Facts
  imports Placement Gpu_Facts
begin

text \<open>
  Facts about placement: the candidates are exactly the nodes that fit, in preference order, and a
  pinned submission goes to its node or nowhere.
\<close>

text \<open>A node that a probe shows able to take the submission now.\<close>

definition takes :: "PlacedNode \<Rightarrow> RunSpec \<Rightarrow> int \<Rightarrow> string list \<Rightarrow> NodeStatus \<Rightarrow> bool" where
  "takes nd spec reserve reserved s \<longleftrightarrow> ns_node s = nd_name nd \<and> ns_error s = None \<and> \<not> nd_drained nd
     \<and> nd_name nd \<notin> set reserved \<and> (\<forall>xs. rs_exclude_nodes spec = Some xs \<longrightarrow> nd_name nd \<notin> set xs)
     \<and> (\<forall>required sys. rs_require_disk_gib spec = Some required \<longrightarrow> ns_system s = Some sys \<longrightarrow> of_int required \<le> sy_disk_free_gib sys)
     \<and> (rs_gpus spec \<noteq> 0 \<longrightarrow>
          rs_gpus spec \<le> int (length (filter (\<lambda>g. gp_free g \<and> (\<forall>m. rs_min_vram_mib spec = Some m \<longrightarrow> m \<le> gp_mem_total g)) (ns_gpus s)))
          \<and> reserve \<le> int (length (free_gpus s)) - rs_gpus spec
          \<and> (rs_gpus spec > 0 \<longrightarrow> ns_gpu_inventory_error s = None))"

lemma disk_rejection_None:
  "ns_error s = None \<Longrightarrow> disk_rejection_reason s spec = None \<longleftrightarrow>
   (\<forall>required sys. rs_require_disk_gib spec = Some required \<longrightarrow> ns_system s = Some sys \<longrightarrow> of_int required \<le> sy_disk_free_gib sys)"
  by (auto simp: disk_rejection_reason_def split: option.splits)

lemma fits_iff:
  assumes "rs_gpus spec > 0"
  shows "fits spec reserve s \<longleftrightarrow>
    rs_gpus spec \<le> int (length (filter (\<lambda>g. gp_free g \<and> (\<forall>m. rs_min_vram_mib spec = Some m \<longrightarrow> m \<le> gp_mem_total g)) (ns_gpus s)))
    \<and> reserve \<le> int (length (free_gpus s)) - rs_gpus spec \<and> ns_gpu_inventory_error s = None"
  using assms by (auto simp: fits_def eligible_free_gpus_def free_gpus_def conj_commute split: option.splits)

lemma map_of_nodes:
  "distinct (map nd_name nodes) \<Longrightarrow> map_of (nodes_by_name nodes) nm = Some nd \<longleftrightarrow> nd \<in> set nodes \<and> nd_name nd = nm"
  by (auto simp: nodes_by_name_def map_of_dict_of_distinct comp_def map_of_eq_Some_iff)

lemma usable_takes:
  assumes "distinct (map nd_name nodes)" "rs_gpus spec \<ge> 0"
  shows "(usable (nodes_by_name nodes) spec reserved s \<and> (rs_gpus spec = 0 \<or> fits spec reserve s))
    \<longleftrightarrow> (\<exists>nd \<in> set nodes. takes nd spec reserve reserved s)"
proof -
  have "usable (nodes_by_name nodes) spec reserved s \<longleftrightarrow> (\<exists>nd \<in> set nodes. ns_node s = nd_name nd \<and> ns_error s = None \<and> \<not> nd_drained nd
      \<and> nd_name nd \<notin> set reserved \<and> (\<forall>xs. rs_exclude_nodes spec = Some xs \<longrightarrow> nd_name nd \<notin> set xs)
      \<and> (\<forall>required sys. rs_require_disk_gib spec = Some required \<longrightarrow> ns_system s = Some sys \<longrightarrow> of_int required \<le> sy_disk_free_gib sys))"
  proof (cases "map_of (nodes_by_name nodes) (ns_node s)")
    case None
    then have "\<forall>nd \<in> set nodes. ns_node s \<noteq> nd_name nd" using map_of_nodes [OF assms(1)] by (metis option.distinct(1))
    with None show ?thesis by (auto simp: usable_def)
  next
    case (Some nd)
    then have nd: "nd \<in> set nodes" "ns_node s = nd_name nd" using map_of_nodes [OF assms(1)] by simp_all
    moreover have "\<forall>nd' \<in> set nodes. ns_node s = nd_name nd' \<longrightarrow> nd' = nd" using map_of_nodes [OF assms(1)] Some by (metis option.inject)
    moreover have "ns_node s \<notin> set (case rs_exclude_nodes spec of None \<Rightarrow> [] | Some xs \<Rightarrow> xs)
        \<longleftrightarrow> (\<forall>xs. rs_exclude_nodes spec = Some xs \<longrightarrow> nd_name nd \<notin> set xs)"
      using nd by (cases "rs_exclude_nodes spec") simp_all
    ultimately show ?thesis using Some disk_rejection_None [of s spec] unfolding usable_def by auto
  qed
  moreover have "rs_gpus spec = 0 \<or> rs_gpus spec > 0" using assms(2) by auto
  ultimately show ?thesis using fits_iff [of spec reserve s] by (auto simp: takes_def)
qed

text \<open>
  C38. Placement of an unpinned submission is exact: the candidates are the nodes some probe shows able
  to take it, one for each such probe and no others (reachable, not drained, not reserved for earlier
  work, not excluded, with the disk and enough free cards of the required size, the cards the centre
  keeps free included, and with a complete inventory when cards are asked for). GPU work prefers the
  node with the most free cards that fit; CPU work the node that is cheapest to reach.
\<close>

theorem placement_exact:
  assumes "rs_node spec = None" "distinct (map nd_name nodes)" "rs_gpus spec \<ge> 0"
  shows "\<exists>chosen. pick_candidates statuses nodes spec reserve reserved = Inr (map (\<lambda>s. the (map_of (nodes_by_name nodes) (ns_node s))) chosen)
    \<and> mset chosen = filter_mset (\<lambda>s. \<exists>nd \<in> set nodes. takes nd spec reserve reserved s) (mset statuses)
    \<and> (if rs_gpus spec = 0 then sorted (map (cpu_rank (nodes_by_name nodes)) chosen) else sorted (map (gpu_rank spec) chosen))"
proof -
  let ?ss = "filter (usable (nodes_by_name nodes) spec reserved) statuses"
  define chosen where "chosen =
    (if rs_gpus spec = 0 then sort_key (cpu_rank (nodes_by_name nodes)) ?ss else filter (fits spec reserve) (sort_key (gpu_rank spec) ?ss))"
  have "pick_candidates statuses nodes spec reserve reserved = Inr (map (\<lambda>s. the (map_of (nodes_by_name nodes) (ns_node s))) chosen)"
    by (simp add: pick_candidates_def chosen_def assms(1) text_or_empty_def Let_def)
  moreover have "mset chosen = filter_mset (\<lambda>s. usable (nodes_by_name nodes) spec reserved s \<and> (rs_gpus spec = 0 \<or> fits spec reserve s)) (mset statuses)"
    by (auto simp: chosen_def mset_filter filter_filter_mset intro: filter_mset_cong)
  moreover have "if rs_gpus spec = 0 then sorted (map (cpu_rank (nodes_by_name nodes)) chosen) else sorted (map (gpu_rank spec) chosen)"
    by (simp add: chosen_def sorted_filter)
  ultimately show ?thesis using usable_takes [OF assms(2,3)] by auto
qed

text \<open>
  A pinned submission goes to its node or nowhere: the candidates are that node alone, or none, and
  none exactly when the node is drained or its last probe shows too little disk; a name that is not
  configured is refused. In particular a drained node never takes new work, not even pinned work.
\<close>

theorem pinned_placement:
  assumes "rs_node spec = Some nm" "nm \<noteq> []" "distinct (map nd_name nodes)"
  shows "case pick_candidates statuses nodes spec reserve reserved of
      Inl err \<Rightarrow> nm \<notin> nd_name ` set nodes
    | Inr chosen \<Rightarrow> \<exists>nd \<in> set nodes. nd_name nd = nm
        \<and> chosen = (if nd_drained nd \<or> (\<exists>st. status_of statuses nm = Some st \<and> disk_rejection_reason st spec \<noteq> None) then [] else [nd])"
proof (cases "map_of (nodes_by_name nodes) nm")
  case None
  then have "nm \<notin> nd_name ` set nodes" using map_of_nodes [OF assms(3)] by (metis image_iff option.distinct(1))
  with None show ?thesis using assms(1,2) by (simp add: pick_candidates_def text_or_empty_def)
next
  case (Some nd)
  then have "nd \<in> set nodes" "nd_name nd = nm" using map_of_nodes [OF assms(3)] by simp_all
  with Some show ?thesis using assms(1,2)
    by (auto simp: pick_candidates_def text_or_empty_def Let_def split: option.splits intro!: bexI [of _ nd])
qed

section \<open>Concrete instances\<close>

definition small_node :: "string \<Rightarrow> PlacedNode" where
  "small_node nm = \<lparr>nd_name = nm, nd_local = False, nd_site = None, nd_artifact_seed = True, nd_drained = False, nd_transfer_cost = 1\<rparr>"

definition probed :: "string \<Rightarrow> NodeStatus" where
  "probed nm = \<lparr>ns_node = nm, ns_gpus = [\<lparr>gp_index = 0, gp_uuid = ''GPU-a'', gp_mem_used = 0, gp_mem_total = 24576, gp_util = 0,
     gp_procs = 0, gp_leased = False, gp_lease_owner = None, gp_free = True, gp_users = [], gp_temperature = None,
     gp_resident_procs = 0, gp_resident_mib = 0, gp_residents = []\<rparr>], ns_system = None, ns_error = None, ns_gpu_inventory_error = None,
     ns_unreachable = False, ns_stale = False\<rparr>"

theorem placement_exact_witness:
  "\<exists>chosen. pick_candidates [probed ''n1'', probed ''n2''] [small_node ''n1'', small_node ''n2''] (make_spec ''r'' 1 [''x'']) 0 [''n1'']
       = Inr (map (\<lambda>s. the (map_of (nodes_by_name [small_node ''n1'', small_node ''n2'']) (ns_node s))) chosen)
     \<and> probed ''n2'' \<in># mset chosen \<and> probed ''n1'' \<notin># mset chosen"
proof -
  let ?nodes = "[small_node ''n1'', small_node ''n2'']" and ?spec = "make_spec ''r'' 1 [''x'']"
  have "takes (small_node ''n2'') ?spec 0 [''n1''] (probed ''n2'')" "\<not> (\<exists>nd \<in> set ?nodes. takes nd ?spec 0 [''n1''] (probed ''n1''))"
    by (auto simp: takes_def small_node_def probed_def make_spec_def free_gpus_def)
  moreover have "rs_node ?spec = None" "distinct (map nd_name ?nodes)" "rs_gpus ?spec \<ge> 0" by (simp_all add: make_spec_def small_node_def)
  ultimately obtain chosen where "pick_candidates [probed ''n1'', probed ''n2''] ?nodes ?spec 0 [''n1'']
      = Inr (map (\<lambda>s. the (map_of (nodes_by_name ?nodes) (ns_node s))) chosen)"
    "mset chosen = filter_mset (\<lambda>s. \<exists>nd \<in> set ?nodes. takes nd ?spec 0 [''n1''] s) (mset [probed ''n1'', probed ''n2''])"
    using placement_exact [of ?spec ?nodes "[probed ''n1'', probed ''n2'']" 0 "[''n1'']"] by blast
  with \<open>takes _ _ _ _ _\<close> \<open>\<not> (\<exists>nd \<in> _. takes nd _ _ _ _)\<close> show ?thesis
    by (intro exI [of _ chosen]) (simp add: probed_def [of "''n1''"] probed_def [of "''n2''"] del: set_mset_mset)
qed

theorem pinned_placement_witness:
  "pick_candidates [] [(small_node ''n1'')\<lparr>nd_drained := True\<rparr>] ((make_spec ''r'' 1 [''x''])\<lparr>rs_node := Some ''n1''\<rparr>) 0 [] = Inr []"
proof -
  have "distinct (map nd_name [(small_node ''n1'')\<lparr>nd_drained := True\<rparr>])" "nd_name ((small_node ''n1'')\<lparr>nd_drained := True\<rparr>) = ''n1''"
    by (simp_all add: small_node_def)
  then show ?thesis
    using pinned_placement [of "(make_spec ''r'' 1 [''x''])\<lparr>rs_node := Some ''n1''\<rparr>" "''n1''" "[(small_node ''n1'')\<lparr>nd_drained := True\<rparr>]" "[]" 0 "[]"]
    by (auto split: sum.splits)
qed

end
