(* ===== verification/Queued_Dispatch.thy ===== *)
theory Queued_Dispatch
  imports Placement Registry_Write Queue_View
begin

text \<open>
  Dispatch of a queued row (\<open>src/dt/dispatch/queued.py\<close>): the dependency gate, the claim of one
  launch attempt, the recovery of a claim whose owner is gone, the conditional commit of every
  transition that follows remote work, and the cards other claims are about to take.

  The job lock and the admission lock make each operation one step; remote work happens between
  the steps, so a step may run on a row that other dispatchers have changed meanwhile. Staging,
  the launch itself and the proof that a previous attempt is gone are arguments. A raised
  message leaves the caller's object out of the result.
\<close>

section \<open>Outcomes\<close>

text \<open>The caller's row, the reported pair, and whether the staged bundle was removed.\<close>

record settled =
  se_entry :: JobEntry
  se_outcome :: string
  se_detail :: "string option"
  se_unstaged :: bool

datatype gate_result = Return settled | Proceed JobEntry

definition text_or :: "string option \<Rightarrow> string \<Rightarrow> string" where
  "text_or x fallback = (case x of None \<Rightarrow> fallback | Some s \<Rightarrow> if s = [] then fallback else s)"

definition existing_dispatch_outcome :: "JobEntry \<Rightarrow> string \<times> string option" where
  "existing_dispatch_outcome e =
     (if status e = ''killed'' then (''killed'', None)
      else if status e = ''running'' then (''started'', Some (node e))
      else if status e = ''finished'' then (''finished'', Some (node e))
      else if status e = ''failed'' then (''failed'', Some (text_or (reason e) ''dispatch failed''))
      else if status e = ''skipped'' then (''skipped'', Some (text_or (reason e) ''dependency predicate was false''))
      else if status e = ''queued''
      then (''waiting'', Some (remove_prefix ''waiting: '' (text_or (reason e) ''another dispatcher owns the queued attempt'')))
      else (''failed'', Some (''job is already '' @ status e)))"

definition settled_as :: "JobEntry \<Rightarrow> bool \<Rightarrow> settled" where
  "settled_as e unstaged =
     (let (outcome, detail) = existing_dispatch_outcome e
      in \<lparr>se_entry = e, se_outcome = outcome, se_detail = detail, se_unstaged = unstaged\<rparr>)"

section \<open>The dependency gate\<close>

definition load_predecessor :: "decoding \<Rightarrow> HeadConfig \<Rightarrow> string \<Rightarrow> 'r world \<Rightarrow> JobEntry option \<times> string option" where
  "load_predecessor dc cfg dependency w =
     (case load dc cfg dependency w of
        Inr e \<Rightarrow> (e, None)
      | Inl _ \<Rightarrow> (None, Some (''registry row for dependency '' @ dependency @ '' is unreadable'')))"

fun finalize_each :: "'r saving \<Rightarrow> HeadConfig \<Rightarrow> time \<Rightarrow> string option \<Rightarrow> string option list \<Rightarrow> 'r world \<Rightarrow> 'r world" where
  "finalize_each sv cfg now own [] w = w"
| "finalize_each sv cfg now own (None # rest) w = finalize_each sv cfg now own rest w"
| "finalize_each sv cfg now own (Some d # rest) w =
     finalize_each sv cfg now own rest
       (if own = Some d then w else fst (finalize_dependency_terminal sv cfg now d w))"

definition dedup :: "'a list \<Rightarrow> 'a list" where
  "dedup xs = rev (remdups (rev xs))"

definition finalize_dependency_rows ::
  "'r saving \<Rightarrow> HeadConfig \<Rightarrow> time \<Rightarrow> string option list \<Rightarrow> string option \<Rightarrow> 'r world \<Rightarrow> 'r world" where
  "finalize_dependency_rows sv cfg now dependencies own w =
     finalize_each sv cfg now own (dedup dependencies) w"

text \<open>The three dependencies of a row run through the same tests with their own wording and predicate.\<close>

datatype dependency = AfterSuccess | AfterComplete | AfterResult

definition noun :: "dependency \<Rightarrow> string" where
  "noun k = (case k of AfterSuccess \<Rightarrow> ''dependency '' | AfterComplete \<Rightarrow> ''completion dependency ''
                     | AfterResult \<Rightarrow> ''result dependency '')"

definition depends_on :: "dependency \<Rightarrow> JobEntry \<Rightarrow> string option" where
  "depends_on k e = (case k of AfterSuccess \<Rightarrow> after_success e | AfterComplete \<Rightarrow> after_complete e
                             | AfterResult \<Rightarrow> after_result e)"

definition observed_result :: "JobEntry \<Rightarrow> string" where
  "observed_result p = text_or (effective_result_state p) (status p)"

text \<open>Why a settled predecessor does not satisfy the predicate, if it does not.\<close>

definition predicate_false :: "dependency \<Rightarrow> string \<Rightarrow> JobEntry \<Rightarrow> JobEntry \<Rightarrow> string option" where
  "predicate_false k d current predecessor =
     (case k of
        AfterSuccess \<Rightarrow>
          if job_succeeded predecessor then None
          else Some (''dependency '' @ d @ '' did not succeed: '' @ status predecessor
            @ (case exit_code predecessor of None \<Rightarrow> [] | Some c \<Rightarrow> '', exit '' @ show_int c)
            @ (if result_state predecessor = Some ''scientific_reject'' then '', result scientific_reject'' else []))
      | AfterComplete \<Rightarrow> None
      | AfterResult \<Rightarrow>
          if observed_result predecessor \<in> set (after_result_states current) then None
          else Some (''result dependency '' @ d @ '' completed as '' @ observed_result predecessor
            @ ''; expected one of '' @ join '','' (after_result_states current)))"

definition close_row ::
  "'r saving \<Rightarrow> HeadConfig \<Rightarrow> time \<Rightarrow> string \<Rightarrow> string \<Rightarrow> string \<Rightarrow> JobEntry \<Rightarrow> 'r world \<Rightarrow> 'r world \<times> (string + gate_result)" where
  "close_row sv cfg now st rs detail current w =
     (case save sv cfg (current\<lparr>status := st, result_state := Some rs, reason := Some detail, finished_at := Some now\<rparr>) w of
        (w', _, Some m) \<Rightarrow> (w', Inl m)
      | (w', e, None) \<Rightarrow>
          (w', Inr (Return \<lparr>se_entry = e, se_outcome = st, se_detail = Some detail, se_unstaged = True\<rparr>)))"

definition keep_waiting :: "'r saving \<Rightarrow> HeadConfig \<Rightarrow> string \<Rightarrow> JobEntry \<Rightarrow> 'r world \<Rightarrow> 'r world \<times> (string + gate_result)" where
  "keep_waiting sv cfg detail current w =
     (let rsn = ''waiting: '' @ detail;
          answer = (\<lambda>e. Return \<lparr>se_entry = e, se_outcome = ''waiting'', se_detail = Some detail, se_unstaged = False\<rparr>) in
      if reason current = Some rsn then (w, Inr (answer current))
      else (case save sv cfg (current\<lparr>reason := Some rsn\<rparr>) w of
              (w', _, Some m) \<Rightarrow> (w', Inl m)
            | (w', e, None) \<Rightarrow> (w', Inr (answer e))))"

definition clear_reason :: "'r saving \<Rightarrow> HeadConfig \<Rightarrow> JobEntry \<Rightarrow> 'r world \<Rightarrow> 'r world \<times> (string + gate_result)" where
  "clear_reason sv cfg current w =
     (if reason current = None then (w, Inr (Proceed current))
      else (case save sv cfg (current\<lparr>reason := None\<rparr>) w of
              (w', _, Some m) \<Rightarrow> (w', Inl m)
            | (w', e, None) \<Rightarrow> (w', Inr (Proceed e))))"

definition unsettled_detail :: "dependency \<Rightarrow> string \<Rightarrow> JobEntry \<Rightarrow> string" where
  "unsettled_detail k d predecessor =
     (if k = AfterSuccess \<and> status predecessor = ''lost''
      then ''dependency '' @ d @ '' is lost but inside the rescue window''
      else noun k @ d @ '' is '' @ status predecessor)"

definition dependency_step ::
  "'r saving \<Rightarrow> HeadConfig \<Rightarrow> time \<Rightarrow> dependency \<Rightarrow> JobEntry \<Rightarrow> 'r world \<Rightarrow> 'r world \<times> (string + gate_result)" where
  "dependency_step sv cfg now k current w =
     (case depends_on k current of
        None \<Rightarrow> (w, Inr (Proceed current))
      | Some d \<Rightarrow>
          if d = job_id current
          then close_row sv cfg now ''failed'' ''infra_failure'' (noun k @ d @ '' points to the same job'') current w
          else case load_predecessor (sv_decoding sv) cfg d w of
            (_, Some unreadable) \<Rightarrow> keep_waiting sv cfg unreadable current w
          | (None, None) \<Rightarrow> close_row sv cfg now ''failed'' ''infra_failure'' (noun k @ d @ '' was not found'') current w
          | (Some predecessor, None) \<Rightarrow>
              if \<not> dependency_settled predecessor
              then keep_waiting sv cfg (unsettled_detail k d predecessor) current w
              else case predicate_false k d current predecessor of
                Some detail \<Rightarrow> close_row sv cfg now ''skipped'' ''dependency_skipped'' detail current w
              | None \<Rightarrow> clear_reason sv cfg current w)"

fun dependency_steps ::
  "'r saving \<Rightarrow> HeadConfig \<Rightarrow> time \<Rightarrow> dependency list \<Rightarrow> JobEntry \<Rightarrow> 'r world \<Rightarrow> 'r world \<times> (string + gate_result)" where
  "dependency_steps sv cfg now [] current w = (w, Inr (Proceed current))"
| "dependency_steps sv cfg now (k # ks) current w =
     (case dependency_step sv cfg now k current w of
        (w', Inr (Proceed e)) \<Rightarrow> dependency_steps sv cfg now ks e w'
      | answer \<Rightarrow> answer)"

text \<open>\<open>_dispatch_queued_gated\<close> up to the placement, which \<open>active\<close> stands for.\<close>

definition gate_row :: "'r saving \<Rightarrow> HeadConfig \<Rightarrow> time \<Rightarrow> JobEntry \<Rightarrow> 'r world \<Rightarrow> 'r world \<times> (string + gate_result)" where
  "gate_row sv cfg now e w =
     (let w1 = finalize_dependency_rows sv cfg now [after_success e, after_complete e, after_result e] (Some (job_id e)) w in
      if \<not> valid_job_id (job_id e) then (w1, Inl ''job identity is unsafe'')
      else case load (sv_decoding sv) cfg (job_id e) w1 of
        Inl m \<Rightarrow> (w1, Inl m)
      | Inr found \<Rightarrow>
          let current = (case found of None \<Rightarrow> e | Some row \<Rightarrow> row) in
          if status current \<noteq> ''queued'' then (w1, Inr (Return (settled_as current False)))
          else dependency_steps sv cfg now [AfterSuccess, AfterComplete, AfterResult] current w1)"

definition dispatch_queued_gated ::
  "(JobEntry \<Rightarrow> 'r world \<Rightarrow> 'r world \<times> (string + settled)) \<Rightarrow> 'r saving \<Rightarrow> HeadConfig \<Rightarrow> time \<Rightarrow> JobEntry \<Rightarrow> 'r world
   \<Rightarrow> 'r world \<times> (string + settled)" where
  "dispatch_queued_gated active sv cfg now e w =
     (case gate_row sv cfg now e w of
        (w', Inl m) \<Rightarrow> (w', Inl m)
      | (w', Inr (Return s)) \<Rightarrow> (w', Inr s)
      | (w', Inr (Proceed current)) \<Rightarrow> active current w')"

section \<open>Who owns a claim\<close>

text \<open>
  What the dispatching process knows of the head: its pid, the boot id file and the
  \<open>/proc/<pid>/stat\<close> files (\<open>None\<close> when unreadable), the jobs other threads of this process are
  dispatching, and the clock.
\<close>

record head_process =
  hp_pid :: int
  hp_boot_file :: "string option"
  hp_stat :: "int \<Rightarrow> string option"
  hp_inflight_elsewhere :: "string list"
  hp_now :: time

definition current_head_boot_id :: "head_process \<Rightarrow> string" where
  "current_head_boot_id hp =
     (case hp_boot_file hp of
        None \<Rightarrow> ''unknown''
      | Some raw \<Rightarrow> (let value = strip raw in
          if value \<noteq> [] \<and> length value \<le> 64 \<and> list_all (\<lambda>c. is_ascii_alnum c \<or> c = CHR ''-'') value then value else ''unknown''))"

text \<open>The text after the last closing parenthesis, everything when there is none.\<close>

definition after_last :: "char \<Rightarrow> string \<Rightarrow> string" where
  "after_last c s = rev (takeWhile (\<lambda>x. x \<noteq> c) (rev s))"

definition process_start_ticks :: "head_process \<Rightarrow> int \<Rightarrow> int option" where
  "process_start_ticks hp pid =
     (case hp_stat hp pid of
        None \<Rightarrow> None
      | Some stat_text \<Rightarrow> (let parts = words (after_last (CHR '')'') stat_text) in
          if length parts < 20 then None else py_int (parts ! 19)))"

definition dispatch_owner_identity :: "head_process \<Rightarrow> string" where
  "dispatch_owner_identity hp =
     current_head_boot_id hp @ '':'' @ show_int (hp_pid hp) @ '':''
       @ show_int (case process_start_ticks hp (hp_pid hp) of None \<Rightarrow> 0 | Some t \<Rightarrow> t)"

definition DISPATCH_CLAIM_STALE_S :: time where "DISPATCH_CLAIM_STALE_S = 4 * 3600"

definition opt_text :: "string option \<Rightarrow> string" where
  "opt_text x = (case x of None \<Rightarrow> ''None'' | Some s \<Rightarrow> s)"

definition dispatch_claim_hold_reason :: "head_process \<Rightarrow> JobEntry \<Rightarrow> string option" where
  "dispatch_claim_hold_reason hp e =
     (case dispatch_owner e of
        None \<Rightarrow> None
      | Some owner \<Rightarrow>
      (case split_on CHR '':'' owner of
         [owner_boot, owner_pid, owner_ticks] \<Rightarrow>
         (case (py_int owner_pid, py_int owner_ticks) of
            (Some pid, Some ticks) \<Rightarrow>
              if pid = hp_pid hp then
                (if job_id e \<in> set (hp_inflight_elsewhere hp)
                 then Some (''dispatch in progress on '' @ opt_text (dispatch_node e) @ '' in this process'')
                 else None)
              else if owner_boot \<noteq> current_head_boot_id hp then None
              else (case process_start_ticks hp pid of
                 None \<Rightarrow> None
               | Some observed_ticks \<Rightarrow>
                   if ticks \<noteq> 0 \<and> observed_ticks \<noteq> ticks then None
                   else if (case dispatch_claimed_at e of None \<Rightarrow> False
                            | Some t \<Rightarrow> DISPATCH_CLAIM_STALE_S < hp_now hp - t) then None
                   else Some (''dispatch in progress on '' @ opt_text (dispatch_node e)
                     @ '' by live dispatcher pid '' @ show_int pid))
          | _ \<Rightarrow> None)
       | _ \<Rightarrow> None))"

section \<open>Conditional commit\<close>

type_synonym attempt = "string option \<times> string option"

definition attempt_of :: "JobEntry \<Rightarrow> attempt" where
  "attempt_of e = (dispatch_node e, dispatch_token e)"

definition drop_claim :: "JobEntry \<Rightarrow> JobEntry" where
  "drop_claim e = e\<lparr>dispatch_node := None, dispatch_token := None, dispatch_owner := None, dispatch_claimed_at := None\<rparr>"

text \<open>The terminal fields a failed or skipped candidate gets before the lock is taken.\<close>

definition complete_terminal :: "time \<Rightarrow> JobEntry \<Rightarrow> string + JobEntry" where
  "complete_terminal now c =
     (if status c = ''failed'' \<and> (finished_at c = None \<or> result_state c = None)
      then transition_terminal now ''failed'' ''infra_failure'' (reason c) (finished_at c) c
      else if status c = ''skipped'' \<and> (finished_at c = None \<or> result_state c = None)
      then transition_terminal now ''skipped'' ''dependency_skipped'' (reason c) (finished_at c) c
      else Inr c)"

definition removed_during_dispatch :: "time \<Rightarrow> JobEntry \<Rightarrow> JobEntry" where
  "removed_during_dispatch now c =
     drop_claim (c\<lparr>status := ''killed'', result_state := Some ''cancelled'',
       reason := Some ''registry row removed during dispatch'', finished_at := Some now\<rparr>)"

text \<open>The disk, the candidate after the call, and the row that won (\<open>None\<close> when the commit held).\<close>

definition commit_queued_transition ::
  "'r saving \<Rightarrow> HeadConfig \<Rightarrow> time \<Rightarrow> bool \<Rightarrow> attempt option \<Rightarrow> JobEntry \<Rightarrow> 'r world
   \<Rightarrow> 'r world \<times> JobEntry \<times> (string + JobEntry option)" where
  "commit_queued_transition sv cfg now persist expected_attempt candidate w =
     (case complete_terminal now candidate of
        Inl m \<Rightarrow> (w, candidate, Inl m)
      | Inr c \<Rightarrow>
          if \<not> valid_job_id (job_id c) then (w, c, Inl ''job identity is unsafe'')
          else case load (sv_decoding sv) cfg (job_id c) w of
            Inl m \<Rightarrow> (w, c, Inl m)
          | Inr None \<Rightarrow> (w, c, Inr (Some (removed_during_dispatch now c)))
          | Inr (Some current) \<Rightarrow>
              if status current \<noteq> ''queued'' then (w, c, Inr (Some current))
              else if attempt_of current \<noteq> (case expected_attempt of None \<Rightarrow> attempt_of c | Some a \<Rightarrow> a)
              then (w, c, Inr (Some current))
              else if \<not> persist then (w, c, Inr None)
              else (case save sv cfg c w of
                      (w', c', Some m) \<Rightarrow> (w', c', Inl m)
                    | (w', c', None) \<Rightarrow> (w', c', Inr None)))"

section \<open>Claiming an attempt\<close>

definition admission_unavailable :: "string \<Rightarrow> string" where
  "admission_unavailable m =
     ''waiting: scheduler admission unavailable ('' @
       (case diagnostic_excerpt [Some m] ''RegistryError'' MAX_DIAGNOSTIC_CHARS of Inl d \<Rightarrow> d | Inr d \<Rightarrow> d) @ '')''"

definition claim_admission :: "'r saving \<Rightarrow> head_process \<Rightarrow> HeadConfig \<Rightarrow> JobEntry \<Rightarrow> string \<Rightarrow> 'r world \<Rightarrow> AdmissionDecision \<times> 'r world" where
  "claim_admission sv hp cfg current nd w =
     (let ((active, dmg), w1) = active_entries (sv_index_io sv) (sv_decoding sv) cfg (hp_now hp) True w;
          entries = with_dependency_predecessors (sv_decoding sv) cfg active w1
      in (admission_decision cfg current entries nd (length dmg) True (hp_now hp), w1))"

definition claimed_by :: "head_process \<Rightarrow> string \<Rightarrow> string \<Rightarrow> JobEntry \<Rightarrow> JobEntry" where
  "claimed_by hp nd token current =
     current\<lparr>dispatch_node := Some nd, dispatch_token := Some token, dispatch_owner := Some (dispatch_owner_identity hp),
       dispatch_claimed_at := Some (hp_now hp), reason := Some (''dispatching: '' @ nd)\<rparr>"

text \<open>
  The compare and swap under both locks: the disk, the caller's row and whether the claim holds.
  \<open>acquired\<close> says whether the admission lock was free.
\<close>

definition claim_locked ::
  "'r saving \<Rightarrow> head_process \<Rightarrow> HeadConfig \<Rightarrow> bool \<Rightarrow> string \<Rightarrow> string option \<Rightarrow> JobEntry \<Rightarrow> string \<Rightarrow> 'r world
   \<Rightarrow> 'r world \<times> JobEntry \<times> bool" where
  "claim_locked sv hp cfg acquired token expected_token e nd w =
     (let unavailable = (\<lambda>m. e\<lparr>reason := Some (admission_unavailable m)\<rparr>) in
      if \<not> acquired then (w, e\<lparr>reason := Some ''waiting: scheduler admission lock is busy''\<rparr>, False)
      else if \<not> valid_job_id (job_id e) then (w, unavailable ''job identity is unsafe'', False)
      else case load (sv_decoding sv) cfg (job_id e) w of
        Inl m \<Rightarrow> (w, unavailable m, False)
      | Inr None \<Rightarrow> (w, e, False)
      | Inr (Some current) \<Rightarrow>
          if status current \<noteq> ''queued'' \<or> dispatch_node current \<noteq> (if expected_token \<noteq> None then dispatch_node e else None)
             \<or> dispatch_token current \<noteq> expected_token
          then (w, current, False)
          else
            let (decision, w1) = claim_admission sv hp cfg current nd w;
                row = (if ad_allowed decision then claimed_by hp nd token current
                       else current\<lparr>reason := Some (''waiting: '' @ ad_reason decision)\<rparr>) in
            case save sv cfg row w1 of
              (w2, _, Some m) \<Rightarrow> (w2, unavailable m, False)
            | (w2, row', None) \<Rightarrow> (w2, row', ad_allowed decision))"

text \<open>
  \<open>receipt\<close> is the outcome of binding the attempt to the submission request, when there is one.
  The last component is the token the specification carries afterwards.
\<close>

definition claim_queued_dispatch_attempt ::
  "'r saving \<Rightarrow> head_process \<Rightarrow> HeadConfig \<Rightarrow> bool \<Rightarrow> string \<Rightarrow> check \<Rightarrow> string option \<Rightarrow> JobEntry \<Rightarrow> string \<Rightarrow> 'r world
   \<Rightarrow> 'r world \<times> JobEntry \<times> bool \<times> string option" where
  "claim_queued_dispatch_attempt sv hp cfg acquired token receipt expected_token e nd w =
     (case claim_locked sv hp cfg acquired token expected_token e nd w of
        (w', e', False) \<Rightarrow> (w', e', False, expected_token)
      | (w', e', True) \<Rightarrow>
          (case (if request_id e' = None then None else receipt) of
             None \<Rightarrow> (w', e', True, Some token)
           | Some m \<Rightarrow>
               (w', e'\<lparr>reason := Some (''waiting: request launch proof unavailable ('' @
                  (case diagnostic_excerpt [Some m] ''RequestRecordError'' MAX_DIAGNOSTIC_CHARS of Inl d \<Rightarrow> d | Inr d \<Rightarrow> d) @ '')'')\<rparr>,
                False, expected_token)))"

section \<open>Publishing a placement\<close>

text \<open>\<open>placed\<close> is the row of the launch that was just observed on its node.\<close>

definition restore_row :: "'r saving \<Rightarrow> HeadConfig \<Rightarrow> JobEntry \<Rightarrow> 'r world \<Rightarrow> 'r world \<times> (string + JobEntry)" where
  "restore_row sv cfg placed w =
     (if \<not> valid_job_id (job_id placed) then (w, Inl ''job identity is unsafe'')
      else case load (sv_decoding sv) cfg (job_id placed) w of
        Inl m \<Rightarrow> (w, Inl m)
      | Inr found \<Rightarrow>
          (case found of
             Some current \<Rightarrow> if status current \<noteq> ''killed'' then (w, Inr current)
                             else (case save sv cfg placed w of (w', _, Some m) \<Rightarrow> (w', Inl m) | (w', e, None) \<Rightarrow> (w', Inr e))
           | None \<Rightarrow> (case save sv cfg placed w of (w', _, Some m) \<Rightarrow> (w', Inl m) | (w', e, None) \<Rightarrow> (w', Inr e))))"

definition restore_finished_after_raced_dequeue ::
  "'r saving \<Rightarrow> HeadConfig \<Rightarrow> JobEntry \<Rightarrow> 'r world \<Rightarrow> 'r world \<times> (string + JobEntry)" where
  "restore_finished_after_raced_dequeue sv cfg placed w = restore_row sv cfg placed w"

definition restore_running_after_cancel_failure ::
  "'r saving \<Rightarrow> HeadConfig \<Rightarrow> JobEntry \<Rightarrow> string \<Rightarrow> 'r world \<Rightarrow> 'r world \<times> (string + JobEntry)" where
  "restore_running_after_cancel_failure sv cfg placed detail w =
     restore_row sv cfg (placed\<lparr>status := ''running'', finished_at := None, reason := Some (CANCEL_UNVERIFIED_PREFIX @ detail)\<rparr>) w"

definition or_keep :: "string option \<Rightarrow> string option \<Rightarrow> string option" where
  "or_keep new old = (if new = None \<or> new = Some [] then old else new)"

definition launch_history :: "time \<Rightarrow> JobEntry \<Rightarrow> JobEntry \<Rightarrow> JobEntry" where
  "launch_history now placed current =
     current\<lparr>node := node placed, node_local := node_local placed, gpus := gpus placed, pgid := pgid placed,
       env_hash := env_hash placed, snapshot_duration_s := snapshot_duration_s placed,
       launch_duration_s := launch_duration_s placed, launch_phases_s := launch_phases_s placed,
       env_preexisting := env_preexisting placed, setup_ran := setup_ran placed, boot_id := boot_id placed,
       started_at := started_at placed, snapshot_sha256 := or_keep (snapshot_sha256 placed) (snapshot_sha256 current),
       payload_sha256 := or_keep (payload_sha256 placed) (payload_sha256 current), storage_layout := storage_layout placed,
       worker_root := worker_root placed, job_relpath := job_relpath placed, job_dir := job_dir placed,
       finished_at := Some now, reason := Some ''dequeued by user; in-flight launch cancelled (TERM)''\<rparr>"

definition record_cancelled_inflight_launch ::
  "'r saving \<Rightarrow> HeadConfig \<Rightarrow> time \<Rightarrow> JobEntry \<Rightarrow> JobEntry \<Rightarrow> 'r world \<Rightarrow> 'r world \<times> (string + JobEntry)" where
  "record_cancelled_inflight_launch sv cfg now killed placed w =
     (if \<not> valid_job_id (job_id placed) then (w, Inl ''job identity is unsafe'')
      else case load (sv_decoding sv) cfg (job_id placed) w of
        Inl m \<Rightarrow> (w, Inl m)
      | Inr found \<Rightarrow>
          let current = (case found of None \<Rightarrow> killed | Some row \<Rightarrow> row) in
          if status current \<noteq> ''killed'' then (w, Inr current)
          else (case save sv cfg (launch_history now placed current) w of
                  (w', _, Some m) \<Rightarrow> (w', Inl m)
                | (w', e, None) \<Rightarrow> (w', Inr e)))"

text \<open>
  \<open>cancel\<close> is the answer of \<open>_cancel_placed_launch\<close>: nothing once the remote processes are proven
  dead, otherwise why they are not.
\<close>

definition finish_queued_placement ::
  "check \<Rightarrow> 'r saving \<Rightarrow> HeadConfig \<Rightarrow> time \<Rightarrow> JobEntry \<Rightarrow> JobEntry \<Rightarrow> 'r world \<Rightarrow> 'r world \<times> (string + settled)" where
  "finish_queued_placement cancel sv cfg now e placed0 w =
     (let placed1 = placed0\<lparr>git_sha := git_sha e, git_dirty := git_dirty e, submodule_commits := submodule_commits e\<rparr>;
          publish = (\<lambda>(w', r). (w', bind_ok r (\<lambda>row. Inr (settled_as row True)))) in
      case commit_queued_transition sv cfg now True (Some (attempt_of e)) placed1 w of
        (w1, _, Inl m) \<Rightarrow> (w1, Inl m)
      | (w1, placed, Inr None) \<Rightarrow> (w1, Inr (settled_as placed True))
      | (w1, placed, Inr (Some current)) \<Rightarrow>
          if status current \<noteq> ''killed'' then (w1, Inr (settled_as current True))
          else if status placed = ''finished'' then publish (restore_finished_after_raced_dequeue sv cfg placed w1)
          else case cancel of
            Some m \<Rightarrow>
              (case restore_running_after_cancel_failure sv cfg placed m w1 of
                 (w2, Inl x) \<Rightarrow> (w2, Inl x)
               | (w2, Inr restored) \<Rightarrow>
                   if status restored = ''running''
                   then (w2, Inr \<lparr>se_entry = restored, se_outcome = ''cancel-failed'',
                                   se_detail = Some (node placed @ '': '' @ m), se_unstaged = True\<rparr>)
                   else (w2, Inr (settled_as restored True)))
          | None \<Rightarrow>
              (case record_cancelled_inflight_launch sv cfg now current placed w1 of
                 (w2, Inl x) \<Rightarrow> (w2, Inl x)
               | (w2, Inr recorded) \<Rightarrow>
                   if status recorded = ''killed''
                   then (w2, Inr \<lparr>se_entry = recorded, se_outcome = ''killed'', se_detail = Some (node placed), se_unstaged = True\<rparr>)
                   else (w2, Inr (settled_as recorded True))))"

section \<open>Recovering a claim\<close>

definition commit_or :: "'r world \<times> JobEntry \<times> (string + JobEntry option) \<Rightarrow> (JobEntry \<Rightarrow> gate_result) \<Rightarrow> 'r world \<times> (string + gate_result)" where
  "commit_or r answer =
     (case r of
        (w, _, Inl m) \<Rightarrow> (w, Inl m)
      | (w, _, Inr (Some current)) \<Rightarrow> (w, Inr (Return (settled_as current False)))
      | (w, e, Inr None) \<Rightarrow> (w, Inr (answer e)))"

definition recovery_blocked ::
  "'r saving \<Rightarrow> HeadConfig \<Rightarrow> time \<Rightarrow> string \<Rightarrow> JobEntry \<Rightarrow> 'r world \<Rightarrow> 'r world \<times> (string + gate_result)" where
  "recovery_blocked sv cfg now detail e w =
     commit_or (commit_queued_transition sv cfg now True None (e\<lparr>reason := Some (''blocked: '' @ detail)\<rparr>) w)
       (\<lambda>e'. Return \<lparr>se_entry = e', se_outcome = ''blocked'', se_detail = Some detail, se_unstaged = False\<rparr>)"

text \<open>
  \<open>adopt\<close> is the remote verdict on the previous attempt: a launch to adopt, or why its absence is
  not proven, or neither once the attempt is proven gone.
\<close>

definition recover_claimed_dispatch ::
  "(string \<Rightarrow> JobEntry \<Rightarrow> JobEntry option \<times> string option) \<Rightarrow> check \<Rightarrow> 'r saving \<Rightarrow> head_process \<Rightarrow> HeadConfig \<Rightarrow> JobEntry
   \<Rightarrow> 'r world \<Rightarrow> 'r world \<times> (string + gate_result)" where
  "recover_claimed_dispatch adopt cancel sv hp cfg e w =
     (case dispatch_claim_hold_reason hp e of
        Some r \<Rightarrow> (w, Inr (Return \<lparr>se_entry = e, se_outcome = ''waiting'', se_detail = Some r, se_unstaged = False\<rparr>))
      | None \<Rightarrow>
          (case find (\<lambda>n. Some (nd_name n) = dispatch_node e) (cf_nodes cfg) of
             None \<Rightarrow>
               recovery_blocked sv cfg (hp_now hp) (''previous dispatch node '' @ repr_opt (dispatch_node e)
                 @ '' is no longer configured; recovery cannot prove the remote attempt absent'') e w
           | Some configured \<Rightarrow>
               (case adopt (nd_name configured) e of
                  (Some adopted, _) \<Rightarrow>
                    (case finish_queued_placement cancel sv cfg (hp_now hp) e adopted w of
                       (w', Inl m) \<Rightarrow> (w', Inl m)
                     | (w', Inr s) \<Rightarrow> (w', Inr (Return s)))
                | (None, Some error) \<Rightarrow>
                    recovery_blocked sv cfg (hp_now hp)
                      (''dispatch recovery unverified on '' @ nd_name configured @ '': '' @ error) e w
                | (None, None) \<Rightarrow>
                    commit_or (commit_queued_transition sv cfg (hp_now hp) True (Some (attempt_of e))
                      ((drop_claim e)\<lparr>reason := None\<rparr>) w) Proceed)))"

section \<open>Placement attempts\<close>

definition pattern_of :: "(string, string) dict \<Rightarrow> string \<Rightarrow> string" where
  "pattern_of reasons outcome =
     (let kind = (\<lambda>r. if outcome = ''unreachable'' then outcome else strip (hd (split_max CHR '':'' 1 r)));
          parts = map (\<lambda>(nd, r). nd @ ''='' @ (if kind r = [] then outcome else kind r)) (sort_key id reasons) in
      if join '';'' parts = [] then outcome else join '';'' parts)"

definition note_placement_attempt :: "time \<Rightarrow> string \<Rightarrow> JobEntry \<Rightarrow> JobEntry" where
  "note_placement_attempt moment pattern e =
     (if placement_pattern e = Some pattern \<and> 0 < placement_attempts e
      then e\<lparr>placement_attempts := placement_attempts e + 1, placement_last_failed_at := Some moment\<rparr>
      else e\<lparr>placement_pattern := Some pattern, placement_attempts := 1, placement_first_failed_at := Some moment,
             placement_last_failed_at := Some moment\<rparr>)"

section \<open>Cards other claims are about to take\<close>

definition claims_cards :: "head_process \<Rightarrow> JobEntry \<Rightarrow> JobEntry \<Rightarrow> bool" where
  "claims_cards hp e row \<longleftrightarrow>
     \<not> (job_id row = job_id e \<or> status row \<noteq> ''queued'' \<or> dispatch_node row = None \<or> gpus_requested row \<le> 0
        \<or> dispatch_claim_hold_reason hp row = None)"

definition reserved_owners :: "head_process \<Rightarrow> JobEntry \<Rightarrow> JobEntry list \<Rightarrow> string \<Rightarrow> string list" where
  "reserved_owners hp e rows nd =
     concat (map (\<lambda>row. replicate (nat (gpus_requested row)) (job_id row))
       (filter (\<lambda>row. claims_cards hp e row \<and> dispatch_node row = Some nd) rows))"

fun hide_cards :: "string list \<Rightarrow> Gpu list \<Rightarrow> Gpu list" where
  "hide_cards [] gs = gs"
| "hide_cards owners [] = []"
| "hide_cards (o1 # owners) (g # gs) =
     (if gp_free g
      then g\<lparr>gp_free := False, gp_leased := True, gp_lease_owner := Some (''dispatching:'' @ o1)\<rparr> # hide_cards owners gs
      else g # hide_cards (o1 # owners) gs)"

definition reserve_inflight_claims ::
  "'r saving \<Rightarrow> head_process \<Rightarrow> HeadConfig \<Rightarrow> JobEntry \<Rightarrow> NodeStatus list \<Rightarrow> 'r world \<Rightarrow> NodeStatus list \<times> 'r world" where
  "reserve_inflight_claims sv hp cfg e statuses w =
     (let ((rows, _), w') = active_entries (sv_index_io sv) (sv_decoding sv) cfg (hp_now hp) True w in
      (map (\<lambda>st. if reserved_owners hp e rows (ns_node st) = [] \<or> ns_error st \<noteq> None then st
                  else st\<lparr>ns_gpus := hide_cards (reserved_owners hp e rows (ns_node st)) (ns_gpus st)\<rparr>) statuses, w'))"

end
