(* ===== verification/Dispatch_Facts.thy ===== *)
theory Dispatch_Facts
  imports Queued_Dispatch
begin

text \<open>
  What the dispatch of a queued row guarantees whatever the other dispatchers do between its
  steps: nothing is placed before its dependencies hold, a claim is exclusive and only given to a
  job that admission allows, and a dispatcher that lost its claim changes nothing.
\<close>

section \<open>What a save keeps\<close>

lemma active_entries_disk:
  assumes "active_entries io dc cfg now publish w = (r, w')"
  shows "dirs w' = dirs w"
  using assms
  by (auto simp: active_entries_def rebuild_def write_active_index_def Let_def
      split: option.splits prod.splits sum.splits if_splits)

lemma load_active_entries: "active_entries io dc cfg now publish w = (r, w') \<Longrightarrow> load dc' cfg jid w' = load dc' cfg jid w"
  by (rule load_same_rows, rule same_rows_dirs, rule active_entries_disk)

definition same_claim :: "JobEntry \<Rightarrow> JobEntry \<Rightarrow> bool" where
  "same_claim e row \<longleftrightarrow> job_id row = job_id e \<and> status row = status e \<and> attempt_of row = attempt_of e
     \<and> (dispatch_token e \<noteq> None \<longrightarrow> dispatch_owner row = dispatch_owner e \<and> dispatch_claimed_at row = dispatch_claimed_at e)"

lemma saved_row:
  assumes "save sv cfg e w = (w', e', None)"
  shows "\<exists>row. (\<forall>dc. load dc cfg (job_id e) w' = Inr (Some row)) \<and> same_claim e row \<and> same_claim e e'"
proof -
  obtain w1 e2 r where prep: "prepare_save sv cfg e w = (w1, e2, r)" by (metis prod.exhaust)
  obtain loc existing persisted doc where r: "r = Inr (loc, existing, persisted, doc)"
    using assms save_unprepared [of sv cfg e w] prep by (cases r) auto
  note prep = prep [unfolded r]
  have io: "sv_row_io sv" using assms save_no_io [OF prep] by (cases "sv_row_io sv") auto
  from prep obtain restored where env: "preserve_env existing (inherit_layout cfg existing e) = Inr restored"
    and stamp: "stamp_rows (sv_updated_at sv) (inherit_layout cfg existing e) restored = (e2, persisted)"
    by (rule prepare_saveE) (rule that)
  have "same_claim e persisted \<and> same_claim e e2"
    using env stamp
    by (auto simp: preserve_env_Inr stamp_rows_def Let_def same_claim_def attempt_of_def split: if_splits)
      (auto simp: inherit_layout_def split: option.splits if_splits)
  moreover have "same_claim e (normal_entry mt persisted)" if "same_claim e persisted" for mt
    using that by (auto simp: same_claim_def attempt_of_def) (auto simp: normal_entry_def fill_defaults_def Let_def)
  ultimately show ?thesis
    using save_prepared(1,3) [OF prep io] assms by fastforce
qed

lemma save_keeps_other: "job_id e \<noteq> jid \<Longrightarrow> save sv cfg e w = (w', e', c) \<Longrightarrow> load dc cfg jid w' = load dc cfg jid w"
  using save_others [of jid e dc cfg sv w] by simp

section \<open>Conditional commits\<close>

lemma complete_terminal_claim:
  "complete_terminal now c = Inr c' \<Longrightarrow> job_id c' = job_id c \<and> attempt_of c' = attempt_of c"
  by (auto simp: complete_terminal_def transition_terminal_def attempt_of_def split: if_splits)

lemma commit_cases:
  assumes "commit_queued_transition sv cfg now persist expected c w = (w', c', r)"
  obtains (unchanged) "w' = w" "r = Inr None \<Longrightarrow> \<not> persist"
  | (saved) d row k where "complete_terminal now c = Inr d" "load (sv_decoding sv) cfg (job_id c) w = Inr (Some row)"
      "status row = ''queued''" "attempt_of row = (case expected of None \<Rightarrow> attempt_of c | Some a \<Rightarrow> a)"
      "save sv cfg d w = (w', c', k)" "r = (case k of None \<Rightarrow> Inr None | Some m \<Rightarrow> Inl m)"
proof (cases "complete_terminal now c")
  case (Inl m)
  with assms have "w' = w" "r \<noteq> Inr None" by (auto simp: commit_queued_transition_def)
  then show ?thesis using unchanged by blast
next
  case (Inr d)
  have d: "job_id d = job_id c" "attempt_of d = attempt_of c" using complete_terminal_claim [OF Inr] by auto
  obtain w2 c2 k where sav: "save sv cfg d w = (w2, c2, k)" by (metis prod.exhaust)
  show ?thesis
  proof (cases "\<exists>row. load (sv_decoding sv) cfg (job_id c) w = Inr (Some row) \<and> status row = ''queued''
      \<and> attempt_of row = (case expected of None \<Rightarrow> attempt_of c | Some a \<Rightarrow> a) \<and> persist \<and> valid_job_id (job_id c)")
    case True
    then obtain row where row: "load (sv_decoding sv) cfg (job_id c) w = Inr (Some row)" "status row = ''queued''"
      "attempt_of row = (case expected of None \<Rightarrow> attempt_of c | Some a \<Rightarrow> a)" "persist" "valid_job_id (job_id c)" by auto
    then have "(w', c', r) = (w2, c2, case k of None \<Rightarrow> Inr None | Some m \<Rightarrow> Inl m)"
      using assms sav by (cases k; cases expected) (simp_all add: commit_queued_transition_def Inr d)
    then show ?thesis using saved [OF Inr row(1-3)] sav by simp
  next
    case False
    then have "w' = w \<and> (r = Inr None \<longrightarrow> \<not> persist)"
      using assms by (auto simp: commit_queued_transition_def Inr d split: sum.splits option.splits if_splits)
    then show ?thesis using unchanged by blast
  qed
qed

text \<open>
  C14. A transition that follows remote work is written only if the registry still holds the
  row, queued, under the claim the writer expects; otherwise the disk is untouched. A dispatcher
  that lost its row to a removal, a cancellation or another claim never brings it back, and no
  commit ever touches another job.
\<close>

theorem commit_conditional:
  "(fst (commit_queued_transition sv cfg now persist expected c w) = w
    \<or> (\<exists>row. load (sv_decoding sv) cfg (job_id c) w = Inr (Some row) \<and> status row = ''queued''
         \<and> attempt_of row = (case expected of None \<Rightarrow> attempt_of c | Some a \<Rightarrow> a)))
   \<and> (jid = job_id c \<or> load dc cfg jid (fst (commit_queued_transition sv cfg now persist expected c w)) = load dc cfg jid w)"
proof -
  obtain w' c' r where eq: "commit_queued_transition sv cfg now persist expected c w = (w', c', r)" by (metis prod.exhaust)
  then show ?thesis
  proof (cases rule: commit_cases)
    case unchanged
    then show ?thesis by (simp add: eq)
  next
    case (saved d row k)
    then show ?thesis
      using complete_terminal_claim [OF saved(1)] save_keeps_other [OF _ saved(5), of jid dc] by (auto simp: eq)
  qed
qed

section \<open>Claims\<close>

lemma claim_admission_load: "claim_admission sv hp cfg current nd w = (d, w1) \<Longrightarrow> load dc cfg jid w1 = load dc cfg jid w"
  by (auto simp: claim_admission_def Let_def split: prod.splits dest!: load_active_entries)

lemma claim_locked_True:
  assumes "claim_locked sv hp cfg acquired token expected e nd w = (w', mine, True)"
  obtains current row where "load (sv_decoding sv) cfg (job_id e) w = Inr (Some current)" "status current = ''queued''"
    "dispatch_token current = expected" "dispatch_node current = (if expected \<noteq> None then dispatch_node e else None)"
    "ad_allowed (fst (claim_admission sv hp cfg current nd w))"
    "\<forall>dc. load dc cfg (job_id e) w' = Inr (Some row)"
    "same_claim (claimed_by hp nd token current) row" "same_claim (claimed_by hp nd token current) mine"
proof -
  from assms obtain current where cur: "load (sv_decoding sv) cfg (job_id e) w = Inr (Some current)" "status current = ''queued''"
    "dispatch_token current = expected" "dispatch_node current = (if expected \<noteq> None then dispatch_node e else None)"
    by (auto simp: claim_locked_def Let_def split: if_splits sum.splits option.splits)
  obtain d w1 where adm: "claim_admission sv hp cfg current nd w = (d, w1)" by fastforce
  have ok: "ad_allowed d" and sav: "save sv cfg (claimed_by hp nd token current) w1 = (w', mine, None)"
    using assms cur adm by (auto simp: claim_locked_def Let_def split: if_splits prod.splits option.splits)
  have "job_id (claimed_by hp nd token current) = job_id e"
    using load_job_id [OF cur(1)] by (simp add: claimed_by_def)
  with saved_row [OF sav] cur ok adm that show thesis by auto
qed

lemma claim_locked_other:
  assumes "claim_locked sv hp cfg acquired token expected e nd w = (w', mine, ok)" and "jid \<noteq> job_id e"
  shows "load dc cfg jid w' = load dc cfg jid w"
proof (cases "w' = w")
  case False
  then obtain current where cur: "load (sv_decoding sv) cfg (job_id e) w = Inr (Some current)"
    using assms by (auto simp: claim_locked_def Let_def split: if_splits sum.splits option.splits)
  obtain d w1 where adm: "claim_admission sv hp cfg current nd w = (d, w1)" by fastforce
  let ?row = "if ad_allowed d then claimed_by hp nd token current else current\<lparr>reason := Some (''waiting: '' @ ad_reason d)\<rparr>"
  obtain e' c where sav: "save sv cfg ?row w1 = (w', e', c)"
    using assms cur adm False
    by (cases "save sv cfg ?row w1") (auto simp: claim_locked_def Let_def split: if_splits option.splits)
  have "job_id ?row = job_id e" using load_job_id [OF cur] by (simp add: claimed_by_def)
  then show ?thesis
    using save_keeps_other [OF _ sav, of jid dc] claim_admission_load [OF adm, of dc jid] assms(2) by simp
qed simp

lemma claim_locked_stale:
  assumes "load (sv_decoding sv) cfg (job_id e) w = Inr (Some row)" and "dispatch_token row \<noteq> expected"
  shows "fst (claim_locked sv hp cfg acquired token expected e nd w) = w"
    and "\<not> snd (snd (claim_locked sv hp cfg acquired token expected e nd w))"
  using assms by (simp_all add: claim_locked_def Let_def)

lemma claim_is_locked:
  "fst (claim_queued_dispatch_attempt sv hp cfg acquired token receipt expected e nd w)
     = fst (claim_locked sv hp cfg acquired token expected e nd w)"
  "fst (snd (snd (claim_queued_dispatch_attempt sv hp cfg acquired token receipt expected e nd w)))
     \<Longrightarrow> snd (snd (claim_locked sv hp cfg acquired token expected e nd w))
       \<and> fst (snd (claim_queued_dispatch_attempt sv hp cfg acquired token receipt expected e nd w))
           = fst (snd (claim_locked sv hp cfg acquired token expected e nd w))"
proof -
  obtain w' e' ok where c: "claim_locked sv hp cfg acquired token expected e nd w = (w', e', ok)" by (metis prod.exhaust)
  let ?r = "claim_queued_dispatch_attempt sv hp cfg acquired token receipt expected e nd w"
  show "fst ?r = fst (claim_locked sv hp cfg acquired token expected e nd w)"
    unfolding claim_queued_dispatch_attempt_def c by (cases ok; cases receipt) simp_all
  show "fst (snd (snd ?r)) \<Longrightarrow> snd (snd (claim_locked sv hp cfg acquired token expected e nd w))
       \<and> fst (snd ?r) = fst (snd (claim_locked sv hp cfg acquired token expected e nd w))"
    unfolding claim_queued_dispatch_attempt_def c by (cases ok; cases receipt; cases "request_id e' = None") simp_all
qed

lemma commit_stale:
  assumes "load (sv_decoding sv) cfg (job_id c) w = Inr (Some row)"
    and "attempt_of row \<noteq> (case expected of None \<Rightarrow> attempt_of c | Some a \<Rightarrow> a)"
  shows "fst (commit_queued_transition sv cfg now persist expected c w) = w"
proof -
  obtain w' c' r where eq: "commit_queued_transition sv cfg now persist expected c w = (w', c', r)" by (metis prod.exhaust)
  then show ?thesis by (cases rule: commit_cases) (use assms eq in auto)
qed

lemma commit_stale_answer:
  assumes "load (sv_decoding sv) cfg (job_id c) w = Inr (Some row)"
    and "attempt_of row \<noteq> (case expected of None \<Rightarrow> attempt_of c | Some a \<Rightarrow> a)"
    and "commit_queued_transition sv cfg now persist expected c w = (w', c', r)"
  shows "r = Inr (Some row) \<or> (\<exists>m. r = Inl m)"
proof (cases "complete_terminal now c")
  case (Inl m)
  then show ?thesis using assms(3) by (auto simp: commit_queued_transition_def)
next
  case (Inr d)
  then have d: "job_id d = job_id c" "attempt_of d = attempt_of c" using complete_terminal_claim [OF Inr] by auto
  show ?thesis
    using assms(3) unfolding commit_queued_transition_def Inr sum.case d
    using assms(1,2) by (simp split: if_splits) blast+
qed

lemma finish_stale:
  assumes "load (sv_decoding sv) cfg (job_id placed) w = Inr (Some row)" and "status row = ''queued''" and "attempt_of row \<noteq> attempt_of e"
  shows "fst (finish_queued_placement cancel sv cfg now e placed w) = w"
proof -
  let ?p = "placed\<lparr>git_sha := git_sha e, git_dirty := git_dirty e, submodule_commits := submodule_commits e\<rparr>"
  obtain w' c' r where eq: "commit_queued_transition sv cfg now True (Some (attempt_of e)) ?p w = (w', c', r)" by (metis prod.exhaust)
  have w': "w' = w" using eq by (cases rule: commit_cases) (use assms in auto)
  have "r = Inr (Some row) \<or> (\<exists>m. r = Inl m)"
    by (rule commit_stale_answer [OF _ _ eq]) (use assms in simp_all)
  then consider "r = Inr (Some row)" | m where "r = Inl m" by blast
  then show ?thesis
  proof cases
    case 1
    show ?thesis unfolding finish_queued_placement_def Let_def eq [unfolded 1] using assms(2) by (simp add: w')
  next
    case 2
    show ?thesis unfolding finish_queued_placement_def Let_def eq [unfolded 2] by (simp add: w')
  qed
qed

lemma commit_or_world [simp]: "fst (commit_or r f) = fst r"
  by (cases r) (auto simp: commit_or_def split: sum.splits option.splits)

lemma hold_reason_cong:
  assumes "same_claim e row" and "dispatch_token e \<noteq> None"
  shows "dispatch_claim_hold_reason hp row = dispatch_claim_hold_reason hp e"
proof -
  have "job_id row = job_id e" "dispatch_node row = dispatch_node e" "dispatch_owner row = dispatch_owner e"
    "dispatch_claimed_at row = dispatch_claimed_at e"
    using assms by (auto simp: same_claim_def attempt_of_def)
  then show ?thesis by (simp only: dispatch_claim_hold_reason_def)
qed

text \<open>
  The steps of other dispatchers against the claim \<open>mine\<close>, any number of them, with any disk and
  clock of their own: claims that expect another token, commits under another attempt, and
  recoveries by processes that either read another attempt or see the owner alive.
\<close>

inductive interferes :: "HeadConfig \<Rightarrow> JobEntry \<Rightarrow> 'r world \<Rightarrow> 'r world \<Rightarrow> bool" for cfg mine where
  claim: "job_id e \<noteq> job_id mine \<or> expected \<noteq> dispatch_token mine \<Longrightarrow>
    interferes cfg mine w (fst (claim_queued_dispatch_attempt sv hp cfg acquired token receipt expected e nd w))"
| commit: "job_id c \<noteq> job_id mine \<or> (case expected of None \<Rightarrow> attempt_of c | Some a \<Rightarrow> a) \<noteq> attempt_of mine \<Longrightarrow>
    interferes cfg mine w (fst (commit_queued_transition sv cfg now persist expected c w))"
| recover: "job_id e = job_id mine \<Longrightarrow> attempt_of e \<noteq> attempt_of mine \<or> same_claim mine e \<and> dispatch_claim_hold_reason hp mine \<noteq> None \<Longrightarrow>
    (\<And>nd adopted err. adopt nd e = (Some adopted, err) \<Longrightarrow> job_id adopted = job_id e) \<Longrightarrow>
    interferes cfg mine w (fst (recover_claimed_dispatch adopt cancel sv hp cfg e w))"
| reserve: "interferes cfg mine w (snd (reserve_inflight_claims sv hp cfg e statuses w))"

definition holds_claim :: "HeadConfig \<Rightarrow> JobEntry \<Rightarrow> 'r world \<Rightarrow> bool" where
  "holds_claim cfg mine w \<longleftrightarrow>
     (\<exists>row. (\<forall>dc. load dc cfg (job_id mine) w = Inr (Some row)) \<and> same_claim mine row)"

lemma holds_claim_load:
  "holds_claim cfg mine w \<Longrightarrow> (\<And>dc. load dc cfg (job_id mine) w' = load dc cfg (job_id mine) w) \<Longrightarrow> holds_claim cfg mine w'"
  by (simp add: holds_claim_def)

lemma recover_stale:
  assumes "load (sv_decoding sv) cfg (job_id e) w = Inr (Some row)" and "status row = ''queued''" and "attempt_of row \<noteq> attempt_of e"
    and "\<And>nd adopted err. adopt nd e = (Some adopted, err) \<Longrightarrow> job_id adopted = job_id e"
  shows "fst (recover_claimed_dispatch adopt cancel sv hp cfg e w) = w"
proof -
  have blocked: "fst (recovery_blocked sv cfg now detail e w) = w" for now detail
    unfolding recovery_blocked_def commit_or_world
    by (rule commit_stale) (use assms(1,3) in \<open>simp_all add: attempt_of_def\<close>)
  have cleared: "fst (commit_queued_transition sv cfg now True (Some (attempt_of e)) ((drop_claim e)\<lparr>reason := None\<rparr>) w) = w" for now
    by (rule commit_stale) (use assms(1,3) in \<open>simp_all add: drop_claim_def\<close>)
  have adopted: "fst (finish_queued_placement cancel sv cfg now e a w) = w" if "adopt nd e = (Some a, err)" for nd a err now
    by (rule finish_stale) (use assms(1,2,3) assms(4) [OF that] in simp_all)
  show ?thesis
  proof (cases "dispatch_claim_hold_reason hp e")
    case None
    show ?thesis
    proof (cases "find (\<lambda>n. Some (nd_name n) = dispatch_node e) (cf_nodes cfg)")
      case (Some n)
      obtain a err where ad: "adopt (nd_name n) e = (a, err)" by fastforce
      show ?thesis
        using None Some ad blocked cleared adopted [of "nd_name n"]
        by (cases a; cases err) (auto simp: recover_claimed_dispatch_def split: prod.splits sum.splits dest: arg_cong [of _ _ fst])
    qed (simp add: recover_claimed_dispatch_def None blocked)
  qed (simp add: recover_claimed_dispatch_def)
qed

lemma recover_live:
  assumes "dispatch_claim_hold_reason hp e \<noteq> None"
  shows "fst (recover_claimed_dispatch adopt cancel sv hp cfg e w) = w"
  using assms by (auto simp: recover_claimed_dispatch_def)

lemma interference_keeps_claim:
  assumes "interferes cfg mine w w'" and "holds_claim cfg mine w" and "status mine = ''queued''" and "dispatch_token mine \<noteq> None"
  shows "holds_claim cfg mine w'"
proof -
  obtain row where row: "\<And>dc. load dc cfg (job_id mine) w = Inr (Some row)" "same_claim mine row"
    using assms(2) by (auto simp: holds_claim_def)
  have claim: "dispatch_token row = dispatch_token mine" "attempt_of row = attempt_of mine" "status row = ''queued''"
    using row(2) assms(3) by (auto simp: same_claim_def attempt_of_def)
  from assms(1) have "load dc cfg (job_id mine) w' = load dc cfg (job_id mine) w" for dc
  proof cases
    case (claim e expected sv hp acquired token receipt nd)
    show ?thesis
    proof (cases "job_id e = job_id mine")
      case True
      with claim row \<open>dispatch_token row = _\<close> show ?thesis by (simp add: claim_is_locked(1) claim_locked_stale(1))
    next
      case False
      then show ?thesis
        unfolding claim(1) claim_is_locked(1)
        by (intro claim_locked_other [where e = e]) (auto simp: prod_eq_iff)
    qed
  next
    case (commit c expected sv now persist)
    show ?thesis
    proof (cases "job_id c = job_id mine")
      case True
      with commit row \<open>attempt_of row = _\<close> show ?thesis by (simp add: commit_stale)
    next
      case False
      obtain w2 c2 r where eq: "commit_queued_transition sv cfg now persist expected c w = (w2, c2, r)" by (metis prod.exhaust)
      then show ?thesis
      proof (cases rule: commit_cases)
        case unchanged
        then show ?thesis using commit(1) eq by simp
      next
        case (saved d x k)
        then show ?thesis
          using save_keeps_other [OF _ saved(5)] complete_terminal_claim [OF saved(1)] False commit(1) eq by simp
      qed
    qed
  next
    case (recover e hp adopt cancel sv)
    show ?thesis
    proof (cases "attempt_of e = attempt_of mine")
      case True
      with recover have "same_claim mine e" "dispatch_claim_hold_reason hp mine \<noteq> None" by auto
      then have "dispatch_claim_hold_reason hp e \<noteq> None" using hold_reason_cong assms(4) by metis
      then show ?thesis using recover(1) recover_live by metis
    next
      case False
      then show ?thesis
        using recover_stale [of sv cfg e w row adopt cancel hp] recover claim row(1) by simp
    qed
  next
    case (reserve sv hp e statuses)
    then show ?thesis
      by (auto simp: reserve_inflight_claims_def Let_def split: prod.splits dest!: load_active_entries)
  qed
  with holds_claim_load [OF assms(2)] show ?thesis by blast
qed

text \<open>What every single step keeps is kept for as long as the claim's owner is away.\<close>

locale held_claim =
  fixes step :: "'w \<Rightarrow> 'w \<Rightarrow> bool" and held :: "'w \<Rightarrow> bool"
  assumes step_keeps: "step w w' \<Longrightarrow> held w \<Longrightarrow> held w'"
begin

lemma kept_meanwhile: "step\<^sup>*\<^sup>* w w' \<Longrightarrow> held w \<Longrightarrow> held w'"
  by (induction rule: rtranclp_induct) (auto intro: step_keeps)

end

interpretation queued_claim: held_claim "interferes cfg mine"
  "\<lambda>w. holds_claim cfg mine w \<and> status mine = ''queued'' \<and> dispatch_token mine \<noteq> None" for cfg mine
  by unfold_locales (auto intro: interference_keeps_claim)

text \<open>
  C11. A claim is exclusive. Once a dispatcher has claimed a queued row, the row keeps its node,
  token and owner through any interleaving of other dispatchers' claims, commits, recoveries and
  readings, as long as the recoveries that read this very claim see its owner alive; and no
  claim that expects anything but this token succeeds meanwhile.
\<close>

theorem claim_exclusive:
  assumes "claim_queued_dispatch_attempt sv hp cfg acquired token receipt expected e nd w = (w1, mine, True, spec_token)"
    and "(interferes cfg mine)\<^sup>*\<^sup>* w1 w2"
  shows "(\<exists>row. load dc cfg (job_id e) w2 = Inr (Some row) \<and> status row = ''queued'' \<and> attempt_of row = (Some nd, Some token)
           \<and> dispatch_owner row = Some (dispatch_owner_identity hp))
    \<and> (job_id e' \<noteq> job_id e \<or> expected' = Some token
       \<or> \<not> fst (snd (snd (claim_queued_dispatch_attempt sv' hp' cfg acquired' token' receipt' expected' e' nd' w2))))"
proof -
  have "claim_locked sv hp cfg acquired token expected e nd w = (w1, mine, True)"
    using assms(1) claim_is_locked [of sv hp cfg acquired token receipt expected e nd w] by (simp add: prod_eq_iff)
  then obtain current row where row: "load (sv_decoding sv) cfg (job_id e) w = Inr (Some current)" "status current = ''queued''"
    "\<forall>dc. load dc cfg (job_id e) w1 = Inr (Some row)"
    "same_claim (claimed_by hp nd token current) row" "same_claim (claimed_by hp nd token current) mine"
    by (rule claim_locked_True) blast
  have mine: "job_id mine = job_id e" "status mine = ''queued''" "attempt_of mine = (Some nd, Some token)"
    "dispatch_owner mine = Some (dispatch_owner_identity hp)" "dispatch_token mine = Some token"
    using row(2,5) load_job_id [OF row(1)] by (auto simp: same_claim_def claimed_by_def attempt_of_def)
  have "same_claim mine row"
    using row(4,5) by (auto simp: same_claim_def claimed_by_def attempt_of_def)
  then have "holds_claim cfg mine w1" using row(3) mine(1) by (auto simp: holds_claim_def)
  with queued_claim.kept_meanwhile [OF assms(2)] mine(2,5) have "holds_claim cfg mine w2" by simp
  then obtain row2 where row2: "\<And>dc. load dc cfg (job_id e) w2 = Inr (Some row2)" "same_claim mine row2"
    using mine(1) by (auto simp: holds_claim_def)
  have kept: "dispatch_token row2 = Some token" "status row2 = ''queued''" "attempt_of row2 = (Some nd, Some token)"
    "dispatch_owner row2 = Some (dispatch_owner_identity hp)"
    using row2(2) mine by (auto simp: same_claim_def attempt_of_def)
  have "\<not> fst (snd (snd (claim_queued_dispatch_attempt sv' hp' cfg acquired' token' receipt' expected' e' nd' w2)))"
    if "job_id e' = job_id e" "expected' \<noteq> Some token"
  proof -
    have "\<not> snd (snd (claim_locked sv' hp' cfg acquired' token' expected' e' nd' w2))"
      by (rule claim_locked_stale(2) [of sv' cfg e' w2 row2]) (use that row2(1) kept(1) in auto)
    then show ?thesis using claim_is_locked(2) by blast
  qed
  with kept row2(1) show ?thesis by blast
qed

text \<open>
  C?. A claim is given only to a job that admission allows on the disk of that moment: the row
  was queued and unclaimed as expected, and counting the rows, damage and predecessors the
  registry then held, the quota had room, no dependency was open and no earlier job had a prior
  right to the node.
\<close>

theorem claim_admitted:
  assumes "claim_queued_dispatch_attempt sv hp cfg acquired token receipt expected e nd w = (w1, mine, True, spec_token)"
  shows "\<exists>current. load (sv_decoding sv) cfg (job_id e) w = Inr (Some current) \<and> status current = ''queued''
    \<and> dispatch_token current = expected
    \<and> (let ((active, dmg), w') = active_entries (sv_index_io sv) (sv_decoding sv) cfg (hp_now hp) True w in
       ad_allowed (admission_decision cfg current (with_dependency_predecessors (sv_decoding sv) cfg active w')
         nd (length dmg) True (hp_now hp)))"
proof -
  have "claim_locked sv hp cfg acquired token expected e nd w = (w1, mine, True)"
    using assms claim_is_locked [of sv hp cfg acquired token receipt expected e nd w] by (simp add: prod_eq_iff)
  then obtain current where "load (sv_decoding sv) cfg (job_id e) w = Inr (Some current)" "status current = ''queued''"
    "dispatch_token current = expected" "ad_allowed (fst (claim_admission sv hp cfg current nd w))"
    by (rule claim_locked_True)
  then show ?thesis by (auto simp: claim_admission_def Let_def split: prod.splits)
qed

section \<open>The gate\<close>

text \<open>The fields of a row the gate decides on.\<close>

definition gate_view :: "JobEntry \<Rightarrow> string \<times> string \<times> string option \<times> string option \<times> string option \<times> string list" where
  "gate_view e = (job_id e, status e, after_success e, after_complete e, after_result e, after_result_states e)"

lemma gate_view_eq:
  assumes "gate_view e' = gate_view e"
  shows "job_id e' = job_id e" "status e' = status e" "depends_on k e' = depends_on k e" "after_result_states e' = after_result_states e"
  using assms by (cases k; simp add: gate_view_def depends_on_def)+

lemma saved_view:
  assumes "save sv cfg e w = (w', e', None)"
  shows "gate_view e' = gate_view e"
proof -
  obtain w1 e2 r where prep: "prepare_save sv cfg e w = (w1, e2, r)" by (metis prod.exhaust)
  obtain loc existing persisted doc where r: "r = Inr (loc, existing, persisted, doc)"
    using assms save_unprepared [of sv cfg e w] prep by (cases r) auto
  note prep = prep [unfolded r]
  have io: "sv_row_io sv" using assms save_no_io [OF prep] by (cases "sv_row_io sv") auto
  have e': "e' = e2" using save_prepared(3) [OF prep io] assms by simp
  from prep obtain restored where stamp: "stamp_rows (sv_updated_at sv) (inherit_layout cfg existing e) restored = (e2, persisted)"
    by (rule prepare_saveE) (rule that)
  have "gate_view e2 = gate_view (inherit_layout cfg existing e)"
    using stamp by (auto simp: stamp_rows_def Let_def gate_view_def split: if_splits)
  also have "\<dots> = gate_view e"
    by (simp add: inherit_layout_def gate_view_def split: option.split)
  finally show ?thesis unfolding e' .
qed

text \<open>What the gate has established about one dependency when it lets a row pass.\<close>

definition dependency_holds :: "decoding \<Rightarrow> HeadConfig \<Rightarrow> 'r world \<Rightarrow> JobEntry \<Rightarrow> dependency \<Rightarrow> bool" where
  "dependency_holds dc cfg w e k \<longleftrightarrow>
     (case depends_on k e of
        None \<Rightarrow> True
      | Some d \<Rightarrow> d \<noteq> job_id e \<and>
          (case load dc cfg d w of
             Inr (Some p) \<Rightarrow> dependency_settled p
               \<and> (case k of AfterSuccess \<Rightarrow> job_succeeded p | AfterComplete \<Rightarrow> True
                  | AfterResult \<Rightarrow> observed_result p \<in> set (after_result_states e))
           | _ \<Rightarrow> False))"

text \<open>A passing step leaves the gate's view of the row and all other rows alone.\<close>

definition passes :: "decoding \<Rightarrow> HeadConfig \<Rightarrow> JobEntry \<Rightarrow> 'r world \<Rightarrow> JobEntry \<Rightarrow> 'r world \<Rightarrow> bool" where
  "passes dc cfg e w e' w' \<longleftrightarrow> gate_view e' = gate_view e \<and> (\<forall>d. d \<noteq> job_id e \<longrightarrow> load dc cfg d w' = load dc cfg d w)"

lemma passes_refl [simp]: "passes dc cfg e w e w"
  by (simp add: passes_def)

lemma passes_trans: "passes dc cfg a u b v \<Longrightarrow> passes dc cfg b v c w \<Longrightarrow> passes dc cfg a u c w"
  by (simp add: passes_def gate_view_def)

lemma dependency_holds_passes:
  assumes "passes dc cfg e w e' w'"
  shows "dependency_holds dc cfg w' e' k = dependency_holds dc cfg w e k"
proof -
  have "gate_view e' = gate_view e" using assms by (simp add: passes_def)
  note view = gate_view_eq [OF this]
  show ?thesis
  proof (cases "depends_on k e")
    case (Some d)
    have "d \<noteq> job_id e \<Longrightarrow> load dc cfg d w' = load dc cfg d w" using assms by (simp add: passes_def)
    then show ?thesis
      unfolding dependency_holds_def view(1,3,4) Some by (cases "d = job_id e") simp_all
  qed (simp add: dependency_holds_def view(3))
qed

lemma clear_reason_Proceed:
  assumes "clear_reason sv cfg current w = (w', Inr (Proceed e))"
  shows "passes dc cfg current w e w'"
proof (cases "reason current = None")
  case True
  then show ?thesis using assms by (simp add: clear_reason_def)
next
  case False
  then have sav: "save sv cfg (current\<lparr>reason := None\<rparr>) w = (w', e, None)"
    using assms by (auto simp: clear_reason_def split: prod.splits option.splits)
  show ?thesis
    using saved_view [OF sav] save_keeps_other [OF _ sav, of _ dc] by (simp add: passes_def gate_view_def)
qed

lemma not_Proceed:
  "close_row sv cfg now st rs detail current w \<noteq> (w', Inr (Proceed e))"
  "keep_waiting sv cfg detail current w \<noteq> (w', Inr (Proceed e))"
  by (auto simp: close_row_def keep_waiting_def Let_def split: prod.splits option.splits)

lemma dependency_step_Proceed:
  assumes "dependency_step sv cfg now k current w = (w', Inr (Proceed e))"
  shows "passes (sv_decoding sv) cfg current w e w' \<and> dependency_holds (sv_decoding sv) cfg w' e k"
proof (cases "depends_on k current")
  case None
  with assms show ?thesis by (simp add: dependency_step_def dependency_holds_def)
next
  case (Some d)
  have "clear_reason sv cfg current w = (w', Inr (Proceed e)) \<and> dependency_holds (sv_decoding sv) cfg w current k"
    using assms Some
    by (auto simp: dependency_step_def load_predecessor_def dependency_holds_def predicate_false_def not_Proceed
        split: option.splits sum.splits if_splits dependency.splits)
  then show ?thesis using clear_reason_Proceed dependency_holds_passes by metis
qed

lemma dependency_steps_Proceed:
  assumes "dependency_steps sv cfg now ks current w = (w', Inr (Proceed e))"
  shows "passes (sv_decoding sv) cfg current w e w' \<and> (\<forall>k \<in> set ks. dependency_holds (sv_decoding sv) cfg w' e k)"
  using assms
proof (induction ks arbitrary: current w)
  case (Cons k ks)
  then obtain w1 e1 where st: "dependency_step sv cfg now k current w = (w1, Inr (Proceed e1))"
    and rest: "dependency_steps sv cfg now ks e1 w1 = (w', Inr (Proceed e))"
    by (auto split: prod.splits sum.splits gate_result.splits)
  note first = dependency_step_Proceed [OF st] and later = Cons.IH [OF rest]
  have "dependency_holds (sv_decoding sv) cfg w' e k" using first later dependency_holds_passes by metis
  then show ?case using first later passes_trans by (metis set_ConsD)
qed simp


section \<open>Cards in flight\<close>

abbreviation free_count :: "Gpu list \<Rightarrow> nat" where
  "free_count gs \<equiv> length (filter gp_free gs)"

lemma hide_cards_effect:
  "length (hide_cards owners gs) = length gs \<and> map gp_index (hide_cards owners gs) = map gp_index gs
   \<and> free_count (hide_cards owners gs) = free_count gs - length owners
   \<and> (i < length gs \<longrightarrow> gp_free (hide_cards owners gs ! i) \<longrightarrow> hide_cards owners gs ! i = gs ! i)"
  by (induction owners gs arbitrary: i rule: hide_cards.induct) (auto simp: nth_Cons' split: if_splits)

text \<open>
  C15. Cards that live claims are about to take are hidden and nothing else: on every probed node
  the number of free cards falls by exactly the number of cards the live claims of other queued
  jobs ask for there, down to zero, the inventory keeps its cards in order, and a card that still
  counts as free is reported unchanged.
\<close>

theorem inflight_claims_reserved:
  assumes "active_entries (sv_index_io sv) (sv_decoding sv) cfg (hp_now hp) True w = ((rows, dmg), w')"
    and "j < length statuses" and "ns_error (statuses ! j) = None" and "i < length (ns_gpus (statuses ! j))"
  shows "let out = fst (reserve_inflight_claims sv hp cfg e statuses w) ! j;
             claimed = (\<Sum>row \<leftarrow> filter (\<lambda>r. claims_cards hp e r \<and> dispatch_node r = Some (ns_node (statuses ! j))) rows.
                          nat (gpus_requested row)) in
         ns_node out = ns_node (statuses ! j) \<and> map gp_index (ns_gpus out) = map gp_index (ns_gpus (statuses ! j))
         \<and> length (free_gpus out) = length (free_gpus (statuses ! j)) - claimed
         \<and> (gp_free (ns_gpus out ! i) \<longrightarrow> ns_gpus out ! i = ns_gpus (statuses ! j) ! i)"
proof -
  let ?st = "statuses ! j"
  let ?own = "reserved_owners hp e rows (ns_node ?st)"
  have len: "length ?own = (\<Sum>row \<leftarrow> filter (\<lambda>r. claims_cards hp e r \<and> dispatch_node r = Some (ns_node ?st)) rows. nat (gpus_requested row))"
    by (simp add: reserved_owners_def length_concat comp_def)
  have out: "fst (reserve_inflight_claims sv hp cfg e statuses w) ! j
      = (if ?own = [] then ?st else ?st\<lparr>ns_gpus := hide_cards ?own (ns_gpus ?st)\<rparr>)"
    using assms by (simp add: reserve_inflight_claims_def)
  show ?thesis
    using hide_cards_effect [of ?own "ns_gpus ?st" i] assms(4)
    by (cases "?own = []") (simp_all add: out len [symmetric] free_gpus_def)
qed

section \<open>Concrete instances\<close>

definition open_config :: HeadConfig where
  "open_config = sample_config\<lparr>cf_max_my_jobs := None\<rparr>"

definition first_token :: string where "first_token = replicate 32 CHR ''a''"
definition second_token :: string where "second_token = replicate 32 CHR ''b''"

definition first_head :: head_process where
  "first_head = \<lparr>hp_pid = 4, hp_boot_file = Some ''b1'', hp_stat = (\<lambda>_. None), hp_inflight_elsewhere = [], hp_now = 9\<rparr>"

definition still_saving :: "unit saving" where
  "still_saving = quiet_saving\<lparr>sv_index_io := False\<rparr>"

text \<open>A row that asks for no card, unclaimed or claimed.\<close>

definition cpu_sample :: "bool \<Rightarrow> time \<Rightarrow> JobEntry" where
  "cpu_sample claimed t =
     (let e = (sample_state ''queued'' None None (Some t) (Some ROLE_LAYOUT))\<lparr>gpus_requested := 0\<rparr> in
      if claimed then e\<lparr>dispatch_node := Some ''n1'', dispatch_token := Some first_token, dispatch_owner := Some ''b1:4:0'',
        dispatch_claimed_at := Some 9, reason := Some ''dispatching: n1''\<rparr> else e)"

lemmas cpu_simps = sample_simps cpu_sample_def Let_def

lemma queued_in: "''queued'' \<in> set JOB_STATUSES" by (simp add: JOB_STATUSES_def)
lemma first_token_hex: "is_hex 32 first_token" by code_simp
lemma first_owner: "is_owner_identity ''b1:4:0''" by code_simp

lemma cpu_lifecycle: "0 \<le> t \<Longrightarrow> validate_entry_lifecycle (doc_final (cpu_sample c t)) = None"
  unfolding validate_entry_lifecycle_def first_of_None
  by (cases c) (simp_all add: cpu_simps bad_int_def bad_nonneg_def MAX_JOB_COLLECTION_ITEMS_def queued_in)

lemma cpu_collections: "validate_entry_collections (doc_final (cpu_sample c t)) = None"
  unfolding validate_entry_collections_def first_of_None
  by (cases c) (simp_all add: cpu_simps not_text_dict_def MAX_JOB_COLLECTION_ITEMS_def MAX_PROJECT_EXTRAS_def)

lemma cpu_provenance: "validate_entry_provenance (doc_final (cpu_sample c t)) = None"
  unfolding validate_entry_provenance_def first_of_None
  by (cases c) (simp_all add: cpu_simps OPTIONAL_TEXT_def is_text_or_null_def MAX_RETRY_LIMIT_def first_token_hex first_owner)

lemma cpu_limits: "validate_entry_limits (normalize_owner (doc_final (cpu_sample c t))) = None"
  unfolding validate_entry_limits_def first_of_None
  by (cases c) (simp_all add: cpu_simps bad_int_def bad_nonneg_def bad_positive_def)

lemma cpu_contracts: "validate_entry_contracts (normalize_owner (doc_final (cpu_sample c t))) = None"
  unfolding validate_entry_contracts_def first_of_None
  by (cases c) (simp_all add: cpu_simps MAX_JOB_COLLECTION_ITEMS_def)

lemma cpu_valid: "0 \<le> t \<Longrightarrow> validate_entry (doc_final (cpu_sample c t)) = None"
  unfolding validate_entry_def first_of_None
  using cpu_lifecycle cpu_collections cpu_provenance cpu_limits cpu_contracts by simp

lemma cpu_select:
  "job_id (cpu_sample c t) = job_id sample_entry" "custom_env (cpu_sample c t) = []" "custom_env_loaded (cpu_sample c t)"
  "status (cpu_sample c t) = ''queued''" "terminal_finalized_at (cpu_sample c t) = None" "storage_layout (cpu_sample c t) = Some ROLE_LAYOUT"
  by (cases c; simp add: cpu_simps)+

lemma cpu_bound: "bound_entry (cpu_sample c t) = cpu_sample c t"
proof -
  have "excerpt MAX_JOB_DIAGNOSTIC_CHARS ''dispatching: n1'' = ''dispatching: n1''" by code_simp
  then show ?thesis by (cases c) (simp_all add: bound_entry_def cpu_sample_def sample_state_def sample_entry_def make_entry_def Let_def)
qed

lemma cpu_normal: "normal_entry mt (cpu_sample c t) = cpu_sample c t"
  unfolding normal_entry_def cpu_bound
  by (cases c) (simp_all add: fill_defaults_def nonempty_def cpu_sample_def sample_state_def sample_entry_def make_entry_def Let_def)

lemma cpu_weight: "json_weight (\<lambda>_. ''0.0'') 0 (envelope (cpu_sample c t)) \<le> 40000"
  by (cases c) (simp_all add: envelope_def document_of_def cpu_sample_def sample_state_def sample_entry_def make_entry_def REGISTRY_SCHEMA_VERSION_def
      json_num_def json_ints_def json_strs_def json_nums_def json_of_env_def show_int_def show_nat.simps first_token_def ROLE_LAYOUT_def Let_def)

lemma cpu_decodes:
  assumes "0 \<le> t"
  shows "decode_registry_document sr now mt (Some (job_id sample_entry)) True (JObj (document_of (cpu_sample c t))) = Inr (cpu_sample c t)"
proof -
  have "decode_entry now mt (Some (job_id (cpu_sample c t))) True (JObj (document_of (cpu_sample c t))) = Inr (normal_entry mt (cpu_sample c t))"
    by (rule decode_document_ok [OF _ _ cpu_valid [OF assms]])
       (use sample_id sample_env in \<open>simp_all add: cpu_select sample_state_select\<close>)
  then show ?thesis unfolding decode_plain_document cpu_normal cpu_select .
qed

lemma cpu_encodes:
  assumes "0 \<le> t"
  shows "encode_registry_entry (\<lambda>_. ''0.0'') sr now (cpu_sample c t) = Inr (envelope (cpu_sample c t))"
  using length_dumps_indent [of "\<lambda>_. ''0.0''" 0 "envelope (cpu_sample c t)"] cpu_weight [of c t]
  by (simp add: encode_registry_entry_def Let_def cpu_bound cpu_select cpu_decodes [OF assms] MAX_JOB_RECORD_BYTES_def)

lemma open_place:
  "\<forall>c \<in> set (candidates open_config). Registry_Store.usable (sample_world_of e) (job_id sample_entry) (fst c)"
  "holding open_config (sample_world_of e) (job_id sample_entry) = [(RolePlace, ''role-v1'')]"
proof -
  have "candidates open_config = candidates sample_config" by (simp add: open_config_def candidates_def registry_path_def)
  then show "\<forall>c \<in> set (candidates open_config). Registry_Store.usable (sample_world_of e) (job_id sample_entry) (fst c)"
    "holding open_config (sample_world_of e) (job_id sample_entry) = [(RolePlace, ''role-v1'')]"
    using sample_place(2,3) [of e] by simp_all
qed

lemma cpu_read: "0 \<le> t \<Longrightarrow> read_entry_path dc (sample_world_of (cpu_sample c t)) RolePlace (job_id sample_entry) = Inr (cpu_sample c t)"
  using cpu_decodes [unfolded decode_plain_document, of t] 
  by (simp add: read_entry_path_def Let_def sample_world_of_def files_of_def decode_entry_result_def decode_envelope)

lemma cpu_load: "0 \<le> t \<Longrightarrow> load dc open_config (job_id sample_entry) (sample_world_of (cpu_sample c t)) = Inr (Some (cpu_sample c t))"
  using open_place sample_place(1) cpu_read by (simp add: load_Some)

lemma open_resolve:
  "resolve_registry_record open_config create (job_id sample_entry) (sample_world_of e)
     = Inr (Some (location (RolePlace, ''role-v1'')), sample_world_of e)"
proof -
  have "registry_locations open_config (job_id sample_entry) (sample_world_of e) = Inr [location (RolePlace, ''role-v1'')]"
    using open_place [of e] by (simp add: registry_locations_Inr)
  then show ?thesis using sample_id by (simp add: resolve_registry_record_def)
qed

lemma first_owner_identity: "dispatch_owner_identity first_head = ''b1:4:0''" by code_simp

lemma cpu_claimed: "claimed_by first_head ''n1'' first_token (cpu_sample False t) = cpu_sample True t"
proof -
  have "hp_now first_head = 9" by (simp add: first_head_def)
  then show ?thesis by (simp add: claimed_by_def first_owner_identity cpu_sample_def Let_def)
qed

lemma cpu_prepare:
  assumes "0 \<le> t"
  shows "prepare_save still_saving open_config (cpu_sample True t) (sample_world_of (cpu_sample False t))
    = (sample_world_of (cpu_sample False t), cpu_sample True 9,
       Inr (location (RolePlace, ''role-v1''), Some (cpu_sample False t), cpu_sample True 9, envelope (cpu_sample True 9)))"
proof -
  let ?w = "sample_world_of (cpu_sample False t)" and ?old = "cpu_sample False t"
  have loc: "location (RolePlace, ''role-v1'') = \<lparr>loc_place = RolePlace, loc_layout = ''role-v1'', loc_exists = True\<rparr>"
    by (simp add: location_def)
  have ex: "existing_row dc ?w (location (RolePlace, ''role-v1'')) (job_id sample_entry) = Inr (Some ?old)" for dc
    using cpu_read [OF assms] by (simp add: existing_row_def loc)
  have stamp: "stamp_rows 9 (cpu_sample True t) (cpu_sample True t) = (cpu_sample True 9, cpu_sample True 9)"
  proof -
    have "(cpu_sample True t)\<lparr>updated_at := Some 9, custom_env_keys := sort (keys (custom_env (cpu_sample True t)))\<rparr> = cpu_sample True 9"
      by (simp add: cpu_sample_def sample_state_def sample_entry_def make_entry_def Let_def)
    then show ?thesis by (simp add: stamp_rows_def cpu_select cpu_bound Let_def)
  qed
  have "inherit_layout open_config (Some ?old) (cpu_sample True t) = cpu_sample True t" by (simp add: inherit_layout_def cpu_select)
  moreover have "preserve_env (Some ?old) (cpu_sample True t) = Inr (cpu_sample True t)" by (simp add: preserve_env_Inr cpu_select)
  moreover have "\<not> reopens (Some ?old) (cpu_sample True t)" by (simp add: reopens_def cpu_select)
  ultimately show ?thesis
    unfolding prepare_save_def cpu_select(1) open_resolve
    using stamp ex cpu_encodes [of 9]
    by (simp add: loc LEGACY_LAYOUT_def Let_def still_saving_def quiet_saving_def)
qed

lemma cpu_save:
  assumes "0 \<le> t"
  shows "\<exists>w'. save still_saving open_config (cpu_sample True t) (sample_world_of (cpu_sample False t)) = (w', cpu_sample True 9, None)"
  using save_prepared(3,4) [OF cpu_prepare [OF assms]] by (simp add: prod_eq_iff still_saving_def quiet_saving_def)

lemma active_entries_quiet: "snd (active_entries False dc cfg now publish w) = w"
  by (auto simp: active_entries_def rebuild_def write_active_index_def Let_def bind_ok_def
      split: option.splits prod.splits sum.splits if_splits)

lemma quiet_io: "sv_index_io still_saving = False"
  by (simp add: still_saving_def)

lemma no_overlap: "gpus_requested c \<le> 0 \<Longrightarrow> first_blocker by_id c nd q = None"
  by (induction q) (simp_all add: capacity_overlaps_def)

lemma open_admission: "ad_allowed (admission_decision open_config (cpu_sample False t) entries nd n True now)"
  by (simp add: admission_decision_def Let_def no_overlap dependency_state_def persisted_wait_def reason_text_def startswith_def
      cpu_sample_def sample_state_def sample_entry_def make_entry_def open_config_def)

lemma sample_claim:
  "\<exists>w1. claim_queued_dispatch_attempt still_saving first_head open_config True first_token None None (cpu_sample False 3) ''n1''
     (sample_world_of (cpu_sample False 3)) = (w1, cpu_sample True 9, True, Some first_token)"
proof -
  let ?w = "sample_world_of (cpu_sample False 3)"
  obtain act dmg where view: "active_entries (sv_index_io still_saving) (sv_decoding still_saving) open_config (hp_now first_head) True ?w = ((act, dmg), ?w)"
    using active_entries_quiet [of "sv_decoding still_saving" open_config "hp_now first_head" True ?w]
    by (metis prod.collapse quiet_io)
  then obtain d where adm: "claim_admission still_saving first_head open_config (cpu_sample False 3) ''n1'' ?w = (d, ?w)" "ad_allowed d"
    using open_admission by (simp add: claim_admission_def)
  obtain w' where sav: "save still_saving open_config (cpu_sample True 3) ?w = (w', cpu_sample True 9, None)" using cpu_save by fastforce
  have "request_id (cpu_sample True 9) = None" "dispatch_node (cpu_sample False 3) = None" "dispatch_token (cpu_sample False 3) = None"
    by (simp_all add: cpu_sample_def sample_state_def sample_entry_def make_entry_def Let_def)
  then show ?thesis
    using adm sav cpu_load [of 3] sample_id
    by (simp add: claim_queued_dispatch_attempt_def claim_locked_def Let_def cpu_select cpu_claimed)
qed

theorem claim_exclusive_witness:
  "\<exists>w1 row. claim_queued_dispatch_attempt still_saving first_head open_config True first_token None None (cpu_sample False 3) ''n1''
       (sample_world_of (cpu_sample False 3)) = (w1, cpu_sample True 9, True, Some first_token)
     \<and> load (\<lambda>_. [], 11) open_config (job_id sample_entry)
         (fst (claim_queued_dispatch_attempt quiet_saving first_head open_config True second_token None None (cpu_sample False 3) ''n1'' w1))
         = Inr (Some row)
     \<and> dispatch_token row = Some first_token"
proof -
  obtain w1 where c: "claim_queued_dispatch_attempt still_saving first_head open_config True first_token None None (cpu_sample False 3) ''n1''
      (sample_world_of (cpu_sample False 3)) = (w1, cpu_sample True 9, True, Some first_token)" using sample_claim by blast
  have "interferes open_config (cpu_sample True 9) w1
      (fst (claim_queued_dispatch_attempt quiet_saving first_head open_config True second_token None None (cpu_sample False 3) ''n1'' w1))"
    by (rule interferes.claim) (simp add: cpu_sample_def Let_def)
  then have "(interferes open_config (cpu_sample True 9))\<^sup>*\<^sup>* w1
      (fst (claim_queued_dispatch_attempt quiet_saving first_head open_config True second_token None None (cpu_sample False 3) ''n1'' w1))" ..
  from conjunct1 [OF claim_exclusive [OF c this, where dc = "(\<lambda>_. [], 11)"]] c show ?thesis
    by (auto simp: attempt_of_def cpu_select)
qed

theorem claim_admitted_witness:
  "\<exists>current. load (sv_decoding still_saving) open_config (job_id sample_entry) (sample_world_of (cpu_sample False 3)) = Inr (Some current)
     \<and> status current = ''queued'' \<and> dispatch_token current = None"
proof -
  obtain w1 where c: "claim_queued_dispatch_attempt still_saving first_head open_config True first_token None None (cpu_sample False 3) ''n1''
      (sample_world_of (cpu_sample False 3)) = (w1, cpu_sample True 9, True, Some first_token)" using sample_claim by blast
  from claim_admitted [OF c] show ?thesis by (auto simp: cpu_select)
qed

lemma sample_gate:
  "gate_row still_saving open_config 9 (cpu_sample False 3) (sample_world_of (cpu_sample False 3))
     = (sample_world_of (cpu_sample False 3), Inr (Proceed (cpu_sample False 3)))"
proof -
  have deps: "after_success (cpu_sample False 3) = None" "after_complete (cpu_sample False 3) = None" "after_result (cpu_sample False 3) = None"
    by (simp_all add: cpu_sample_def sample_state_def sample_entry_def make_entry_def Let_def)
  then have "dependency_step still_saving open_config 9 k (cpu_sample False 3) w = (w, Inr (Proceed (cpu_sample False 3)))" for k and w :: "unit world"
    by (cases k) (simp_all add: dependency_step_def depends_on_def)
  then show ?thesis
    using cpu_load [of 3] sample_id
    by (simp add: gate_row_def Let_def finalize_dependency_rows_def dedup_def deps cpu_select)
qed


definition one_card :: NodeStatus where
  "one_card = \<lparr>ns_node = ''n1'', ns_gpus = [\<lparr>gp_index = 0, gp_uuid = ''u'', gp_mem_used = 0, gp_mem_total = 8, gp_util = 0, gp_procs = 0,
     gp_leased = False, gp_lease_owner = None, gp_free = True, gp_users = [], gp_temperature = None, gp_resident_procs = 0,
     gp_resident_mib = 0, gp_residents = []\<rparr>], ns_system = None, ns_error = None, ns_gpu_inventory_error = None,
     ns_unreachable = False, ns_stale = False\<rparr>"

theorem inflight_claims_reserved_witness:
  "map gp_index (ns_gpus (fst (reserve_inflight_claims still_saving first_head open_config (cpu_sample False 3) [one_card]
     (sample_world_of (cpu_sample True 9))) ! 0)) = [0]"
proof -
  obtain rows dmg w' where "active_entries (sv_index_io still_saving) (sv_decoding still_saving) open_config (hp_now first_head) True
      (sample_world_of (cpu_sample True 9)) = ((rows, dmg), w')" by (metis prod.exhaust)
  from inflight_claims_reserved [OF this, of 0 "[one_card]" 0 "cpu_sample False 3"] show ?thesis
    by (simp add: one_card_def Let_def)
qed

end
