(* ===== verification/Launch_Failover.thy ===== *)
theory Launch_Failover
  imports Queued_Dispatch
begin

text \<open>
  The candidate loop of a launch (\<open>_try_nodes\<close> in \<open>src/dt/dispatch/launch.py\<close>): each node is claimed,
  synchronized and launched in turn, and a failure moves on to the next candidate only when the
  node cannot be running the job.

  What the remote calls answer is an argument, one record per node; the loop returns the calls it
  made, in order, beside its result.
\<close>

section \<open>Launcher exits\<close>

definition RETRYABLE :: "(int, string) dict" where
  "RETRYABLE = [(10, ''busy''), (11, ''path-missing''), (12, ''disk-full''), (15, ''node-unfit''), (16, ''cache-missing''),
     (18, ''identity-conflict''), (19, ''artifact-unverified'')]"

definition EXIT_IDENTITY_CONFLICT :: int where "EXIT_IDENTITY_CONFLICT = 18"

definition FATAL :: "(int, string) dict" where
  "FATAL = [(13, ''env-fail''), (14, ''internal''), (17, ''payload-integrity'')]"

definition LAUNCH_PHASE_KEYS :: "string list" where
  "LAUNCH_PHASE_KEYS = [''payload_attestation'', ''preflight'', ''artifact_verification'', ''environment'', ''launch_lock_wait'',
     ''gpu_probe'', ''session_start'', ''remote_total'']"

section \<open>What a node answers\<close>

datatype sync_answer = Synced string | SyncUnreachable string | SyncRefused string

datatype launch_result = LDict "(string, json) dict" | LText string

datatype launch_answer = Dropped string | Exited int launch_result

text \<open>
  The claim of the attempt, the snapshot transfer and its duration, the materialization of the
  predecessor's outputs, the launch and its duration, whether the specification carries a launch
  token, and the answers of the cancellation and of retiring a stale identity (nothing means
  proven).
\<close>

record node_run =
  nr_claim :: bool
  nr_sync :: sync_answer
  nr_sync_s :: time
  nr_handoff :: check
  nr_launch :: launch_answer
  nr_launch_s :: time
  nr_token :: bool
  nr_cancel :: check
  nr_retire :: check

text \<open>The answers by node, the node of the predecessor whose outputs are handed over, the row of the
  submission before it is placed, its layout paths and the clock after the launch.\<close>

record failover =
  fo_run :: "string \<Rightarrow> node_run"
  fo_handoff :: "string option"
  fo_row :: JobEntry
  fo_job_dir :: "string \<Rightarrow> string"
  fo_worker_root :: "string \<Rightarrow> string"
  fo_rerun_source :: "string option"
  fo_now :: time

datatype remote_call = Claim string | Sync string | Handoff string | Launch string | Cancel string | Retire string

datatype placing = Placed JobEntry | NotPlaced | Raised string

record try_result =
  tr_placing :: placing
  tr_reasons :: "(string, string) dict"
  tr_fatal :: bool
  tr_kinds :: "string list"

definition handoff_predecessor :: "JobEntry option \<Rightarrow> string option" where
  "handoff_predecessor loaded =
     (case loaded of
        None \<Rightarrow> None
      | Some e \<Rightarrow> if status e = ''finished'' \<and> exit_code e = Some 0 then Some (node e) else None)"

section \<open>The placed row\<close>

text \<open>\<open>math.isfinite\<close> and \<open>float\<close> refuse an integer outside the range of doubles.\<close>

definition phase_of :: "json \<Rightarrow> string + time option" where
  "phase_of v =
     (case v of
        JInt i \<Rightarrow> if float_limit \<le> \<bar>i\<bar> then Inl ''int too large to convert to float''
                  else Inr (if 0 \<le> i then Some (of_int i / 1000) else None)
      | JFloat (Fin r) \<Rightarrow> Inr (if 0 \<le> r then Some (r / 1000) else None)
      | _ \<Rightarrow> Inr None)"

fun phases_of :: "(string, json) dict \<Rightarrow> string list \<Rightarrow> string + (string, time) dict" where
  "phases_of raw [] = Inr []"
| "phases_of raw (k # ks) =
     bind_ok (case map_of raw k of None \<Rightarrow> Inr None | Some v \<Rightarrow> phase_of v) (\<lambda>p.
     bind_ok (phases_of raw ks) (\<lambda>rest. Inr (case p of None \<Rightarrow> rest | Some t \<Rightarrow> (k, t) # rest)))"

definition launch_phases :: "(string, json) dict \<Rightarrow> string + (string, time) dict" where
  "launch_phases result =
     (case map_of result ''launch_phases_ms'' of
        Some (JObj raw) \<Rightarrow> phases_of raw LAUNCH_PHASE_KEYS
      | _ \<Rightarrow> Inr [])"

text \<open>\<open>int(x)\<close> of a JSON string or integer; a boolean counts as an integer.\<close>

definition int_of_json :: "json \<Rightarrow> string + int" where
  "int_of_json v =
     (case v of
        JInt i \<Rightarrow> Inr i
      | JBool b \<Rightarrow> Inr (if b then 1 else 0)
      | JStr s \<Rightarrow> (case py_int s of Some i \<Rightarrow> Inr i | None \<Rightarrow> Inl (''invalid literal for int() with base 10: '' @ py_repr s))
      | _ \<Rightarrow> Inl ''int() argument'')"

definition is_intlike :: "json \<Rightarrow> bool" where
  "is_intlike v = (case v of JInt _ \<Rightarrow> True | JBool _ \<Rightarrow> True | JStr _ \<Rightarrow> True | _ \<Rightarrow> False)"

fun ints_of_json :: "json list \<Rightarrow> string + int list" where
  "ints_of_json [] = Inr []"
| "ints_of_json (v # vs) = bind_ok (int_of_json v) (\<lambda>i. bind_ok (ints_of_json vs) (\<lambda>rest. Inr (i # rest)))"

definition text_field :: "(string, json) dict \<Rightarrow> string \<Rightarrow> string option" where
  "text_field result k = (case map_of result k of Some (JStr s) \<Rightarrow> Some s | _ \<Rightarrow> None)"

definition bool_field :: "(string, json) dict \<Rightarrow> string \<Rightarrow> bool option" where
  "bool_field result k = (case map_of result k of Some (JBool b) \<Rightarrow> Some b | _ \<Rightarrow> None)"

definition pgid_ok :: "(string, json) dict \<Rightarrow> bool" where
  "pgid_ok result = (case map_of result ''pgid'' of Some (JStr _) \<Rightarrow> True | Some (JInt _) \<Rightarrow> True | _ \<Rightarrow> False)"

definition placed_row ::
  "failover \<Rightarrow> Node \<Rightarrow> string \<Rightarrow> (string, string) dict \<Rightarrow> (string, json) dict \<Rightarrow> string + JobEntry" where
  "placed_row fo nd snapshot reasons result =
     (let run = fo_run fo (nd_name nd);
          raw_gpus = (case map_of result ''gpus'' of Some (JList vs) \<Rightarrow> vs | _ \<Rightarrow> []) in
      bind_ok (ints_of_json (filter is_intlike raw_gpus)) (\<lambda>gs.
      bind_ok (int_of_json (the (map_of result ''pgid''))) (\<lambda>pg.
      bind_ok (launch_phases result) (\<lambda>phases.
        Inr ((fo_row fo)\<lparr>node := nd_name nd, node_local := nd_local nd, job_dir := fo_job_dir fo (nd_name nd), gpus := gs,
          pgid := Some pg, env_hash := text_field result ''env'', snapshot_duration_s := Some (nr_sync_s run),
          launch_duration_s := Some (nr_launch_s run), launch_phases_s := phases,
          env_preexisting := bool_field result ''env_preexisting'', setup_ran := bool_field result ''setup_ran'',
          boot_id := text_field result ''boot_id'', snapshot_sha256 := Some snapshot, started_at := Some (fo_now fo),
          placement_failures := reasons,
          rerun_snapshot_changed := map_option (\<lambda>src. src \<noteq> snapshot) (fo_rerun_source fo),
          worker_root := Some (fo_worker_root fo (nd_name nd)), job_relpath := Some (''jobs/'' @ job_id (fo_row fo))\<rparr>)))))"

section \<open>One candidate\<close>

datatype attempt_step = Next "(string, string) dict" "string list" | Stop try_result

definition exit_reason :: "int \<Rightarrow> string" where
  "exit_reason rc =
     (case map_of RETRYABLE rc of
        Some r \<Rightarrow> r
      | None \<Rightarrow> (case map_of FATAL rc of Some r \<Rightarrow> r | None \<Rightarrow> ''exit '' @ show_int rc))"

definition stop_with :: "placing \<Rightarrow> (string, string) dict \<Rightarrow> bool \<Rightarrow> string list \<Rightarrow> attempt_step" where
  "stop_with p reasons fatal kinds = Stop \<lparr>tr_placing = p, tr_reasons = reasons, tr_fatal = fatal, tr_kinds = kinds\<rparr>"

text \<open>An uncertain launch: the node is cancelled, and the loop goes on only if that is proven.\<close>

definition cancel_uncertain ::
  "failover \<Rightarrow> string \<Rightarrow> string \<Rightarrow> (string, string) dict \<Rightarrow> string list \<Rightarrow> string list \<Rightarrow> remote_call list \<times> attempt_step" where
  "cancel_uncertain fo n what reasons kinds next_kinds =
     (case nr_cancel (fo_run fo n) of
        Some m \<Rightarrow> ([Cancel n], stop_with NotPlaced (AList.update n (what @ ''; cancellation unverified: '' @ m) reasons) True
                     (List.insert ''cancel-unverified'' kinds))
      | None \<Rightarrow> ([Cancel n], Next (AList.update n (what @ ''; cancelled on node'') reasons) next_kinds))"

definition launched_ok ::
  "failover \<Rightarrow> Node \<Rightarrow> string \<Rightarrow> (string, json) dict \<Rightarrow> (string, string) dict \<Rightarrow> string list \<Rightarrow> remote_call list \<times> attempt_step" where
  "launched_ok fo nd snapshot result reasons kinds =
     (let n = nd_name nd in
      if \<not> pgid_ok result then
        (case nr_cancel (fo_run fo n) of
           Some m \<Rightarrow> ([Cancel n], stop_with NotPlaced
             (AList.update n (''internal: launcher returned no valid pgid; cancellation unverified: '' @ m) reasons) True
             (List.insert ''cancel-unverified'' (List.insert ''fatal'' kinds)))
         | None \<Rightarrow> ([Cancel n], stop_with NotPlaced
             (AList.update n ''internal: launcher returned no valid pgid; cancelled on node'' reasons) True
             (List.insert ''fatal'' kinds)))
      else (case placed_row fo nd snapshot reasons result of
              Inl m \<Rightarrow> ([], stop_with (Raised m) reasons False kinds)
            | Inr row \<Rightarrow> ([], stop_with (Placed row) reasons False kinds)))"

definition launch_refused ::
  "failover \<Rightarrow> string \<Rightarrow> int \<Rightarrow> launch_result \<Rightarrow> (string, string) dict \<Rightarrow> string list \<Rightarrow> remote_call list \<times> attempt_step" where
  "launch_refused fo n rc result reasons0 kinds =
     (let run = fo_run fo n; rsn = exit_reason rc;
          why = (case result of LText t \<Rightarrow> rsn @ '': '' @ t | LDict _ \<Rightarrow> rsn);
          reasons = AList.update n why reasons0 in
      if rc = EXIT_IDENTITY_CONFLICT then
        (case nr_retire run of
           None \<Rightarrow> ([Retire n], Next (AList.update n (rsn @ '': stale launch identity retired; retrying'') reasons)
                     (List.insert ''retryable'' kinds))
         | Some _ \<Rightarrow> ([Retire n], stop_with NotPlaced reasons False (List.insert ''identity-conflict'' kinds)))
      else if map_of FATAL rc \<noteq> None then ([], stop_with NotPlaced reasons True (List.insert ''fatal'' kinds))
      else if map_of RETRYABLE rc = None
      then cancel_uncertain fo n why reasons kinds (List.insert ''retryable'' kinds)
      else (if nr_token run then [Cancel n] else [], Next reasons (List.insert ''retryable'' kinds)))"

definition launch_on ::
  "failover \<Rightarrow> Node \<Rightarrow> string \<Rightarrow> (string, string) dict \<Rightarrow> string list \<Rightarrow> remote_call list \<times> attempt_step" where
  "launch_on fo nd snapshot reasons kinds =
     (let n = nd_name nd;
          (calls, step) =
            (case nr_launch (fo_run fo n) of
               Dropped m \<Rightarrow>
                 cancel_uncertain fo n (''launch dropped ('' @ m @ '')'') reasons (List.insert ''unreachable'' kinds)
                   (List.insert ''unreachable'' kinds)
             | Exited rc result \<Rightarrow>
                 (case (rc = 0, result) of
                    (True, LDict d) \<Rightarrow> launched_ok fo nd snapshot d reasons kinds
                  | _ \<Rightarrow> launch_refused fo n rc result reasons kinds))
      in (Launch n # calls, step))"

definition try_node ::
  "failover \<Rightarrow> Node \<Rightarrow> (string, string) dict \<Rightarrow> string list \<Rightarrow> remote_call list \<times> attempt_step" where
  "try_node fo nd reasons kinds =
     (let n = nd_name nd; run = fo_run fo n in
      if \<not> nr_claim run then ([Claim n], stop_with NotPlaced reasons True (List.insert ''interrupted'' kinds))
      else case nr_sync run of
        SyncUnreachable m \<Rightarrow>
          ([Claim n, Sync n], Next (AList.update n (''snapshot failed: '' @ m) reasons) (List.insert ''unreachable'' kinds))
      | SyncRefused m \<Rightarrow>
          ([Claim n, Sync n], Next (AList.update n (''snapshot failed: '' @ m) reasons) (List.insert ''dispatch'' kinds))
      | Synced snapshot \<Rightarrow>
          if fo_handoff fo = None \<or> fo_handoff fo = Some n
          then (let (calls, step) = launch_on fo nd snapshot reasons kinds in (Claim n # Sync n # calls, step))
          else case nr_handoff run of
            Some m \<Rightarrow>
              ([Claim n, Sync n, Handoff n],
               Next (AList.update n (''predecessor outputs unavailable: '' @ m) reasons) (List.insert ''retryable'' kinds))
          | None \<Rightarrow> (let (calls, step) = launch_on fo nd snapshot reasons kinds in (Claim n # Sync n # Handoff n # calls, step)))"

section \<open>The loop\<close>

fun try_from :: "failover \<Rightarrow> Node list \<Rightarrow> (string, string) dict \<Rightarrow> string list \<Rightarrow> remote_call list \<times> try_result" where
  "try_from fo [] reasons kinds = ([], \<lparr>tr_placing = NotPlaced, tr_reasons = reasons, tr_fatal = False, tr_kinds = kinds\<rparr>)"
| "try_from fo (nd # nds) reasons kinds =
     (case try_node fo nd reasons kinds of
        (calls, Stop r) \<Rightarrow> (calls, r)
      | (calls, Next reasons' kinds') \<Rightarrow> (let (more_calls, r) = try_from fo nds reasons' kinds' in (calls @ more_calls, r)))"

definition try_nodes :: "failover \<Rightarrow> Node list \<Rightarrow> remote_call list \<times> try_result" where
  "try_nodes fo nds = try_from fo nds [] []"

section \<open>Where the job may be running\<close>

text \<open>
  A launch may have started the job unless the launcher exited with one of its documented refusals,
  all of which precede the session. A proven cancellation ends the doubt.
\<close>

definition may_start :: "launch_answer \<Rightarrow> bool" where
  "may_start a = (case a of Dropped _ \<Rightarrow> True | Exited rc _ \<Rightarrow> map_of RETRYABLE rc = None \<and> map_of FATAL rc = None)"

definition may_run :: "failover \<Rightarrow> remote_call list \<Rightarrow> string \<Rightarrow> bool" where
  "may_run fo calls n \<longleftrightarrow> Launch n \<in> set calls \<and> may_start (nr_launch (fo_run fo n))
     \<and> \<not> (Cancel n \<in> set calls \<and> nr_cancel (fo_run fo n) = None)"

fun call_node :: "remote_call \<Rightarrow> string" where
  "call_node (Claim n) = n" | "call_node (Sync n) = n" | "call_node (Handoff n) = n"
| "call_node (Launch n) = n" | "call_node (Cancel n) = n" | "call_node (Retire n) = n"

text \<open>A result that admits the doubt about node \<open>n\<close>: the job is placed there, or the loop gave up and says so.\<close>

definition accounts_for :: "try_result \<Rightarrow> string \<Rightarrow> bool" where
  "accounts_for r n \<longleftrightarrow>
     (case tr_placing r of
        Placed row \<Rightarrow> node row = n
      | Raised _ \<Rightarrow> True
      | NotPlaced \<Rightarrow> tr_fatal r \<and> ''cancel-unverified'' \<in> set (tr_kinds r))"

lemma placed_row_node: "placed_row fo nd snapshot reasons result = Inr row \<Longrightarrow> node row = nd_name nd"
  by (auto simp: placed_row_def Let_def bind_ok_Inr)

lemmas attempt_defs = launched_ok_def launch_refused_def cancel_uncertain_def stop_with_def

lemma launch_on_calls: "launch_on fo nd snapshot reasons kinds = (calls, step) \<Longrightarrow> c \<in> set calls \<Longrightarrow> call_node c = nd_name nd"
  by (auto simp: launch_on_def attempt_defs Let_def
      split: if_splits launch_answer.splits launch_result.splits option.splits prod.splits sum.splits bool.splits)

lemma launched_ok_starts:
  assumes "launched_ok fo nd snapshot d reasons kinds = (calls, step)"
    and "\<not> (Cancel (nd_name nd) \<in> set calls \<and> nr_cancel (fo_run fo (nd_name nd)) = None)"
  shows "\<exists>r. step = Stop r \<and> accounts_for r (nd_name nd)"
proof (cases "pgid_ok d")
  case True
  then show ?thesis
    using assms(1) placed_row_node [of fo nd snapshot reasons d]
    by (cases "placed_row fo nd snapshot reasons d") (auto simp: launched_ok_def Let_def stop_with_def accounts_for_def)
next
  case False
  then show ?thesis
    using assms by (cases "nr_cancel (fo_run fo (nd_name nd))") (auto simp: launched_ok_def Let_def stop_with_def accounts_for_def)
qed

lemma launch_refused_starts:
  assumes "launch_refused fo n rc result reasons kinds = (calls, step)"
    and "map_of RETRYABLE rc = None" and "map_of FATAL rc = None"
    and "\<not> (Cancel n \<in> set calls \<and> nr_cancel (fo_run fo n) = None)"
  shows "\<exists>r. step = Stop r \<and> accounts_for r n"
proof -
  have "rc \<noteq> EXIT_IDENTITY_CONFLICT" using assms(2) by (auto simp: RETRYABLE_def EXIT_IDENTITY_CONFLICT_def)
  then show ?thesis
    using assms by (cases "nr_cancel (fo_run fo n)")
      (auto simp: launch_refused_def Let_def cancel_uncertain_def stop_with_def accounts_for_def)
qed

lemma launch_on_starts:
  assumes "launch_on fo nd snapshot reasons kinds = (calls, step)" and "may_run fo calls n"
  shows "n = nd_name nd \<and> (\<exists>r. step = Stop r \<and> accounts_for r n)"
proof -
  have n: "n = nd_name nd" using launch_on_calls [OF assms(1), of "Launch n"] assms(2) by (simp add: may_run_def)
  show ?thesis
  proof (cases "nr_launch (fo_run fo n)")
    case (Dropped m)
    then show ?thesis
      using assms n by (auto simp: launch_on_def cancel_uncertain_def stop_with_def may_run_def accounts_for_def Let_def split: option.splits)
  next
    case (Exited rc result)
    have none: "map_of RETRYABLE rc = None" "map_of FATAL rc = None" using assms(2) Exited by (auto simp: may_run_def may_start_def)
    have open_cancel: "\<not> (Cancel n \<in> set calls \<and> nr_cancel (fo_run fo n) = None)" using assms(2) by (simp add: may_run_def)
    show ?thesis
    proof (cases "\<exists>d. rc = 0 \<and> result = LDict d")
      case True
      then obtain d where "result = LDict d" "rc = 0" by blast
      then have "launched_ok fo nd snapshot d reasons kinds = (tl calls, step)" "calls = Launch n # tl calls"
        using assms(1) Exited n by (auto simp: launch_on_def Let_def split: prod.splits)
      then show ?thesis using launched_ok_starts [of fo nd snapshot d reasons kinds "tl calls" step] open_cancel n
        by (metis list.set_intros(2))
    next
      case False
      then have "launch_refused fo n rc result reasons kinds = (tl calls, step)" "calls = Launch n # tl calls"
        using assms(1) Exited n by (auto simp: launch_on_def Let_def split: prod.splits bool.splits launch_result.splits)
      then show ?thesis using launch_refused_starts [OF _ none] open_cancel n by (metis list.set_intros(2))
    qed
  qed
qed

lemma try_node_calls: "try_node fo nd reasons kinds = (calls, step) \<Longrightarrow> c \<in> set calls \<Longrightarrow> call_node c = nd_name nd"
  by (auto simp: try_node_def Let_def stop_with_def dest: launch_on_calls
      split: if_splits sync_answer.splits option.splits prod.splits)

lemma may_run_Cons:
  "may_run fo (Claim m # calls) n = may_run fo calls n" "may_run fo (Sync m # calls) n = may_run fo calls n"
  "may_run fo (Handoff m # calls) n = may_run fo calls n" "\<not> may_run fo [] n"
  by (simp_all add: may_run_def)

lemma try_node_starts:
  assumes "try_node fo nd reasons kinds = (calls, step)" and "may_run fo calls n"
  shows "n = nd_name nd \<and> (\<exists>r. step = Stop r \<and> accounts_for r n)"
  using assms
  by (auto simp: try_node_def Let_def stop_with_def may_run_Cons dest: launch_on_starts
      split: if_splits sync_answer.splits option.splits prod.splits)

lemma may_run_append:
  assumes "\<forall>c \<in> set xs. call_node c = a" and "\<forall>c \<in> set ys. call_node c \<noteq> a"
  shows "may_run fo (xs @ ys) n \<longleftrightarrow> (if n = a then may_run fo xs n else may_run fo ys n)"
proof -
  have "n \<noteq> a \<Longrightarrow> Launch n \<notin> set xs \<and> Cancel n \<notin> set xs" using assms(1) by fastforce
  moreover have "n = a \<Longrightarrow> Launch n \<notin> set ys \<and> Cancel n \<notin> set ys" using assms(2) by fastforce
  ultimately show ?thesis by (auto simp: may_run_def)
qed

lemma try_from_calls: "try_from fo nds reasons kinds = (calls, r) \<Longrightarrow> \<forall>c \<in> set calls. call_node c \<in> nd_name ` set nds"
proof (induction nds arbitrary: reasons kinds calls)
  case (Cons nd nds)
  obtain here step where st: "try_node fo nd reasons kinds = (here, step)" by fastforce
  note here = try_node_calls [OF st]
  show ?case
  proof (cases step)
    case (Stop r')
    then show ?thesis using Cons.prems st here by auto
  next
    case (Next reasons' kinds')
    then obtain later where "try_from fo nds reasons' kinds' = (later, r)" "calls = here @ later"
      using Cons.prems st by (auto simp: Let_def split: prod.splits)
    with Cons.IH here show ?thesis by fastforce
  qed
qed simp

lemma try_from_starts:
  "try_from fo nds reasons kinds = (calls, r) \<Longrightarrow> distinct (map nd_name nds) \<Longrightarrow> may_run fo calls n \<Longrightarrow>
   accounts_for r n \<and> (\<forall>m. may_run fo calls m \<longrightarrow> m = n)"
proof (induction nds arbitrary: reasons kinds calls)
  case Nil
  then show ?case by (simp add: may_run_def)
next
  case (Cons nd nds)
  obtain here step where st: "try_node fo nd reasons kinds = (here, step)" by fastforce
  note starts = try_node_starts [OF st]
  show ?case
  proof (cases step)
    case (Stop r')
    then have "calls = here" "r' = r" using Cons.prems(1) st by simp_all
    with Stop Cons.prems(3) starts show ?thesis by auto
  next
    case (Next reasons' kinds')
    then obtain later where later: "try_from fo nds reasons' kinds' = (later, r)" "calls = here @ later"
      using Cons.prems(1) st by (auto simp: Let_def split: prod.splits)
    have apart: "nd_name nd \<notin> nd_name ` set nds" and dist: "distinct (map nd_name nds)" using Cons.prems(2) by simp_all
    have split: "may_run fo calls m \<longleftrightarrow> (if m = nd_name nd then may_run fo here m else may_run fo later m)" for m
      unfolding later(2)
    proof (rule may_run_append)
      show "\<forall>c \<in> set here. call_node c = nd_name nd" using try_node_calls [OF st] by blast
      show "\<forall>c \<in> set later. call_node c \<noteq> nd_name nd" using try_from_calls [OF later(1)] apart by metis
    qed
    have none: "\<not> may_run fo here m" for m using starts [of m] Next by auto
    then have only: "may_run fo calls m \<Longrightarrow> may_run fo later m" for m using split [of m] by (simp split: if_splits)
    from Cons.IH [OF later(1) dist only [OF Cons.prems(3)]] only show ?thesis by blast
  qed
qed


lemma cancel_uncertain_Next:
  "cancel_uncertain fo n what reasons kinds nk = (calls, Next r' k') \<Longrightarrow> \<exists>w. map_of r' = (map_of reasons)(n \<mapsto> w)"
  by (auto simp: cancel_uncertain_def stop_with_def update_conv' split: option.splits)

lemma launched_ok_Next: "launched_ok fo nd snapshot d reasons kinds \<noteq> (calls, Next r' k')"
  by (auto simp: launched_ok_def stop_with_def Let_def split: if_splits option.splits sum.splits)

lemma launch_refused_Next:
  assumes "launch_refused fo n rc result reasons kinds = (calls, Next r' k')"
  shows "\<exists>w. map_of r' = (map_of reasons)(n \<mapsto> w)"
proof (cases "rc \<noteq> EXIT_IDENTITY_CONFLICT \<and> map_of FATAL rc = None \<and> map_of RETRYABLE rc = None")
  case True
  then show ?thesis
    using assms cancel_uncertain_Next by (fastforce simp: launch_refused_def Let_def update_conv')
next
  case False
  then show ?thesis
    using assms by (auto simp: launch_refused_def Let_def stop_with_def update_conv' split: if_splits option.splits)
qed

lemma launch_on_Next:
  "launch_on fo nd snapshot reasons kinds = (calls, Next r' k') \<Longrightarrow> \<exists>w. map_of r' = (map_of reasons)(nd_name nd \<mapsto> w)"
  by (auto simp: launch_on_def Let_def launched_ok_Next dest: cancel_uncertain_Next launch_refused_Next
      split: launch_answer.splits launch_result.splits prod.splits bool.splits)

lemma try_node_Next:
  assumes "try_node fo nd reasons kinds = (calls, Next r' k')"
  shows "\<exists>w. map_of r' = (map_of reasons)(nd_name nd \<mapsto> w)"
  using assms by (auto simp: try_node_def stop_with_def Let_def update_conv' dest: launch_on_Next
      split: if_splits sync_answer.splits option.splits prod.splits)

text \<open>A candidate ends the loop only by placing the job, raising, giving up, or meeting another attempt.\<close>

definition conclusive :: "try_result \<Rightarrow> bool" where
  "conclusive r \<longleftrightarrow> tr_placing r \<noteq> NotPlaced \<or> tr_fatal r \<or> ''identity-conflict'' \<in> set (tr_kinds r)"

lemma launch_on_Stop: "launch_on fo nd snapshot reasons kinds = (calls, Stop r) \<Longrightarrow> conclusive r"
  by (auto simp: launch_on_def attempt_defs Let_def conclusive_def
      split: if_splits launch_answer.splits launch_result.splits option.splits prod.splits sum.splits bool.splits)

lemma try_node_Stop: "try_node fo nd reasons kinds = (calls, Stop r) \<Longrightarrow> conclusive r"
  by (auto simp: try_node_def stop_with_def Let_def dest: launch_on_Stop split: if_splits sync_answer.splits option.splits prod.splits)
     (simp add: conclusive_def)

lemma try_from_exhausts:
  "try_from fo nds reasons kinds = (calls, r) \<Longrightarrow> \<not> conclusive r \<Longrightarrow>
   dom (map_of (tr_reasons r)) = dom (map_of reasons) \<union> nd_name ` set nds"
proof (induction nds arbitrary: reasons kinds calls)
  case (Cons nd nds)
  obtain here step where st: "try_node fo nd reasons kinds = (here, step)" by fastforce
  show ?case
  proof (cases step)
    case (Stop r')
    then show ?thesis using Cons.prems st try_node_Stop by simp
  next
    case (Next reasons' kinds')
    then obtain later where "try_from fo nds reasons' kinds' = (later, r)"
      using Cons.prems st by (auto simp: Let_def split: prod.splits)
    with Cons.IH Cons.prems(2) have "dom (map_of (tr_reasons r)) = dom (map_of reasons') \<union> nd_name ` set nds" by blast
    moreover from try_node_Next [OF st [unfolded Next]] have "dom (map_of reasons') = insert (nd_name nd) (dom (map_of reasons))" by auto
    ultimately show ?thesis by simp
  qed
qed auto

text \<open>
  C?. A loop that ends without a placement, without giving up and without meeting another
  attempt of the job has tried every candidate, and reports a reason for each of them and for no
  other node.
\<close>

theorem every_candidate_reported:
  assumes "try_nodes fo nds = (calls, r)" and "tr_placing r = NotPlaced" and "\<not> tr_fatal r" and "''identity-conflict'' \<notin> set (tr_kinds r)"
  shows "dom (map_of (tr_reasons r)) = nd_name ` set nds"
  using try_from_exhausts [of fo nds "[]" "[]" calls r] assms by (simp add: try_nodes_def conclusive_def)

section \<open>Concrete instances\<close>

abbreviation plain_node :: "string \<Rightarrow> Node" where
  "plain_node n \<equiv> \<lparr>nd_name = n, nd_local = False, nd_site = None, nd_artifact_seed = False, nd_drained = False\<rparr>"

text \<open>The first node drops the connection and is proven cancelled; the second one starts the job or is busy.\<close>

definition two_nodes :: "bool \<Rightarrow> failover" where
  "two_nodes starts = \<lparr>fo_run = (\<lambda>n. \<lparr>nr_claim = True, nr_sync = Synced ''5'', nr_sync_s = 1, nr_handoff = None,
       nr_launch = (if n = ''n1'' then Dropped ''timeout''
                    else if starts then Exited 0 (LDict [(''pgid'', JInt 7), (''gpus'', JList [JInt 0])]) else Exited 10 (LText ''no card'')),
       nr_launch_s = 1, nr_token = True, nr_cancel = None, nr_retire = None\<rparr>),
     fo_handoff = None, fo_row = make_entry 7 ''j'' ''a'' ''c'' ''p'' ''-'' False ''d'' ''s'' ''echo'', fo_job_dir = (\<lambda>_. ''d''),
     fo_worker_root = (\<lambda>_. ''w''), fo_rerun_source = None, fo_now = 9\<rparr>"


theorem every_candidate_reported_witness:
  "dom (map_of (tr_reasons (snd (try_nodes (two_nodes False) [plain_node ''n1'', plain_node ''n2''])))) = {''n1'', ''n2''}"
proof -
  let ?fo = "two_nodes False" and ?nds = "[plain_node ''n1'', plain_node ''n2'']"
  have "tr_placing (snd (try_nodes ?fo ?nds)) = NotPlaced" "\<not> tr_fatal (snd (try_nodes ?fo ?nds))"
    "''identity-conflict'' \<notin> set (tr_kinds (snd (try_nodes ?fo ?nds)))"
    by code_simp+
  from every_candidate_reported [OF surjective_pairing this] show ?thesis by simp
qed

end
