(* ===== verification/Queue_Dispatcher.thy ===== *)
theory Queue_Dispatcher
  imports Dispatch_Facts Launch_Failover
begin

text \<open>
  One dispatch of a queued row from the gate to the registry (\<open>_dispatch_queued_active\<close> in
  \<open>src/dt/dispatch/queued.py\<close>): the staged bundle, the recovery of an old claim, the probes, the choice
  of candidates, the attempts, and what is recorded of them.

  Staging, the probes and the attempts are arguments. The result is the disk with the raised
  message or the outcome.
\<close>

section \<open>The contract of a queued row\<close>

definition queued_run_spec :: "JobEntry \<Rightarrow> spec_exn + RunSpec" where
  "queued_run_spec e =
     bind_ok (shlex_split (cmd e)) (\<lambda>command. Inr ((resource_spec e (name e) command)
       \<lparr>rs_node := pin_node e, rs_env_mode := text_or (env_mode e) ''sync'',
        rs_env_hash_override := (if env_mode e = Some ''reuse'' then env_hash e else None),
        rs_env_source_job := env_source_job e, rs_forked_from := forked_from e, rs_after_success := after_success e,
        rs_after_complete := after_complete e, rs_after_result := after_result e, rs_after_result_states := after_result_states e,
        rs_request_id := request_id e, rs_retry_limit := retry_limit e, rs_retry_on := retry_on e, rs_retry_count := retry_count e,
        rs_retry_of := retry_of e, rs_rerun_of := rerun_of e, rs_rerun_source_snapshot_sha256 := rerun_source_snapshot_sha256 e,
        rs_artifact_manifest := artifact_manifest e, rs_cache_source_job := cache_source_job e,
        rs_cache_source_job_dir := cache_source_job_dir e, rs_cache_source_path := cache_source_path e, rs_cache_env := cache_env e,
        rs_cache_source_env_hash := cache_source_env_hash e,
        rs_cache_source_snapshot_sha256 := (if cache_source_job e \<noteq> None \<and> cache_source_job e \<noteq> Some [] then snapshot_sha256 e else None),
        rs_cache_mode := cache_mode e, rs_payload_sha256 := payload_sha256 e\<rparr>))"

section \<open>What happens outside the registry\<close>

datatype stage_answer = Staged RunSpec | StageUnusable string bool | StageInterrupted

text \<open>
  Staging and the attempts may change the disk and the caller's row (they commit and claim under the
  locks); an attempt loop that raises \<open>DispatchError\<close> returns its message.
\<close>

record 'r dispatch_ops =
  op_stage :: "JobEntry \<Rightarrow> 'r world \<Rightarrow> 'r world \<times> JobEntry \<times> stage_answer"
  op_adopt :: "string \<Rightarrow> JobEntry \<Rightarrow> JobEntry option \<times> string option"
  op_cancel :: check
  op_probe_pinned :: "string \<Rightarrow> NodeStatus"
  op_probe_center :: "NodeStatus list"
  op_try :: "RunSpec \<Rightarrow> PlacedNode list \<Rightarrow> JobEntry \<Rightarrow> 'r world \<Rightarrow> 'r world \<times> JobEntry \<times> (string + try_result)"
  op_worker_root :: "string \<Rightarrow> string"
  op_job_dir :: "string \<Rightarrow> string"

type_synonym 'r answer = "'r world \<times> (string + settled)"

definition outcome_of :: "JobEntry \<Rightarrow> string \<times> string option \<Rightarrow> bool \<Rightarrow> settled" where
  "outcome_of e o1 unstaged = \<lparr>se_entry = e, se_outcome = fst o1, se_detail = snd o1, se_unstaged = unstaged\<rparr>"

text \<open>A commit, and the outcome when it held.\<close>

definition commit_then ::
  "'r world \<times> JobEntry \<times> (string + JobEntry option) \<Rightarrow> bool \<Rightarrow> (JobEntry \<Rightarrow> string \<times> string option) \<Rightarrow> 'r answer" where
  "commit_then r unstaged answer =
     (case r of
        (w, _, Inl m) \<Rightarrow> (w, Inl m)
      | (w, _, Inr (Some current)) \<Rightarrow> (w, Inr (settled_as current unstaged))
      | (w, e, Inr None) \<Rightarrow> (w, Inr (outcome_of e (answer e) unstaged)))"

definition fail_row :: "'r saving \<Rightarrow> HeadConfig \<Rightarrow> time \<Rightarrow> string \<Rightarrow> bool \<Rightarrow> JobEntry \<Rightarrow> 'r world \<Rightarrow> 'r answer" where
  "fail_row sv cfg now detail cleanup e w =
     commit_then (commit_queued_transition sv cfg now True None (e\<lparr>status := ''failed'', reason := Some detail\<rparr>) w) cleanup
       (\<lambda>e'. (''failed'', reason e'))"

definition hold ::
  "'r saving \<Rightarrow> HeadConfig \<Rightarrow> time \<Rightarrow> string \<Rightarrow> string \<times> string option \<Rightarrow> (string, string) dict option \<Rightarrow> JobEntry \<Rightarrow> 'r world \<Rightarrow> 'r answer" where
  "hold sv cfg now rsn outcome probe_reasons e w =
     (let counted = fst outcome \<in> {''blocked'', ''unreachable''} \<and> probe_reasons \<noteq> None;
          changed = (reason e \<noteq> Some rsn \<or> counted);
          e1 = e\<lparr>reason := Some rsn\<rparr>;
          e2 = (if counted then note_placement_attempt now (pattern_of (the probe_reasons) (fst outcome)) e1 else e1) in
      commit_then (commit_queued_transition sv cfg now changed None e2 w) False (\<lambda>_. outcome))"

definition reason_list :: "(string, string) dict \<Rightarrow> string" where
  "reason_list reasons = join ''; '' (map (\<lambda>(nd, r). nd @ '': '' @ r) reasons)"

section \<open>After the attempts\<close>

text \<open>
  The row of a failed placement names the last node attempted; \<open>owned\<close> is the claim the caller held.
\<close>

definition failed_placement ::
  "'r dispatch_ops \<Rightarrow> time \<Rightarrow> PlacedNode list \<Rightarrow> (string, string) dict \<Rightarrow> bool \<Rightarrow> JobEntry \<Rightarrow> JobEntry" where
  "failed_placement ops now cands reasons uncertain e =
     (let nd = last (keys reasons);
          local = (case find (\<lambda>c. nd_name c = nd) cands of Some c \<Rightarrow> nd_local c | None \<Rightarrow> False);
          e1 = e\<lparr>status := ''failed'', node := nd, node_local := local\<rparr>;
          e2 = (if storage_layout e1 = Some ROLE_LAYOUT
                then e1\<lparr>worker_root := Some (op_worker_root ops nd), job_dir := op_job_dir ops nd\<rparr> else e1) in
      e2\<lparr>finished_at := Some now,
         reason := Some (if uncertain then UNCERTAIN_LAUNCH_PREFIX @ reason_list reasons else reason_list reasons)\<rparr>)"

definition fail_queued_placement ::
  "'r dispatch_ops \<Rightarrow> 'r saving \<Rightarrow> HeadConfig \<Rightarrow> time \<Rightarrow> PlacedNode list \<Rightarrow> (string, string) dict \<Rightarrow> bool \<Rightarrow> attempt \<Rightarrow> JobEntry
   \<Rightarrow> 'r world \<Rightarrow> 'r answer" where
  "fail_queued_placement ops sv cfg now cands reasons uncertain owned e w =
     (if reasons = [] then (w, Inl ''list index out of range'')
      else commit_then
        (commit_queued_transition sv cfg now True (Some owned) (failed_placement ops now cands reasons uncertain e) w) True
        (\<lambda>e'. (''failed'', reason e')))"

definition settle ::
  "'r saving \<Rightarrow> HeadConfig \<Rightarrow> time \<Rightarrow> (string, string) dict \<Rightarrow> bool \<Rightarrow> attempt \<Rightarrow> string \<Rightarrow> string \<times> string option \<Rightarrow> JobEntry
   \<Rightarrow> 'r world \<Rightarrow> 'r answer" where
  "settle sv cfg now reasons failures_changed owned rsn outcome e w =
     (let changed0 = (reason e \<noteq> Some rsn \<or> failures_changed);
          e1 = (if changed0 then e\<lparr>reason := Some rsn\<rparr> else e);
          e2 = (if reasons \<noteq> [] then note_placement_attempt now (pattern_of reasons (fst outcome)) e1 else e1) in
      commit_then (commit_queued_transition sv cfg now (changed0 \<or> reasons \<noteq> []) (Some owned) e2 w) False (\<lambda>_. outcome))"

definition interrupted_outcome :: "JobEntry \<Rightarrow> settled" where
  "interrupted_outcome e =
     (if status e \<noteq> ''queued'' then settled_as e False
      else outcome_of e (''waiting'', Some
        (case dispatch_node e of
           Some nd \<Rightarrow> ''dispatch already active on '' @ nd
         | None \<Rightarrow> remove_prefix ''waiting: '' (text_or (reason e) ''waiting: scheduler admission deferred''))) False)"

text \<open>The row as the attempts left it, with the claim taken off and the refusals noted.\<close>

definition released :: "(string, string) dict \<Rightarrow> JobEntry \<Rightarrow> JobEntry" where
  "released reasons e = drop_claim (e\<lparr>placement_failures := reasons\<rparr>)"

definition after_attempts ::
  "'r dispatch_ops \<Rightarrow> 'r saving \<Rightarrow> HeadConfig \<Rightarrow> time \<Rightarrow> PlacedNode list \<Rightarrow> (string, string) dict \<Rightarrow> try_result \<Rightarrow> JobEntry
   \<Rightarrow> 'r world \<Rightarrow> 'r answer" where
  "after_attempts ops sv cfg now cands probe_reasons r e w =
     (case tr_placing r of
        Raised m \<Rightarrow> (w, Inl m)
      | Placed row \<Rightarrow> finish_queued_placement (op_cancel ops) sv cfg now e row w
      | NotPlaced \<Rightarrow>
          if ''interrupted'' \<in> set (tr_kinds r) then (w, Inr (interrupted_outcome e))
          else
            let reasons = tr_reasons r; failures_changed = (set (placement_failures e) \<noteq> set reasons);
                owned = attempt_of e; e1 = released reasons e;
                settled_with = (\<lambda>rsn outcome. settle sv cfg now reasons failures_changed owned rsn outcome e1 w) in
            if tr_fatal r
            then fail_queued_placement ops sv cfg now cands reasons (''cancel-unverified'' \<in> set (tr_kinds r)) owned e1 w
            else if set (tr_kinds r) = {''unreachable''} then settled_with (waiting_unreachable_reason reasons) (''busy'', None)
            else if blocked_not_busy reasons
            then settled_with (''blocked: '' @ reason_list reasons) (''blocked'', Some (reason_list reasons))
            else settled_with (if reasons \<noteq> [] then waiting_placement_failure_reason reasons
                               else waiting_capacity_reason probe_reasons) (''busy'', None))"

section \<open>The dispatch\<close>

definition place_row ::
  "'r dispatch_ops \<Rightarrow> 'r saving \<Rightarrow> head_process \<Rightarrow> HeadConfig \<Rightarrow> PlacedNode list \<Rightarrow> NodeStatus list \<Rightarrow> string list \<Rightarrow> RunSpec
   \<Rightarrow> JobEntry \<Rightarrow> 'r world \<Rightarrow> 'r answer" where
  "place_row ops sv hp cfg nodes probed reserved spec e w =
     (let now = hp_now hp;
          (statuses, w1) = reserve_inflight_claims sv hp cfg e probed w;
          probe_reasons = drained_probe_reasons cfg spec
            (dict_of (map (\<lambda>st. (ns_node st, probe_rejection_reason st spec)) statuses));
          detail = reason_list probe_reasons;
          reserve = (if text_or_empty (rs_node spec) \<noteq> [] then 0 else cf_reserve_free_per_node cfg) in
      case pick_candidates statuses nodes spec reserve reserved of
        Inl (ConfigError m) \<Rightarrow> fail_row sv cfg now m True e w1
      | Inl (SplitError m) \<Rightarrow> (w1, Inl m)
      | Inr picked \<Rightarrow>
          if statuses \<noteq> [] \<and> list_all ns_unreachable statuses
          then hold sv cfg now (waiting_unreachable_reason probe_reasons)
                 (if rs_node spec \<noteq> None then (''unreachable'', Some detail) else (''busy'', None)) (Some probe_reasons) e w1
          else
            let cands = (if pin_is_busy statuses spec then [] else picked) in
            if cands = [] then
              (if blocked_not_busy probe_reasons
               then hold sv cfg now (''blocked: '' @ detail) (''blocked'', Some detail) (Some probe_reasons) e w1
               else hold sv cfg now (waiting_capacity_reason probe_reasons) (''busy'', None) None e w1)
            else case op_try ops spec cands e w1 of
              (w2, e2, Inl m) \<Rightarrow> fail_row sv cfg now m True e2 w2
            | (w2, e2, Inr r) \<Rightarrow> after_attempts ops sv cfg now cands probe_reasons r e2 w2)"

definition probe_and_place ::
  "'r dispatch_ops \<Rightarrow> 'r saving \<Rightarrow> head_process \<Rightarrow> HeadConfig \<Rightarrow> PlacedNode list \<Rightarrow> NodeStatus list option \<Rightarrow> string list \<Rightarrow> RunSpec
   \<Rightarrow> JobEntry \<Rightarrow> 'r world \<Rightarrow> 'r answer" where
  "probe_and_place ops sv hp cfg nodes statuses reserved spec e w =
     (let pin = text_or_empty (rs_node spec); given = (case statuses of None \<Rightarrow> [] | Some ss \<Rightarrow> ss) in
      if pin \<noteq> [] then
        (if map_of (nodes_by_name nodes) pin = None
         then fail_row sv cfg (hp_now hp) (''unknown node '' @ py_repr pin @ ''; configured: [''
                @ join '', '' (map py_repr (keys (nodes_by_name nodes))) @ '']'') True e w
         else
           let carried = filter (\<lambda>s. ns_node s = pin) given in
           place_row ops sv hp cfg nodes (if carried = [] then [op_probe_pinned ops pin] else carried) reserved spec e w)
      else place_row ops sv hp cfg nodes (case statuses of None \<Rightarrow> op_probe_center ops | Some ss \<Rightarrow> ss) reserved spec e w)"

definition dispatch_queued_active ::
  "'r dispatch_ops \<Rightarrow> 'r saving \<Rightarrow> head_process \<Rightarrow> HeadConfig \<Rightarrow> PlacedNode list \<Rightarrow> NodeStatus list option \<Rightarrow> string list
   \<Rightarrow> JobEntry \<Rightarrow> 'r world \<Rightarrow> 'r answer" where
  "dispatch_queued_active ops sv hp cfg nodes statuses reserved e w =
     (case op_stage ops e w of
        (w1, e1, StageUnusable detail cleanup) \<Rightarrow> fail_row sv cfg (hp_now hp) detail cleanup e1 w1
      | (w1, e1, StageInterrupted) \<Rightarrow> (w1, Inr (settled_as e1 False))
      | (w1, e1, Staged spec) \<Rightarrow>
          if dispatch_node e1 = None then probe_and_place ops sv hp cfg nodes statuses reserved spec e1 w1
          else case recover_claimed_dispatch (op_adopt ops) (op_cancel ops) sv hp cfg e1 w1 of
            (w2, Inl m) \<Rightarrow> (w2, Inl m)
          | (w2, Inr (Return s)) \<Rightarrow> (w2, Inr s)
          | (w2, Inr (Proceed e2)) \<Rightarrow> probe_and_place ops sv hp cfg nodes statuses reserved spec e2 w2)"

definition dispatch_queued ::
  "'r dispatch_ops \<Rightarrow> 'r saving \<Rightarrow> head_process \<Rightarrow> HeadConfig \<Rightarrow> PlacedNode list \<Rightarrow> NodeStatus list option \<Rightarrow> string list
   \<Rightarrow> JobEntry \<Rightarrow> 'r world \<Rightarrow> 'r answer" where
  "dispatch_queued ops sv hp cfg nodes statuses reserved e w =
     dispatch_queued_gated (dispatch_queued_active ops sv hp cfg nodes statuses reserved) sv cfg (hp_now hp) e w"

section \<open>The end of a claim\<close>

lemma complete_terminal_ok:
  "\<exists>d. complete_terminal now c = Inr d \<and> job_id d = job_id c \<and> status d = status c \<and> attempt_of d = attempt_of c"
  by (auto simp: complete_terminal_def transition_terminal_def RESULT_STATES_def attempt_of_def)

lemma owned_commit:
  assumes row: "load (sv_decoding sv) cfg (job_id c) w = Inr (Some row)" "status row = ''queued''" "attempt_of row = owned"
    and com: "commit_then (commit_queued_transition sv cfg now True (Some owned) c w) unstaged answer = (w', Inr s)"
  shows "\<exists>row' e'. (\<forall>dc. load dc cfg (job_id c) w' = Inr (Some row')) \<and> status row' = status c \<and> attempt_of row' = attempt_of c
    \<and> s = outcome_of e' (answer e') unstaged"
proof -
  obtain d where d: "complete_terminal now c = Inr d" "job_id d = job_id c" "status d = status c" "attempt_of d = attempt_of c"
    using complete_terminal_ok by blast
  have valid: "valid_job_id (job_id c)" using row(1) by (auto simp: load_def split: if_splits)
  obtain w2 c2 k where sav: "save sv cfg d w = (w2, c2, k)" by (metis prod.exhaust)
  have eq: "commit_queued_transition sv cfg now True (Some owned) c w = (w2, c2, case k of None \<Rightarrow> Inr None | Some m \<Rightarrow> Inl m)"
    using row valid sav by (cases k) (simp_all add: commit_queued_transition_def d)
  have k: "k = None" using com unfolding eq by (cases k) (simp_all add: commit_then_def)
  then have w': "w' = w2" "s = outcome_of c2 (answer c2) unstaged" using com unfolding eq by (simp_all add: commit_then_def)
  from saved_row [OF sav [unfolded k]] obtain row' where "\<forall>dc. load dc cfg (job_id d) w2 = Inr (Some row')" "same_claim d row'" by blast
  then show ?thesis using d w' by (metis same_claim_def)
qed

lemma note_keeps [simp]:
  "job_id (note_placement_attempt t p e) = job_id e" "status (note_placement_attempt t p e) = status e"
  "attempt_of (note_placement_attempt t p e) = attempt_of e"
  by (simp_all add: note_placement_attempt_def attempt_of_def)

lemma released_keeps [simp]:
  "job_id (released rs e) = job_id e" "status (released rs e) = status e" "attempt_of (released rs e) = (None, None)"
  by (simp_all add: released_def drop_claim_def attempt_of_def)

lemma attempt_of_update [simp]:
  "attempt_of (e\<lparr>reason := r\<rparr>) = attempt_of e" "attempt_of (e\<lparr>status := st\<rparr>) = attempt_of e"
  "attempt_of (e\<lparr>node := nd\<rparr>) = attempt_of e" "attempt_of (e\<lparr>node_local := b\<rparr>) = attempt_of e"
  "attempt_of (e\<lparr>worker_root := wr\<rparr>) = attempt_of e" "attempt_of (e\<lparr>job_dir := jd\<rparr>) = attempt_of e"
  "attempt_of (e\<lparr>finished_at := t\<rparr>) = attempt_of e"
  by (simp_all add: attempt_of_def)

lemma settle_releases:
  assumes row: "load (sv_decoding sv) cfg (job_id e) w = Inr (Some row)" "status row = ''queued''" "attempt_of row = owned"
    and rs: "reasons \<noteq> []" and out: "settle sv cfg now reasons fc owned rsn outcome e w = (w', Inr s)"
  shows "\<exists>row'. (\<forall>dc. load dc cfg (job_id e) w' = Inr (Some row')) \<and> status row' = status e \<and> attempt_of row' = attempt_of e
    \<and> se_outcome s = fst outcome"
proof -
  obtain c where c: "job_id c = job_id e" "status c = status e" "attempt_of c = attempt_of e"
    and com: "commit_then (commit_queued_transition sv cfg now True (Some owned) c w) False (\<lambda>_. outcome) = (w', Inr s)"
  proof
    let ?e1 = "if reason e \<noteq> Some rsn \<or> fc then e\<lparr>reason := Some rsn\<rparr> else e"
    let ?c = "note_placement_attempt now (pattern_of reasons (fst outcome)) ?e1"
    show "job_id ?c = job_id e" "status ?c = status e" "attempt_of ?c = attempt_of e" by simp_all
    show "commit_then (commit_queued_transition sv cfg now True (Some owned) ?c w) False (\<lambda>_. outcome) = (w', Inr s)"
      using out rs by (simp add: settle_def Let_def)
  qed
  from owned_commit [of sv cfg c w row owned now False "\<lambda>_. outcome" w' s] row com c show ?thesis
    by (auto simp: outcome_of_def)
qed

lemma fail_releases:
  assumes row: "load (sv_decoding sv) cfg (job_id e) w = Inr (Some row)" "status row = ''queued''" "attempt_of row = owned"
    and out: "fail_queued_placement ops sv cfg now cands reasons uncertain owned e w = (w', Inr s)"
  shows "\<exists>row'. (\<forall>dc. load dc cfg (job_id e) w' = Inr (Some row')) \<and> status row' = ''failed'' \<and> attempt_of row' = attempt_of e
    \<and> se_outcome s = ''failed''"
proof -
  let ?c = "failed_placement ops now cands reasons uncertain e"
  have c: "job_id ?c = job_id e" "status ?c = ''failed''" "attempt_of ?c = attempt_of e"
    by (simp_all add: failed_placement_def Let_def)
  have "commit_then (commit_queued_transition sv cfg now True (Some owned) ?c w) True (\<lambda>e'. (''failed'', reason e')) = (w', Inr s)"
    using out by (simp add: fail_queued_placement_def split: if_splits)
  from owned_commit [OF _ row(2,3) this] row(1) c show ?thesis by (auto simp: outcome_of_def)
qed


section \<open>A concrete instance\<close>

definition refused :: try_result where
  "refused = \<lparr>tr_placing = NotPlaced, tr_reasons = [(''n1'', ''busy: no card'')], tr_fatal = False, tr_kinds = [''retryable'']\<rparr>"

text \<open>The row the refusal leaves behind.\<close>

definition refused_sample :: JobEntry where
  "refused_sample = (cpu_sample False 9)\<lparr>placement_failures := [(''n1'', ''busy: no card'')], placement_pattern := Some ''n1=busy'',
     placement_attempts := 1, placement_first_failed_at := Some 9, placement_last_failed_at := Some 9,
     reason := Some ''waiting: placement attempt failed (n1: busy: no card)''\<rparr>"

lemmas refused_simps = cpu_simps refused_sample_def

lemma refused_valid: "validate_entry (doc_final refused_sample) = None"
proof -
  have "validate_entry_lifecycle (doc_final refused_sample) = None"
    unfolding validate_entry_lifecycle_def first_of_None
    by (simp add: refused_simps bad_int_def bad_nonneg_def MAX_JOB_COLLECTION_ITEMS_def queued_in)
  moreover have "validate_entry_collections (doc_final refused_sample) = None"
    unfolding validate_entry_collections_def first_of_None
    by (simp add: refused_simps not_text_dict_def MAX_JOB_COLLECTION_ITEMS_def MAX_PROJECT_EXTRAS_def MAX_JOB_DIAGNOSTIC_CHARS_def)
  moreover have "validate_entry_provenance (doc_final refused_sample) = None"
    unfolding validate_entry_provenance_def first_of_None
    by (simp add: refused_simps OPTIONAL_TEXT_def is_text_or_null_def MAX_RETRY_LIMIT_def)
  moreover have "validate_entry_limits (normalize_owner (doc_final refused_sample)) = None"
    unfolding validate_entry_limits_def first_of_None
    by (simp add: refused_simps bad_int_def bad_nonneg_def bad_positive_def MAX_JOB_DIAGNOSTIC_CHARS_def)
  moreover have "validate_entry_contracts (normalize_owner (doc_final refused_sample)) = None"
    unfolding validate_entry_contracts_def first_of_None
    by (simp add: refused_simps MAX_JOB_COLLECTION_ITEMS_def)
  ultimately show ?thesis unfolding validate_entry_def first_of_None by simp
qed

lemma refused_bound: "bound_entry refused_sample = refused_sample"
proof -
  have "excerpt MAX_JOB_DIAGNOSTIC_CHARS ''busy: no card'' = ''busy: no card''"
    "excerpt MAX_JOB_DIAGNOSTIC_CHARS ''waiting: placement attempt failed (n1: busy: no card)'' = ''waiting: placement attempt failed (n1: busy: no card)''"
    by code_simp+
  then show ?thesis
    by (simp add: bound_entry_def refused_sample_def cpu_sample_def sample_state_def sample_entry_def make_entry_def Let_def)
qed

lemma refused_encodes: "encode_registry_entry (\<lambda>_. ''0.0'') sr now refused_sample = Inr (envelope refused_sample)"
proof -
  have sel: "job_id refused_sample = job_id sample_entry" "custom_env refused_sample = []"
    by (simp_all add: refused_sample_def cpu_select)
  have "json_weight (\<lambda>_. ''0.0'') 0 (envelope refused_sample) \<le> 40000"
    by (simp add: envelope_def document_of_def refused_sample_def cpu_sample_def sample_state_def sample_entry_def make_entry_def
        REGISTRY_SCHEMA_VERSION_def json_num_def json_ints_def json_strs_def json_nums_def json_of_env_def show_int_def show_nat.simps
        ROLE_LAYOUT_def Let_def)
  moreover have "decode_registry_document sr now mt (Some (job_id refused_sample)) True (JObj (document_of refused_sample))
      = Inr (normal_entry mt refused_sample)" for mt
    unfolding decode_plain_document
    by (rule decode_document_ok [OF _ _ refused_valid]) (use sample_id sample_env in \<open>simp_all add: sel sample_state_select\<close>)
  ultimately show ?thesis
    using length_dumps_indent [of "\<lambda>_. ''0.0''" 0 "envelope refused_sample"]
    by (simp add: encode_registry_entry_def Let_def refused_bound MAX_JOB_RECORD_BYTES_def)
qed

lemma refused_prepare:
  "prepare_save still_saving open_config refused_sample (sample_world_of (cpu_sample True 9))
    = (sample_world_of (cpu_sample True 9), refused_sample,
       Inr (location (RolePlace, ''role-v1''), Some (cpu_sample True 9), refused_sample, envelope refused_sample))"
proof -
  have sel: "job_id refused_sample = job_id sample_entry" "custom_env_loaded refused_sample"
    "storage_layout refused_sample = Some ROLE_LAYOUT"
    by (simp_all add: refused_sample_def cpu_select)
  have loc: "location (RolePlace, ''role-v1'') = \<lparr>loc_place = RolePlace, loc_layout = ''role-v1'', loc_exists = True\<rparr>"
    by (simp add: location_def)
  have ex: "existing_row dc (sample_world_of (cpu_sample True 9)) (location (RolePlace, ''role-v1'')) (job_id sample_entry)
      = Inr (Some (cpu_sample True 9))" for dc
    using cpu_read [of 9] by (simp add: existing_row_def loc)
  have "refused_sample\<lparr>updated_at := Some 9, custom_env_keys := sort (keys (custom_env refused_sample))\<rparr> = refused_sample"
    by (simp add: refused_sample_def cpu_sample_def sample_state_def sample_entry_def make_entry_def Let_def)
  then have stamp: "stamp_rows 9 refused_sample refused_sample = (refused_sample, refused_sample)"
    by (simp add: stamp_rows_def sel refused_bound Let_def)
  have "inherit_layout open_config (Some (cpu_sample True 9)) refused_sample = refused_sample" by (simp add: inherit_layout_def sel)
  moreover have "preserve_env (Some (cpu_sample True 9)) refused_sample = Inr refused_sample" by (simp add: preserve_env_Inr sel)
  moreover have "\<not> reopens (Some (cpu_sample True 9)) refused_sample" by (simp add: reopens_def cpu_select)
  ultimately show ?thesis
    unfolding prepare_save_def sel(1) open_resolve
    using stamp ex refused_encodes by (simp add: loc LEGACY_LAYOUT_def Let_def still_saving_def quiet_saving_def)
qed

lemma refused_save: "\<exists>w'. save still_saving open_config refused_sample (sample_world_of (cpu_sample True 9)) = (w', refused_sample, None)"
  using save_prepared(3,4) [OF refused_prepare] by (simp add: prod_eq_iff still_saving_def quiet_saving_def)

definition no_ops :: "unit dispatch_ops" where
  "no_ops = \<lparr>op_stage = (\<lambda>e w. (w, e, StageInterrupted)), op_adopt = (\<lambda>_ _. (None, None)), op_cancel = None,
     op_probe_pinned = (\<lambda>_. one_card), op_probe_center = [], op_try = (\<lambda>_ _ e w. (w, e, Inr refused)),
     op_worker_root = (\<lambda>_. ''w''), op_job_dir = (\<lambda>_. ''d'')\<rparr>"

lemma refused_attempts:
  "\<exists>w' s. after_attempts no_ops still_saving open_config 9 [] [] refused (cpu_sample True 9) (sample_world_of (cpu_sample True 9)) = (w', Inr s)"
proof -
  let ?e = "released [(''n1'', ''busy: no card'')] (cpu_sample True 9)"
  let ?rsn = "''waiting: placement attempt failed (n1: busy: no card)''"
  have texts: "waiting_placement_failure_reason [(''n1'', ''busy: no card'')] = ?rsn" "\<not> blocked_not_busy [(''n1'', ''busy: no card'')]"
    "pattern_of [(''n1'', ''busy: no card'')] ''busy'' = ''n1=busy''"
    by code_simp+
  have row: "note_placement_attempt 9 ''n1=busy'' (?e\<lparr>reason := Some ?rsn\<rparr>) = refused_sample" "reason ?e \<noteq> Some ?rsn"
    by (simp_all add: note_placement_attempt_def released_def drop_claim_def refused_sample_def cpu_sample_def sample_state_def
        sample_entry_def make_entry_def Let_def)
  have complete: "complete_terminal 9 refused_sample = Inr refused_sample"
    by (simp add: complete_terminal_def refused_sample_def cpu_select)
  have id: "job_id refused_sample = job_id sample_entry" by (simp add: refused_sample_def cpu_select)
  obtain w' where sav: "save still_saving open_config refused_sample (sample_world_of (cpu_sample True 9)) = (w', refused_sample, None)"
    using refused_save by blast
  have "commit_queued_transition still_saving open_config 9 True (Some (attempt_of (cpu_sample True 9))) refused_sample
      (sample_world_of (cpu_sample True 9)) = (w', refused_sample, Inr None)"
    using cpu_load [of 9] sample_id sav by (simp add: commit_queued_transition_def complete id cpu_select)
  then have "settle still_saving open_config 9 [(''n1'', ''busy: no card'')] fc (attempt_of (cpu_sample True 9)) ?rsn (''busy'', None) ?e
      (sample_world_of (cpu_sample True 9)) = (w', Inr (outcome_of refused_sample (''busy'', None) False))" for fc
    using row by (simp add: settle_def Let_def texts commit_then_def)
  then show ?thesis by (simp add: after_attempts_def refused_def Let_def texts)
qed


end
