(* ===== verification/Spec2Isabelle.thy ===== *)
theory Spec2Isabelle
  imports Registry_Run Scheduler_Facts Job_Refs Queue_View Route_Facts Intent_Facts Group_Facts Link_Facts Matrix_Facts
    Agent_Facts Spec_Facts Placement_Facts Queue_Dispatcher
begin

text \<open>
  Verification library of the head scheduler of DT (\<open>src/src/dt\<close>, named \<open>src/dt\<close> in the theories).

  \<^bold>\<open>The program.\<close> DT runs experiments on the GPU nodes of one or more centers. A head machine keeps a
  registry of job rows, one JSON file per job. A submission becomes a row, queued or running; a
  resident agent walks the queue at every tick, claims a job, ships it to a node, launches it there
  and records what became of it. Several processes (agent threads, command lines) work on the
  registry at once; locks make each of the operations below one step, and everything that is remote
  happens between the steps. The library models the part of this that decides: what is stored, who
  may write it, when a job may start and where, what a remote answer means.

  \<^bold>\<open>Foundations.\<close> \<open>Prelude\<close> (dictionaries, results, stable sorting), \<open>Py_Text\<close> (the \<open>str\<close> methods,
  \<open>shlex\<close> quoting), \<open>Py_Json\<close> (JSON values, Python's floats, diagnostics from \<open>sshio.py\<close>), \<open>Custom_Env\<close>
  (\<open>custom_env.py\<close>), \<open>Layout\<close> (\<open>layout.py\<close> and the pure part of \<open>lifecycle.py\<close>).

  \<^bold>\<open>The registry\<close> (\<open>jobs/__init__.py\<close>, \<open>jobs/active_index.py\<close>, \<open>jobs/status.py\<close>). \<open>Job_Entry\<close> is the row with
  all its fields and the lifecycle rules; \<open>Job_Codec\<close> its validation, decoding and encoding;
  \<open>Registry_Store\<close> the disk (the record \<open>world\<close>: two directories, the index, the replica cache) with
  \<open>load\<close> and the two scans; \<open>Active_Index\<close> the derived index and \<open>active_entries\<close>; \<open>Registry_Write\<close>
  \<open>save\<close>, \<open>remove_record\<close> and dependency finalization with every failure of their input and output;
  \<open>Job_Status\<close> the status probes; \<open>Job_Refs\<close> and \<open>Queue_View\<close> what commands derive from rows.
  \<open>Codec_Facts\<close> and \<open>Codec_Round_Trip\<close> show that only well-formed rows are decoded and that what is
  written is read back; \<open>Index_Facts\<close>, \<open>Index_Fence\<close> and \<open>Index_Refine\<close> that the index implements the
  full scan, through the locale \<open>fenced_view\<close> (a view whose revision still matches is current) which
  is interpreted on the registry directories; \<open>Status_Facts\<close> what a probe may change; \<open>Registry_Run\<close>
  lifts this to any interleaving of operations by any number of processes (\<open>inductive\<close> runs), with
  the locale \<open>save_stable\<close> as the contract between an invariant and the one primitive that writes
  rows, interpreted for well-formedness, the index and finality.

  \<^bold>\<open>Scheduling.\<close> \<open>Scheduler\<close> is all of \<open>scheduler.py\<close>; \<open>Scheduler_Facts\<close> shows quota, FIFO order and that
  the forecast never promises a card twice. \<open>Gpu_Probe\<close> parses node probes (\<open>probe.py\<close>); \<open>Run_Spec\<close> and
  \<open>Placement\<close> are the submission specs and the choice of nodes of \<open>dispatch/__init__.py\<close>; \<open>Gpu_Facts\<close>,
  \<open>Spec_Facts\<close> and \<open>Placement_Facts\<close> show that a free card is unoccupied, that derived specs replay the
  recorded command and retries end, and that the candidates are exactly the nodes that fit.

  \<^bold>\<open>Dispatch.\<close> \<open>Agent_Tick\<close> is one tick of the agent (\<open>agent.py\<close>); \<open>Queued_Dispatch\<close> the dependency gate,
  claims, conditional commits and recovery of \<open>dispatch/queued.py\<close>; \<open>Launch_Failover\<close> the candidate loop
  of \<open>dispatch/launch.py\<close>; \<open>Queue_Dispatcher\<close> the dispatch of one row from the gate to what each outcome
  records. \<open>Agent_Facts\<close> shows that the walk respects FIFO order and holds no job without
  a cause; \<open>Dispatch_Facts\<close> that nothing is placed before its dependencies hold and that a claim
  survives every interference of other dispatchers (locale \<open>held_claim\<close>); \<open>Launch_Failover\<close> that a job
  never runs on two nodes unnoticed; \<open>Queue_Dispatcher\<close> that a dispatcher gives its claim back.

  \<^bold>\<open>Durable side records.\<close> \<open>Route_Health\<close> (\<open>route_health.py\<close>), \<open>Link_Metrics\<close> (\<open>link_metrics.py\<close>),
  \<open>Submission_Intent\<close> (\<open>submission_intent.py\<close>) and \<open>Submission_Group\<close> (\<open>submission_group.py\<close>), each with its
  facts: the files stay readable, a trial has one owner, a request is replayed only when no worker of
  it can exist, a preparation is never repeated. The locale \<open>edge_store\<close> in \<open>Link_Facts\<close> states what a
  client of a one-file store relies on and is interpreted on both stores. \<open>Matrix\<close> (\<open>matrix.py\<close>) expands
  a declarative sweep; \<open>Matrix_Facts\<close> shows the expansion exact and commands rendered verbatim.

  \<^bold>\<open>How the source is rendered.\<close> A dataclass is a record, an exception a value of a sum type (\<open>Inl\<close>),
  a dictionary an association list in insertion order, a loop a structural recursion or a fold; no
  definition needs fuel, and the two loops that are not structural have a termination proof. Python
  integers are \<open>int\<close>. Finite floats are rationals without rounding, with infinities and NaN beside
  them and the range of doubles where converting an integer can overflow. Text is a list of code
  points below 256. Times are arguments. SHA-256, the YAML reader, the float printer and the answers of
  remote commands are arguments; a lock is the fact that an operation is one step, and whether it was
  free is an argument where the code reacts to it. A run of the registry uses one decoding clock per
  operation. Random tokens are arguments, compared but never assumed fresh unless a theorem says so.

  \<^bold>\<open>Bounds.\<close> The constants are those of the source (\<open>MAX_JOB_RECORD_BYTES\<close>, \<open>MAX_ACTIVE_INDEX_ITEMS\<close>,
  \<open>DISPATCH_WORKERS\<close>, \<open>DISPATCH_CLAIM_STALE_S\<close> and so on), checked where the source checks them.

  \<^bold>\<open>Not modelled.\<close> The command line and its rendering (orchestration and output), the SSH transport, file
  transfers, topology discovery and artifact distribution (input and output between machines), staging
  and snapshots (file trees, rsync, git), the payload programs that run on the workers, migration,
  storage and the operation log (file-system maintenance), descriptor-level access to private files,
  TOML parsing, and the resident process around the agent's tick. Of \<open>dispatch/queued.py\<close> the staging
  of a bundle and its transfer to a node are left out.
\<close>

end
